(* ===== verification/Prelude.thy ===== *)
theory Prelude
  imports Main "HOL-Library.Word" "HOL-Library.AList" "HOL-Library.Sublist"
begin

text \<open>
  Shared ground of the development: the names of the machine types, results as sums with
  the error on the left, the string operations of the standard library that the client
  uses (\<open>starts_with\<close>, \<open>contains\<close>, \<open>eq_ignore_ascii_case\<close>, \<open>split_whitespace\<close>, decimal and
  hexadecimal formatting), and the collections of simplification rules the component
  theories extend.

  Strings are lists of bytes (UTF-8), as Rust's \<open>str\<close> is. Durations are counted in
  nanoseconds.
\<close>

section \<open>Collections, types and results\<close>

named_theorems result_simps \<open>equations of the result combinators\<close>
named_theorems wire_simps \<open>equations of encoders and decoders\<close>
named_theorems guard_simps \<open>facts about guards and identifiers\<close>

type_synonym u8 = "8 word"
type_synonym u16 = "16 word"
type_synonym u32 = "32 word"
type_synonym u64 = "64 word"
type_synonym i32 = "32 word"
type_synonym i64 = "64 word"
type_synonym duration = nat

abbreviation u32_MAX :: u32 where
  "u32_MAX \<equiv> 4294967295"

fun bindR :: "'e + 'a \<Rightarrow> ('a \<Rightarrow> 'e + 'b) \<Rightarrow> 'e + 'b" where
  "bindR (Inl e) f = Inl e"
| "bindR (Inr x) f = f x"

fun mapErr :: "('e \<Rightarrow> 'f) \<Rightarrow> 'e + 'a \<Rightarrow> 'f + 'a" where
  "mapErr g (Inl e) = Inl (g e)"
| "mapErr g (Inr x) = Inr x"

fun mapR :: "('a \<Rightarrow> 'e + 'b) \<Rightarrow> 'a list \<Rightarrow> 'e + 'b list" where
  "mapR f [] = Inr []"
| "mapR f (x # xs) = bindR (f x) (\<lambda>y. bindR (mapR f xs) (\<lambda>ys. Inr (y # ys)))"

definition ok_or :: "'e \<Rightarrow> 'a option \<Rightarrow> 'e + 'a" where
  "ok_or e x = (case x of None \<Rightarrow> Inl e | Some y \<Rightarrow> Inr y)"

definition unwrap_or :: "'a \<Rightarrow> 'a option \<Rightarrow> 'a" where
  "unwrap_or d x = (case x of None \<Rightarrow> d | Some y \<Rightarrow> y)"

lemma unwrap_or_simps [simp]: "unwrap_or d None = d" "unwrap_or d (Some y) = y"
  by (simp_all add: unwrap_or_def)

lemma ok_or_simps [simp]: "ok_or e None = Inl e" "ok_or e (Some y) = Inr y"
  by (simp_all add: ok_or_def)

lemma bindR_eq_Inr [result_simps]: "bindR r f = Inr y \<longleftrightarrow> (\<exists>x. r = Inr x \<and> f x = Inr y)"
  by (cases r) auto

lemma bindR_eq_Inl [result_simps]:
  "bindR r f = Inl e \<longleftrightarrow> r = Inl e \<or> (\<exists>x. r = Inr x \<and> f x = Inl e)"
  by (cases r) auto

lemma mapErr_eq_Inr [result_simps]: "mapErr g r = Inr y \<longleftrightarrow> r = Inr y"
  by (cases r) auto

lemma mapErr_eq_Inl [result_simps]: "mapErr g r = Inl e \<longleftrightarrow> (\<exists>d. r = Inl d \<and> e = g d)"
  by (cases r) auto

lemma bindR_assoc: "bindR (bindR r f) g = bindR r (\<lambda>x. bindR (f x) g)"
  by (cases r) auto

lemma mapR_Inr_map: "(\<And>x. x \<in> set xs \<Longrightarrow> f x = Inr (g x)) \<Longrightarrow> mapR f xs = Inr (map g xs)"
  by (induction xs) auto

lemma mapR_map: "mapR f (map g xs) = mapR (\<lambda>x. f (g x)) xs"
  by (induction xs) auto

lemma mapR_roundtrip: "(\<And>x. x \<in> set xs \<Longrightarrow> f (g x) = Inr x) \<Longrightarrow> mapR f (map g xs) = Inr xs"
  by (induction xs) auto

lemma mapR_length: "mapR f xs = Inr ys \<Longrightarrow> length ys = length xs"
  by (induction xs arbitrary: ys) (auto simp: result_simps)

lemma mapR_Inr_nth:
  "mapR f xs = Inr ys \<Longrightarrow> i < length xs \<Longrightarrow> f (xs ! i) = Inr (ys ! i)"
  by (induction xs arbitrary: ys i) (auto simp: result_simps nth_Cons split: nat.splits)

lemma mapR_Inr_set:
  "mapR f xs = Inr ys \<Longrightarrow> y \<in> set ys \<Longrightarrow> \<exists>x \<in> set xs. f x = Inr y"
  by (induction xs arbitrary: ys) (auto simp: result_simps)

lemma mapR_cong_Inl:
  "x \<in> set xs \<Longrightarrow> f x = Inl e \<Longrightarrow> \<exists>d. mapR f xs = Inl d"
proof (induction xs)
  case Nil
  then show ?case by simp
next
  case (Cons y ys)
  then show ?case by (cases "f y"; cases "mapR f ys") auto
qed

section \<open>Strings\<close>

definition starts_with :: "string \<Rightarrow> string \<Rightarrow> bool" where
  "starts_with s p = prefix p s"

definition contains :: "string \<Rightarrow> string \<Rightarrow> bool" where
  "contains s p = sublist p s"

definition ascii_lower :: "char \<Rightarrow> char" where
  "ascii_lower c =
     (let n = of_char c :: nat in if 65 \<le> n \<and> n \<le> 90 then char_of (n + 32) else c)"

definition eq_ignore_ascii_case :: "string \<Rightarrow> string \<Rightarrow> bool" where
  "eq_ignore_ascii_case s t = (map ascii_lower s = map ascii_lower t)"

text \<open>
  \<open>str::split_whitespace\<close> splits at the code points with the Unicode property
  \<open>White_Space\<close>; \<open>ws_encodings\<close> lists their UTF-8 encodings. UTF-8 is self-synchronising, so
  an encoding matches at a byte offset of a well-formed string only where that code point
  starts.
\<close>

definition ws_encodings :: "string list" where
  "ws_encodings =
     [[CHR 0x09], [CHR 0x0A], [CHR 0x0B], [CHR 0x0C], [CHR 0x0D], [CHR 0x20],
      [CHR 0xC2, CHR 0x85], [CHR 0xC2, CHR 0xA0], [CHR 0xE1, CHR 0x9A, CHR 0x80],
      [CHR 0xE2, CHR 0x80, CHR 0x80], [CHR 0xE2, CHR 0x80, CHR 0x81],
      [CHR 0xE2, CHR 0x80, CHR 0x82], [CHR 0xE2, CHR 0x80, CHR 0x83],
      [CHR 0xE2, CHR 0x80, CHR 0x84], [CHR 0xE2, CHR 0x80, CHR 0x85],
      [CHR 0xE2, CHR 0x80, CHR 0x86], [CHR 0xE2, CHR 0x80, CHR 0x87],
      [CHR 0xE2, CHR 0x80, CHR 0x88], [CHR 0xE2, CHR 0x80, CHR 0x89],
      [CHR 0xE2, CHR 0x80, CHR 0x8A], [CHR 0xE2, CHR 0x80, CHR 0xA8],
      [CHR 0xE2, CHR 0x80, CHR 0xA9], [CHR 0xE2, CHR 0x80, CHR 0xAF],
      [CHR 0xE2, CHR 0x81, CHR 0x9F], [CHR 0xE3, CHR 0x80, CHR 0x80]]"

definition ws_len :: "string \<Rightarrow> nat" where
  "ws_len s = (case find (\<lambda>e. prefix e s) ws_encodings of None \<Rightarrow> 0 | Some e \<Rightarrow> length e)"

lemma ws_len_le: "ws_len s \<le> length s"
  by (auto simp: ws_len_def find_Some_iff prefix_length_le split: option.splits)

lemma ws_len_Nil [simp]: "ws_len [] = 0"
  using ws_len_le [of "[]"] by simp

function skip_ws :: "string \<Rightarrow> string" where
  "skip_ws s = (if ws_len s = 0 then s else skip_ws (drop (ws_len s) s))"
  by pat_completeness auto
termination
proof (relation "measure length")
  fix s :: string
  assume "ws_len s \<noteq> 0"
  with ws_len_le [of s] show "(drop (ws_len s) s, s) \<in> measure length"
    by auto
qed simp

declare skip_ws.simps [simp del]

fun take_word :: "string \<Rightarrow> string" where
  "take_word [] = []"
| "take_word (c # cs) = (if ws_len (c # cs) = 0 then c # take_word cs else [])"

definition first_word :: "string \<Rightarrow> string" where
  "first_word s = take_word (skip_ws s)"

fun show_nat :: "nat \<Rightarrow> string" where
  "show_nat n =
     (if n < 10 then [char_of (48 + n)] else show_nat (n div 10) @ [char_of (48 + n mod 10)])"

declare show_nat.simps [simp del]

definition hex_digit :: "nat \<Rightarrow> char" where
  "hex_digit n = (if n < 10 then char_of (48 + n) else char_of (87 + n))"

definition hex2 :: "u8 \<Rightarrow> string" where
  "hex2 b = [hex_digit (unat b div 16), hex_digit (unat b mod 16)]"

subsection \<open>Facts about strings\<close>

lemma char_nat_eq_iff:
  assumes "m < 256" "n < 256"
  shows "(char_of (m :: nat) :: char) = char_of n \<longleftrightarrow> m = n"
proof -
  have "of_char (char_of k :: char) = k" if "k < 256" for k :: nat
    using that by (simp add: of_char_of take_bit_eq_mod)
  with assms show ?thesis by metis
qed

lemma show_nat_digit: "n < 10 \<Longrightarrow> show_nat n = [char_of (48 + n)]"
  by (subst show_nat.simps) simp

lemma show_nat_step:
  "\<not> n < 10 \<Longrightarrow> show_nat n = show_nat (n div 10) @ [char_of (48 + n mod 10)]"
  by (subst show_nat.simps) simp

lemma show_nat_nonempty [simp]: "show_nat n \<noteq> []"
  by (subst show_nat.simps) simp

lemma show_nat_length_ge: "\<not> n < 10 \<Longrightarrow> 2 \<le> length (show_nat n)"
  using show_nat_nonempty [of "n div 10"] show_nat_step [of n]
  by (cases "show_nat (n div 10)") simp_all

lemma show_nat_inject: "show_nat m = show_nat n \<Longrightarrow> m = n"
proof (induction m arbitrary: n rule: show_nat.induct)
  case (1 m)
  show ?case
  proof (cases "m < 10")
    case True
    have "n < 10"
    proof (rule ccontr)
      assume "\<not> n < 10"
      with show_nat_length_ge have "2 \<le> length (show_nat n)" by blast
      moreover have "length (show_nat m) = 1" using True by (simp add: show_nat_digit)
      ultimately show False using "1.prems" by simp
    qed
    with True "1.prems" show ?thesis by (simp add: show_nat_digit char_nat_eq_iff)
  next
    case False
    have "\<not> n < 10"
    proof
      assume "n < 10"
      then have "length (show_nat n) = 1" by (simp add: show_nat_digit)
      with show_nat_length_ge [OF False] "1.prems" show False by simp
    qed
    with show_nat_step [OF False] show_nat_step [of n] "1.prems"
    have eq: "show_nat (m div 10) = show_nat (n div 10)"
      and "char_of (48 + m mod 10) = (char_of (48 + n mod 10) :: char)"
      by simp_all
    then have "m mod 10 = n mod 10" by (simp add: char_nat_eq_iff)
    moreover from "1.IH" [OF False eq] have "m div 10 = n div 10" .
    ultimately show ?thesis by (metis div_mult_mod_eq)
  qed
qed

lemma show_nat_inj_iff [simp]: "show_nat m = show_nat n \<longleftrightarrow> m = n"
  using show_nat_inject by blast

lemma hex_digit_inject: "m < 16 \<Longrightarrow> n < 16 \<Longrightarrow> hex_digit m = hex_digit n \<Longrightarrow> m = n"
  by (auto simp: hex_digit_def char_nat_eq_iff split: if_splits)

lemma unat_u8_less: "unat (b :: u8) < 256"
  using unsigned_less [of b] by simp

lemma hex2_inject: "hex2 a = hex2 b \<Longrightarrow> a = b"
proof -
  assume eq: "hex2 a = hex2 b"
  have lt: "unat a div 16 < 16" "unat b div 16 < 16"
    using unat_u8_less [of a] unat_u8_less [of b] by simp_all
  from eq have "unat a div 16 = unat b div 16" "unat a mod 16 = unat b mod 16"
    by (auto simp: hex2_def intro: hex_digit_inject lt)
  then have "unat a = unat b" by (metis div_mult_mod_eq)
  then show ?thesis by (simp add: word_unat_eq_iff)
qed

lemma length_hex2 [simp]: "length (hex2 b) = 2"
  by (simp add: hex2_def)

lemma eq_ignore_ascii_case_refl [simp]: "eq_ignore_ascii_case s s"
  by (simp add: eq_ignore_ascii_case_def)

lemma eq_ignore_ascii_case_sym: "eq_ignore_ascii_case s t = eq_ignore_ascii_case t s"
  by (auto simp: eq_ignore_ascii_case_def)

lemma eq_ignore_ascii_case_trans:
  "eq_ignore_ascii_case s t \<Longrightarrow> eq_ignore_ascii_case t u \<Longrightarrow> eq_ignore_ascii_case s u"
  by (simp add: eq_ignore_ascii_case_def)

lemma eq_ignore_ascii_case_length: "eq_ignore_ascii_case s t \<Longrightarrow> length s = length t"
  unfolding eq_ignore_ascii_case_def by (metis length_map)

end
