(* ===== verification/Json.thy ===== *)
theory Json
  imports Prelude
begin

text \<open>
  JSON values as the client handles them (\<open>serde_json::Value\<close>: six constructors, numbers are
  integers or 64-bit floats, objects are maps) and the reading of the serde attributes that
  the protocol types carry.

  The text parser and printer of serde_json are not part of this repository: they appear in
  the components as parameters. What is defined here is the meaning of the attributes written
  in \<^verbatim>\<open>src/src/protocol\<close>: a derived struct reader looks its fields up by name or alias,
  ignores other keys, refuses a field given under two of its names, uses the default of a
  \<open>#[serde(default)]\<close> field that is absent, fails on an absent field without default, and
  accepts an array of at most as many elements as fields, read by position. Where a value
  has several faults the reader here reports the first in declaration order.

  An object is an association list; look-up is \<open>map_of\<close>, insertion and removal are those of
  \<open>AList\<close>. A 64-bit float is its IEEE bit pattern; the conversion of an integer to a float
  (Rust's \<open>as f64\<close>) rounds to nearest, ties to even.
\<close>

section \<open>Values\<close>

datatype number = JInt int | JFloat u64

datatype json =
    JNull
  | JBool bool
  | JNumber number
  | JString string
  | JArray "json list"
  | JObject "(string \<times> json) list"

type_synonym "value" = json

type_synonym json_object = "(string \<times> value) list"

definition obj_get :: "json_object \<Rightarrow> string \<Rightarrow> value option" where
  "obj_get ob k = map_of ob k"

definition contains_key :: "json_object \<Rightarrow> string \<Rightarrow> bool" where
  "contains_key ob k = (map_of ob k \<noteq> None)"

definition obj_insert :: "string \<Rightarrow> value \<Rightarrow> json_object \<Rightarrow> json_object" where
  "obj_insert k v ob = AList.update k v ob"

definition obj_remove :: "string \<Rightarrow> json_object \<Rightarrow> json_object" where
  "obj_remove k ob = AList.delete k ob"

fun as_object :: "value \<Rightarrow> json_object option" where
  "as_object (JObject ob) = Some ob"
| "as_object _ = None"

fun as_str :: "value \<Rightarrow> string option" where
  "as_str (JString s) = Some s"
| "as_str _ = None"

fun as_bool :: "value \<Rightarrow> bool option" where
  "as_bool (JBool b) = Some b"
| "as_bool _ = None"

fun is_array :: "value \<Rightarrow> bool" where
  "is_array (JArray _) = True"
| "is_array _ = False"

section \<open>Floats\<close>

fun log2_nat :: "nat \<Rightarrow> nat" where
  "log2_nat n = (if n < 2 then 0 else Suc (log2_nat (n div 2)))"

declare log2_nat.simps [simp del]

definition round_shift :: "nat \<Rightarrow> nat \<Rightarrow> nat" where
  "round_shift n k =
     (let q = n div 2 ^ k; r = n mod 2 ^ k; half = 2 ^ (k - 1)
      in if half < r \<or> (r = half \<and> odd q) then q + 1 else q)"

definition f64_of_nat :: "nat \<Rightarrow> nat" where
  "f64_of_nat n =
     (if n = 0 then 0
      else let e = log2_nat n;
               m = (if e \<le> 52 then n * 2 ^ (52 - e) else round_shift n (e - 52))
           in (e + 1023) * 2 ^ 52 + (m - 2 ^ 52))"

definition f64_of_int :: "int \<Rightarrow> u64" where
  "f64_of_int i =
     (if i < 0 then of_nat (2 ^ 63 + f64_of_nat (nat (- i))) else of_nat (f64_of_nat (nat i)))"

definition f64_finite :: "u64 \<Rightarrow> bool" where
  "f64_finite b = ((unat b div 2 ^ 52) mod 2048 \<noteq> 2047)"

lemma f64_of_int_zero [simp]: "f64_of_int 0 = 0"
  by (simp add: f64_of_int_def f64_of_nat_def)

lemma f64_finite_zero [simp]: "f64_finite 0"
  by (simp add: f64_finite_def)

section \<open>Reading values\<close>

datatype serde_reason =
    InvalidType "value" string
  | InvalidValue "value" string
  | MissingField string
  | DuplicateField string
  | InvalidLength nat
  | UnknownVariant string

text \<open>
  Errors of the decoders: those the code composes itself, and those of the derived readers.
  \<open>JsonSyntax\<close> is the failure of the text parser, with its message.
\<close>

datatype de_error =
    NotAnObject
  | MissingTypeTag
  | UnknownResponseTag string
  | UnrecognizedUntagged
  | TerseRowsNoColumns
  | TerseRowTooLong nat nat nat
  | TerseRowMissingColumn nat nat
  | BadRowShape nat "value"
  | SeverityShape "value"
  | ParametersNotArray
  | Serde serde_reason
  | JsonSyntax string

type_synonym 'a de = "value \<Rightarrow> de_error + 'a"
type_synonym fields = "string \<Rightarrow> serde_reason + value"

fun de_value :: "value de" where
  "de_value v = Inr v"

fun de_string :: "string de" where
  "de_string (JString s) = Inr s"
| "de_string v = Inl (Serde (InvalidType v ''a string''))"

fun de_bool :: "bool de" where
  "de_bool (JBool b) = Inr b"
| "de_bool v = Inl (Serde (InvalidType v ''a boolean''))"

fun de_u32 :: "u32 de" where
  "de_u32 (JNumber (JInt i)) =
     (if 0 \<le> i \<and> i < 2 ^ 32 then Inr (word_of_int i)
      else Inl (Serde (InvalidValue (JNumber (JInt i)) ''u32'')))"
| "de_u32 v = Inl (Serde (InvalidType v ''u32''))"

fun de_u16 :: "u16 de" where
  "de_u16 (JNumber (JInt i)) =
     (if 0 \<le> i \<and> i < 2 ^ 16 then Inr (word_of_int i)
      else Inl (Serde (InvalidValue (JNumber (JInt i)) ''u16'')))"
| "de_u16 v = Inl (Serde (InvalidType v ''u16''))"

fun de_i32 :: "i32 de" where
  "de_i32 (JNumber (JInt i)) =
     (if - (2 ^ 31) \<le> i \<and> i < 2 ^ 31 then Inr (word_of_int i)
      else Inl (Serde (InvalidValue (JNumber (JInt i)) ''i32'')))"
| "de_i32 v = Inl (Serde (InvalidType v ''i32''))"

fun de_i64 :: "i64 de" where
  "de_i64 (JNumber (JInt i)) =
     (if - (2 ^ 63) \<le> i \<and> i < 2 ^ 63 then Inr (word_of_int i)
      else Inl (Serde (InvalidValue (JNumber (JInt i)) ''i64'')))"
| "de_i64 v = Inl (Serde (InvalidType v ''i64''))"

fun de_f64 :: "u64 de" where
  "de_f64 (JNumber (JInt i)) = Inr (f64_of_int i)"
| "de_f64 (JNumber (JFloat b)) = Inr b"
| "de_f64 v = Inl (Serde (InvalidType v ''f64''))"

definition de_option :: "'a de \<Rightarrow> 'a option de" where
  "de_option f v = (case v of JNull \<Rightarrow> Inr None | _ \<Rightarrow> bindR (f v) (\<lambda>x. Inr (Some x)))"

fun de_vec :: "'a de \<Rightarrow> 'a list de" where
  "de_vec f (JArray xs) = mapR f xs"
| "de_vec f v = Inl (Serde (InvalidType v ''a sequence''))"

definition present :: "json_object \<Rightarrow> string \<times> string list \<Rightarrow> value list" where
  "present ob fs =
     concat (map (\<lambda>k. case map_of ob k of None \<Rightarrow> [] | Some v \<Rightarrow> [v]) (fst fs # snd fs))"

fun de_fields :: "(string \<times> string list) list \<Rightarrow> value \<Rightarrow> de_error + fields" where
  "de_fields specs (JObject ob) =
     (case find (\<lambda>fs. 1 < length (present ob fs)) specs of
        Some fs \<Rightarrow> Inl (Serde (DuplicateField (fst fs)))
      | None \<Rightarrow> Inr (\<lambda>k. case find (\<lambda>fs. fst fs = k) specs of
                         None \<Rightarrow> Inl (MissingField k)
                       | Some fs \<Rightarrow> (case present ob fs of
                                      [] \<Rightarrow> Inl (MissingField k)
                                    | x # _ \<Rightarrow> Inr x)))"
| "de_fields specs (JArray xs) =
     (if length specs < length xs then Inl (Serde (InvalidLength (length xs)))
      else Inr (\<lambda>k. case map_of (zip (map fst specs) xs) k of
                      None \<Rightarrow> Inl (InvalidLength (length xs))
                    | Some x \<Rightarrow> Inr x))"
| "de_fields specs v = Inl (Serde (InvalidType v ''struct''))"

declare de_fields.simps [simp del]

definition req :: "fields \<Rightarrow> string \<Rightarrow> 'a de \<Rightarrow> de_error + 'a" where
  "req env k f = (case env k of Inl r \<Rightarrow> Inl (Serde r) | Inr v \<Rightarrow> f v)"

definition dflt :: "fields \<Rightarrow> string \<Rightarrow> 'a \<Rightarrow> 'a de \<Rightarrow> de_error + 'a" where
  "dflt env k d f = (case env k of Inl r \<Rightarrow> Inr d | Inr v \<Rightarrow> f v)"

section \<open>Writing values\<close>

definition ser_u32 :: "u32 \<Rightarrow> value" where
  "ser_u32 w = JNumber (JInt (uint w))"

definition ser_i32 :: "i32 \<Rightarrow> value" where
  "ser_i32 w = JNumber (JInt (sint w))"

definition ser_i64 :: "i64 \<Rightarrow> value" where
  "ser_i64 w = JNumber (JInt (sint w))"

definition ser_f64 :: "u64 \<Rightarrow> value" where
  "ser_f64 b = (if f64_finite b then JNumber (JFloat b) else JNull)"

definition ser_option :: "('a \<Rightarrow> value) \<Rightarrow> 'a option \<Rightarrow> value" where
  "ser_option f x = (case x of None \<Rightarrow> JNull | Some y \<Rightarrow> f y)"

definition ser_vec :: "('a \<Rightarrow> value) \<Rightarrow> 'a list \<Rightarrow> value" where
  "ser_vec f xs = JArray (map f xs)"

definition fld_opt :: "string \<Rightarrow> ('a \<Rightarrow> value) \<Rightarrow> 'a option \<Rightarrow> json_object" where
  "fld_opt k f x = (case x of None \<Rightarrow> [] | Some y \<Rightarrow> [(k, f y)])"

subsection \<open>Round trips of the leaves\<close>

lemma de_ser_u32 [wire_simps]: "de_u32 (ser_u32 w) = Inr w"
  using uint_lt2p [of w] by (simp add: ser_u32_def)

lemma de_ser_i32 [wire_simps]: "de_i32 (ser_i32 w) = Inr w"
  using sint_ge [of w] sint_lt [of w] by (simp add: ser_i32_def)

lemma de_ser_i64 [wire_simps]: "de_i64 (ser_i64 w) = Inr w"
  using sint_ge [of w] sint_lt [of w] by (simp add: ser_i64_def)

lemma de_ser_f64 [wire_simps]: "f64_finite b \<Longrightarrow> de_f64 (ser_f64 b) = Inr b"
  by (simp add: ser_f64_def)

lemma de_ser_option [wire_simps]:
  "(\<And>y. x = Some y \<Longrightarrow> f (g y) = Inr y \<and> g y \<noteq> JNull) \<Longrightarrow>
   de_option f (ser_option g x) = Inr x"
  by (cases x) (auto simp: de_option_def ser_option_def split: json.splits)

lemma ser_not_null [simp]:
  "ser_u32 w \<noteq> JNull" "ser_i32 x \<noteq> JNull" "ser_i64 y \<noteq> JNull" "ser_vec f xs \<noteq> JNull"
  by (simp_all add: ser_u32_def ser_i32_def ser_i64_def ser_vec_def)

lemma de_ser_vec [wire_simps]:
  "(\<And>x. x \<in> set xs \<Longrightarrow> f (g x) = Inr x) \<Longrightarrow> de_vec f (ser_vec g xs) = Inr xs"
  by (simp add: ser_vec_def mapR_roundtrip)

lemma map_of_obj_insert [simp]: "map_of (obj_insert k v ob) = (map_of ob)(k \<mapsto> v)"
  by (simp add: obj_insert_def update_conv')

lemma map_of_obj_remove [simp]: "map_of (obj_remove k ob) = (map_of ob)(k := None)"
  by (simp add: obj_remove_def delete_conv')

subsection \<open>Facts about the derived readers\<close>

lemma find_None_all: "find P xs = None \<longleftrightarrow> (\<forall>x \<in> set xs. \<not> P x)"
  by (auto simp: find_None_iff)

text \<open>A struct whose fields have no aliases reads an object by plain look-up.\<close>

lemma present_plain: "present ob (k, []) = (case map_of ob k of None \<Rightarrow> [] | Some v \<Rightarrow> [v])"
  by (simp add: present_def)

lemma de_fields_only_depends:
  assumes "\<And>k. k \<in> (\<Union>fs \<in> set specs. insert (fst fs) (set (snd fs))) \<Longrightarrow> map_of a k = map_of b k"
  shows "de_fields specs (JObject a) = de_fields specs (JObject b)"
proof -
  have eq: "present a fs = present b fs" if "fs \<in> set specs" for fs
  proof -
    have ab: "map_of a k = map_of b k" if "k \<in> set (fst fs # snd fs)" for k
      using \<open>fs \<in> set specs\<close> that by (intro assms) auto
    have "map (\<lambda>k. case map_of a k of None \<Rightarrow> [] | Some v \<Rightarrow> [v]) (fst fs # snd fs)
        = map (\<lambda>k. case map_of b k of None \<Rightarrow> [] | Some v \<Rightarrow> [v]) (fst fs # snd fs)"
      by (intro map_cong refl) (simp add: ab)
    then show ?thesis unfolding present_def by metis
  qed
  have f: "find (\<lambda>fs. 1 < length (present a fs)) specs = find (\<lambda>fs. 1 < length (present b fs)) specs"
    using eq by (intro find_cong) auto
  have g: "(case find (\<lambda>fs. fst fs = k) specs of None \<Rightarrow> Inl (MissingField k)
              | Some fs \<Rightarrow> (case present a fs of [] \<Rightarrow> Inl (MissingField k) | x # _ \<Rightarrow> Inr x))
         = (case find (\<lambda>fs. fst fs = k) specs of None \<Rightarrow> Inl (MissingField k)
              | Some fs \<Rightarrow> (case present b fs of [] \<Rightarrow> Inl (MissingField k) | x # _ \<Rightarrow> Inr x))"
    for k
  proof (cases "find (\<lambda>fs. fst fs = k) specs")
    case None
    then show ?thesis by simp
  next
    case (Some fs)
    then have "fs \<in> set specs" by (auto simp: find_Some_iff)
    with Some eq show ?thesis by simp
  qed
  show ?thesis by (simp only: de_fields.simps f g)
qed

lemma de_fields_plain [wire_simps]:
  assumes "\<forall>fs \<in> set specs. snd fs = []"
  shows "de_fields specs (JObject ob) =
           Inr (\<lambda>k. if k \<in> fst ` set specs
                    then (case map_of ob k of None \<Rightarrow> Inl (MissingField k) | Some x \<Rightarrow> Inr x)
                    else Inl (MissingField k))"
proof -
  have pr: "present ob fs = (case map_of ob (fst fs) of None \<Rightarrow> [] | Some v \<Rightarrow> [v])"
    if "fs \<in> set specs" for fs
    using that assms present_plain [of ob "fst fs"] by (metis prod.collapse)
  have none: "find (\<lambda>fs. 1 < length (present ob fs)) specs = None"
    by (auto simp: find_None_all pr split: option.splits)
  have look: "(case find (\<lambda>fs. fst fs = k) specs of None \<Rightarrow> Inl (MissingField k)
                | Some fs \<Rightarrow> (case present ob fs of [] \<Rightarrow> Inl (MissingField k) | x # _ \<Rightarrow> Inr x))
      = (if k \<in> fst ` set specs
         then (case map_of ob k of None \<Rightarrow> Inl (MissingField k) | Some x \<Rightarrow> Inr x)
         else Inl (MissingField k))" for k
  proof (cases "find (\<lambda>fs. fst fs = k) specs")
    case None
    then have "k \<notin> fst ` set specs" by (auto simp: find_None_all)
    with None show ?thesis by simp
  next
    case (Some fs)
    then have fs: "fs \<in> set specs" "fst fs = k" by (auto simp: find_Some_iff)
    then have "k \<in> fst ` set specs" by force
    with Some fs pr [OF fs(1)] show ?thesis by (simp split: option.splits)
  qed
  show ?thesis by (simp only: de_fields.simps none look option.case)
qed

lemma req_eq_Inr [result_simps]: "req env k f = Inr y \<longleftrightarrow> (\<exists>v. env k = Inr v \<and> f v = Inr y)"
  by (simp add: req_def split: sum.splits)

lemma dflt_eq_Inr [result_simps]:
  "dflt env k d f = Inr y \<longleftrightarrow> ((\<exists>r. env k = Inl r) \<and> y = d) \<or> (\<exists>v. env k = Inr v \<and> f v = Inr y)"
  by (auto simp: dflt_def split: sum.splits)

end
