(* ===== verification/Response.thy ===== *)
theory Response
  imports Json
begin

text \<open>
  The daemon's answers (\<^verbatim>\<open>src/src/protocol/response.rs\<close>): the wire records, the response union,
  the reader of a query result with its naming of terse rows and its rule for an absent
  \<open>is_done\<close>, and the derived writers. The reader of the union itself is in theory Decode.
\<close>

section \<open>Wire records\<close>

record column =
  col_name :: string
  col_label :: "string option"
  col_type_name :: "string option"
  col_display_size :: "u32 option"
  col_precision :: "u32 option"
  col_scale :: "u32 option"

record parameter_detail =
  pd_type_name :: string
  pd_mode :: string
  pd_precision :: u32
  pd_scale :: "u32 option"
  pd_name :: string

record parameter_result =
  pr_index :: u32
  pr_type_name :: string
  pr_precision :: u32
  pr_scale :: "u32 option"
  pr_name :: string
  pr_ccsid :: "u32 option"
  pr_value :: "value option"

record query_metadata =
  md_column_count :: u32
  md_columns :: "column list"
  md_job :: "string option"
  md_parameters :: "parameter_detail list"

definition default_metadata :: query_metadata where
  "default_metadata =
     \<lparr>md_column_count = 0, md_columns = [], md_job = None, md_parameters = []\<rparr>"

record query_result =
  qr_id :: string
  qr_success :: bool
  qr_has_results :: bool
  qr_update_count :: i64
  qr_cont_id :: "string option"
  qr_is_done :: bool
  qr_metadata :: query_metadata
  qr_data :: "json_object list"
  qr_execution_time :: u64
  qr_error :: "string option"
  qr_sqlcode :: "i32 option"
  qr_sqlstate :: "string option"
  qr_parameter_count :: "u32 option"
  qr_output_parms :: "parameter_result list"

record cl_message =
  cm_id :: "string option"
  cm_kind :: "string option"
  cm_text :: "string option"

record job_log_entry =
  jl_message_id :: "string option"
  jl_severity :: "string option"
  jl_message_timestamp :: "string option"
  jl_from_library :: "string option"
  jl_from_program :: "string option"
  jl_message_type :: "string option"
  jl_message_text :: "string option"
  jl_message_second_level_text :: "string option"

definition default_job_log_entry :: job_log_entry where
  "default_job_log_entry =
     \<lparr>jl_message_id = None, jl_severity = None, jl_message_timestamp = None,
      jl_from_library = None, jl_from_program = None, jl_message_type = None,
      jl_message_text = None, jl_message_second_level_text = None\<rparr>"

record error_response =
  er_id :: string
  er_success :: bool
  er_sqlstate :: "string option"
  er_sqlcode :: "i32 option"
  er_error :: "string option"
  er_job :: "string option"

text \<open>The fields of a variant are in the order of the source.\<close>

datatype response =
    Connected string string string
  | Pong string
  | Exited string
  | QueryResult query_result
  | PreparedStatement string bool string u64
  | SqlClosed string bool
  | ClResult string bool "cl_message list"
  | Version string bool string
  | DbJob string bool string
  | ConfigSet string bool
  | TraceData string bool string
  | DoveResult string bool "value" "value option"
  | ErrorResp error_response

text \<open>The correlation id of an answer; every variant carries one.\<close>

fun response_id :: "response \<Rightarrow> string" where
  "response_id (Connected i v j) = i"
| "response_id (Pong i) = i"
| "response_id (Exited i) = i"
| "response_id (QueryResult q) = qr_id q"
| "response_id (PreparedStatement i s c t) = i"
| "response_id (SqlClosed i s) = i"
| "response_id (ClResult i s ms) = i"
| "response_id (Version i s v) = i"
| "response_id (DbJob i s j) = i"
| "response_id (ConfigSet i s) = i"
| "response_id (TraceData i s t) = i"
| "response_id (DoveResult i s d m) = i"
| "response_id (ErrorResp e) = er_id e"

section \<open>Readers of the wire records\<close>

definition de_column :: "column de" where
  "de_column v =
     bindR (de_fields [(''name'', []), (''label'', []), (''type'', []), (''display_size'', []),
                       (''precision'', []), (''scale'', [])] v) (\<lambda>e.
     bindR (req e ''name'' de_string) (\<lambda>n.
     bindR (dflt e ''label'' None (de_option de_string)) (\<lambda>l.
     bindR (dflt e ''type'' None (de_option de_string)) (\<lambda>t.
     bindR (dflt e ''display_size'' None (de_option de_u32)) (\<lambda>d.
     bindR (dflt e ''precision'' None (de_option de_u32)) (\<lambda>p.
     bindR (dflt e ''scale'' None (de_option de_u32)) (\<lambda>s.
     Inr \<lparr>col_name = n, col_label = l, col_type_name = t, col_display_size = d,
          col_precision = p, col_scale = s\<rparr>)))))))"

definition de_parameter_detail :: "parameter_detail de" where
  "de_parameter_detail v =
     bindR (de_fields [(''type'', []), (''mode'', []), (''precision'', []), (''scale'', []),
                       (''name'', [])] v) (\<lambda>e.
     bindR (dflt e ''type'' [] de_string) (\<lambda>t.
     bindR (dflt e ''mode'' [] de_string) (\<lambda>m.
     bindR (dflt e ''precision'' 0 de_u32) (\<lambda>p.
     bindR (dflt e ''scale'' None (de_option de_u32)) (\<lambda>s.
     bindR (dflt e ''name'' [] de_string) (\<lambda>n.
     Inr \<lparr>pd_type_name = t, pd_mode = m, pd_precision = p, pd_scale = s, pd_name = n\<rparr>))))))"

definition de_parameter_result :: "parameter_result de" where
  "de_parameter_result v =
     bindR (de_fields [(''index'', []), (''type'', []), (''precision'', []), (''scale'', []),
                       (''name'', []), (''ccsid'', []), (''value'', [])] v) (\<lambda>e.
     bindR (dflt e ''index'' 0 de_u32) (\<lambda>i.
     bindR (dflt e ''type'' [] de_string) (\<lambda>t.
     bindR (dflt e ''precision'' 0 de_u32) (\<lambda>p.
     bindR (dflt e ''scale'' None (de_option de_u32)) (\<lambda>s.
     bindR (dflt e ''name'' [] de_string) (\<lambda>n.
     bindR (dflt e ''ccsid'' None (de_option de_u32)) (\<lambda>c.
     bindR (dflt e ''value'' None (de_option de_value)) (\<lambda>x.
     Inr \<lparr>pr_index = i, pr_type_name = t, pr_precision = p, pr_scale = s, pr_name = n,
          pr_ccsid = c, pr_value = x\<rparr>))))))))"

definition de_metadata :: "query_metadata de" where
  "de_metadata v =
     bindR (de_fields [(''column_count'', []), (''columns'', []), (''job'', []),
                       (''parameters'', [])] v) (\<lambda>e.
     bindR (dflt e ''column_count'' 0 de_u32) (\<lambda>n.
     bindR (dflt e ''columns'' [] (de_vec de_column)) (\<lambda>cs.
     bindR (dflt e ''job'' None (de_option de_string)) (\<lambda>j.
     bindR (dflt e ''parameters'' [] (de_vec de_parameter_detail)) (\<lambda>ps.
     Inr \<lparr>md_column_count = n, md_columns = cs, md_job = j, md_parameters = ps\<rparr>)))))"

definition de_cl_message :: "cl_message de" where
  "de_cl_message v =
     bindR (de_fields [(''id'', []), (''type'', []), (''text'', [])] v) (\<lambda>e.
     bindR (dflt e ''id'' None (de_option de_string)) (\<lambda>i.
     bindR (dflt e ''type'' None (de_option de_string)) (\<lambda>k.
     bindR (dflt e ''text'' None (de_option de_string)) (\<lambda>t.
     Inr \<lparr>cm_id = i, cm_kind = k, cm_text = t\<rparr>))))"

definition de_error_response :: "error_response de" where
  "de_error_response v =
     bindR (de_fields [(''id'', []), (''success'', []), (''sqlstate'', [''sql_state'']),
                       (''sqlcode'', [''sql_rc'']), (''error'', []), (''job'', [])] v) (\<lambda>e.
     bindR (req e ''id'' de_string) (\<lambda>i.
     bindR (req e ''success'' de_bool) (\<lambda>s.
     bindR (dflt e ''sqlstate'' None (de_option de_string)) (\<lambda>st.
     bindR (dflt e ''sqlcode'' None (de_option de_i32)) (\<lambda>c.
     bindR (dflt e ''error'' None (de_option de_string)) (\<lambda>m.
     bindR (dflt e ''job'' None (de_option de_string)) (\<lambda>j.
     Inr \<lparr>er_id = i, er_success = s, er_sqlstate = st, er_sqlcode = c, er_error = m,
          er_job = j\<rparr>)))))))"

text \<open>
  \<open>SEVERITY\<close> of a job-log row is a string or a number; a number is rendered in decimal. The
  rendering of a float is the printer's (\<open>show_num\<close>, a parameter).
\<close>

definition show_int :: "int \<Rightarrow> string" where
  "show_int i = (if i < 0 then CHR ''-'' # show_nat (nat (- i)) else show_nat (nat i))"

fun de_string_or_number :: "(u64 \<Rightarrow> string) \<Rightarrow> string option de" where
  "de_string_or_number show_num JNull = Inr None"
| "de_string_or_number show_num (JString s) = Inr (Some s)"
| "de_string_or_number show_num (JNumber (JInt i)) = Inr (Some (show_int i))"
| "de_string_or_number show_num (JNumber (JFloat b)) = Inr (Some (show_num b))"
| "de_string_or_number show_num v = Inl (SeverityShape v)"

definition de_job_log_entry :: "(u64 \<Rightarrow> string) \<Rightarrow> job_log_entry de" where
  "de_job_log_entry show_num v =
     bindR (de_fields [(''MESSAGE_ID'', []), (''SEVERITY'', []), (''MESSAGE_TIMESTAMP'', []),
                       (''FROM_LIBRARY'', []), (''FROM_PROGRAM'', []), (''MESSAGE_TYPE'', []),
                       (''MESSAGE_TEXT'', []), (''MESSAGE_SECOND_LEVEL_TEXT'', [])] v) (\<lambda>e.
     bindR (dflt e ''MESSAGE_ID'' None (de_option de_string)) (\<lambda>i.
     bindR (dflt e ''SEVERITY'' None (de_string_or_number show_num)) (\<lambda>s.
     bindR (dflt e ''MESSAGE_TIMESTAMP'' None (de_option de_string)) (\<lambda>t.
     bindR (dflt e ''FROM_LIBRARY'' None (de_option de_string)) (\<lambda>l.
     bindR (dflt e ''FROM_PROGRAM'' None (de_option de_string)) (\<lambda>p.
     bindR (dflt e ''MESSAGE_TYPE'' None (de_option de_string)) (\<lambda>k.
     bindR (dflt e ''MESSAGE_TEXT'' None (de_option de_string)) (\<lambda>x.
     bindR (dflt e ''MESSAGE_SECOND_LEVEL_TEXT'' None (de_option de_string)) (\<lambda>y.
     Inr \<lparr>jl_message_id = i, jl_severity = s, jl_message_timestamp = t, jl_from_library = l,
          jl_from_program = p, jl_message_type = k, jl_message_text = x,
          jl_message_second_level_text = y\<rparr>)))))))))"

section \<open>Query results\<close>

text \<open>
  A row is an object, or (terse) an array of cells named by the columns of the metadata in
  order. Cells are inserted one by one, so of two columns with one name the later wins.
\<close>

fun name_cells ::
  "column list \<Rightarrow> nat \<Rightarrow> nat \<Rightarrow> value list \<Rightarrow> json_object \<Rightarrow> de_error + json_object" where
  "name_cells cols idx i [] m = Inr m"
| "name_cells cols idx i (c # cs) m =
     (if i < length cols
      then name_cells cols idx (Suc i) cs (obj_insert (col_name (cols ! i)) c m)
      else Inl (TerseRowMissingColumn idx i))"

fun named_row :: "column list \<Rightarrow> nat \<Rightarrow> value \<Rightarrow> de_error + json_object" where
  "named_row cols idx (JObject m) = Inr m"
| "named_row cols idx (JArray cells) =
     (if cols = [] then Inl TerseRowsNoColumns
      else if length cols < length cells
           then Inl (TerseRowTooLong idx (length cells) (length cols))
      else name_cells cols idx 0 cells [])"
| "named_row cols idx v = Inl (BadRowShape idx v)"

fun named_rows :: "column list \<Rightarrow> nat \<Rightarrow> value list \<Rightarrow> de_error + json_object list" where
  "named_rows cols idx [] = Inr []"
| "named_rows cols idx (r # rs) =
     bindR (named_row cols idx r) (\<lambda>m.
     bindR (named_rows cols (Suc idx) rs) (\<lambda>ms. Inr (m # ms)))"

definition named_rows_from_wire ::
  "query_metadata \<Rightarrow> value list \<Rightarrow> de_error + json_object list" where
  "named_rows_from_wire md data = named_rows (md_columns md) 0 data"

record query_result_de =
  qd_id :: string
  qd_success :: bool
  qd_has_results :: bool
  qd_update_count :: i64
  qd_cont_id :: "string option"
  qd_is_done :: "bool option"
  qd_metadata :: query_metadata
  qd_data :: "value list"
  qd_execution_time :: u64
  qd_error :: "string option"
  qd_sqlcode :: "i32 option"
  qd_sqlstate :: "string option"
  qd_parameter_count :: "u32 option"
  qd_output_parms :: "parameter_result list"

definition query_result_fields :: "(string \<times> string list) list" where
  "query_result_fields =
     [(''id'', []), (''success'', []), (''has_results'', []), (''update_count'', []),
      (''cont_id'', []), (''is_done'', []), (''metadata'', []), (''data'', []),
      (''execution_time'', []), (''error'', []), (''sqlcode'', [''sql_rc'']),
      (''sqlstate'', [''sql_state'']), (''parameter_count'', []), (''output_parms'', [])]"

definition de_query_result_raw :: "query_result_de de" where
  "de_query_result_raw v =
     bindR (de_fields query_result_fields v) (\<lambda>e.
     bindR (req e ''id'' de_string) (\<lambda>i.
     bindR (req e ''success'' de_bool) (\<lambda>s.
     bindR (dflt e ''has_results'' False de_bool) (\<lambda>h.
     bindR (dflt e ''update_count'' 0 de_i64) (\<lambda>u.
     bindR (dflt e ''cont_id'' None (de_option de_string)) (\<lambda>c.
     bindR (dflt e ''is_done'' None (de_option de_bool)) (\<lambda>d.
     bindR (dflt e ''metadata'' default_metadata de_metadata) (\<lambda>m.
     bindR (dflt e ''data'' [] (de_vec de_value)) (\<lambda>rows.
     bindR (dflt e ''execution_time'' 0 de_f64) (\<lambda>t.
     bindR (dflt e ''error'' None (de_option de_string)) (\<lambda>er.
     bindR (dflt e ''sqlcode'' None (de_option de_i32)) (\<lambda>sc.
     bindR (dflt e ''sqlstate'' None (de_option de_string)) (\<lambda>ss.
     bindR (dflt e ''parameter_count'' None (de_option de_u32)) (\<lambda>pc.
     bindR (dflt e ''output_parms'' [] (de_vec de_parameter_result)) (\<lambda>ps.
     Inr \<lparr>qd_id = i, qd_success = s, qd_has_results = h, qd_update_count = u, qd_cont_id = c,
          qd_is_done = d, qd_metadata = m, qd_data = rows, qd_execution_time = t,
          qd_error = er, qd_sqlcode = sc, qd_sqlstate = ss, qd_parameter_count = pc,
          qd_output_parms = ps\<rparr>)))))))))))))))"

definition de_query_result :: "query_result de" where
  "de_query_result v =
     bindR (de_query_result_raw v) (\<lambda>raw.
     bindR (named_rows_from_wire (qd_metadata raw) (qd_data raw)) (\<lambda>rows.
       let has_result_set = qd_has_results raw \<or> rows \<noteq> [];
           is_done = (case qd_is_done raw of Some flag \<Rightarrow> flag | None \<Rightarrow> \<not> has_result_set)
       in Inr \<lparr>qr_id = qd_id raw, qr_success = qd_success raw,
               qr_has_results = qd_has_results raw, qr_update_count = qd_update_count raw,
               qr_cont_id = qd_cont_id raw, qr_is_done = is_done,
               qr_metadata = qd_metadata raw, qr_data = rows,
               qr_execution_time = qd_execution_time raw, qr_error = qd_error raw,
               qr_sqlcode = qd_sqlcode raw, qr_sqlstate = qd_sqlstate raw,
               qr_parameter_count = qd_parameter_count raw,
               qr_output_parms = qd_output_parms raw\<rparr>))"

definition non_empty :: "string option \<Rightarrow> string option" where
  "non_empty x = (case x of None \<Rightarrow> None | Some s \<Rightarrow> (if s = [] then None else Some s))"

definition cursor_handle :: "query_result \<Rightarrow> string option" where
  "cursor_handle q = (if qr_id q = [] then non_empty (qr_cont_id q) else Some (qr_id q))"

section \<open>Writers\<close>

definition ser_column :: "column \<Rightarrow> value" where
  "ser_column c = JObject
     [(''name'', JString (col_name c)), (''label'', ser_option JString (col_label c)),
      (''type'', ser_option JString (col_type_name c)),
      (''display_size'', ser_option ser_u32 (col_display_size c)),
      (''precision'', ser_option ser_u32 (col_precision c)),
      (''scale'', ser_option ser_u32 (col_scale c))]"

definition ser_parameter_detail :: "parameter_detail \<Rightarrow> value" where
  "ser_parameter_detail p = JObject
     ([(''type'', JString (pd_type_name p)), (''mode'', JString (pd_mode p)),
       (''precision'', ser_u32 (pd_precision p))] @
      fld_opt ''scale'' ser_u32 (pd_scale p) @ [(''name'', JString (pd_name p))])"

definition ser_parameter_result :: "parameter_result \<Rightarrow> value" where
  "ser_parameter_result p = JObject
     ([(''index'', ser_u32 (pr_index p)), (''type'', JString (pr_type_name p)),
       (''precision'', ser_u32 (pr_precision p))] @
      fld_opt ''scale'' ser_u32 (pr_scale p) @ [(''name'', JString (pr_name p))] @
      fld_opt ''ccsid'' ser_u32 (pr_ccsid p) @ fld_opt ''value'' id (pr_value p))"

definition fld_vec :: "string \<Rightarrow> ('a \<Rightarrow> value) \<Rightarrow> 'a list \<Rightarrow> json_object" where
  "fld_vec k f xs = (if xs = [] then [] else [(k, ser_vec f xs)])"

definition ser_metadata :: "query_metadata \<Rightarrow> value" where
  "ser_metadata m = JObject
     ([(''column_count'', ser_u32 (md_column_count m)),
       (''columns'', ser_vec ser_column (md_columns m))] @
      fld_opt ''job'' JString (md_job m) @
      fld_vec ''parameters'' ser_parameter_detail (md_parameters m))"

definition query_result_object :: "query_result \<Rightarrow> json_object" where
  "query_result_object q =
     [(''id'', JString (qr_id q)), (''success'', JBool (qr_success q)),
      (''has_results'', JBool (qr_has_results q)),
      (''update_count'', ser_i64 (qr_update_count q)),
      (''cont_id'', ser_option JString (qr_cont_id q)), (''is_done'', JBool (qr_is_done q)),
      (''metadata'', ser_metadata (qr_metadata q)), (''data'', ser_vec JObject (qr_data q)),
      (''execution_time'', ser_f64 (qr_execution_time q))] @
     fld_opt ''error'' JString (qr_error q) @ fld_opt ''sqlcode'' ser_i32 (qr_sqlcode q) @
     fld_opt ''sqlstate'' JString (qr_sqlstate q) @
     fld_opt ''parameter_count'' ser_u32 (qr_parameter_count q) @
     fld_vec ''output_parms'' ser_parameter_result (qr_output_parms q)"

definition ser_cl_message :: "cl_message \<Rightarrow> value" where
  "ser_cl_message m = JObject
     [(''id'', ser_option JString (cm_id m)), (''type'', ser_option JString (cm_kind m)),
      (''text'', ser_option JString (cm_text m))]"

definition error_response_object :: "error_response \<Rightarrow> json_object" where
  "error_response_object e =
     [(''id'', JString (er_id e)), (''success'', JBool (er_success e)),
      (''sqlstate'', ser_option JString (er_sqlstate e)),
      (''sqlcode'', ser_option ser_i32 (er_sqlcode e)),
      (''error'', ser_option JString (er_error e)), (''job'', ser_option JString (er_job e))]"

fun ser_response :: "response \<Rightarrow> value" where
  "ser_response (Connected i v j) =
     JObject [(''type'', JString ''connected''), (''id'', JString i), (''version'', JString v),
              (''job'', JString j)]"
| "ser_response (Pong i) = JObject [(''type'', JString ''pong''), (''id'', JString i)]"
| "ser_response (Exited i) = JObject [(''type'', JString ''exited''), (''id'', JString i)]"
| "ser_response (QueryResult q) =
     JObject ((''type'', JString ''query_result'') # query_result_object q)"
| "ser_response (PreparedStatement i s c t) =
     JObject [(''type'', JString ''prepared_statement''), (''id'', JString i),
              (''success'', JBool s), (''cont_id'', JString c), (''execution_time'', ser_f64 t)]"
| "ser_response (SqlClosed i s) =
     JObject [(''type'', JString ''sql_closed''), (''id'', JString i), (''success'', JBool s)]"
| "ser_response (ClResult i s ms) =
     JObject [(''type'', JString ''cl_result''), (''id'', JString i), (''success'', JBool s),
              (''messages'', ser_vec ser_cl_message ms)]"
| "ser_response (Version i s v) =
     JObject [(''type'', JString ''version''), (''id'', JString i), (''success'', JBool s),
              (''version'', JString v)]"
| "ser_response (DbJob i s j) =
     JObject [(''type'', JString ''db_job''), (''id'', JString i), (''success'', JBool s),
              (''job'', JString j)]"
| "ser_response (ConfigSet i s) =
     JObject [(''type'', JString ''config_set''), (''id'', JString i), (''success'', JBool s)]"
| "ser_response (TraceData i s t) =
     JObject [(''type'', JString ''trace_data''), (''id'', JString i), (''success'', JBool s),
              (''tracedata'', JString t)]"
| "ser_response (DoveResult i s d m) =
     JObject ([(''type'', JString ''dove_result''), (''id'', JString i), (''success'', JBool s),
               (''vedata'', d)] @ fld_opt ''vemetadata'' id m)"
| "ser_response (ErrorResp e) =
     JObject ((''type'', JString ''error'') # error_response_object e)"

end
