(* ===== verification/Decode.thy ===== *)
theory Decode
  imports Response
begin

text \<open>
  The classification of daemon frames (\<^verbatim>\<open>src/src/protocol/decode.rs\<close>): frames with a \<open>type\<close> tag
  (the mock dialect) and untagged live frames, which are recognised by the keys they carry.
  The order of the tests is the source's.

  The lemmas show how each shape is classified, that every writer of theory Response is
  inverted by the tagged reader, and how the naming of terse rows and the default of
  \<open>is_done\<close> behave.
\<close>

section \<open>Bodies\<close>

record prepared_body =
  pb_id :: string
  pb_success :: bool
  pb_cont_id :: string
  pb_execution_time :: u64

record dove_body =
  db_id :: string
  db_success :: bool
  db_vedata :: "value option"
  db_vemetadata :: "value option"
  db_result :: "value option"

definition de_id_body :: "string de" where
  "de_id_body v = bindR (de_fields [(''id'', [])] v) (\<lambda>e. req e ''id'' de_string)"

definition de_success_body :: "(string \<times> bool) de" where
  "de_success_body v =
     bindR (de_fields [(''id'', []), (''success'', [])] v) (\<lambda>e.
     bindR (req e ''id'' de_string) (\<lambda>i.
     bindR (req e ''success'' de_bool) (\<lambda>s. Inr (i, s))))"

definition de_connected_body :: "(string \<times> string \<times> string) de" where
  "de_connected_body v =
     bindR (de_fields [(''id'', []), (''version'', []), (''job'', [])] v) (\<lambda>e.
     bindR (req e ''id'' de_string) (\<lambda>i.
     bindR (dflt e ''version'' [] de_string) (\<lambda>r.
     bindR (req e ''job'' de_string) (\<lambda>j. Inr (i, r, j)))))"

definition de_prepared_body :: "prepared_body de" where
  "de_prepared_body v =
     bindR (de_fields [(''id'', []), (''success'', []), (''cont_id'', []),
                       (''execution_time'', [])] v) (\<lambda>e.
     bindR (req e ''id'' de_string) (\<lambda>i.
     bindR (req e ''success'' de_bool) (\<lambda>s.
     bindR (req e ''cont_id'' de_string) (\<lambda>c.
     bindR (dflt e ''execution_time'' 0 de_f64) (\<lambda>t.
     Inr \<lparr>pb_id = i, pb_success = s, pb_cont_id = c, pb_execution_time = t\<rparr>)))))"

definition de_cl_result_body :: "(string \<times> bool \<times> cl_message list) de" where
  "de_cl_result_body v =
     bindR (de_fields [(''id'', []), (''success'', []), (''messages'', [])] v) (\<lambda>e.
     bindR (req e ''id'' de_string) (\<lambda>i.
     bindR (req e ''success'' de_bool) (\<lambda>s.
     bindR (req e ''messages'' (de_vec de_cl_message)) (\<lambda>ms. Inr (i, s, ms)))))"

definition de_named_body :: "string \<Rightarrow> (string \<times> bool \<times> string) de" where
  "de_named_body k v =
     bindR (de_fields [(''id'', []), (''success'', []), (k, [])] v) (\<lambda>e.
     bindR (req e ''id'' de_string) (\<lambda>i.
     bindR (req e ''success'' de_bool) (\<lambda>s.
     bindR (req e k de_string) (\<lambda>x. Inr (i, s, x)))))"

definition de_version_body :: "(string \<times> bool \<times> string) de" where
  "de_version_body = de_named_body ''version''"

definition de_db_job_body :: "(string \<times> bool \<times> string) de" where
  "de_db_job_body = de_named_body ''job''"

definition de_null_as_empty :: "string de" where
  "de_null_as_empty v = bindR (de_option de_string v) (\<lambda>x. Inr (unwrap_or [] x))"

definition de_trace_data_body :: "(string \<times> bool \<times> string) de" where
  "de_trace_data_body v =
     bindR (de_fields [(''id'', []), (''success'', []), (''tracedata'', [])] v) (\<lambda>e.
     bindR (req e ''id'' de_string) (\<lambda>i.
     bindR (req e ''success'' de_bool) (\<lambda>s.
     bindR (dflt e ''tracedata'' [] de_null_as_empty) (\<lambda>t. Inr (i, s, t)))))"

definition de_dove_body :: "dove_body de" where
  "de_dove_body v =
     bindR (de_fields [(''id'', []), (''success'', []), (''vedata'', []), (''vemetadata'', []),
                       (''result'', [])] v) (\<lambda>e.
     bindR (req e ''id'' de_string) (\<lambda>i.
     bindR (req e ''success'' de_bool) (\<lambda>s.
     bindR (dflt e ''vedata'' None (de_option de_value)) (\<lambda>d.
     bindR (dflt e ''vemetadata'' None (de_option de_value)) (\<lambda>m.
     bindR (dflt e ''result'' None (de_option de_value)) (\<lambda>r.
     Inr \<lparr>db_id = i, db_success = s, db_vedata = d, db_vemetadata = m, db_result = r\<rparr>))))))"

section \<open>Frames\<close>

fun json_string_or_empty :: "value option \<Rightarrow> string" where
  "json_string_or_empty (Some (JString s)) = s"
| "json_string_or_empty _ = []"

fun strip_type :: "value \<Rightarrow> value" where
  "strip_type (JObject ob) = JObject (obj_remove ''type'' ob)"
| "strip_type v = v"

definition payload :: "'a de \<Rightarrow> value \<Rightarrow> de_error + 'a" where
  "payload f v = f (strip_type v)"

definition dove_from_body :: "dove_body \<Rightarrow> response" where
  "dove_from_body b =
     (let vedata = (case db_vedata b of Some d \<Rightarrow> d | None \<Rightarrow> unwrap_or JNull (db_result b))
      in DoveResult (db_id b) (db_success b) vedata (db_vemetadata b))"

definition decode_dove :: "value \<Rightarrow> de_error + response" where
  "decode_dove v = bindR (de_dove_body v) (\<lambda>b. Inr (dove_from_body b))"

definition prepared_response :: "prepared_body \<Rightarrow> response" where
  "prepared_response b =
     PreparedStatement (pb_id b) (pb_success b) (pb_cont_id b) (pb_execution_time b)"

definition decode_tag :: "string \<Rightarrow> value \<Rightarrow> de_error + response" where
  "decode_tag tag v =
     (if tag = ''connected''
      then bindR (payload de_connected_body v) (\<lambda>(i, r, j). Inr (Connected i r j))
      else if tag = ''pong'' then bindR (payload de_id_body v) (\<lambda>i. Inr (Pong i))
      else if tag = ''exited'' then bindR (payload de_id_body v) (\<lambda>i. Inr (Exited i))
      else if tag = ''query_result''
      then bindR (payload de_query_result v) (\<lambda>q. Inr (QueryResult q))
      else if tag = ''prepared_statement''
      then bindR (payload de_prepared_body v) (\<lambda>b. Inr (prepared_response b))
      else if tag = ''sql_closed''
      then bindR (payload de_success_body v) (\<lambda>(i, s). Inr (SqlClosed i s))
      else if tag = ''cl_result''
      then bindR (payload de_cl_result_body v) (\<lambda>(i, s, ms). Inr (ClResult i s ms))
      else if tag = ''version''
      then bindR (payload de_version_body v) (\<lambda>(i, s, x). Inr (Version i s x))
      else if tag = ''db_job''
      then bindR (payload de_db_job_body v) (\<lambda>(i, s, j). Inr (DbJob i s j))
      else if tag = ''config_set''
      then bindR (payload de_success_body v) (\<lambda>(i, s). Inr (ConfigSet i s))
      else if tag = ''trace_data''
      then bindR (payload de_trace_data_body v) (\<lambda>(i, s, t). Inr (TraceData i s t))
      else if tag = ''dove_result''
      then bindR (payload de_dove_body v) (\<lambda>b. Inr (dove_from_body b))
      else if tag = ''error''
      then bindR (payload de_error_response v) (\<lambda>e. Inr (ErrorResp e))
      else Inl (UnknownResponseTag tag))"

definition decode_tagged :: "json_object \<Rightarrow> de_error + response" where
  "decode_tagged ob =
     (case obj_get ob ''type'' of
        Some (JString tag) \<Rightarrow> decode_tag tag (JObject ob)
      | _ \<Rightarrow> Inl MissingTypeTag)"

definition str_field :: "json_object \<Rightarrow> string \<Rightarrow> string" where
  "str_field ob k = json_string_or_empty (obj_get ob k)"

definition decode_untagged :: "json_object \<Rightarrow> de_error + response" where
  "decode_untagged ob =
     (let success = Option.bind (obj_get ob ''success'') as_bool;
          has_data = contains_key ob ''data'';
          has_results_key = contains_key ob ''has_results'';
          has_dove = contains_key ob ''vedata'' \<or> contains_key ob ''vemetadata'';
          v = JObject ob
      in if success = Some False
         then (if has_dove then decode_dove v
               else if has_data \<or> has_results_key
               then bindR (de_query_result v) (\<lambda>q. Inr (QueryResult q))
               else bindR (de_error_response v) (\<lambda>e. Inr (ErrorResp e)))
         else if contains_key ob ''cont_id'' \<and> \<not> has_data \<and> \<not> has_results_key
         then bindR (de_prepared_body v) (\<lambda>b. Inr (prepared_response b))
         else if has_dove then decode_dove v
         else if has_data \<or> has_results_key
         then bindR (de_query_result v) (\<lambda>q. Inr (QueryResult q))
         else if contains_key ob ''job''
         then Inr (Connected (str_field ob ''id'') (str_field ob ''version'') (str_field ob ''job''))
         else if contains_key ob ''version''
         then Inr (Version (str_field ob ''id'') (unwrap_or True success) (str_field ob ''version''))
         else if contains_key ob ''tracedata'' \<or> contains_key ob ''jtopentracedata''
         then Inr (TraceData (str_field ob ''id'') (unwrap_or True success)
                     (str_field ob ''tracedata''))
         else if success = Some True then Inr (Pong (str_field ob ''id''))
         else Inl UnrecognizedUntagged)"

definition decode_value :: "value \<Rightarrow> de_error + response" where
  "decode_value v =
     (case as_object v of
        None \<Rightarrow> Inl NotAnObject
      | Some ob \<Rightarrow> if contains_key ob ''type'' then decode_tagged ob else decode_untagged ob)"

definition de_response :: "value \<Rightarrow> de_error + response" where
  "de_response v = decode_value v"

section \<open>Round trips of the wire records\<close>

lemma de_ser_option_string [wire_simps]: "de_option de_string (ser_option JString x) = Inr x"
  by (intro de_ser_option) auto

lemma de_ser_option_u32 [wire_simps]: "de_option de_u32 (ser_option ser_u32 x) = Inr x"
  by (intro de_ser_option) (auto simp: wire_simps)

lemma de_ser_option_i32 [wire_simps]: "de_option de_i32 (ser_option ser_i32 x) = Inr x"
  by (intro de_ser_option) (auto simp: wire_simps)

lemma de_option_Some [wire_simps]: "v \<noteq> JNull \<Longrightarrow> de_option f v = bindR (f v) (\<lambda>x. Inr (Some x))"
  by (cases v) (simp_all add: de_option_def)

lemma de_ser_column [wire_simps]: "de_column (ser_column c) = Inr c"
  by (simp add: de_column_def ser_column_def req_def dflt_def fld_opt_def fld_vec_def wire_simps)

lemma de_ser_parameter_detail [wire_simps]: "de_parameter_detail (ser_parameter_detail p) = Inr p"
  by (cases "pd_scale p")
     (simp_all add: de_parameter_detail_def ser_parameter_detail_def req_def
        dflt_def fld_opt_def fld_vec_def wire_simps)

lemma de_ser_parameter_result [wire_simps]:
  "pr_value p \<noteq> Some JNull \<Longrightarrow> de_parameter_result (ser_parameter_result p) = Inr p"
  by (cases "pr_scale p"; cases "pr_ccsid p"; cases "pr_value p")
     (simp_all add: de_parameter_result_def ser_parameter_result_def req_def
        dflt_def fld_opt_def fld_vec_def wire_simps)

lemma de_ser_metadata [wire_simps]: "de_metadata (ser_metadata m) = Inr m"
  by (cases "md_job m"; cases "md_parameters m = []")
     (simp_all add: de_metadata_def ser_metadata_def req_def dflt_def fld_opt_def fld_vec_def wire_simps)

lemma de_ser_cl_message [wire_simps]: "de_cl_message (ser_cl_message m) = Inr m"
  by (simp add: de_cl_message_def ser_cl_message_def req_def dflt_def fld_opt_def fld_vec_def wire_simps)

lemma named_rows_objects [wire_simps]: "named_rows cols idx (map JObject ms) = Inr ms"
  by (induction ms arbitrary: idx) simp_all

lemma de_ser_error_response [wire_simps]:
  "de_error_response (JObject (error_response_object e)) = Inr e"
  by (simp add: de_error_response_def error_response_object_def de_fields.simps present_def req_def dflt_def fld_opt_def fld_vec_def wire_simps)

section \<open>Round trip of the response union\<close>

lemma map_of_fld_opt: "map_of (fld_opt k f x) j = (if j = k then map_option f x else None)"
  by (cases x) (simp_all add: fld_opt_def)

lemma map_of_fld_vec:
  "map_of (fld_vec k f xs) j = (if j = k \<and> xs \<noteq> [] then Some (ser_vec f xs) else None)"
  by (simp add: fld_vec_def)

lemma dflt_fld_opt:
  assumes "\<And>y. x = Some y \<Longrightarrow> g (f y) = Inr y \<and> f y \<noteq> JNull"
    and "e k = (case map_option f x of None \<Rightarrow> Inl r | Some v \<Rightarrow> Inr v)"
  shows "dflt e k None (de_option g) = Inr x"
  using assms by (cases x) (auto simp: dflt_def de_option_Some)

lemma dflt_fld_vec:
  assumes "\<And>y. y \<in> set xs \<Longrightarrow> g (f y) = Inr y"
    and "e k = (case (if xs \<noteq> [] then Some (ser_vec f xs) else None) of None \<Rightarrow> Inl r | Some v \<Rightarrow> Inr v)"
  shows "dflt e k [] (de_vec g) = Inr xs"
  using assms by (cases "xs = []") (simp_all add: dflt_def de_ser_vec)

lemma dflt_Inr: "env k = Inr v \<Longrightarrow> dflt env k d f = f v"
  by (simp add: dflt_def)

lemma dflt_Inl: "env k = Inl r \<Longrightarrow> dflt env k d f = Inr d"
  by (simp add: dflt_def)

lemma req_Inr: "env k = Inr v \<Longrightarrow> req env k f = f v"
  by (simp add: req_def)

definition wf_result :: "query_result \<Rightarrow> bool" where
  "wf_result q \<longleftrightarrow> f64_finite (qr_execution_time q) \<and>
     list_all (\<lambda>p. pr_value p \<noteq> Some JNull) (qr_output_parms q)"

lemma query_result_env:
  "\<exists>e. de_fields query_result_fields (JObject (query_result_object q)) = Inr e \<and>
     e ''id'' = Inr (JString (qr_id q)) \<and> e ''success'' = Inr (JBool (qr_success q)) \<and>
     e ''has_results'' = Inr (JBool (qr_has_results q)) \<and>
     e ''update_count'' = Inr (ser_i64 (qr_update_count q)) \<and>
     e ''cont_id'' = Inr (ser_option JString (qr_cont_id q)) \<and>
     e ''is_done'' = Inr (JBool (qr_is_done q)) \<and>
     e ''metadata'' = Inr (ser_metadata (qr_metadata q)) \<and>
     e ''data'' = Inr (ser_vec JObject (qr_data q)) \<and>
     e ''execution_time'' = Inr (ser_f64 (qr_execution_time q)) \<and>
     e ''error'' = (case map_option JString (qr_error q) of None \<Rightarrow> Inl (MissingField ''error'') | Some v \<Rightarrow> Inr v) \<and>
     e ''sqlcode'' = (case map_option ser_i32 (qr_sqlcode q) of None \<Rightarrow> Inl (MissingField ''sqlcode'') | Some v \<Rightarrow> Inr v) \<and>
     e ''sqlstate'' = (case map_option JString (qr_sqlstate q) of None \<Rightarrow> Inl (MissingField ''sqlstate'') | Some v \<Rightarrow> Inr v) \<and>
     e ''parameter_count'' = (case map_option ser_u32 (qr_parameter_count q) of None \<Rightarrow> Inl (MissingField ''parameter_count'') | Some v \<Rightarrow> Inr v) \<and>
     e ''output_parms'' = (case (if qr_output_parms q \<noteq> [] then Some (ser_vec ser_parameter_result (qr_output_parms q)) else None) of None \<Rightarrow> Inl (MissingField ''output_parms'') | Some v \<Rightarrow> Inr v)"
proof -
  have look: "map_of (query_result_object q) = 
     map_of (fld_opt ''error'' JString (qr_error q) @ fld_opt ''sqlcode'' ser_i32 (qr_sqlcode q) @
     fld_opt ''sqlstate'' JString (qr_sqlstate q) @
     fld_opt ''parameter_count'' ser_u32 (qr_parameter_count q) @
     fld_vec ''output_parms'' ser_parameter_result (qr_output_parms q)) ++ map_of
     [(''id'', JString (qr_id q)), (''success'', JBool (qr_success q)),
      (''has_results'', JBool (qr_has_results q)),
      (''update_count'', ser_i64 (qr_update_count q)),
      (''cont_id'', ser_option JString (qr_cont_id q)), (''is_done'', JBool (qr_is_done q)),
      (''metadata'', ser_metadata (qr_metadata q)), (''data'', ser_vec JObject (qr_data q)),
      (''execution_time'', ser_f64 (qr_execution_time q))]"
    unfolding query_result_object_def by (simp only: map_of_append)
  show ?thesis
    unfolding de_fields.simps query_result_fields_def
    by (simp add: present_def look map_add_def map_of_fld_opt map_of_fld_vec split: option.split)
qed

lemma de_ser_query_result [wire_simps]:
  assumes "wf_result q"
  shows "de_query_result (JObject (query_result_object q)) = Inr q"
proof -
  from assms have parms: "\<And>p. p \<in> set (qr_output_parms q) \<Longrightarrow>
      de_parameter_result (ser_parameter_result p) = Inr p"
    and fin: "de_f64 (ser_f64 (qr_execution_time q)) = Inr (qr_execution_time q)"
    by (auto simp: wf_result_def list_all_iff wire_simps)
  obtain e where e: "de_fields query_result_fields (JObject (query_result_object q)) = Inr e"
    and plain: "e ''id'' = Inr (JString (qr_id q))" "e ''success'' = Inr (JBool (qr_success q))"
     "e ''has_results'' = Inr (JBool (qr_has_results q))"
     "e ''update_count'' = Inr (ser_i64 (qr_update_count q))"
     "e ''cont_id'' = Inr (ser_option JString (qr_cont_id q))"
     "e ''is_done'' = Inr (JBool (qr_is_done q))"
     "e ''metadata'' = Inr (ser_metadata (qr_metadata q))"
     "e ''data'' = Inr (ser_vec JObject (qr_data q))"
     "e ''execution_time'' = Inr (ser_f64 (qr_execution_time q))"
    and opt: "dflt e ''error'' None (de_option de_string) = Inr (qr_error q)"
     "dflt e ''sqlcode'' None (de_option de_i32) = Inr (qr_sqlcode q)"
     "dflt e ''sqlstate'' None (de_option de_string) = Inr (qr_sqlstate q)"
     "dflt e ''parameter_count'' None (de_option de_u32) = Inr (qr_parameter_count q)"
     "dflt e ''output_parms'' [] (de_vec de_parameter_result) = Inr (qr_output_parms q)"
    using query_result_env [of q]
    by (elim exE conjE) (rule that, assumption+, (rule dflt_fld_opt dflt_fld_vec, auto simp: wire_simps parms)+)
  have rows: "mapR de_value xs = Inr xs" for xs
    by (induction xs) auto
  show ?thesis
    by (simp add: de_query_result_def de_query_result_raw_def e plain opt req_Inr dflt_Inr
        wire_simps fin rows named_rows_from_wire_def ser_vec_def de_option_Some)
qed

fun wf_response :: "response \<Rightarrow> bool" where
  "wf_response (QueryResult q) = wf_result q"
| "wf_response (PreparedStatement i s c t) = f64_finite t"
| "wf_response (DoveResult i s d m) = (m \<noteq> Some JNull)"
| "wf_response _ = True"

lemma delete_absent: "map_of ob k = None \<Longrightarrow> AList.delete k ob = ob"
  by (simp add: delete_id map_of_eq_None_iff)

lemma query_result_no_type: "map_of (query_result_object q) ''type'' = None"
  by (simp add: query_result_object_def map_add_def map_of_fld_opt map_of_fld_vec)

lemma error_response_no_type: "map_of (error_response_object e) ''type'' = None"
  by (simp add: error_response_object_def)

lemma decode_ser_tagged:
  "map_of ob ''type'' = None \<Longrightarrow>
   decode_value (JObject ((''type'', JString tag) # ob)) = decode_tag tag (JObject ((''type'', JString tag) # ob))"
  by (simp add: decode_value_def contains_key_def decode_tagged_def obj_get_def)

lemma strip_type_tagged:
  "map_of ob ''type'' = None \<Longrightarrow> strip_type (JObject ((''type'', JString tag) # ob)) = JObject ob"
  by (simp add: obj_remove_def delete_absent)

text \<open>
  C14. Every response the client can write (finite execution time, no explicit JSON null in an
  optional JSON field) is read back by the decoder as the same response: the tagged dialect
  loses nothing, on all thirteen variants.
\<close>

theorem decode_roundtrip: "wf_response r \<Longrightarrow> decode_value (ser_response r) = Inr r"
proof (cases r)
  case (QueryResult q)
  assume "wf_response r"
  with QueryResult show ?thesis
    using query_result_no_type [of q]
    by (simp add: decode_ser_tagged decode_tag_def payload_def strip_type_tagged wire_simps del: strip_type.simps)
next
  case (ErrorResp e)
  then show ?thesis
    using error_response_no_type [of e]
    by (simp add: decode_ser_tagged decode_tag_def payload_def strip_type_tagged wire_simps del: strip_type.simps)
next
  case (DoveResult i s d m)
  assume "wf_response r"
  with DoveResult show ?thesis
    by (cases m; cases "d = JNull")
      (auto simp: decode_ser_tagged decode_tag_def payload_def strip_type_tagged fld_opt_def
        de_dove_body_def dove_from_body_def req_def dflt_def wire_simps de_option_def simp del: strip_type.simps split: json.splits)
qed (simp_all add: decode_ser_tagged decode_tag_def payload_def strip_type_tagged
  de_id_body_def de_success_body_def de_connected_body_def de_prepared_body_def prepared_response_def
  de_cl_result_body_def de_named_body_def de_version_body_def de_db_job_body_def
  de_trace_data_body_def de_null_as_empty_def req_def dflt_def wire_simps del: strip_type.simps)

theorem decode_roundtrip_witness:
  "decode_value (ser_response (DoveResult ''d1'' True (JArray [JNull]) (Some (JBool True))))
     = Inr (DoveResult ''d1'' True (JArray [JNull]) (Some (JBool True)))"
  by (rule decode_roundtrip) simp

lemma explicit_null_lost:
  "decode_value (ser_response (DoveResult ''d1'' True JNull (Some JNull)))
     = Inr (DoveResult ''d1'' True JNull None)"
  by (simp add: decode_ser_tagged decode_tag_def payload_def strip_type_tagged fld_opt_def
        de_dove_body_def dove_from_body_def req_def dflt_def wire_simps de_option_def del: strip_type.simps)

section \<open>Terse rows\<close>

definition row_spec :: "column list \<Rightarrow> value \<Rightarrow> (string \<Rightarrow> value option) option" where
  "row_spec cols r =
     (case r of
        JObject m \<Rightarrow> Some (map_of m)
      | JArray cells \<Rightarrow>
          (if cols \<noteq> [] \<and> length cells \<le> length cols
           then Some (map_of (rev (zip (map col_name cols) cells))) else None)
      | _ \<Rightarrow> None)"

lemma name_cells_lookup:
  "i + length cs \<le> length cols \<Longrightarrow>
   \<exists>m'. name_cells cols idx i cs m = Inr m' \<and>
        map_of m' = map_of m ++ map_of (rev (zip (map col_name (drop i cols)) cs))"
proof (induction cs arbitrary: i m)
  case Nil
  then show ?case by simp
next
  case (Cons c cs)
  then have i: "i < length cols" by simp
  from Cons.prems have "Suc i + length cs \<le> length cols" by simp
  from Cons.IH [OF this, of "obj_insert (col_name (cols ! i)) c m"]
  obtain m' where m': "name_cells cols idx (Suc i) cs (obj_insert (col_name (cols ! i)) c m) = Inr m'"
    and l: "map_of m' = map_of (obj_insert (col_name (cols ! i)) c m) ++
              map_of (rev (zip (map col_name (drop (Suc i) cols)) cs))"
    by blast
  have "drop i cols = cols ! i # drop (Suc i) cols"
    using i by (simp add: Cons_nth_drop_Suc)
  moreover have "(map_of m)(k \<mapsto> c) ++ X = map_of m ++ ([k \<mapsto> c] ++ X)" for k X
    by (rule ext) (simp add: map_add_def split: option.splits)
  ultimately show ?case using i m' l by simp
qed

lemma named_row_spec:
  "(case named_row cols idx r of Inl _ \<Rightarrow> None | Inr m \<Rightarrow> Some (map_of m)) = row_spec cols r"
proof (cases r)
  case (JArray cells)
  show ?thesis
  proof (cases "cols \<noteq> [] \<and> length cells \<le> length cols")
    case True
    with name_cells_lookup [of 0 cells cols idx "[]"] JArray show ?thesis
      by (auto simp: row_spec_def)
  qed (use JArray in \<open>auto simp: row_spec_def\<close>)
qed (simp_all add: row_spec_def)

lemma named_rows_spec:
  "(case named_rows cols idx rs of Inl _ \<Rightarrow> None | Inr ms \<Rightarrow> Some (map map_of ms))
     = those (map (row_spec cols) rs)"
proof (induction rs arbitrary: idx)
  case Nil
  then show ?case by simp
next
  case (Cons r rs)
  from Cons.IH [of "Suc idx", symmetric] named_row_spec [of cols idx r, symmetric] show ?case
    by (cases "named_row cols idx r"; cases "named_rows cols (Suc idx) rs") auto
qed

text \<open>
  C26. Naming of rows: the wire reader succeeds exactly when every row is an object, or an array
  of at most as many cells as there are columns and there are columns; then row by row it
  agrees with the look-up specification, in which a cell is found under its column's name and
  the last column of a name wins.
\<close>

theorem named_rows_from_wire_spec:
  "(case named_rows_from_wire md data of Inl _ \<Rightarrow> None | Inr ms \<Rightarrow> Some (map map_of ms))
     = those (map (row_spec (md_columns md)) data)"
  by (simp add: named_rows_from_wire_def named_rows_spec)

lemma name_cells_no_missing:
  "i + length cs \<le> length cols \<Longrightarrow> name_cells cols idx i cs m \<noteq> Inl e"
  using name_cells_lookup [of i cs cols idx m] by auto

lemma named_row_errors:
  "named_row cols idx r = Inl e \<Longrightarrow>
   e = TerseRowsNoColumns \<and> cols = [] \<or> (\<exists>n. e = TerseRowTooLong idx n (length cols) \<and> length cols < n) \<or> e = BadRowShape idx r"
  using name_cells_no_missing by (cases r) (auto split: if_splits)

section \<open>Untagged frames\<close>

lemma de_query_result_is_done:
  assumes "de_query_result_raw v = Inr raw" "de_query_result v = Inr q"
  shows "qr_is_done q = (case qd_is_done raw of Some b \<Rightarrow> b | None \<Rightarrow> \<not> qr_has_results q \<and> qr_data q = [])"
  using assms by (auto simp: de_query_result_def result_simps Let_def split: option.splits)

lemma de_fields_success:
  assumes "de_fields specs (JObject ob) = Inr e" "find (\<lambda>fs. fst fs = k) specs = Some (k, [])"
  shows "e k = (case map_of ob k of None \<Rightarrow> Inl (MissingField k) | Some v \<Rightarrow> Inr v)"
  using assms by (auto simp: de_fields.simps present_plain split: option.splits)

lemma de_query_result_raw_fields:
  assumes "de_query_result_raw (JObject ob) = Inr raw"
  shows "map_of ob ''id'' = Some (JString (qd_id raw))" "map_of ob ''success'' = Some (JBool (qd_success raw))"
proof -
  from assms obtain e where e: "de_fields query_result_fields (JObject ob) = Inr e"
    and i: "req e ''id'' de_string = Inr (qd_id raw)" and s: "req e ''success'' de_bool = Inr (qd_success raw)"
    by (auto simp: de_query_result_raw_def bindR_eq_Inr)
  have "e ''id'' = (case map_of ob ''id'' of None \<Rightarrow> Inl (MissingField ''id'') | Some v \<Rightarrow> Inr v)"
       "e ''success'' = (case map_of ob ''success'' of None \<Rightarrow> Inl (MissingField ''success'') | Some v \<Rightarrow> Inr v)"
    by (rule de_fields_success [OF e]; simp add: query_result_fields_def)+
  with i s show "map_of ob ''id'' = Some (JString (qd_id raw))" "map_of ob ''success'' = Some (JBool (qd_success raw))"
    by (auto simp: result_simps elim!: de_string.elims de_bool.elims split: option.splits)
qed

lemma req_string_field:
  assumes "de_fields specs (JObject ob) = Inr e" "find (\<lambda>fs. fst fs = k) specs = Some (k, [])"
    "req e k de_string = Inr x"
  shows "map_of ob k = Some (JString x)"
  using assms(3) de_fields_success [OF assms(1,2)]
  by (auto simp: req_eq_Inr elim!: de_string.elims split: option.splits)

lemma req_bool_field:
  assumes "de_fields specs (JObject ob) = Inr e" "find (\<lambda>fs. fst fs = k) specs = Some (k, [])"
    "req e k de_bool = Inr x"
  shows "map_of ob k = Some (JBool x)"
  using assms(3) de_fields_success [OF assms(1,2)]
  by (auto simp: req_eq_Inr elim!: de_bool.elims split: option.splits)

lemma de_id_body_id: "de_id_body (JObject ob) = Inr i \<Longrightarrow> map_of ob ''id'' = Some (JString i)"
  by (auto simp: de_id_body_def bindR_eq_Inr elim: req_string_field)

lemma de_success_body_id:
  "de_success_body (JObject ob) = Inr (i, s) \<Longrightarrow> map_of ob ''id'' = Some (JString i)"
  by (auto simp: de_success_body_def bindR_eq_Inr elim: req_string_field)

lemma de_connected_body_id:
  "de_connected_body (JObject ob) = Inr (i, r, j) \<Longrightarrow> map_of ob ''id'' = Some (JString i)"
  by (auto simp: de_connected_body_def bindR_eq_Inr elim: req_string_field)

lemma de_prepared_body_id:
  "de_prepared_body (JObject ob) = Inr b \<Longrightarrow> map_of ob ''id'' = Some (JString (pb_id b))"
  by (auto simp: de_prepared_body_def bindR_eq_Inr elim: req_string_field)

lemma de_cl_result_body_id:
  "de_cl_result_body (JObject ob) = Inr (i, s, m) \<Longrightarrow> map_of ob ''id'' = Some (JString i)"
  by (auto simp: de_cl_result_body_def bindR_eq_Inr elim: req_string_field)

lemma de_named_body_id:
  "de_named_body k (JObject ob) = Inr (i, s, x) \<Longrightarrow> map_of ob ''id'' = Some (JString i)"
  by (auto simp: de_named_body_def bindR_eq_Inr elim: req_string_field)

lemma de_trace_data_body_id:
  "de_trace_data_body (JObject ob) = Inr (i, s, x) \<Longrightarrow> map_of ob ''id'' = Some (JString i)"
  by (auto simp: de_trace_data_body_def bindR_eq_Inr elim: req_string_field)

lemma de_dove_body_fields:
  assumes "de_dove_body (JObject ob) = Inr b"
  shows "map_of ob ''id'' = Some (JString (db_id b))"
    and "map_of ob ''success'' = Some (JBool (db_success b))"
  using assms by (auto simp: de_dove_body_def bindR_eq_Inr elim: req_string_field req_bool_field)

lemma de_error_response_fields:
  assumes "de_error_response (JObject ob) = Inr e"
  shows "map_of ob ''id'' = Some (JString (er_id e))"
    and "map_of ob ''success'' = Some (JBool (er_success e))"
  using assms by (auto simp: de_error_response_def bindR_eq_Inr elim: req_string_field req_bool_field)

lemma de_query_result_fields:
  assumes "de_query_result (JObject ob) = Inr q"
  shows "map_of ob ''id'' = Some (JString (qr_id q))"
    and "map_of ob ''success'' = Some (JBool (qr_success q))"
  using assms de_query_result_raw_fields [of ob]
  by (auto simp: de_query_result_def bindR_eq_Inr Let_def)

lemmas body_ids = de_id_body_id de_success_body_id de_connected_body_id de_prepared_body_id
  de_cl_result_body_id de_named_body_id de_trace_data_body_id de_dove_body_fields(1)
  de_error_response_fields(1) de_query_result_fields(1)

lemma str_field_String: "map_of ob k = Some (JString i) \<Longrightarrow> str_field ob k = i"
  by (simp add: str_field_def obj_get_def)

lemma response_id_dove [simp]: "response_id (dove_from_body b) = db_id b"
  by (simp add: dove_from_body_def)

lemma response_id_prepared [simp]: "response_id (prepared_response b) = pb_id b"
  by (simp add: prepared_response_def)

lemma payload_object: "payload f (JObject ob) = f (JObject (obj_remove ''type'' ob))"
  by (simp add: payload_def)

lemma removed_id: "map_of (obj_remove ''type'' ob) ''id'' = map_of ob ''id''"
  by simp

lemma decode_tag_id:
  assumes "decode_tag tag (JObject ob) = Inr r"
  shows "str_field ob ''id'' = response_id r"
proof -
  have "map_of (obj_remove ''type'' ob) ''id'' = Some (JString (response_id r))"
    using assms
    by (auto simp: decode_tag_def payload_object bindR_eq_Inr de_version_body_def de_db_job_body_def
        simp del: map_of_obj_remove split: if_splits intro: body_ids)
  then show ?thesis by (auto intro: str_field_String)
qed

lemma decode_untagged_id:
  assumes "decode_untagged ob = Inr r"
  shows "str_field ob ''id'' = response_id r"
  using assms
  by (auto simp: decode_untagged_def Let_def decode_dove_def bindR_eq_Inr str_field_String
      split: if_splits dest!: body_ids)

section \<open>Ids and failures\<close>

text \<open>
  The id of a decoded answer is the frame's own \<open>id\<close> string (the empty string when the
  frame has none or one of another type), so an answer is routed by the id on the wire.
\<close>

theorem decode_value_id:
  "decode_value (JObject ob) = Inr r \<Longrightarrow> response_id r = str_field ob ''id''"
  by (auto simp: decode_value_def decode_tagged_def decode_tag_id decode_untagged_id
      split: if_splits option.splits json.splits)

theorem decode_value_id_witness:
  "decode_value (JObject [(''id'', JString ''v1''), (''version'', JString ''2.3.5'')])
     = Inr (Version ''v1'' True ''2.3.5'') \<and>
   response_id (Version ''v1'' True ''2.3.5'')
     = str_field [(''id'', JString ''v1''), (''version'', JString ''2.3.5'')] ''id''"
proof -
  have d: "decode_value (JObject [(''id'', JString ''v1''), (''version'', JString ''2.3.5'')])
             = Inr (Version ''v1'' True ''2.3.5'')"
    by (simp add: decode_value_def contains_key_def decode_untagged_def obj_get_def str_field_def)
  from d decode_value_id [OF d] show ?thesis by blast
qed

fun reports_failure :: "response \<Rightarrow> bool" where
  "reports_failure (QueryResult q) = (\<not> qr_success q)"
| "reports_failure (DoveResult i s d m) = (\<not> s)"
| "reports_failure (ErrorResp e) = (\<not> er_success e)"
| "reports_failure _ = False"

text \<open>
  C25. An untagged frame whose \<open>success\<close> is false is never read as an acknowledgement: whatever
  its other keys, it becomes a query result, an explain result or an error, and that answer
  says the request failed.
\<close>

theorem failed_frame_reports_failure:
  assumes "map_of ob ''type'' = None" and "map_of ob ''success'' = Some (JBool False)"
    and "decode_value (JObject ob) = Inr r"
  shows "reports_failure r"
  using assms de_dove_body_fields(2) [of ob] de_query_result_fields(2) [of ob]
    de_error_response_fields(2) [of ob]
  by (auto simp: decode_value_def contains_key_def decode_untagged_def obj_get_def Let_def
      decode_dove_def dove_from_body_def bindR_eq_Inr split: if_splits)

theorem failed_frame_reports_failure_witness:
  "\<exists>r. decode_value (JObject [(''id'', JString ''x''), (''success'', JBool False),
                              (''cont_id'', JString ''c'')]) = Inr r \<and> reports_failure r"
proof -
  let ?ob = "[(''id'', JString ''x''), (''success'', JBool False), (''cont_id'', JString ''c'')]"
  have d: "decode_value (JObject ?ob) = Inr (ErrorResp \<lparr>er_id = ''x'', er_success = False,
      er_sqlstate = None, er_sqlcode = None, er_error = None, er_job = None\<rparr>)"
    by (simp add: decode_value_def contains_key_def decode_untagged_def obj_get_def
        de_error_response_def de_fields.simps present_def req_def dflt_def)
  have "reports_failure (ErrorResp \<lparr>er_id = ''x'', er_success = False,
      er_sqlstate = None, er_sqlcode = None, er_error = None, er_job = None\<rparr>)"
    by (rule failed_frame_reports_failure [OF _ _ d]) simp_all
  with d show ?thesis by blast
qed

end
