(* ===== verification/Errors.thy ===== *)
theory Errors
  imports Decode
begin

text \<open>
  The crate's errors (\<^verbatim>\<open>src/src/error.rs\<close>), the conversions into them, the classification of
  server errors by SQLSTATE, and the helpers of \<^verbatim>\<open>src/src/job_helpers.rs\<close> that turn daemon
  answers into errors.

  An error of a foreign library is represented by the text it displays (\<open>Io\<close>, \<open>JsonSyntax\<close>,
  the argument of \<open>Internal\<close>). A message that embeds the derived \<open>Debug\<close> rendering of an answer
  is kept symbolic: the literal prefix and the answer (\<open>DebugOf\<close>).
\<close>

section \<open>Error types\<close>

datatype message = Text string | DebugOf string response

datatype transport_error = Io string | Closed

datatype protocol_error =
    Json de_error
  | CorrelationMismatch string message
  | UnknownResponseType message
  | ZeroPageSize
  | TerseRowsWithoutColumns
  | EmptyParameterSets

datatype decode_error = SerdeDecode de_error | MissingColumn string

record diagnostic_item =
  di_message_id :: "string option"
  di_text :: string

record server_error =
  se_message :: string
  se_sqlstate :: "string option"
  se_sqlcode :: "i32 option"
  se_job_name :: "string option"
  se_diagnostics :: "diagnostic_item list"

datatype error =
    Transport transport_error
  | Server server_error
  | Auth string
  | Protocol protocol_error
  | Decode "string option" decode_error
  | PoolExhausted duration
  | Cancelled
  | Internal string

text \<open>The conversions of the source: an I/O error is a transport error, a JSON error a protocol error.\<close>

definition error_from_transport :: "transport_error \<Rightarrow> error" where
  "error_from_transport e = Transport e"

definition error_from_protocol :: "protocol_error \<Rightarrow> error" where
  "error_from_protocol e = Protocol e"

definition error_from_server :: "server_error \<Rightarrow> error" where
  "error_from_server e = Server e"

definition error_from_io :: "string \<Rightarrow> error" where
  "error_from_io e = Transport (Io e)"

definition error_from_json :: "de_error \<Rightarrow> error" where
  "error_from_json e = Protocol (Json e)"

lemmas error_from_defs = error_from_transport_def error_from_protocol_def error_from_server_def
  error_from_io_def error_from_json_def

section \<open>SQLSTATE classes\<close>

definition is_transient :: "server_error \<Rightarrow> bool" where
  "is_transient e =
     (case se_sqlstate e of
        None \<Rightarrow> False
      | Some s \<Rightarrow> starts_with s ''08'' \<or> s = ''40001'' \<or> s = ''57033'')"

definition is_constraint_violation :: "server_error \<Rightarrow> bool" where
  "is_constraint_violation e =
     (case se_sqlstate e of None \<Rightarrow> False | Some s \<Rightarrow> starts_with s ''23'')"

definition is_authorization :: "server_error \<Rightarrow> bool" where
  "is_authorization e =
     (case se_sqlstate e of None \<Rightarrow> False | Some s \<Rightarrow> starts_with s ''28'' \<or> s = ''42501'')"

definition is_object_not_found :: "server_error \<Rightarrow> bool" where
  "is_object_not_found e =
     (case se_sqlstate e of None \<Rightarrow> False | Some s \<Rightarrow> s = ''42704'' \<or> s = ''42S02'')"

definition is_data_type_mismatch :: "server_error \<Rightarrow> bool" where
  "is_data_type_mismatch e =
     (case se_sqlstate e of None \<Rightarrow> False | Some s \<Rightarrow> starts_with s ''22'')"

lemmas sqlstate_class_defs = is_transient_def is_constraint_violation_def is_authorization_def
  is_object_not_found_def is_data_type_mismatch_def

section \<open>Messages of decoding errors\<close>

text \<open>
  The text of a decoding error. The dispatcher searches it for a phrase, so the messages the
  code composes are written out; \<open>show_json\<close> (the printer's rendering of a value) and
  \<open>render\<close> (the wording of the derived readers) are parameters.
\<close>

definition terse_phrase :: string where
  "terse_phrase = ''terse row data requires metadata.columns''"

fun de_message :: "(value \<Rightarrow> string) \<Rightarrow> (serde_reason \<Rightarrow> string) \<Rightarrow> de_error \<Rightarrow> string" where
  "de_message show_json render NotAnObject = ''response is not a JSON object''"
| "de_message show_json render MissingTypeTag = ''missing type''"
| "de_message show_json render (UnknownResponseTag tag) = ''unknown response type: '' @ tag"
| "de_message show_json render UnrecognizedUntagged = ''unrecognized untagged response object''"
| "de_message show_json render TerseRowsNoColumns = terse_phrase"
| "de_message show_json render (TerseRowTooLong idx n m) =
     ''terse row '' @ show_nat idx @ '' has '' @ show_nat n @
     '' values but metadata.columns has '' @ show_nat m"
| "de_message show_json render (TerseRowMissingColumn idx i) =
     ''terse row '' @ show_nat idx @ '' is missing metadata.columns['' @ show_nat i @ '']''"
| "de_message show_json render (BadRowShape idx v) =
     ''query row '' @ show_nat idx @ '' must be a JSON object or array, got '' @ show_json v"
| "de_message show_json render (SeverityShape v) =
     ''SEVERITY must be a string or number, got '' @ show_json v"
| "de_message show_json render ParametersNotArray = ''parameters must be a JSON array''"
| "de_message show_json render (Serde r) = render r"
| "de_message show_json render (JsonSyntax s) = s"

section \<open>Answers as errors\<close>

definition unexpected :: "response \<Rightarrow> error" where
  "unexpected r =
     error_from_protocol (UnknownResponseType (DebugOf ''unexpected variant: '' r))"

definition server_error_from :: "error_response \<Rightarrow> error" where
  "server_error_from e = error_from_server
     \<lparr>se_message = unwrap_or ''daemon returned error response with no message'' (er_error e),
      se_sqlstate = er_sqlstate e, se_sqlcode = er_sqlcode e, se_job_name = er_job e,
      se_diagnostics = []\<rparr>"

definition server_failed :: "string \<Rightarrow> error" where
  "server_failed meth = error_from_server
     \<lparr>se_message = ''daemon returned success=false for '' @ meth,
      se_sqlstate = None, se_sqlcode = None, se_job_name = None, se_diagnostics = []\<rparr>"

section \<open>Facts\<close>

text \<open>
  The five SQLSTATE predicates are mutually exclusive: no server error is in two of the
  classes transient, constraint violation, authorization, object not found, data conversion.
\<close>

theorem sqlstate_classes_exclusive:
  "length (filter (\<lambda>p. p e) [is_transient, is_constraint_violation, is_authorization,
     is_object_not_found, is_data_type_mismatch]) \<le> 1"
  by (cases "se_sqlstate e") (auto simp: sqlstate_class_defs starts_with_def prefix_def)

lemma server_error_classes [simp]:
  "server_error_from e = Server s \<Longrightarrow> se_sqlstate s = er_sqlstate e"
  by (auto simp: server_error_from_def error_from_defs)

end
