(* ===== verification/Display.thy ===== *)
theory Display
  imports Errors
begin

text \<open>
  What the errors display (the \<open>#[error(...)]\<close> attributes and \<open>Display for ServerError\<close> of
  \<^verbatim>\<open>src/src/error.rs\<close>). The renderings of values are arguments: Rust's \<open>Debug\<close> of a string and of an
  answer, and of a duration, and serde's and serde_json's own texts.
\<close>

section \<open>Texts\<close>

record rendering =
  rn_debug_str :: "string \<Rightarrow> string"
  rn_debug_response :: "response \<Rightarrow> string"
  rn_debug_duration :: "duration \<Rightarrow> string"
  rn_json :: "de_error \<Rightarrow> string"

definition show_i32 :: "i32 \<Rightarrow> string" where
  "show_i32 w =
     (if sint w < 0 then CHR ''-'' # show_nat (nat (- sint w)) else show_nat (nat (sint w)))"

definition debug_option :: "('a \<Rightarrow> string) \<Rightarrow> 'a option \<Rightarrow> string" where
  "debug_option f x = (case x of None \<Rightarrow> ''None'' | Some y \<Rightarrow> ''Some('' @ f y @ '')'')"

definition display_message :: "rendering \<Rightarrow> message \<Rightarrow> string" where
  "display_message R m =
     (case m of Text s \<Rightarrow> s | DebugOf p r \<Rightarrow> p @ rn_debug_response R r)"

definition display_transport :: "transport_error \<Rightarrow> string" where
  "display_transport e =
     (case e of Io s \<Rightarrow> ''io: '' @ s | Closed \<Rightarrow> ''connection closed by peer'')"

definition display_protocol :: "rendering \<Rightarrow> protocol_error \<Rightarrow> string" where
  "display_protocol R e =
     (case e of
        Json x \<Rightarrow> ''malformed JSON: '' @ rn_json R x
      | CorrelationMismatch expected got \<Rightarrow>
          ''response correlation mismatch: expected id '' @ expected @ '', got '' @ display_message R got
      | UnknownResponseType t \<Rightarrow> ''unknown response type: '' @ display_message R t
      | ZeroPageSize \<Rightarrow> ''rows must be greater than 0''
      | TerseRowsWithoutColumns \<Rightarrow> ''terse row data requires metadata.columns''
      | EmptyParameterSets \<Rightarrow> ''parameter sets must be non-empty'')"

definition display_decode :: "rendering \<Rightarrow> decode_error \<Rightarrow> string" where
  "display_decode R e =
     (case e of
        SerdeDecode x \<Rightarrow> ''serde: '' @ rn_json R x
      | MissingColumn c \<Rightarrow> ''column not found: '' @ c)"

definition display_server :: "rendering \<Rightarrow> server_error \<Rightarrow> string" where
  "display_server R e =
     (let codes = ''server error [sqlstate='' @ debug_option (rn_debug_str R) (se_sqlstate e) @
            '' sqlcode='' @ debug_option show_i32 (se_sqlcode e)
      in case se_job_name e of
           Some job \<Rightarrow> codes @ '' job='' @ job @ '']: '' @ se_message e
         | None \<Rightarrow> codes @ '']: '' @ se_message e)"

definition display_error :: "rendering \<Rightarrow> error \<Rightarrow> string" where
  "display_error R e =
     (case e of
        Transport x \<Rightarrow> ''transport: '' @ display_transport x
      | Server x \<Rightarrow> display_server R x
      | Auth s \<Rightarrow> ''authentication failed: '' @ s
      | Protocol x \<Rightarrow> ''protocol: '' @ display_protocol R x
      | Decode column x \<Rightarrow>
          ''decode column '' @ debug_option (rn_debug_str R) column @ '': '' @ display_decode R x
      | PoolExhausted d \<Rightarrow> ''pool exhausted (timeout '' @ rn_debug_duration R d @ '')''
      | Cancelled \<Rightarrow> ''operation cancelled''
      | Internal s \<Rightarrow> ''internal error: '' @ s)"

section \<open>What they show\<close>

text \<open>The diagnostics of a server error are not displayed, its message always is.\<close>

lemma display_server_hides_diagnostics:
  "display_server R (e\<lparr>se_diagnostics := ds\<rparr>) = display_server R e"
  by (simp add: display_server_def Let_def split: option.split)

lemma display_server_ends_in_message: "suffix (se_message e) (display_server R e)"
  by (auto simp: display_server_def Let_def suffix_def split: option.split)

text \<open>
  Errors of different origin never display alike: the display begins with a text of its own for
  each constructor.
\<close>

fun origin :: "error \<Rightarrow> nat" where
  "origin (Transport x) = 0" | "origin (Server x) = 1" | "origin (Auth s) = 2"
| "origin (Protocol x) = 3" | "origin (Decode c x) = 4" | "origin (PoolExhausted d) = 5"
| "origin Cancelled = 6" | "origin (Internal s) = 7"

lemma display_tells_origin:
  "display_error R e = display_error R e' \<Longrightarrow> origin e = origin e'"
  by (cases e; cases e')
     (simp_all add: display_error_def display_server_def Let_def split: option.splits)

end
