(* ===== verification/Request.thy ===== *)
theory Request
  imports Decode
begin

text \<open>
  The client's messages (\<^verbatim>\<open>src/src/protocol/request.rs\<close>): the request union, its derived writer
  and reader (internally tagged by \<open>type\<close>), the wire shape of \<open>prepare_sql_execute.parameters\<close>
  and the hand-written \<open>Debug\<close>.

  The lemmas show that the reader inverts the writer on every request but one: a single
  parameter set all of whose elements are arrays, whose flat form reads as a batch.
\<close>

section \<open>The request union\<close>

text \<open>The fields of a variant are in the order of the source.\<close>

datatype request =
    Connect string string string "string option"
  | Sql string string "u32 option" "value list option" "bool option"
  | PrepareSql string string "bool option"
  | PrepareSqlExecute string string "value list list option" "u32 option" "bool option"
  | Execute string string "value list option" "u32 option" "bool option"
  | SqlMore string string u32
  | SqlClose string string
  | Cl string string "bool option"
  | GetVersion string
  | GetDbJob string
  | SetConfig string string string
  | GetTraceData string
  | Dove string string "bool option" "u32 option" "bool option"
  | Ping string
  | Exit string

section \<open>Parameter sets\<close>

definition ser_parameter_sets :: "value list list option \<Rightarrow> value" where
  "ser_parameter_sets sets =
     (case sets of
        None \<Rightarrow> JNull
      | Some ss \<Rightarrow> if length ss = 1 then JArray (ss ! 0) else JArray (map JArray ss))"

fun inner_array :: "value \<Rightarrow> value list option" where
  "inner_array (JArray xs) = Some xs"
| "inner_array _ = None"

definition de_parameter_sets :: "value list list option de" where
  "de_parameter_sets v =
     (case v of
        JNull \<Rightarrow> Inr None
      | JArray items \<Rightarrow>
          (if list_all is_array items then Inr (Some (List.map_filter inner_array items))
           else Inr (Some [items]))
      | _ \<Rightarrow> Inl ParametersNotArray)"

section \<open>Writer\<close>

definition fld_str :: "string \<Rightarrow> string \<Rightarrow> json_object" where
  "fld_str k s = (if s = [] then [] else [(k, JString s)])"

definition fld_sets :: "value list list option \<Rightarrow> json_object" where
  "fld_sets sets = (if sets = None then [] else [(''parameters'', ser_parameter_sets sets)])"

fun ser_request :: "request \<Rightarrow> value" where
  "ser_request (Connect i t a p) =
     JObject ([(''type'', JString ''connect''), (''id'', JString i), (''technique'', JString t),
               (''application'', JString a)] @ fld_opt ''props'' JString p)"
| "ser_request (Sql i s r ps t) =
     JObject ([(''type'', JString ''sql''), (''id'', JString i), (''sql'', JString s)] @
              fld_opt ''rows'' ser_u32 r @ fld_opt ''parameters'' JArray ps @
              fld_opt ''terse'' JBool t)"
| "ser_request (PrepareSql i s t) =
     JObject ([(''type'', JString ''prepare_sql''), (''id'', JString i), (''sql'', JString s)] @
              fld_opt ''terse'' JBool t)"
| "ser_request (PrepareSqlExecute i s ps r t) =
     JObject ([(''type'', JString ''prepare_sql_execute''), (''id'', JString i),
               (''sql'', JString s)] @ fld_sets ps @ fld_opt ''rows'' ser_u32 r @
              fld_opt ''terse'' JBool t)"
| "ser_request (Execute i c ps r t) =
     JObject ([(''type'', JString ''execute''), (''id'', JString i), (''cont_id'', JString c)] @
              fld_opt ''parameters'' JArray ps @ fld_opt ''rows'' ser_u32 r @
              fld_opt ''terse'' JBool t)"
| "ser_request (SqlMore i c r) =
     JObject [(''type'', JString ''sqlmore''), (''id'', JString i), (''cont_id'', JString c),
              (''rows'', ser_u32 r)]"
| "ser_request (SqlClose i c) =
     JObject [(''type'', JString ''sqlclose''), (''id'', JString i), (''cont_id'', JString c)]"
| "ser_request (Cl i c t) =
     JObject ([(''type'', JString ''cl''), (''id'', JString i), (''cmd'', JString c)] @
              fld_opt ''terse'' JBool t)"
| "ser_request (GetVersion i) =
     JObject [(''type'', JString ''getversion''), (''id'', JString i)]"
| "ser_request (GetDbJob i) = JObject [(''type'', JString ''getdbjob''), (''id'', JString i)]"
| "ser_request (SetConfig i l d) =
     JObject ([(''type'', JString ''setconfig''), (''id'', JString i)] @
              fld_str ''tracelevel'' l @ fld_str ''tracedest'' d)"
| "ser_request (GetTraceData i) =
     JObject [(''type'', JString ''gettracedata''), (''id'', JString i)]"
| "ser_request (Dove i s r n t) =
     JObject ([(''type'', JString ''dove''), (''id'', JString i), (''sql'', JString s)] @
              fld_opt ''run'' JBool r @ fld_opt ''rows'' ser_u32 n @ fld_opt ''terse'' JBool t)"
| "ser_request (Ping i) = JObject [(''type'', JString ''ping''), (''id'', JString i)]"
| "ser_request (Exit i) = JObject [(''type'', JString ''exit''), (''id'', JString i)]"

section \<open>Reader\<close>

text \<open>
  The derived reader takes the tag from the key \<open>type\<close> of an object, or from the first
  element of an array, and reads the variant from what is left. An absent \<open>Option\<close> field
  is \<open>None\<close>.
\<close>

abbreviation plain :: "string list \<Rightarrow> (string \<times> string list) list" where
  "plain ks \<equiv> map (\<lambda>k. (k, [])) ks"

abbreviation opt_fld :: "fields \<Rightarrow> string \<Rightarrow> 'a de \<Rightarrow> de_error + 'a option" where
  "opt_fld e k f \<equiv> dflt e k None (de_option f)"

definition de_id_only :: "(string \<Rightarrow> request) \<Rightarrow> value \<Rightarrow> de_error + request" where
  "de_id_only mk v =
     bindR (de_fields (plain [''id'']) v) (\<lambda>e.
     bindR (req e ''id'' de_string) (\<lambda>i. Inr (mk i)))"

definition de_sql_body :: "value \<Rightarrow> de_error + request" where
  "de_sql_body v =
     bindR (de_fields (plain [''id'', ''sql'', ''rows'', ''parameters'', ''terse'']) v) (\<lambda>e.
     bindR (req e ''id'' de_string) (\<lambda>i.
     bindR (req e ''sql'' de_string) (\<lambda>s.
     bindR (opt_fld e ''rows'' de_u32) (\<lambda>r.
     bindR (opt_fld e ''parameters'' (de_vec de_value)) (\<lambda>ps.
     bindR (opt_fld e ''terse'' de_bool) (\<lambda>t. Inr (Sql i s r ps t)))))))"

definition de_prepare_execute_body :: "value \<Rightarrow> de_error + request" where
  "de_prepare_execute_body v =
     bindR (de_fields (plain [''id'', ''sql'', ''parameters'', ''rows'', ''terse'']) v) (\<lambda>e.
     bindR (req e ''id'' de_string) (\<lambda>i.
     bindR (req e ''sql'' de_string) (\<lambda>s.
     bindR (dflt e ''parameters'' None de_parameter_sets) (\<lambda>ps.
     bindR (opt_fld e ''rows'' de_u32) (\<lambda>r.
     bindR (opt_fld e ''terse'' de_bool) (\<lambda>t. Inr (PrepareSqlExecute i s ps r t)))))))"

definition de_execute_body :: "value \<Rightarrow> de_error + request" where
  "de_execute_body v =
     bindR (de_fields (plain [''id'', ''cont_id'', ''parameters'', ''rows'', ''terse'']) v) (\<lambda>e.
     bindR (req e ''id'' de_string) (\<lambda>i.
     bindR (req e ''cont_id'' de_string) (\<lambda>c.
     bindR (opt_fld e ''parameters'' (de_vec de_value)) (\<lambda>ps.
     bindR (opt_fld e ''rows'' de_u32) (\<lambda>r.
     bindR (opt_fld e ''terse'' de_bool) (\<lambda>t. Inr (Execute i c ps r t)))))))"

definition de_dove_request_body :: "value \<Rightarrow> de_error + request" where
  "de_dove_request_body v =
     bindR (de_fields (plain [''id'', ''sql'', ''run'', ''rows'', ''terse'']) v) (\<lambda>e.
     bindR (req e ''id'' de_string) (\<lambda>i.
     bindR (req e ''sql'' de_string) (\<lambda>s.
     bindR (opt_fld e ''run'' de_bool) (\<lambda>r.
     bindR (opt_fld e ''rows'' de_u32) (\<lambda>n.
     bindR (opt_fld e ''terse'' de_bool) (\<lambda>t. Inr (Dove i s r n t)))))))"

definition de_connect_request_body :: "request de" where
  "de_connect_request_body v =
     bindR (de_fields (plain [''id'', ''technique'', ''application'', ''props'']) v) (\<lambda>e.
     bindR (req e ''id'' de_string) (\<lambda>i.
     bindR (req e ''technique'' de_string) (\<lambda>t.
     bindR (req e ''application'' de_string) (\<lambda>a.
     bindR (opt_fld e ''props'' de_string) (\<lambda>p. Inr (Connect i t a p))))))"

definition de_prepare_body :: "request de" where
  "de_prepare_body v =
     bindR (de_fields (plain [''id'', ''sql'', ''terse'']) v) (\<lambda>e.
     bindR (req e ''id'' de_string) (\<lambda>i.
     bindR (req e ''sql'' de_string) (\<lambda>s.
     bindR (opt_fld e ''terse'' de_bool) (\<lambda>t. Inr (PrepareSql i s t)))))"

definition de_sql_more_body :: "request de" where
  "de_sql_more_body v =
     bindR (de_fields (plain [''id'', ''cont_id'', ''rows'']) v) (\<lambda>e.
     bindR (req e ''id'' de_string) (\<lambda>i.
     bindR (req e ''cont_id'' de_string) (\<lambda>c.
     bindR (req e ''rows'' de_u32) (\<lambda>r. Inr (SqlMore i c r)))))"

definition de_sql_close_body :: "request de" where
  "de_sql_close_body v =
     bindR (de_fields (plain [''id'', ''cont_id'']) v) (\<lambda>e.
     bindR (req e ''id'' de_string) (\<lambda>i.
     bindR (req e ''cont_id'' de_string) (\<lambda>c. Inr (SqlClose i c))))"

definition de_cl_body :: "request de" where
  "de_cl_body v =
     bindR (de_fields (plain [''id'', ''cmd'', ''terse'']) v) (\<lambda>e.
     bindR (req e ''id'' de_string) (\<lambda>i.
     bindR (req e ''cmd'' de_string) (\<lambda>c.
     bindR (opt_fld e ''terse'' de_bool) (\<lambda>t. Inr (Cl i c t)))))"

definition de_set_config_body :: "request de" where
  "de_set_config_body v =
     bindR (de_fields (plain [''id'', ''tracelevel'', ''tracedest'']) v) (\<lambda>e.
     bindR (req e ''id'' de_string) (\<lambda>i.
     bindR (dflt e ''tracelevel'' [] de_string) (\<lambda>l.
     bindR (dflt e ''tracedest'' [] de_string) (\<lambda>d. Inr (SetConfig i l d)))))"

definition de_request_body :: "string \<Rightarrow> value \<Rightarrow> de_error + request" where
  "de_request_body tag v =
     (if tag = ''connect'' then de_connect_request_body v
      else if tag = ''sql'' then de_sql_body v
      else if tag = ''prepare_sql'' then de_prepare_body v
      else if tag = ''prepare_sql_execute'' then de_prepare_execute_body v
      else if tag = ''execute'' then de_execute_body v
      else if tag = ''sqlmore'' then de_sql_more_body v
      else if tag = ''sqlclose'' then de_sql_close_body v
      else if tag = ''cl'' then de_cl_body v
      else if tag = ''getversion'' then de_id_only GetVersion v
      else if tag = ''getdbjob'' then de_id_only GetDbJob v
      else if tag = ''setconfig'' then de_set_config_body v
      else if tag = ''gettracedata'' then de_id_only GetTraceData v
      else if tag = ''dove'' then de_dove_request_body v
      else if tag = ''ping'' then de_id_only Ping v
      else if tag = ''exit'' then de_id_only Exit v
      else Inl (Serde (UnknownVariant tag)))"

fun de_request :: "request de" where
  "de_request (JObject ob) =
     (case obj_get ob ''type'' of
        None \<Rightarrow> Inl (Serde (MissingField ''type''))
      | Some (JString tag) \<Rightarrow> de_request_body tag (JObject (obj_remove ''type'' ob))
      | Some v \<Rightarrow> Inl (Serde (InvalidType v ''variant identifier'')))"
| "de_request (JArray []) = Inl (Serde (MissingField ''type''))"
| "de_request (JArray (JString tag # xs)) = de_request_body tag (JArray xs)"
| "de_request (JArray (v # xs)) = Inl (Serde (InvalidType v ''variant identifier''))"
| "de_request v = Inl (Serde (InvalidType v ''internally tagged enum Request''))"

section \<open>Debug\<close>

text \<open>
  What a \<open>Debug\<close> implementation hands to the formatter: the name and the fields in order
  (\<open>DTuple\<close> a tuple variant, \<open>DWritten\<close> text written as it is).
\<close>

datatype dbg =
    DString string
  | DU32 u32
  | DBool bool
  | DNone
  | DSome dbg
  | DValues "value list"
  | DSets "value list list"
  | DU16 u16
  | DBytes "u8 list"
  | DTuple string "dbg list"
  | DWritten string

type_synonym dbg_struct = "string \<times> (string \<times> dbg) list"

definition dbg_option :: "('a \<Rightarrow> dbg) \<Rightarrow> 'a option \<Rightarrow> dbg" where
  "dbg_option f x = (case x of None \<Rightarrow> DNone | Some y \<Rightarrow> DSome (f y))"

fun debug_request :: "request \<Rightarrow> dbg_struct" where
  "debug_request (Connect i t a p) =
     (''Connect'', [(''id'', DString i), (''technique'', DString t),
                    (''application'', DString a), (''props'', dbg_option DString p)])"
| "debug_request (Sql i s r ps t) =
     (''Sql'', [(''id'', DString i), (''sql'', DString s), (''rows'', dbg_option DU32 r),
                (''parameters'', dbg_option DValues ps), (''terse'', dbg_option DBool t)])"
| "debug_request (PrepareSql i s t) =
     (''PrepareSql'', [(''id'', DString i), (''sql'', DString s), (''terse'', dbg_option DBool t)])"
| "debug_request (PrepareSqlExecute i s ps r t) =
     (''PrepareSqlExecute'', [(''id'', DString i), (''sql'', DString s),
                              (''parameters'', dbg_option DSets ps), (''rows'', dbg_option DU32 r),
                              (''terse'', dbg_option DBool t)])"
| "debug_request (Execute i c ps r t) =
     (''Execute'', [(''id'', DString i), (''cont_id'', DString c),
                    (''parameters'', dbg_option DValues ps), (''rows'', dbg_option DU32 r),
                    (''terse'', dbg_option DBool t)])"
| "debug_request (SqlMore i c r) =
     (''SqlMore'', [(''id'', DString i), (''cont_id'', DString c), (''rows'', DU32 r)])"
| "debug_request (SqlClose i c) =
     (''SqlClose'', [(''id'', DString i), (''cont_id'', DString c)])"
| "debug_request (Cl i c t) =
     (''Cl'', [(''id'', DString i), (''cmd'', DString c), (''terse'', dbg_option DBool t)])"
| "debug_request (GetVersion i) = (''GetVersion'', [(''id'', DString i)])"
| "debug_request (GetDbJob i) = (''GetDbJob'', [(''id'', DString i)])"
| "debug_request (GetTraceData i) = (''GetTraceData'', [(''id'', DString i)])"
| "debug_request (SetConfig i l d) =
     (''SetConfig'', [(''id'', DString i), (''tracelevel'', DString l), (''tracedest'', DString d)])"
| "debug_request (Dove i s r n t) =
     (''Dove'', [(''id'', DString i), (''sql'', DString s), (''run'', dbg_option DBool r),
                 (''rows'', dbg_option DU32 n), (''terse'', dbg_option DBool t)])"
| "debug_request (Ping i) = (''Ping'', [(''id'', DString i)])"
| "debug_request (Exit i) = (''Exit'', [(''id'', DString i)])"

lemma dbg_option_inject:
  "(\<And>a b. f a = f b \<Longrightarrow> a = b) \<Longrightarrow> dbg_option f x = dbg_option f y \<longleftrightarrow> x = y"
  by (auto simp: dbg_option_def split: option.splits)

lemmas dbg_option_injects [simp] =
  dbg_option_inject [of DString, OF dbg.inject(1) [THEN iffD1]]
  dbg_option_inject [of DU32, OF dbg.inject(2) [THEN iffD1]]
  dbg_option_inject [of DBool, OF dbg.inject(3) [THEN iffD1]]
  dbg_option_inject [of DValues, OF dbg.inject(5) [THEN iffD1]]
  dbg_option_inject [of DSets, OF dbg.inject(6) [THEN iffD1]]

lemma debug_request_inject: "debug_request r = debug_request s \<longleftrightarrow> r = s"
  by (cases r; cases s) auto

section \<open>Round trip\<close>

text \<open>A single parameter set whose elements are all arrays is written in the shape of a batch.\<close>

fun ambiguous_sets :: "value list list option \<Rightarrow> bool" where
  "ambiguous_sets (Some [s]) = list_all is_array s"
| "ambiguous_sets _ = False"

fun ambiguous_request :: "request \<Rightarrow> bool" where
  "ambiguous_request (PrepareSqlExecute i s ps r t) = ambiguous_sets ps"
| "ambiguous_request _ = False"

lemma list_all_is_array_map [simp]: "list_all is_array (map JArray ss)"
  by (induction ss) simp_all

lemma map_filter_inner_array [simp]: "List.map_filter inner_array (map JArray ss) = ss"
  by (induction ss) (simp_all add: List.map_filter_def)

lemma de_ser_parameter_sets:
  "de_parameter_sets (ser_parameter_sets sets) = Inr sets \<longleftrightarrow> \<not> ambiguous_sets sets"
proof (cases "\<exists>s. sets = Some [s]")
  case True
  then obtain s where s: "sets = Some [s]" by blast
  show ?thesis
  proof (cases "list_all is_array s")
    case True
    have "List.map_filter inner_array s \<noteq> [s]"
    proof
      assume eq: "List.map_filter inner_array s = [s]"
      from True have "map JArray (List.map_filter inner_array s) = s"
        by (induction s) (auto simp: List.map_filter_def elim!: is_array.elims)
      with eq have "[JArray s] = s" by simp
      then have "size_list size [JArray s] = size_list size s" by simp
      then show False by simp
    qed
    with s True show ?thesis by (simp add: de_parameter_sets_def ser_parameter_sets_def)
  qed (simp add: s de_parameter_sets_def ser_parameter_sets_def)
next
  case False
  then have "\<not> ambiguous_sets sets" by (cases sets rule: ambiguous_sets.cases) auto
  moreover have "length ss \<noteq> 1" if "sets = Some ss" for ss
    using False that by (auto simp: length_Suc_conv)
  ultimately show ?thesis
    by (cases sets) (auto simp: de_parameter_sets_def ser_parameter_sets_def)
qed

lemma plain_env:
  "de_fields (plain ks) (JObject ob) =
     Inr (\<lambda>k. if k \<in> set ks then (case map_of ob k of None \<Rightarrow> Inl (MissingField k) | Some x \<Rightarrow> Inr x)
              else Inl (MissingField k))"
  by (subst de_fields_plain) (auto simp: image_image)

lemmas request_rt = de_request_body_def de_connect_request_body_def de_prepare_body_def
  de_sql_more_body_def de_sql_close_body_def de_cl_body_def de_set_config_body_def de_sql_body_def de_prepare_execute_body_def
  de_execute_body_def de_dove_request_body_def de_id_only_def plain_env obj_get_def
  req_def dflt_def

lemma de_option_vec_value [wire_simps]: "de_option (de_vec de_value) (JArray xs) = Inr (Some xs)"
  by (simp add: de_option_def mapR_Inr_map [where g = id, simplified])

lemma de_ser_request_connect:
  "de_request (ser_request (Connect i t a p)) = Inr (Connect i t a p)"
  by (cases p) (simp_all add: request_rt fld_opt_def wire_simps del: list.map)

lemma de_ser_request_sql: "de_request (ser_request (Sql i s r ps t)) = Inr (Sql i s r ps t)"
  by (cases r; cases ps; cases t) (simp_all add: request_rt fld_opt_def wire_simps del: list.map)

lemma de_ser_request_prepare: "de_request (ser_request (PrepareSql i s t)) = Inr (PrepareSql i s t)"
  by (cases t) (simp_all add: request_rt fld_opt_def wire_simps del: list.map)

lemma de_ser_request_execute:
  "de_request (ser_request (Execute i c ps r t)) = Inr (Execute i c ps r t)"
  by (cases r; cases ps; cases t) (simp_all add: request_rt fld_opt_def wire_simps del: list.map)

lemma de_ser_request_dove: "de_request (ser_request (Dove i s r n t)) = Inr (Dove i s r n t)"
  by (cases r; cases n; cases t) (simp_all add: request_rt fld_opt_def wire_simps del: list.map)

lemma de_ser_request_prepare_execute:
  "de_request (ser_request (PrepareSqlExecute i s ps r t)) = Inr (PrepareSqlExecute i s ps r t) \<longleftrightarrow>
   \<not> ambiguous_sets ps"
  using de_ser_parameter_sets [of ps]
  by (cases r; cases t; cases "ps = None")
     (auto simp add: request_rt fld_opt_def fld_sets_def wire_simps bindR_eq_Inr simp del: list.map)

lemma de_ser_request_flat:
  "de_request (ser_request (SqlMore i c n)) = Inr (SqlMore i c n)"
  "de_request (ser_request (SqlClose i c)) = Inr (SqlClose i c)"
  "de_request (ser_request (GetVersion i)) = Inr (GetVersion i)"
  "de_request (ser_request (GetDbJob i)) = Inr (GetDbJob i)"
  "de_request (ser_request (GetTraceData i)) = Inr (GetTraceData i)"
  "de_request (ser_request (Ping i)) = Inr (Ping i)"
  "de_request (ser_request (Exit i)) = Inr (Exit i)"
  by (simp_all add: request_rt wire_simps del: list.map)

lemma de_ser_request_cl: "de_request (ser_request (Cl i c t)) = Inr (Cl i c t)"
  by (cases t) (simp_all add: request_rt fld_opt_def wire_simps del: list.map)

lemma de_ser_request_set_config:
  "de_request (ser_request (SetConfig i l d)) = Inr (SetConfig i l d)"
  by (cases "l = []"; cases "d = []")
     (simp_all add: request_rt fld_str_def wire_simps del: list.map)

lemmas de_ser_request = de_ser_request_connect de_ser_request_sql de_ser_request_prepare
  de_ser_request_execute de_ser_request_dove de_ser_request_prepare_execute de_ser_request_flat
  de_ser_request_cl de_ser_request_set_config

text \<open>
  C32. Reading a written request gives the request back exactly when it is not a
  \<open>prepare_sql_execute\<close> with one parameter set whose elements are all arrays (the empty set
  included): that set is written flat, in the shape of a batch, and reads as another list of
  sets. Every other request, with every combination of optional fields, round-trips.
\<close>

theorem request_roundtrip_iff:
  "de_request (ser_request r) = Inr r \<longleftrightarrow> \<not> ambiguous_request r"
  by (cases r) (simp_all only: de_ser_request ambiguous_request.simps simp_thms)

section \<open>Correlation ids\<close>

fun request_id :: "request \<Rightarrow> string" where
  "request_id (Connect i t a p) = i"
| "request_id (Sql i s r ps t) = i"
| "request_id (PrepareSql i s t) = i"
| "request_id (PrepareSqlExecute i s ps r t) = i"
| "request_id (Execute i c ps r t) = i"
| "request_id (SqlMore i c r) = i"
| "request_id (SqlClose i c) = i"
| "request_id (Cl i c t) = i"
| "request_id (GetVersion i) = i"
| "request_id (GetDbJob i) = i"
| "request_id (SetConfig i l d) = i"
| "request_id (GetTraceData i) = i"
| "request_id (Dove i s r n t) = i"
| "request_id (Ping i) = i"
| "request_id (Exit i) = i"

end
