(* ===== verification/Codec.thy ===== *)
theory Codec
  imports Prelude
begin

text \<open>
  Correlation ids (\<^verbatim>\<open>src/src/protocol/codec.rs\<close>): an allocator has a prefix of twelve hexadecimal
  digits, taken from the clock and the process id, and a 64-bit counter that wraps. The clock
  reading (\<open>None\<close> where the clock is before the epoch) and the process id are arguments.

  The lemmas show exactly when the ids of one allocator are distinct, and that allocators with
  different prefixes never issue the same id.
\<close>

record id_allocator =
  ia_prefix :: string
  ia_counter :: u64

definition prefix_bytes :: "u32 \<Rightarrow> u32 \<Rightarrow> u8 list" where
  "prefix_bytes nanos pid =
     [ucast nanos, ucast (drop_bit 8 nanos), ucast (drop_bit 16 nanos), ucast (drop_bit 24 nanos),
      ucast pid, ucast (drop_bit 8 pid)]"

definition new_allocator :: "u32 option \<Rightarrow> u32 \<Rightarrow> id_allocator" where
  "new_allocator subsec_nanos pid =
     \<lparr>ia_prefix = concat (map hex2 (prefix_bytes (unwrap_or 0 subsec_nanos) pid)), ia_counter = 0\<rparr>"

definition default_allocator :: "u32 option \<Rightarrow> u32 \<Rightarrow> id_allocator" where
  "default_allocator subsec_nanos pid = new_allocator subsec_nanos pid"

definition next_id :: "id_allocator \<Rightarrow> string \<times> id_allocator" where
  "next_id a = (ia_prefix a @ ''-'' @ show_nat (unat (ia_counter a)),
                a\<lparr>ia_counter := ia_counter a + 1\<rparr>)"

text \<open>The ids of consecutive calls.\<close>

fun next_ids :: "nat \<Rightarrow> id_allocator \<Rightarrow> string list \<times> id_allocator" where
  "next_ids 0 a = ([], a)"
| "next_ids (Suc n) a =
     (let (i, a1) = next_id a; (is, a2) = next_ids n a1 in (i # is, a2))"

section \<open>Distinctness\<close>

definition id_at :: "id_allocator \<Rightarrow> nat \<Rightarrow> string" where
  "id_at a i = ia_prefix a @ ''-'' @ show_nat (unat (ia_counter a + of_nat i))"

lemma next_ids_nth: "fst (next_ids n a) = map (id_at a) [0..<n]"
proof (induction n arbitrary: a)
  case 0
  show ?case by simp
next
  case (Suc n)
  have "map (id_at (snd (next_id a))) [0..<n] = map (\<lambda>i. id_at a (Suc i)) [0..<n]"
    by (simp add: id_at_def next_id_def add.assoc)
  also have "\<dots> = map (id_at a) [1..<Suc n]"
    by (simp only: One_nat_def map_Suc_upt [symmetric] map_map comp_def)
  finally have "map (id_at a) [0..<Suc n] = id_at a 0 # map (id_at (snd (next_id a))) [0..<n]"
    by (simp add: upt_conv_Cons del: upt_Suc)
  moreover have "fst (next_ids (Suc n) a) = id_at a 0 # fst (next_ids n (snd (next_id a)))"
    by (simp add: id_at_def next_id_def split: prod.splits)
  ultimately show ?case by (simp add: Suc.IH)
qed

lemma next_ids_counter:
  "snd (next_ids n a) = a\<lparr>ia_counter := ia_counter a + of_nat n\<rparr>"
proof (induction n arbitrary: a)
  case (Suc n)
  have "snd (next_ids (Suc n) a) = snd (next_ids n (a\<lparr>ia_counter := ia_counter a + 1\<rparr>))"
    by (simp add: next_id_def split: prod.splits)
  then show ?case by (simp add: Suc.IH add.assoc)
qed simp

lemma id_at_inject:
  "id_at a i = id_at a j \<longleftrightarrow> (of_nat i :: u64) = of_nat j"
  by (simp add: id_at_def flip: word_unat_eq_iff)

lemma of_nat_u64_eq_iff: "(of_nat i :: u64) = of_nat j \<longleftrightarrow> i mod 2 ^ 64 = j mod 2 ^ 64"
  by (simp add: word_unat_eq_iff unsigned_of_nat take_bit_eq_mod)

text \<open>
  C34. The ids an allocator issues in \<open>n\<close> consecutive calls are pairwise distinct exactly
  when \<open>n\<close> is at most \<open>2^64\<close>: uniqueness holds up to the wrap of the counter and ends there,
  whatever the prefix.
\<close>

theorem next_ids_distinct_iff: "distinct (fst (next_ids n a)) \<longleftrightarrow> n \<le> 2 ^ 64"
proof
  assume dist: "distinct (fst (next_ids n a))"
  show "n \<le> 2 ^ 64"
  proof (rule ccontr)
    assume "\<not> n \<le> 2 ^ 64"
    then have "0 \<in> set [0..<n]" "2 ^ 64 \<in> set [0..<n]" by simp_all
    moreover have "id_at a 0 = id_at a (2 ^ 64)"
      by (simp only: id_at_inject of_nat_u64_eq_iff) simp
    moreover from dist have "inj_on (id_at a) (set [0..<n])"
      by (simp only: next_ids_nth distinct_map)
    ultimately show False by (auto dest: inj_onD)
  qed
next
  assume "n \<le> 2 ^ 64"
  then have "inj_on (id_at a) (set [0..<n])"
    by (intro inj_onI) (simp add: id_at_inject of_nat_u64_eq_iff)
  then show "distinct (fst (next_ids n a))"
    by (simp only: next_ids_nth distinct_map distinct_upt simp_thms)
qed

section \<open>Prefixes\<close>

lemma hex_concat_inject:
  "length xs = length ys \<Longrightarrow> concat (map hex2 xs) = concat (map hex2 ys) \<longleftrightarrow> xs = ys"
  by (induction xs ys rule: list_induct2) (auto dest: hex2_inject)

lemma u32_bytes_inject:
  assumes "\<And>k. k < 4 \<Longrightarrow> (ucast (drop_bit (8 * k) m) :: u8) = ucast (drop_bit (8 * k) (n :: u32))"
  shows "m = n"
proof (rule bit_word_eqI)
  fix i assume "i < LENGTH(32)"
  then have "i div 8 < 4" by simp
  from assms [OF this]
  have "bit (ucast (drop_bit (8 * (i div 8)) m) :: u8) (i mod 8)
      = bit (ucast (drop_bit (8 * (i div 8)) n) :: u8) (i mod 8)" by simp
  moreover have "8 * (i div 8) + i mod 8 = i" by simp
  ultimately show "bit m i = bit n i"
    by (simp add: bit_ucast_iff bit_drop_bit_eq)
qed

lemma u16_bytes_inject:
  "(ucast p :: u8) = ucast q \<and> (ucast (drop_bit 8 p) :: u8) = ucast (drop_bit 8 q) \<longleftrightarrow>
   (ucast p :: u16) = ucast (q :: u32)"
proof
  assume eq: "(ucast p :: u8) = ucast q \<and> (ucast (drop_bit 8 p) :: u8) = ucast (drop_bit 8 q)"
  show "(ucast p :: u16) = ucast q"
  proof (rule bit_word_eqI)
    fix i assume i: "i < LENGTH(16)"
    show "bit (ucast p :: u16) i = bit (ucast q :: u16) i"
    proof (cases "i < 8")
      case True
      have "bit (ucast p :: u8) i = bit (ucast q :: u8) i" using eq by simp
      with True show ?thesis by (simp add: bit_ucast_iff)
    next
      case False
      have "bit (ucast (drop_bit 8 p) :: u8) (i - 8) = bit (ucast (drop_bit 8 q) :: u8) (i - 8)"
        using eq by simp
      moreover from False i have "i - 8 < 8" by simp
      ultimately show ?thesis using False i by (simp add: bit_ucast_iff bit_drop_bit_eq)
    qed
  qed
next
  assume eq: "(ucast p :: u16) = ucast q"
  have bits: "bit p i = bit q i" if "i < 16" for i
    using arg_cong [OF eq, of "\<lambda>w. bit w i"] that by (simp add: bit_ucast_iff)
  show "(ucast p :: u8) = ucast q \<and> (ucast (drop_bit 8 p) :: u8) = ucast (drop_bit 8 q)"
    by (intro conjI bit_word_eqI) (auto simp: bit_ucast_iff bit_drop_bit_eq bits)
qed

lemma prefix_bytes_inject:
  "prefix_bytes m p = prefix_bytes n q \<longleftrightarrow> m = n \<and> (ucast p :: u16) = ucast q"
proof
  assume eq: "prefix_bytes m p = prefix_bytes n q"
  have "m = n"
  proof (rule u32_bytes_inject)
    fix k :: nat assume "k < 4"
    then have "k \<in> {0, 1, 2, 3}" by auto
    with eq show "(ucast (drop_bit (8 * k) m) :: u8) = ucast (drop_bit (8 * k) n)"
      by (auto simp: prefix_bytes_def)
  qed
  moreover have "(ucast p :: u16) = ucast q"
    using eq by (simp add: prefix_bytes_def flip: u16_bytes_inject)
  ultimately show "m = n \<and> (ucast p :: u16) = ucast q" ..
next
  assume eq: "m = n \<and> (ucast p :: u16) = ucast q"
  then have "(ucast p :: u8) = ucast q \<and> (ucast (drop_bit 8 p) :: u8) = ucast (drop_bit 8 q)"
    by (simp add: u16_bytes_inject)
  with eq show "prefix_bytes m p = prefix_bytes n q" by (simp add: prefix_bytes_def)
qed

lemma length_prefix: "length (ia_prefix (new_allocator t p)) = 12"
  by (simp add: new_allocator_def prefix_bytes_def)

lemma next_ids_keep_length:
  assumes "x \<in> set (fst (next_ids n a))"
  shows "take (length (ia_prefix a)) x = ia_prefix a"
  using assms by (auto simp: next_ids_nth id_at_def)

lemma new_allocator_inject:
  "new_allocator s p = new_allocator t q \<longleftrightarrow>
     unwrap_or 0 s = unwrap_or 0 t \<and> (ucast p :: u16) = ucast q"
proof -
  have "length (prefix_bytes a b) = 6" for a b by (simp add: prefix_bytes_def)
  then show ?thesis
    by (simp add: new_allocator_def hex_concat_inject prefix_bytes_inject)
qed

text \<open>
  Two allocators share ids exactly when they were built with the same sub-second clock
  reading and process ids equal in their low sixteen bits (and both issued one): with any other
  pair no id of one is ever an id of the other, and with such a pair the sequences are the
  same.
\<close>

theorem allocators_collide_iff:
  "set (fst (next_ids (Suc m) (new_allocator s p))) \<inter>
   set (fst (next_ids (Suc n) (new_allocator t q))) \<noteq> {} \<longleftrightarrow>
     unwrap_or 0 s = unwrap_or 0 t \<and> (ucast p :: u16) = ucast q"
proof
  let ?a = "new_allocator s p" and ?b = "new_allocator t q"
  assume "set (fst (next_ids (Suc m) ?a)) \<inter> set (fst (next_ids (Suc n) ?b)) \<noteq> {}"
  then obtain x where "x \<in> set (fst (next_ids (Suc m) ?a))" "x \<in> set (fst (next_ids (Suc n) ?b))"
    by blast
  then have "take 12 x = ia_prefix ?a" "take 12 x = ia_prefix ?b"
    using next_ids_keep_length length_prefix by metis+
  then have "?a = ?b" by (simp add: new_allocator_def)
  then show "unwrap_or 0 s = unwrap_or 0 t \<and> (ucast p :: u16) = ucast q"
    by (simp only: new_allocator_inject)
next
  let ?a = "new_allocator s p" and ?b = "new_allocator t q"
  assume "unwrap_or 0 s = unwrap_or 0 t \<and> (ucast p :: u16) = ucast q"
  then have "?a = ?b" by (simp only: new_allocator_inject)
  moreover have "id_at ?a 0 \<in> set (fst (next_ids (Suc k) ?a))" for k
    by (simp only: next_ids_nth) (simp del: upt_Suc)
  ultimately show "set (fst (next_ids (Suc m) ?a)) \<inter> set (fst (next_ids (Suc n) ?b)) \<noteq> {}"
    by auto
qed

end
