(* ===== verification/Config.thy ===== *)
theory Config
  imports Request
begin

text \<open>
  Connection settings (\<^verbatim>\<open>src/src/config.rs\<close>, \<^verbatim>\<open>src/src/password.rs\<close>): the server record, its
  builder, the form read from configuration files and the redacting \<open>Debug\<close>.

  The variants behind the Cargo feature \<open>insecure-tls\<close> are present; the reader of
  configuration files takes the feature as an argument. The base64 decoder is a parameter.

  The lemmas show what a chain of builder calls builds, that the two ways to a server agree,
  and that the password never reaches the debug output.
\<close>

section \<open>Passwords and TLS modes\<close>

datatype password = Password string

definition password_new :: "string \<Rightarrow> password" where
  "password_new s = Password s"

fun expose :: "password \<Rightarrow> string" where
  "expose (Password s) = s"

definition debug_password :: "password \<Rightarrow> dbg" where
  "debug_password p = DWritten ''Password([REDACTED])''"

datatype tls_config = Verified | Ca "u8 list" | Insecure

definition default_tls :: tls_config where
  "default_tls = Verified"

fun debug_tls :: "tls_config \<Rightarrow> dbg" where
  "debug_tls Verified = DWritten ''Verified''"
| "debug_tls (Ca der) = DTuple ''Ca'' [DBytes der]"
| "debug_tls Insecure = DWritten ''Insecure''"

section \<open>Server and builder\<close>

record daemon_server =
  ds_host :: string
  ds_connect_address :: "string option"
  ds_port :: u16
  ds_user :: string
  ds_password :: password
  ds_tls :: tls_config
  ds_jdbc_props :: "string option"
  ds_application :: string

definition DEFAULT_PORT :: u16 where
  "DEFAULT_PORT = 8076"

definition default_application :: string where
  "default_application = ''mapepire-rs''"

definition tcp_target :: "daemon_server \<Rightarrow> string \<times> u16" where
  "tcp_target s = (unwrap_or (ds_host s) (ds_connect_address s), ds_port s)"

definition debug_server :: "daemon_server \<Rightarrow> dbg_struct" where
  "debug_server s =
     (''DaemonServer'',
      [(''host'', DString (ds_host s)),
       (''connect_address'', dbg_option DString (ds_connect_address s)),
       (''port'', DU16 (ds_port s)), (''user'', DString (ds_user s)),
       (''password'', debug_password (ds_password s)), (''tls'', debug_tls (ds_tls s)),
       (''jdbc_props'', dbg_option DString (ds_jdbc_props s)),
       (''application'', DString (ds_application s))])"

record server_builder =
  sb_host :: "string option"
  sb_connect_address :: "string option"
  sb_port :: "u16 option"
  sb_user :: "string option"
  sb_password :: "password option"
  sb_tls :: "tls_config option"
  sb_jdbc_props :: "string option"
  sb_application :: "string option"

definition builder :: server_builder where
  "builder = \<lparr>sb_host = None, sb_connect_address = None, sb_port = None, sb_user = None,
     sb_password = None, sb_tls = None, sb_jdbc_props = None, sb_application = None\<rparr>"

definition host :: "string \<Rightarrow> server_builder \<Rightarrow> server_builder" where
  "host h b = b\<lparr>sb_host := Some h\<rparr>"

definition connect_address :: "string \<Rightarrow> server_builder \<Rightarrow> server_builder" where
  "connect_address a b = b\<lparr>sb_connect_address := Some a\<rparr>"

definition port :: "u16 \<Rightarrow> server_builder \<Rightarrow> server_builder" where
  "port p b = b\<lparr>sb_port := Some p\<rparr>"

definition user :: "string \<Rightarrow> server_builder \<Rightarrow> server_builder" where
  "user u b = b\<lparr>sb_user := Some u\<rparr>"

definition set_password :: "string \<Rightarrow> server_builder \<Rightarrow> server_builder" where
  "set_password p b = b\<lparr>sb_password := Some (Password p)\<rparr>"

definition tls :: "tls_config \<Rightarrow> server_builder \<Rightarrow> server_builder" where
  "tls t b = b\<lparr>sb_tls := Some t\<rparr>"

definition jdbc_props :: "string \<Rightarrow> server_builder \<Rightarrow> server_builder" where
  "jdbc_props p b = b\<lparr>sb_jdbc_props := Some p\<rparr>"

definition application :: "string \<Rightarrow> server_builder \<Rightarrow> server_builder" where
  "application n b = b\<lparr>sb_application := Some n\<rparr>"

lemmas setter_defs = host_def connect_address_def port_def user_def set_password_def tls_def
  jdbc_props_def application_def

datatype builder_error = BuilderMissingField string

definition build :: "server_builder \<Rightarrow> builder_error + daemon_server" where
  "build b =
     bindR (ok_or (BuilderMissingField ''host'') (sb_host b)) (\<lambda>h.
     bindR (ok_or (BuilderMissingField ''user'') (sb_user b)) (\<lambda>u.
     bindR (ok_or (BuilderMissingField ''password'') (sb_password b)) (\<lambda>p.
     Inr \<lparr>ds_host = h, ds_connect_address = sb_connect_address b,
          ds_port = unwrap_or DEFAULT_PORT (sb_port b), ds_user = u, ds_password = p,
          ds_tls = unwrap_or default_tls (sb_tls b), ds_jdbc_props = sb_jdbc_props b,
          ds_application = unwrap_or default_application (sb_application b)\<rparr>)))"

section \<open>Configuration files\<close>

datatype tls_config_spec = SpecVerified | SpecCa string | SpecInsecure

record server_spec =
  sp_host :: string
  sp_connect_address :: "string option"
  sp_port :: "u16 option"
  sp_user :: string
  sp_password :: string
  sp_tls :: tls_config_spec
  sp_jdbc_props :: "string option"
  sp_application :: "string option"

definition de_unit_variant :: "'a \<Rightarrow> value \<Rightarrow> de_error + 'a" where
  "de_unit_variant x v = (if v = JNull then Inr x else Inl (Serde (InvalidType v ''unit'')))"

definition de_tls_variant ::
  "bool \<Rightarrow> string \<Rightarrow> value option \<Rightarrow> de_error + tls_config_spec" where
  "de_tls_variant insecure_tls k content =
     (if k = ''verified''
      then (case content of None \<Rightarrow> Inr SpecVerified | Some v \<Rightarrow> de_unit_variant SpecVerified v)
      else if k = ''ca''
      then (case content of
              None \<Rightarrow> Inl (Serde (InvalidType (JString k) ''newtype variant''))
            | Some v \<Rightarrow> bindR (de_string v) (\<lambda>s. Inr (SpecCa s)))
      else if k = ''insecure'' \<and> insecure_tls
      then (case content of None \<Rightarrow> Inr SpecInsecure | Some v \<Rightarrow> de_unit_variant SpecInsecure v)
      else Inl (Serde (UnknownVariant k)))"

fun de_tls_spec :: "bool \<Rightarrow> tls_config_spec de" where
  "de_tls_spec insecure_tls (JString k) = de_tls_variant insecure_tls k None"
| "de_tls_spec insecure_tls (JObject [(k, v)]) = de_tls_variant insecure_tls k (Some v)"
| "de_tls_spec insecure_tls (JObject ob) =
     Inl (Serde (InvalidValue (JObject ob) ''map with a single key''))"
| "de_tls_spec insecure_tls v = Inl (Serde (InvalidType v ''string or map''))"

definition de_server_spec :: "bool \<Rightarrow> server_spec de" where
  "de_server_spec insecure_tls v =
     bindR (de_fields (plain [''host'', ''connect_address'', ''port'', ''user'', ''password'',
                              ''tls'', ''jdbc_props'', ''application'']) v) (\<lambda>e.
     bindR (req e ''host'' de_string) (\<lambda>h.
     bindR (opt_fld e ''connect_address'' de_string) (\<lambda>c.
     bindR (opt_fld e ''port'' de_u16) (\<lambda>p.
     bindR (req e ''user'' de_string) (\<lambda>u.
     bindR (req e ''password'' de_string) (\<lambda>w.
     bindR (dflt e ''tls'' SpecVerified (de_tls_spec insecure_tls)) (\<lambda>t.
     bindR (opt_fld e ''jdbc_props'' de_string) (\<lambda>j.
     bindR (opt_fld e ''application'' de_string) (\<lambda>a.
     Inr \<lparr>sp_host = h, sp_connect_address = c, sp_port = p, sp_user = u, sp_password = w,
          sp_tls = t, sp_jdbc_props = j, sp_application = a\<rparr>)))))))))"

datatype 'e spec_error = InvalidCaBase64 'e

fun spec_tls ::
  "(string \<Rightarrow> 'e + u8 list) \<Rightarrow> tls_config_spec \<Rightarrow> 'e spec_error + tls_config" where
  "spec_tls b64_decode SpecVerified = Inr Verified"
| "spec_tls b64_decode SpecInsecure = Inr Insecure"
| "spec_tls b64_decode (SpecCa b64) =
     bindR (mapErr InvalidCaBase64 (b64_decode b64)) (\<lambda>bytes. Inr (Ca bytes))"

definition try_into_server ::
  "(string \<Rightarrow> 'e + u8 list) \<Rightarrow> server_spec \<Rightarrow> 'e spec_error + daemon_server" where
  "try_into_server b64_decode s =
     bindR (spec_tls b64_decode (sp_tls s)) (\<lambda>t.
     Inr \<lparr>ds_host = sp_host s, ds_connect_address = sp_connect_address s,
          ds_port = unwrap_or DEFAULT_PORT (sp_port s), ds_user = sp_user s,
          ds_password = Password (sp_password s), ds_tls = t,
          ds_jdbc_props = sp_jdbc_props s,
          ds_application = unwrap_or default_application (sp_application s)\<rparr>)"

section \<open>Chains of builder calls\<close>

datatype setting =
    SetHost string | SetConnectAddress string | SetPort u16 | SetUser string
  | SetPassword string | SetTls tls_config | SetJdbcProps string | SetApplication string

fun apply_setting :: "setting \<Rightarrow> server_builder \<Rightarrow> server_builder" where
  "apply_setting (SetHost h) b = host h b"
| "apply_setting (SetConnectAddress a) b = connect_address a b"
| "apply_setting (SetPort p) b = port p b"
| "apply_setting (SetUser u) b = user u b"
| "apply_setting (SetPassword p) b = set_password p b"
| "apply_setting (SetTls t) b = tls t b"
| "apply_setting (SetJdbcProps p) b = jdbc_props p b"
| "apply_setting (SetApplication n) b = application n b"

text \<open>The value the last call of a setter gave.\<close>

definition last_given :: "(setting \<Rightarrow> 'a option) \<Rightarrow> setting list \<Rightarrow> 'a option" where
  "last_given f ss = fold (\<lambda>s d. case f s of None \<Rightarrow> d | Some x \<Rightarrow> Some x) ss None"

definition given_host :: "setting \<Rightarrow> string option" where
  "given_host s = (case s of SetHost h \<Rightarrow> Some h | _ \<Rightarrow> None)"

definition given_connect_address :: "setting \<Rightarrow> string option" where
  "given_connect_address s = (case s of SetConnectAddress h \<Rightarrow> Some h | _ \<Rightarrow> None)"

definition given_port :: "setting \<Rightarrow> u16 option" where
  "given_port s = (case s of SetPort h \<Rightarrow> Some h | _ \<Rightarrow> None)"

definition given_user :: "setting \<Rightarrow> string option" where
  "given_user s = (case s of SetUser h \<Rightarrow> Some h | _ \<Rightarrow> None)"

definition given_password :: "setting \<Rightarrow> password option" where
  "given_password s = (case s of SetPassword h \<Rightarrow> Some (Password h) | _ \<Rightarrow> None)"

definition given_tls :: "setting \<Rightarrow> tls_config option" where
  "given_tls s = (case s of SetTls h \<Rightarrow> Some h | _ \<Rightarrow> None)"

definition given_jdbc_props :: "setting \<Rightarrow> string option" where
  "given_jdbc_props s = (case s of SetJdbcProps h \<Rightarrow> Some h | _ \<Rightarrow> None)"

definition given_application :: "setting \<Rightarrow> string option" where
  "given_application s = (case s of SetApplication h \<Rightarrow> Some h | _ \<Rightarrow> None)"

lemmas given_defs = given_host_def given_connect_address_def given_port_def given_user_def
  given_password_def given_tls_def given_jdbc_props_def given_application_def

definition builder_of :: "setting list \<Rightarrow> server_builder" where
  "builder_of ss =
     \<lparr>sb_host = last_given given_host ss,
      sb_connect_address = last_given given_connect_address ss,
      sb_port = last_given given_port ss, sb_user = last_given given_user ss,
      sb_password = last_given given_password ss, sb_tls = last_given given_tls ss,
      sb_jdbc_props = last_given given_jdbc_props ss,
      sb_application = last_given given_application ss\<rparr>"

lemma last_given_snoc [simp]:
  "last_given f (ss @ [s]) = (case f s of None \<Rightarrow> last_given f ss | Some x \<Rightarrow> Some x)"
  by (simp add: last_given_def split: option.split)

lemma last_given_Nil [simp]: "last_given f [] = None"
  by (simp add: last_given_def)

lemma fold_settings: "fold apply_setting ss builder = builder_of ss"
proof (induction ss rule: rev_induct)
  case Nil
  show ?case by (simp add: builder_def builder_of_def)
next
  case (snoc s ss)
  then show ?case by (cases s) (simp_all add: builder_of_def given_defs setter_defs)
qed

text \<open>
  A chain of builder calls builds a server exactly when host, user and password were all
  given. The error otherwise names the first missing one in that order; each field of the
  server is the value its last setter call gave, whatever calls came between, and the port,
  TLS mode and application that were never given are 8076, verification against the roots
  and \<open>mapepire-rs\<close>.
\<close>

theorem builder_chain:
  "build (fold apply_setting ss builder) =
     (case last_given given_host ss of None \<Rightarrow> Inl (BuilderMissingField ''host'') | Some h \<Rightarrow>
      case last_given given_user ss of None \<Rightarrow> Inl (BuilderMissingField ''user'') | Some u \<Rightarrow>
      case last_given given_password ss of
        None \<Rightarrow> Inl (BuilderMissingField ''password'') | Some p \<Rightarrow>
      Inr \<lparr>ds_host = h, ds_connect_address = last_given given_connect_address ss,
           ds_port = unwrap_or 8076 (last_given given_port ss), ds_user = u, ds_password = p,
           ds_tls = unwrap_or Verified (last_given given_tls ss),
           ds_jdbc_props = last_given given_jdbc_props ss,
           ds_application = unwrap_or ''mapepire-rs'' (last_given given_application ss)\<rparr>)"
  by (simp add: fold_settings build_def builder_of_def default_tls_def DEFAULT_PORT_def
      default_application_def split: option.split)

text \<open>The builder calls that a configuration file stands for.\<close>

definition spec_settings :: "tls_config \<Rightarrow> server_spec \<Rightarrow> setting list" where
  "spec_settings t s =
     [SetHost (sp_host s), SetUser (sp_user s), SetPassword (sp_password s), SetTls t] @
     (case sp_connect_address s of None \<Rightarrow> [] | Some a \<Rightarrow> [SetConnectAddress a]) @
     (case sp_port s of None \<Rightarrow> [] | Some p \<Rightarrow> [SetPort p]) @
     (case sp_jdbc_props s of None \<Rightarrow> [] | Some p \<Rightarrow> [SetJdbcProps p]) @
     (case sp_application s of None \<Rightarrow> [] | Some n \<Rightarrow> [SetApplication n])"

text \<open>
  A configuration file and the builder agree: converting a file's settings fails only
  when its CA text is not base64, and otherwise gives the server that the corresponding
  chain of builder calls builds, defaults included.
\<close>

theorem spec_agrees_with_builder:
  "(case spec_tls b64_decode (sp_tls s) of
      Inl e \<Rightarrow> try_into_server b64_decode s = Inl e \<and>
        (\<exists>b64 d. sp_tls s = SpecCa b64 \<and> b64_decode b64 = Inl d \<and> e = InvalidCaBase64 d)
    | Inr t \<Rightarrow> (\<exists>srv. try_into_server b64_decode s = Inr srv \<and>
        build (fold apply_setting (spec_settings t s) builder) = Inr srv))"
proof (cases "spec_tls b64_decode (sp_tls s)")
  case (Inl e)
  then show ?thesis
    by (cases "sp_tls s") (auto simp: try_into_server_def result_simps)
next
  case (Inr t)
  then show ?thesis
    by (cases "sp_connect_address s"; cases "sp_port s"; cases "sp_jdbc_props s";
        cases "sp_application s")
       (simp_all add: try_into_server_def build_def spec_settings_def setter_defs builder_def)
qed

text \<open>
  Debug output never depends on the password: servers that differ only in it render
  alike, and every other field is rendered as it is, so nothing but the password is hidden.
\<close>

theorem debug_server_redacts:
  "debug_server s = debug_server t \<longleftrightarrow> t = s\<lparr>ds_password := ds_password t\<rparr>"
proof -
  have tls: "debug_tls x = debug_tls y \<longleftrightarrow> x = y" for x y by (cases x; cases y) simp_all
  show ?thesis
    by (cases s; cases t) (auto simp: debug_server_def debug_password_def tls)
qed

end
