(* ===== verification/Dispatcher.thy ===== *)
theory Dispatcher
  imports Errors Request "HOL-Library.Multiset"
begin

text \<open>
  The dispatcher task of a connection (\<^verbatim>\<open>src/src/transport/dispatcher.rs\<close>): it owns the socket,
  writes queued requests, keeps the reply slot of each written request under its correlation id,
  and routes every frame to the slot of its id.

  The state holds the bounded queue, the table of pending slots, the shared \<open>in_flight\<close> counter
  (32 bits, wrapping) and whether the task still runs. Reply slots are numbered in the order they
  are created. Next to the state of the code there is a log: the requests submitted so far, the
  bytes written, the replies sent, and the slots dropped without a reply, split into those that
  were never written (\<open>dq_unsent\<close>) and those that were (\<open>dq_lost\<close>); a caller whose slot is
  dropped sees the transport closed.

  Foreign code is gathered in the record \<open>foreign\<close>: printer and parser of JSON text, the wording
  of two kinds of messages, and the order in which a hash map is drained.

  The lemmas show that slots are never lost or answered twice, that a reply carries the id of
  its request, that requests are written in order, what the counter counts, and that nobody
  waits on a task that has ended.
\<close>

section \<open>Foreign code\<close>

record foreign =
  fo_to_vec :: "value \<Rightarrow> de_error + string"
  fo_from_slice :: "string \<Rightarrow> de_error + value"
  fo_show_json :: "value \<Rightarrow> string"
  fo_render :: "serde_reason \<Rightarrow> string"

section \<open>Kinds of requests\<close>

datatype pending_kind =
    KConnect | KPing | KGetDbJob | KGetVersion | KPrepareSql | KSetConfig | KSqlClose | KExit
  | KGetTraceData | KOther

fun request_kind :: "request \<Rightarrow> pending_kind" where
  "request_kind (Connect i t a p) = KConnect"
| "request_kind (Ping i) = KPing"
| "request_kind (GetDbJob i) = KGetDbJob"
| "request_kind (GetVersion i) = KGetVersion"
| "request_kind (PrepareSql i s t) = KPrepareSql"
| "request_kind (SetConfig i l d) = KSetConfig"
| "request_kind (SqlClose i c) = KSqlClose"
| "request_kind (Exit i) = KExit"
| "request_kind (GetTraceData i) = KGetTraceData"
| "request_kind (Sql i s r ps t) = KOther"
| "request_kind (PrepareSqlExecute i s ps r t) = KOther"
| "request_kind (Execute i c ps r t) = KOther"
| "request_kind (SqlMore i c r) = KOther"
| "request_kind (Cl i c t) = KOther"
| "request_kind (Dove i s r n t) = KOther"

fun remap_response :: "pending_kind \<Rightarrow> response \<Rightarrow> response" where
  "remap_response KGetDbJob (Connected i v j) = DbJob i True j"
| "remap_response KSetConfig (Pong i) = ConfigSet i True"
| "remap_response KSqlClose (Pong i) = SqlClosed i True"
| "remap_response KExit (Pong i) = Exited i"
| "remap_response KPrepareSql (Pong i) = PreparedStatement i True [] 0"
| "remap_response KGetTraceData (Pong i) = TraceData i True []"
| "remap_response k r = r"

definition protocol_decode_error :: "foreign \<Rightarrow> de_error \<Rightarrow> protocol_error" where
  "protocol_decode_error L e =
     (if contains (de_message (fo_show_json L) (fo_render L) e) terse_phrase
      then TerseRowsWithoutColumns else Json e)"

section \<open>State\<close>

type_synonym slot = nat
type_synonym reply = "error + response"

record pending =
  pn_reply :: slot
  pn_kind :: pending_kind

record outbound =
  ob_id :: string
  ob_bytes :: string
  ob_reply :: slot
  ob_kind :: pending_kind

record dispatcher =
  dq_queue :: "outbound list"
  dq_pending :: "(string \<times> pending) list"
  dq_in_flight :: u32
  dq_running :: bool
  dq_requests :: "request list"
  dq_written :: "string list"
  dq_delivered :: "(slot \<times> reply) list"
  dq_unsent :: "slot list"
  dq_lost :: "slot list"

definition SEND_QUEUE_CAPACITY :: nat where
  "SEND_QUEUE_CAPACITY = 64"

definition spawn :: dispatcher where
  "spawn = \<lparr>dq_queue = [], dq_pending = [], dq_in_flight = 0, dq_running = True,
     dq_requests = [], dq_written = [], dq_delivered = [], dq_unsent = [], dq_lost = []\<rparr>"

section \<open>The handlers of the event loop\<close>

definition deliver :: "slot \<Rightarrow> reply \<Rightarrow> dispatcher \<Rightarrow> dispatcher" where
  "deliver s r d = d\<lparr>dq_delivered := dq_delivered d @ [(s, r)]\<rparr>"

text \<open>
  The task returns, or is aborted by the handle's \<open>Drop\<close>: the receiving end of the queue and the
  table go away, and every slot still in them is dropped.
\<close>

definition stop :: "dispatcher \<Rightarrow> dispatcher" where
  "stop d = d\<lparr>dq_running := False, dq_unsent := dq_unsent d @ map ob_reply (dq_queue d),
     dq_lost := dq_lost d @ map (\<lambda>p. pn_reply (snd p)) (dq_pending d),
     dq_queue := [], dq_pending := []\<rparr>"

text \<open>
  Draining: the entries are taken in the order \<open>entries\<close> the map yields them, the first gets
  the error, the others \<open>Closed\<close>, and each decrements the counter.
\<close>

fun drain_closed :: "(string \<times> pending) list \<Rightarrow> dispatcher \<Rightarrow> dispatcher" where
  "drain_closed [] d = d"
| "drain_closed ((i, p) # es) d =
     drain_closed es (deliver (pn_reply p) (Inl (error_from_transport Closed))
       (d\<lparr>dq_in_flight := dq_in_flight d - 1\<rparr>))"

fun drain_entries :: "error \<Rightarrow> (string \<times> pending) list \<Rightarrow> dispatcher \<Rightarrow> dispatcher" where
  "drain_entries e [] d = d"
| "drain_entries e ((i, p) # es) d =
     drain_closed es (deliver (pn_reply p) (Inl e) (d\<lparr>dq_in_flight := dq_in_flight d - 1\<rparr>))"

definition drain_pending_with_error ::
  "(string \<times> pending) list \<Rightarrow> error \<Rightarrow> dispatcher \<Rightarrow> dispatcher" where
  "drain_pending_with_error entries e d = drain_entries e entries (d\<lparr>dq_pending := []\<rparr>)"

definition drain_pending ::
  "(string \<times> pending) list \<Rightarrow> transport_error \<Rightarrow> dispatcher \<Rightarrow> dispatcher" where
  "drain_pending entries closed d =
     drain_pending_with_error entries (error_from_transport closed) d"

definition insert_pending :: "string \<Rightarrow> pending \<Rightarrow> dispatcher \<Rightarrow> dispatcher" where
  "insert_pending i p d =
     d\<lparr>dq_pending := AList.update i p (dq_pending d),
       dq_lost := dq_lost d @ (case map_of (dq_pending d) i of None \<Rightarrow> [] | Some q \<Rightarrow> [pn_reply q])\<rparr>"

text \<open>A queued request is taken; \<open>failed\<close> is the outcome of writing it to the socket.\<close>

definition handle_outbound ::
  "(string \<times> pending) list \<Rightarrow> transport_error option \<Rightarrow> outbound \<Rightarrow> dispatcher \<Rightarrow> dispatcher" where
  "handle_outbound entries failed ob d =
     (case failed of
        Some e \<Rightarrow> stop (drain_pending entries Closed
                     (deliver (ob_reply ob) (Inl (error_from_transport e)) d))
      | None \<Rightarrow>
          insert_pending (ob_id ob) \<lparr>pn_reply = ob_reply ob, pn_kind = ob_kind ob\<rparr>
            (d\<lparr>dq_written := dq_written d @ [ob_bytes ob],
               dq_in_flight := dq_in_flight d + 1\<rparr>))"

text \<open>The slot of an id is taken out of the table and answered; without a slot nothing happens.\<close>

definition answer :: "string \<Rightarrow> (pending_kind \<Rightarrow> reply) \<Rightarrow> dispatcher \<Rightarrow> dispatcher" where
  "answer i r d =
     (case map_of (dq_pending d) i of
        None \<Rightarrow> d
      | Some p \<Rightarrow> deliver (pn_reply p) (r (pn_kind p))
          (d\<lparr>dq_pending := AList.delete i (dq_pending d),
             dq_in_flight := dq_in_flight d - 1\<rparr>))"

definition frame_id :: "value \<Rightarrow> string option" where
  "frame_id v = Option.bind (Option.bind (as_object v) (\<lambda>ob. obj_get ob ''id'')) as_str"

definition handle_frame ::
  "foreign \<Rightarrow> (string \<times> pending) list \<Rightarrow> string \<Rightarrow> dispatcher \<Rightarrow> dispatcher" where
  "handle_frame L entries bytes d =
     (case fo_from_slice L bytes of
        Inl e \<Rightarrow> stop (drain_pending_with_error entries (error_from_protocol (Json e)) d)
      | Inr v \<Rightarrow>
          (case decode_value v of
             Inr r \<Rightarrow> answer (response_id r) (\<lambda>k. Inr (remap_response k r)) d
           | Inl e \<Rightarrow>
               (case frame_id v of
                  None \<Rightarrow> d
                | Some i \<Rightarrow>
                    answer i (\<lambda>k. Inl (error_from_protocol (protocol_decode_error L e))) d)))"

definition handle_read_error ::
  "(string \<times> pending) list \<Rightarrow> transport_error \<Rightarrow> dispatcher \<Rightarrow> dispatcher" where
  "handle_read_error entries e d =
     stop (drain_pending_with_error entries (error_from_transport e) d)"

definition handle_end :: "(string \<times> pending) list \<Rightarrow> dispatcher \<Rightarrow> dispatcher" where
  "handle_end entries d = stop (drain_pending entries Closed d)"

section \<open>The caller's side\<close>

text \<open>
  \<open>send\<close> up to its first wait: the request is serialised, given a fresh slot and put into the
  queue. \<open>Blocked\<close> is a full queue, where the caller waits for room.
\<close>

datatype submitted = Refused error | Blocked | Enqueued slot

definition submit :: "foreign \<Rightarrow> request \<Rightarrow> dispatcher \<Rightarrow> submitted \<times> dispatcher" where
  "submit L r d =
     (case fo_to_vec L (ser_request r) of
        Inl e \<Rightarrow> (Refused (error_from_protocol (Json e)), d)
      | Inr bytes \<Rightarrow>
          if \<not> dq_running d then (Refused (error_from_transport Closed), d)
          else if length (dq_queue d) < SEND_QUEUE_CAPACITY
          then (let s = length (dq_requests d) in
                (Enqueued s,
                 d\<lparr>dq_queue := dq_queue d @
                     [\<lparr>ob_id = request_id r, ob_bytes = bytes, ob_reply = s,
                       ob_kind = request_kind r\<rparr>],
                   dq_requests := dq_requests d @ [r]\<rparr>))
          else (Blocked, d))"

text \<open>What the caller of a slot sees: a reply, a closed channel, or nothing yet.\<close>

definition received :: "slot \<Rightarrow> dispatcher \<Rightarrow> reply option" where
  "received s d =
     (case map_of (dq_delivered d) s of
        Some r \<Rightarrow> Some r
      | None \<Rightarrow> if s \<in> set (dq_unsent d) \<or> s \<in> set (dq_lost d)
                then Some (Inl (error_from_transport Closed)) else None)"

section \<open>The task as a step relation\<close>

datatype event =
    Submit request
  | Take "transport_error option"
  | NoSenders
  | Frame string
  | ReadError transport_error
  | EndOfStream
  | Abort

inductive dstep :: "foreign \<Rightarrow> dispatcher \<Rightarrow> event \<Rightarrow> dispatcher \<Rightarrow> bool" for L where
  Submit: "submit L r d = (Enqueued s, d') \<Longrightarrow> dstep L d (Submit r) d'"
| Take: "dq_running d \<Longrightarrow> dq_queue d = ob # obs \<Longrightarrow> mset entries = mset (dq_pending d) \<Longrightarrow>
         d' = handle_outbound entries failed ob (d\<lparr>dq_queue := obs\<rparr>) \<Longrightarrow>
         dstep L d (Take failed) d'"
| NoSenders: "dq_running d \<Longrightarrow> dq_queue d = [] \<Longrightarrow> dstep L d NoSenders (stop d)"
| Frame: "dq_running d \<Longrightarrow> mset entries = mset (dq_pending d) \<Longrightarrow>
          d' = handle_frame L entries bytes d \<Longrightarrow> dstep L d (Frame bytes) d'"
| ReadError: "dq_running d \<Longrightarrow> mset entries = mset (dq_pending d) \<Longrightarrow>
          d' = handle_read_error entries e d \<Longrightarrow> dstep L d (ReadError e) d'"
| EndOfStream: "dq_running d \<Longrightarrow> mset entries = mset (dq_pending d) \<Longrightarrow>
          d' = handle_end entries d \<Longrightarrow> dstep L d EndOfStream d'"
| Abort: "dq_running d \<Longrightarrow> dstep L d Abort (stop d)"

inductive druns :: "foreign \<Rightarrow> dispatcher \<Rightarrow> event list \<Rightarrow> dispatcher \<Rightarrow> bool" for L where
  Nil: "druns L d [] d"
| Snoc: "druns L d es d' \<Longrightarrow> dstep L d' e d'' \<Longrightarrow> druns L d (es @ [e]) d''"

inductive_cases dstepE: "dstep L d e d'"
inductive_simps druns_Nil [simp]: "druns L d [] d'"
inductive_simps dstep_Submit: "dstep L d (Submit r) d'"
inductive_simps dstep_Frame: "dstep L d (Frame b) d'"

section \<open>Closed forms of the handlers\<close>

definition drain_replies :: "error \<Rightarrow> (string \<times> pending) list \<Rightarrow> (slot \<times> reply) list" where
  "drain_replies e entries =
     (case entries of
        [] \<Rightarrow> []
      | x # xs \<Rightarrow> (pn_reply (snd x), Inl e) #
          map (\<lambda>y. (pn_reply (snd y), Inl (error_from_transport Closed))) xs)"

lemma drain_closed_eq:
  "drain_closed es d =
     d\<lparr>dq_in_flight := dq_in_flight d - of_nat (length es),
       dq_delivered := dq_delivered d @
         map (\<lambda>y. (pn_reply (snd y), Inl (error_from_transport Closed))) es\<rparr>"
  by (induction es d rule: drain_closed.induct) (simp_all add: deliver_def)

lemma drain_with_error_eq:
  "drain_pending_with_error es e d =
     d\<lparr>dq_pending := [], dq_in_flight := dq_in_flight d - of_nat (length es),
       dq_delivered := dq_delivered d @ drain_replies e es\<rparr>"
  by (cases es)
     (auto simp: drain_pending_with_error_def drain_replies_def drain_closed_eq deliver_def
        split: prod.splits)

lemma drain_replies_slots [simp]:
  "map fst (drain_replies e es) = map (\<lambda>y. pn_reply (snd y)) es"
  by (cases es) (simp_all add: drain_replies_def comp_def)

lemma drain_replies_Inl: "(s, Inr r) \<notin> set (drain_replies e es)"
  by (cases es) (auto simp: drain_replies_def)

lemma drain_replies_same:
  "drain_replies (error_from_transport Closed) es =
     map (\<lambda>y. (pn_reply (snd y), Inl (error_from_transport Closed))) es"
  by (cases es) (simp_all add: drain_replies_def)

lemmas handler_eqs = drain_pending_def drain_with_error_eq stop_def deliver_def

section \<open>Slots\<close>

definition table_slots :: "dispatcher \<Rightarrow> slot list" where
  "table_slots d = map (\<lambda>p. pn_reply (snd p)) (dq_pending d)"

definition slots :: "dispatcher \<Rightarrow> slot multiset" where
  "slots d = mset (map ob_reply (dq_queue d)) + mset (table_slots d) +
     mset (map fst (dq_delivered d)) + mset (dq_unsent d) + mset (dq_lost d)"

lemma slots_stop [simp]: "slots (stop d) = slots d"
  by (simp add: slots_def stop_def table_slots_def)

lemma mset_entry_slots:
  "mset entries = mset (dq_pending d) \<Longrightarrow>
   mset (map (\<lambda>y. pn_reply (snd y)) entries) = mset (table_slots d)"
  unfolding table_slots_def by (metis mset_map)

lemma slots_drain:
  "mset entries = mset (dq_pending d) \<Longrightarrow>
   slots (drain_pending_with_error entries e d) = slots d"
  using mset_entry_slots [of entries d]
  by (simp add: slots_def drain_with_error_eq table_slots_def)

lemma slots_deliver: "slots (deliver s r d) = add_mset s (slots d)"
  by (simp add: slots_def deliver_def table_slots_def)

lemma slots_take: "dq_queue d = ob # obs \<Longrightarrow> slots d = add_mset (ob_reply ob) (slots (d\<lparr>dq_queue := obs\<rparr>))"
  by (simp add: slots_def table_slots_def)

lemma mset_update_slots:
  "distinct (map fst ps) \<Longrightarrow>
   mset (map (\<lambda>x. pn_reply (snd x)) (AList.update i p ps)) +
     mset (case map_of ps i of None \<Rightarrow> [] | Some q \<Rightarrow> [pn_reply q]) =
   add_mset (pn_reply p) (mset (map (\<lambda>x. pn_reply (snd x)) ps))"
  by (induction ps) (auto split: option.splits)

lemma mset_delete_slots:
  "distinct (map fst ps) \<Longrightarrow> map_of ps i = Some p \<Longrightarrow>
   add_mset (pn_reply p) (mset (map (\<lambda>x. pn_reply (snd x)) (AList.delete i ps))) =
   mset (map (\<lambda>x. pn_reply (snd x)) ps)"
proof (induction ps)
  case (Cons x ps)
  show ?case
  proof (cases "fst x = i")
    case True
    with Cons.prems have "AList.delete i (x # ps) = ps"
      by (cases x) (auto simp: delete_id image_iff dest: map_of_SomeD)
    with True Cons.prems show ?thesis by (cases x) simp
  next
    case False
    with Cons show ?thesis by (cases x) (simp add: add_mset_commute)
  qed
qed simp

lemma slots_insert:
  "distinct (map fst (dq_pending d)) \<Longrightarrow>
   slots (insert_pending i p d) = add_mset (pn_reply p) (slots d)"
  using mset_update_slots [of "dq_pending d" i p]
  by (simp add: slots_def insert_pending_def table_slots_def ac_simps)

lemma slots_answer:
  "distinct (map fst (dq_pending d)) \<Longrightarrow> slots (answer i r d) = slots d"
  using mset_delete_slots [of "dq_pending d" i]
  by (auto simp: answer_def slots_def table_slots_def deliver_def split: option.splits
      simp flip: add_mset_add_single)

section \<open>The invariant\<close>

text \<open>The slot \<open>s\<close> belongs to a request with id \<open>i\<close> and kind \<open>k\<close>.\<close>

definition slot_for :: "dispatcher \<Rightarrow> slot \<Rightarrow> string \<Rightarrow> pending_kind \<Rightarrow> bool" where
  "slot_for d s i k =
     (s < length (dq_requests d) \<and> request_id (dq_requests d ! s) = i \<and>
      request_kind (dq_requests d ! s) = k)"

definition wire_bytes :: "foreign \<Rightarrow> request \<Rightarrow> string option" where
  "wire_bytes L r = (case fo_to_vec L (ser_request r) of Inl e \<Rightarrow> None | Inr b \<Rightarrow> Some b)"

definition inv_slots :: "dispatcher \<Rightarrow> bool" where
  "inv_slots d = (slots d = mset [0..<length (dq_requests d)])"

definition inv_table :: "dispatcher \<Rightarrow> bool" where
  "inv_table d =
     (distinct (map fst (dq_pending d)) \<and>
      (\<forall>x \<in> set (dq_pending d). slot_for d (pn_reply (snd x)) (fst x) (pn_kind (snd x))) \<and>
      (\<forall>ob \<in> set (dq_queue d). slot_for d (ob_reply ob) (ob_id ob) (ob_kind ob)))"

definition inv_replies :: "dispatcher \<Rightarrow> bool" where
  "inv_replies d =
     (\<forall>s r. (s, Inr r) \<in> set (dq_delivered d) \<longrightarrow>
        (\<exists>q i k. slot_for d s i k \<and> response_id q = i \<and> r = remap_response k q))"

definition inv_count :: "dispatcher \<Rightarrow> bool" where
  "inv_count d = (dq_in_flight d = of_nat (length (dq_pending d) + length (dq_lost d)))"

definition inv_stopped :: "dispatcher \<Rightarrow> bool" where
  "inv_stopped d = (\<not> dq_running d \<longrightarrow> dq_queue d = [] \<and> dq_pending d = [])"

definition inv_queue :: "foreign \<Rightarrow> dispatcher \<Rightarrow> bool" where
  "inv_queue L d =
     (length (dq_queue d) \<le> SEND_QUEUE_CAPACITY \<and>
      (\<exists>rest. map (wire_bytes L) (dq_requests d) = map Some (dq_written d @ rest) \<and>
         (dq_running d \<longrightarrow> rest = map ob_bytes (dq_queue d))))"

definition dinv :: "foreign \<Rightarrow> dispatcher \<Rightarrow> bool" where
  "dinv L d = (inv_slots d \<and> inv_table d \<and> inv_replies d \<and> inv_count d \<and> inv_stopped d \<and>
     inv_queue L d)"

lemmas inv_defs = inv_slots_def inv_table_def inv_replies_def inv_count_def inv_stopped_def
  inv_queue_def slot_for_def

lemma dinv_spawn: "dinv L spawn"
  by (simp add: dinv_def inv_defs spawn_def slots_def table_slots_def)

subsection \<open>Submitting\<close>

lemma submit_Enqueued:
  assumes "submit L r d = (Enqueued s, d')"
  obtains b where "fo_to_vec L (ser_request r) = Inr b" "dq_running d"
    "length (dq_queue d) < SEND_QUEUE_CAPACITY" "s = length (dq_requests d)"
    "d' = d\<lparr>dq_queue := dq_queue d @
              [\<lparr>ob_id = request_id r, ob_bytes = b, ob_reply = s, ob_kind = request_kind r\<rparr>],
            dq_requests := dq_requests d @ [r]\<rparr>"
  using assms by (auto simp: submit_def Let_def split: sum.splits if_splits)

lemma slot_for_snoc:
  "slot_for d s i k \<Longrightarrow> slot_for (d\<lparr>dq_queue := q, dq_requests := dq_requests d @ [r]\<rparr>) s i k"
  by (auto simp: slot_for_def nth_append)

lemma slot_for_cong [simp]:
  "slot_for (d\<lparr>dq_queue := q\<rparr>) = slot_for d"
  "slot_for (d\<lparr>dq_pending := p\<rparr>) = slot_for d"
  "slot_for (d\<lparr>dq_in_flight := n\<rparr>) = slot_for d"
  "slot_for (d\<lparr>dq_running := b\<rparr>) = slot_for d"
  "slot_for (d\<lparr>dq_written := w\<rparr>) = slot_for d"
  "slot_for (d\<lparr>dq_delivered := l\<rparr>) = slot_for d"
  "slot_for (d\<lparr>dq_unsent := u\<rparr>) = slot_for d"
  "slot_for (d\<lparr>dq_lost := v\<rparr>) = slot_for d"
  by (simp_all add: slot_for_def fun_eq_iff)

lemma dinv_submit:
  assumes "submit L r d = (Enqueued s, d')" "dinv L d"
  shows "dinv L d'"
proof -
  from assms(1) obtain b where
    *: "fo_to_vec L (ser_request r) = Inr b" "dq_running d"
      "length (dq_queue d) < SEND_QUEUE_CAPACITY" "s = length (dq_requests d)"
      "d' = d\<lparr>dq_queue := dq_queue d @
              [\<lparr>ob_id = request_id r, ob_bytes = b, ob_reply = s, ob_kind = request_kind r\<rparr>],
            dq_requests := dq_requests d @ [r]\<rparr>"
    by (rule submit_Enqueued)
  have new: "slot_for d' s (request_id r) (request_kind r)"
    by (simp add: * slot_for_def)
  have old: "slot_for d' t i k" if "slot_for d t i k" for t i k
    using that slot_for_snoc by (auto simp: *)
  have "inv_slots d'"
    using assms(2) by (simp add: dinv_def inv_slots_def slots_def table_slots_def *)
  moreover have "inv_table d'"
    using assms(2) old new by (auto simp: dinv_def inv_table_def *)
  moreover have "inv_replies d'"
    using assms(2) old unfolding dinv_def inv_replies_def * by simp blast
  moreover have "inv_count d'" "inv_stopped d'"
    using assms(2) by (simp_all add: dinv_def inv_count_def inv_stopped_def *)
  moreover have "inv_queue L d'"
    using assms(2) * by (auto simp: dinv_def inv_queue_def wire_bytes_def)
  ultimately show ?thesis by (simp add: dinv_def)
qed

subsection \<open>Ending\<close>

lemma inv_table_stop: "inv_table (stop d)"
  by (simp add: inv_table_def stop_def)

lemma dinv_stop:
  assumes "dinv L d"
  shows "dinv L (stop d)"
proof -
  have "inv_slots (stop d)"
    using assms unfolding dinv_def inv_slots_def by (simp only: slots_stop) (simp add: stop_def)
  moreover have "inv_replies (stop d)" "inv_count (stop d)" "inv_stopped (stop d)"
    using assms by (auto simp: dinv_def inv_replies_def inv_count_def inv_stopped_def stop_def)
  moreover have "inv_queue L (stop d)"
    using assms by (auto simp: dinv_def inv_queue_def stop_def)
  ultimately show ?thesis by (simp add: dinv_def inv_table_stop)
qed

lemma dinv_drain:
  assumes "dinv L d" "mset entries = mset (dq_pending d)"
  shows "dinv L (drain_pending_with_error entries e d)"
proof -
  let ?d = "drain_pending_with_error entries e d"
  have len: "length entries = length (dq_pending d)"
    using assms(2) by (rule mset_eq_length)
  have "inv_slots ?d"
    using assms by (simp add: dinv_def inv_slots_def slots_drain [OF assms(2)])
      (simp add: drain_with_error_eq)
  moreover have "inv_replies ?d"
    using assms(1) by (auto simp: dinv_def inv_replies_def drain_with_error_eq drain_replies_Inl)
  moreover have "inv_count ?d"
    using assms(1) len by (simp add: dinv_def inv_count_def drain_with_error_eq)
  moreover have "inv_table ?d" "inv_stopped ?d" "inv_queue L ?d"
    using assms(1)
    by (auto simp: dinv_def inv_table_def inv_stopped_def inv_queue_def drain_with_error_eq)
  ultimately show ?thesis by (simp add: dinv_def)
qed

lemma handle_read_error_inv:
  "dinv L d \<Longrightarrow> mset entries = mset (dq_pending d) \<Longrightarrow> dinv L (handle_read_error entries e d)"
  by (simp add: handle_read_error_def dinv_stop dinv_drain)

lemma handle_end_inv:
  "dinv L d \<Longrightarrow> mset entries = mset (dq_pending d) \<Longrightarrow> dinv L (handle_end entries d)"
  by (simp add: handle_end_def drain_pending_def dinv_stop dinv_drain)

subsection \<open>Writing and routing\<close>

lemma in_set_update: "x \<in> set (AList.update k v xs) \<Longrightarrow> x = (k, v) \<or> x \<in> set xs"
  by (induction xs) (auto split: if_splits)

lemma insert_pending_table:
  assumes "inv_table d" "slot_for d (pn_reply p) i (pn_kind p)"
  shows "inv_table (insert_pending i p d)"
  using assms
  by (auto simp: inv_table_def insert_pending_def distinct_update dest!: in_set_update)

lemma length_update_distinct:
  "distinct (map fst ps) \<Longrightarrow>
   length (AList.update i p ps) + length (case map_of ps i of None \<Rightarrow> [] | Some q \<Rightarrow> [pn_reply q]) =
   Suc (length ps)"
  by (induction ps) (auto split: option.splits)

lemma dinv_take_ok:
  assumes "dinv L d" "dq_running d" "dq_queue d = ob # obs"
  shows "dinv L (handle_outbound entries None ob (d\<lparr>dq_queue := obs\<rparr>))"
proof -
  let ?p = "\<lparr>pn_reply = ob_reply ob, pn_kind = ob_kind ob\<rparr>"
  let ?w = "d\<lparr>dq_queue := obs, dq_written := dq_written d @ [ob_bytes ob],
              dq_in_flight := dq_in_flight d + 1\<rparr>"
  let ?d = "insert_pending (ob_id ob) ?p ?w"
  have eq: "handle_outbound entries None ob (d\<lparr>dq_queue := obs\<rparr>) = ?d"
    by (simp add: handle_outbound_def)
  have dist: "distinct (map fst (dq_pending ?w))"
    using assms(1) by (simp add: dinv_def inv_table_def)
  have req: "dq_requests ?d = dq_requests d"
    by (simp add: insert_pending_def)
  have "slots ?d = slots d"
    using slots_insert [OF dist, of "ob_id ob" ?p] slots_take [OF assms(3)]
    by (simp add: slots_def table_slots_def)
  then have "inv_slots ?d"
    using assms(1) by (simp add: dinv_def inv_slots_def req)
  moreover have "inv_table ?d"
    using assms by (intro insert_pending_table) (auto simp: dinv_def inv_table_def)
  moreover have "inv_replies ?d"
    using assms(1) by (auto simp: dinv_def inv_replies_def insert_pending_def)
  moreover have "inv_count ?d"
  proof -
    have "length (dq_pending ?d) + length (dq_lost ?d) =
        Suc (length (dq_pending d) + length (dq_lost d))"
      using length_update_distinct [of "dq_pending d" "ob_id ob" ?p] dist
      by (simp add: insert_pending_def)
    moreover have "dq_in_flight ?d = dq_in_flight d + 1" by (simp add: insert_pending_def)
    ultimately show ?thesis
      using assms(1) by (simp add: dinv_def inv_count_def)
  qed
  moreover have "inv_stopped ?d"
    using assms(2) by (simp add: inv_stopped_def insert_pending_def)
  moreover have "inv_queue L ?d"
    using assms by (auto simp: dinv_def inv_queue_def insert_pending_def)
  ultimately show ?thesis by (simp add: eq dinv_def)
qed

lemma dinv_take_failed:
  assumes "dinv L d" "dq_running d" "dq_queue d = ob # obs" "mset entries = mset (dq_pending d)"
  shows "dinv L (handle_outbound entries (Some e) ob (d\<lparr>dq_queue := obs\<rparr>))"
proof -
  let ?t = "deliver (ob_reply ob) (Inl (error_from_transport e)) (d\<lparr>dq_queue := obs\<rparr>)"
  let ?r = "drain_pending_with_error entries (error_from_transport Closed) ?t"
  have eq: "handle_outbound entries (Some e) ob (d\<lparr>dq_queue := obs\<rparr>) = stop ?r"
    by (simp add: handle_outbound_def drain_pending_def)
  have len: "length entries = length (dq_pending d)"
    using assms(4) by (rule mset_eq_length)
  have pend: "mset entries = mset (dq_pending ?t)"
    using assms(4) by (simp add: deliver_def)
  have "slots (stop ?r) = slots d"
    using slots_take [OF assms(3)] by (simp add: slots_drain [OF pend] slots_deliver)
  then have "inv_slots (stop ?r)"
    using assms(1) by (simp add: dinv_def inv_slots_def) (simp add: handler_eqs)
  moreover have "inv_replies (stop ?r)"
    using assms(1) by (auto simp: dinv_def inv_replies_def handler_eqs drain_replies_Inl)
  moreover have "inv_count (stop ?r)" "inv_stopped (stop ?r)" "inv_queue L (stop ?r)"
    using assms(1) len
    by (auto simp: dinv_def inv_count_def inv_stopped_def inv_queue_def handler_eqs)
  ultimately show ?thesis by (simp add: eq dinv_def inv_table_stop)
qed

lemma length_delete_distinct:
  "distinct (map fst ps) \<Longrightarrow> map_of ps i = Some p \<Longrightarrow>
   Suc (length (AList.delete i ps)) = length (ps :: (string \<times> pending) list)"
  using arg_cong [OF mset_delete_slots, of ps i p size] by simp

lemma in_set_delete: "x \<in> set (AList.delete k xs) \<Longrightarrow> x \<in> set xs"
  by (auto simp: AList.delete_eq)

lemma dinv_answer:
  assumes "dinv L d" "dq_running d"
    and ok: "\<And>k q. r k = Inr q \<Longrightarrow> \<exists>q0. response_id q0 = i \<and> q = remap_response k q0"
  shows "dinv L (answer i r d)"
proof (cases "map_of (dq_pending d) i")
  case None
  with assms(1) show ?thesis by (simp add: answer_def)
next
  case (Some p)
  let ?d = "answer i r d"
  have dist: "distinct (map fst (dq_pending d))"
    using assms(1) by (simp add: dinv_def inv_table_def)
  have sf: "slot_for d (pn_reply p) i (pn_kind p)"
    using assms(1) map_of_SomeD [OF Some] by (auto simp: dinv_def inv_table_def)
  have eq: "?d = d\<lparr>dq_pending := AList.delete i (dq_pending d),
      dq_in_flight := dq_in_flight d - 1,
      dq_delivered := dq_delivered d @ [(pn_reply p, r (pn_kind p))]\<rparr>"
    by (simp add: answer_def Some deliver_def)
  have "inv_slots ?d"
    using assms(1) slots_answer [OF dist, of i r] by (simp add: dinv_def inv_slots_def eq)
  moreover have "inv_table ?d"
    using assms(1) by (auto simp: dinv_def inv_table_def eq distinct_delete dest!: in_set_delete)
  moreover have "inv_replies ?d"
  proof -
    have "\<exists>q k. slot_for d (pn_reply p) (response_id q) k \<and> ra = remap_response k q"
      if "Inr ra = r (pn_kind p)" for ra
      using ok [OF that [symmetric]] sf by blast
    then show ?thesis using assms(1) by (auto simp: dinv_def inv_replies_def eq)
  qed
  moreover have "inv_count ?d"
  proof -
    have "dq_in_flight d = of_nat (Suc (length (AList.delete i (dq_pending d))) + length (dq_lost d))"
      using assms(1) length_delete_distinct [OF dist Some] by (simp add: dinv_def inv_count_def)
    then show ?thesis by (simp add: inv_count_def eq)
  qed
  moreover have "inv_stopped ?d" "inv_queue L ?d"
    using assms(1,2) by (auto simp: dinv_def inv_stopped_def inv_queue_def eq)
  ultimately show ?thesis by (simp add: dinv_def)
qed

lemma dinv_frame:
  assumes "dinv L d" "dq_running d" "mset entries = mset (dq_pending d)"
  shows "dinv L (handle_frame L entries b d)"
  using assms
  by (auto simp: handle_frame_def dinv_stop dinv_drain split: sum.split option.split
      intro!: dinv_answer)

subsection \<open>Every run\<close>

lemma dstep_dinv: "dstep L d e d' \<Longrightarrow> dinv L d \<Longrightarrow> dinv L d'"
proof (induction rule: dstep.induct)
  case (Take d ob obs entries d' failed)
  then show ?case by (cases failed) (simp_all add: dinv_take_ok dinv_take_failed)
qed (simp_all add: dinv_submit dinv_stop dinv_frame handle_read_error_inv handle_end_inv)

lemma druns_dinv: "druns L d es d' \<Longrightarrow> dinv L d \<Longrightarrow> dinv L d'"
  by (induction rule: druns.induct) (simp_all add: dstep_dinv)

lemma reachable_dinv: "druns L spawn es d \<Longrightarrow> dinv L d"
  using druns_dinv dinv_spawn by blast

section \<open>What callers see\<close>

lemma reachable_slots: "druns L spawn es d \<Longrightarrow> slots d = mset [0..<length (dq_requests d)]"
  using reachable_dinv [of L es d] by (simp add: dinv_def inv_slots_def)

lemma slots_distinct:
  assumes "dinv L d"
  shows "distinct (map ob_reply (dq_queue d) @ table_slots d @ map fst (dq_delivered d) @
           dq_unsent d @ dq_lost d)"
proof -
  have "mset (map ob_reply (dq_queue d) @ table_slots d @ map fst (dq_delivered d) @
          dq_unsent d @ dq_lost d) = mset [0..<length (dq_requests d)]"
    using assms by (simp add: dinv_def inv_slots_def slots_def ac_simps)
  then show ?thesis by (metis distinct_upt mset_eq_imp_distinct_iff)
qed

lemma slots_cover:
  assumes "dinv L d" "s < length (dq_requests d)"
  shows "s \<in> set (map ob_reply (dq_queue d)) \<union> set (table_slots d) \<union>
           set (map fst (dq_delivered d)) \<union> set (dq_unsent d) \<union> set (dq_lost d)"
proof -
  have "s \<in># slots d"
    using assms by (simp add: dinv_def inv_slots_def)
  then show ?thesis by (auto simp: slots_def)
qed

lemma received_None_iff:
  "received s d = None \<longleftrightarrow>
   s \<notin> set (map fst (dq_delivered d)) \<and> s \<notin> set (dq_unsent d) \<and> s \<notin> set (dq_lost d)"
proof (cases "map_of (dq_delivered d) s")
  case None
  then have "s \<notin> set (map fst (dq_delivered d))" by (simp add: map_of_eq_None_iff)
  with None show ?thesis by (simp add: received_def)
next
  case (Some r)
  then have "s \<in> set (map fst (dq_delivered d))"
    by (force dest: map_of_SomeD)
  with Some show ?thesis by (simp add: received_def)
qed

lemma received_Inr: "received s d = Some (Inr r) \<Longrightarrow> (s, Inr r) \<in> set (dq_delivered d)"
  by (auto simp: received_def dest: map_of_SomeD split: option.splits if_splits)

text \<open>
  C1. A reply slot is never lost and never answered twice: in every reachable state each
  submitted request's slot is in exactly one place, once -- still queued, in the table, answered,
  or dropped.
\<close>

theorem slot_accounting:
  assumes "druns L spawn es d"
  shows "mset (map ob_reply (dq_queue d)) + mset (map (\<lambda>p. pn_reply (snd p)) (dq_pending d)) +
           mset (map fst (dq_delivered d)) + mset (dq_unsent d) + mset (dq_lost d) =
         mset [0..<length (dq_requests d)]"
  using reachable_slots [OF assms] by (simp only: slots_def table_slots_def)

lemma ended_received:
  assumes inv: "dinv L d" and "\<not> dq_running d" "s < length (dq_requests d)"
  shows "received s d \<noteq> None"
proof -
  have "dq_queue d = []" "dq_pending d = []"
    using assms(1,2) by (simp_all add: dinv_def inv_stopped_def)
  then show ?thesis
    using slots_cover [OF inv assms(3)] by (auto simp: received_None_iff table_slots_def)
qed

text \<open>
  C2. No caller hangs on a dead connection: once the task has ended -- socket closed, read or
  write error, undecodable stream, handle dropped -- every request ever submitted has an outcome.
\<close>

theorem nobody_hangs:
  assumes "druns L spawn es d" "\<not> dq_running d" "s < length (dq_requests d)"
  shows "received s d \<noteq> None"
  using ended_received [OF reachable_dinv [OF assms(1)] assms(2,3)] .

subsection \<open>Where replies come from\<close>

lemma delivered_drain [simp]:
  "dq_delivered (drain_pending_with_error es e d) = dq_delivered d @ drain_replies e es"
  by (simp add: drain_with_error_eq)

lemma delivered_stop [simp]: "dq_delivered (stop d) = dq_delivered d"
  by (simp add: stop_def)

lemma delivered_deliver [simp]: "dq_delivered (deliver s r d) = dq_delivered d @ [(s, r)]"
  by (simp add: deliver_def)

lemma delivered_insert [simp]: "dq_delivered (insert_pending i p d) = dq_delivered d"
  by (simp add: insert_pending_def)

lemma answer_delivered_Inr:
  "(s, Inr r) \<in> set (dq_delivered (answer i f d)) \<Longrightarrow>
   (s, Inr r) \<in> set (dq_delivered d) \<or>
   (\<exists>p. map_of (dq_pending d) i = Some p \<and> s = pn_reply p \<and> f (pn_kind p) = Inr r)"
  by (auto simp: answer_def split: option.splits)

lemma dstep_delivered:
  assumes "dstep L d e d'" "(s, Inr r) \<in> set (dq_delivered d')"
  shows "(s, Inr r) \<in> set (dq_delivered d) \<or>
    (\<exists>b v q p. e = Frame b \<and> fo_from_slice L b = Inr v \<and> decode_value v = Inr q \<and>
       map_of (dq_pending d) (response_id q) = Some p \<and> s = pn_reply p \<and>
       r = remap_response (pn_kind p) q)"
  using assms(1)
proof cases
  case Submit
  then show ?thesis using assms(2) by (elim submit_Enqueued) auto
next
  case Take
  then show ?thesis using assms(2)
    by (auto simp: handle_outbound_def drain_pending_def drain_replies_Inl split: option.splits)
next
  case Frame
  then show ?thesis using assms(2)
    by (auto simp: handle_frame_def drain_replies_Inl split: sum.splits option.splits
        dest: answer_delivered_Inr)
qed (use assms(2) in \<open>auto simp: handle_read_error_def handle_end_def drain_pending_def
       drain_replies_Inl\<close>)

lemma dstep_requests:
  "dstep L d e d' \<Longrightarrow> \<exists>rs. dq_requests d' = dq_requests d @ rs"
proof (induction rule: dstep.induct)
  case (Take d ob obs entries d' failed)
  then show ?case
    by (cases failed) (auto simp: handle_outbound_def insert_pending_def handler_eqs)
next
  case (Frame d entries d' bytes)
  then show ?case
    by (auto simp: handle_frame_def answer_def handler_eqs split: sum.splits option.splits)
qed (auto simp: handle_read_error_def handle_end_def handler_eqs elim: submit_Enqueued)

lemma slot_for_step:
  "dstep L d e d' \<Longrightarrow> slot_for d s i k \<Longrightarrow> slot_for d' s i k"
  by (frule dstep_requests) (auto simp: slot_for_def nth_append)

lemma run_delivered:
  "druns L spawn es d \<Longrightarrow> (s, Inr r) \<in> set (dq_delivered d) \<Longrightarrow>
   \<exists>b v q i k. Frame b \<in> set es \<and> fo_from_slice L b = Inr v \<and> decode_value v = Inr q \<and>
     slot_for d s i k \<and> response_id q = i \<and> r = remap_response k q"
proof (induction "spawn" es d rule: druns.induct)
  case Nil
  then show ?case by (simp add: spawn_def)
next
  case (Snoc es d e d')
  have inv: "dinv L d" by (rule reachable_dinv [OF Snoc.hyps(1)])
  from dstep_delivered [OF Snoc.hyps(3) Snoc.prems] show ?case
  proof
    assume "(s, Inr r) \<in> set (dq_delivered d)"
    from Snoc.hyps(2) [OF this] obtain b v q i k
      where old: "Frame b \<in> set es" "fo_from_slice L b = Inr v" "decode_value v = Inr q"
        "slot_for d s i k" "response_id q = i" "r = remap_response k q" by blast
    with slot_for_step [OF Snoc.hyps(3) old(4)] show ?case by auto
  next
    assume "\<exists>b v q p. e = Frame b \<and> fo_from_slice L b = Inr v \<and> decode_value v = Inr q \<and>
       map_of (dq_pending d) (response_id q) = Some p \<and> s = pn_reply p \<and>
       r = remap_response (pn_kind p) q"
    then obtain b v q p where new: "e = Frame b" "fo_from_slice L b = Inr v"
      "decode_value v = Inr q" "map_of (dq_pending d) (response_id q) = Some p"
      "s = pn_reply p" "r = remap_response (pn_kind p) q" by blast
    have "slot_for d s (response_id q) (pn_kind p)"
      using inv map_of_SomeD [OF new(4)] new(5) by (auto simp: dinv_def inv_table_def)
    then have "slot_for d' s (response_id q) (pn_kind p)"
      by (rule slot_for_step [OF Snoc.hyps(3)])
    moreover have "Frame b \<in> set (es @ [e])" using new(1) by simp
    ultimately show ?case using new by blast
  qed
qed

text \<open>The errors the task hands out are transport and protocol errors.\<close>

definition wire_error :: "error \<Rightarrow> bool" where
  "wire_error e = ((\<exists>t. e = Transport t) \<or> (\<exists>p. e = Protocol p))"

lemma wire_error_simps [simp]:
  "wire_error (error_from_transport t)" "wire_error (error_from_protocol p)"
  by (simp_all add: wire_error_def error_from_defs)

lemma drain_replies_errors:
  "wire_error e \<Longrightarrow> (s, Inl x) \<in> set (drain_replies e es) \<Longrightarrow> wire_error x"
  by (cases es) (auto simp: drain_replies_def)

lemma dstep_errors:
  assumes "dstep L d e d'" "(s, Inl x) \<in> set (dq_delivered d')"
  shows "(s, Inl x) \<in> set (dq_delivered d) \<or> wire_error x"
  using assms(1)
proof cases
  case Submit
  then show ?thesis using assms(2) by (elim submit_Enqueued) auto
next
  case Take
  then show ?thesis using assms(2)
    by (auto simp: handle_outbound_def drain_pending_def split: option.splits
        dest: drain_replies_errors [rotated])
next
  case Frame
  then show ?thesis using assms(2)
    by (auto simp: handle_frame_def answer_def split: sum.splits option.splits
        dest: drain_replies_errors [rotated])
qed (use assms(2) in \<open>auto simp: handle_read_error_def handle_end_def drain_pending_def
       dest: drain_replies_errors [rotated]\<close>)

lemma run_errors:
  "druns L spawn es d \<Longrightarrow> (s, Inl x) \<in> set (dq_delivered d) \<Longrightarrow> wire_error x"
proof (induction "spawn" es d rule: druns.induct)
  case Nil
  then show ?case by (simp add: spawn_def)
next
  case (Snoc es d e d')
  then show ?case using dstep_errors by blast
qed

lemma received_errors: "druns L spawn es d \<Longrightarrow> received s d = Some (Inl x) \<Longrightarrow> wire_error x"
  using run_errors by (force simp: received_def dest: map_of_SomeD split: option.splits if_splits)

lemma remap_response_id [simp]: "response_id (remap_response k r) = response_id r"
  by (cases "(k, r)" rule: remap_response.cases) simp_all

text \<open>
  C3. Replies are correlated: a caller that receives an answer receives the decoding of a
  frame that came off this connection, carrying the id of the caller's own request, and rewritten
  only by the rule for that request's kind.
\<close>

theorem reply_correlated:
  assumes "druns L spawn es d" "received s d = Some (Inr r)"
  shows "s < length (dq_requests d) \<and> response_id r = request_id (dq_requests d ! s) \<and>
    (\<exists>b v q. Frame b \<in> set es \<and> fo_from_slice L b = Inr v \<and> decode_value v = Inr q \<and>
       r = remap_response (request_kind (dq_requests d ! s)) q)"
  using run_delivered [OF assms(1) received_Inr [OF assms(2)]]
  by (auto simp: slot_for_def)

subsection \<open>The effect of one frame\<close>

lemma received_answer:
  assumes "dinv L d" "map_of (dq_pending d) i = Some p"
  shows "received (pn_reply p) (answer i f d) = Some (f (pn_kind p))"
    and "s \<noteq> pn_reply p \<Longrightarrow> received s (answer i f d) = received s d"
proof -
  have "pn_reply p \<in> set (table_slots d)"
    using map_of_SomeD [OF assms(2)] by (force simp: table_slots_def)
  then have "pn_reply p \<notin> set (map fst (dq_delivered d))"
    using slots_distinct [OF assms(1)] by auto
  then have none: "map_of (dq_delivered d) (pn_reply p) = None"
    by (simp add: map_of_eq_None_iff)
  then show "received (pn_reply p) (answer i f d) = Some (f (pn_kind p))"
    by (simp add: received_def answer_def assms(2) deliver_def map_add_def)
  show "s \<noteq> pn_reply p \<Longrightarrow> received s (answer i f d) = received s d"
    by (simp add: received_def answer_def assms(2) deliver_def map_add_def split: option.split)
qed

lemma answer_table:
  "map_of (dq_pending (answer i f d)) = (map_of (dq_pending d))(i := None)"
  by (auto simp: answer_def deliver_def delete_conv' fun_upd_idem split: option.split)

lemma answer_running [simp]: "dq_running (answer i f d) = dq_running d"
  by (simp add: answer_def deliver_def split: option.split)

lemma answer_None: "map_of (dq_pending d) i = None \<Longrightarrow> answer i f d = d"
  by (simp add: answer_def)

text \<open>
  An answer reaches its caller at once: when a frame decodes and its id has a slot in the
  table, that step gives exactly that slot the remapped answer, removes exactly that id from
  the table, leaves what every other caller sees unchanged, and keeps the task running.
\<close>

theorem frame_answers_its_caller:
  assumes "druns L spawn es d" "dstep L d (Frame b) d'"
    and "fo_from_slice L b = Inr v" "decode_value v = Inr q"
    and "map_of (dq_pending d) (response_id q) = Some p"
  shows "received (pn_reply p) d' = Some (Inr (remap_response (pn_kind p) q)) \<and>
    (\<forall>s. s \<noteq> pn_reply p \<longrightarrow> received s d' = received s d) \<and>
    map_of (dq_pending d') = (map_of (dq_pending d))(response_id q := None) \<and> dq_running d'"
proof -
  have inv: "dinv L d" by (rule reachable_dinv [OF assms(1)])
  from assms(2) have "dq_running d"
    and d': "d' = answer (response_id q) (\<lambda>k. Inr (remap_response k q)) d"
    using assms(3,4) by (auto simp: dstep_Frame handle_frame_def)
  with received_answer [OF inv assms(5)] show ?thesis
    by (simp add: answer_table)
qed

text \<open>
  A frame that cannot be decoded fails at most one request: if it is JSON, the task keeps
  running and only the slot of the frame's own \<open>id\<close> (when it has one in the table) gets the
  decoding error; all other callers and table entries are untouched.
\<close>

theorem bad_frame_is_contained:
  assumes "druns L spawn es d" "dstep L d (Frame b) d'"
    and "fo_from_slice L b = Inr v" "decode_value v = Inl e"
  shows "dq_running d' \<and>
    (case Option.bind (frame_id v) (map_of (dq_pending d)) of
       None \<Rightarrow> d' = d
     | Some p \<Rightarrow> received (pn_reply p) d' =
           Some (Inl (Protocol (protocol_decode_error L e))) \<and>
         (\<forall>s. s \<noteq> pn_reply p \<longrightarrow> received s d' = received s d) \<and>
         map_of (dq_pending d') = (map_of (dq_pending d))(the (frame_id v) := None))"
proof (cases "frame_id v")
  case None
  then show ?thesis using assms by (auto simp: dstep_Frame handle_frame_def)
next
  case (Some i)
  have inv: "dinv L d" by (rule reachable_dinv [OF assms(1)])
  from assms(2) Some have "dq_running d"
    and d': "d' = answer i (\<lambda>k. Inl (Protocol (protocol_decode_error L e))) d"
    using assms(3,4) by (auto simp: dstep_Frame handle_frame_def error_from_defs)
  with Some received_answer [OF inv] show ?thesis
    by (cases "map_of (dq_pending d) i") (simp_all add: answer_None answer_table)
qed

subsection \<open>Fatal events\<close>

fun fatal :: "foreign \<Rightarrow> event \<Rightarrow> error option" where
  "fatal L (ReadError e) = Some (Transport e)"
| "fatal L EndOfStream = Some (Transport Closed)"
| "fatal L (Take (Some e)) = Some (Transport Closed)"
| "fatal L (Frame b) =
     (case fo_from_slice L b of Inl e \<Rightarrow> Some (Protocol (Json e)) | Inr v \<Rightarrow> None)"
| "fatal L e = None"

text \<open>
  C22. A fatal event ends the task and answers everybody: when the socket closes, a read or a
  write fails, or the stream is not JSON, every slot of the table gets an error in the same step --
  one of them, whichever the map yields first, the cause, the others \<open>Closed\<close> -- after the
  error of the request whose write failed, and the counter drops by the number of entries.
\<close>

theorem fatal_event_drains:
  assumes "dstep L d e d'" "fatal L e = Some cause"
  shows "\<not> dq_running d' \<and> dq_pending d' = [] \<and> dq_queue d' = [] \<and>
    (\<exists>entries. mset entries = mset (dq_pending d) \<and>
       dq_in_flight d' = dq_in_flight d - of_nat (length (dq_pending d)) \<and>
       dq_delivered d' = dq_delivered d @
         (case e of Take (Some t) \<Rightarrow> [(ob_reply (hd (dq_queue d)), Inl (Transport t))] | _ \<Rightarrow> []) @
         drain_replies cause entries)"
  using assms
proof (induction rule: dstep.induct)
  case (Take d ob obs entries d' failed)
  then obtain t where t: "failed = Some t" "cause = Transport Closed"
    by (cases failed) auto
  have "length entries = length (dq_pending d)" using Take.hyps(3) by (rule mset_eq_length)
  with Take t show ?case
    by (auto simp: handle_outbound_def handler_eqs error_from_defs intro!: exI [of _ entries])
next
  case (Frame d entries d' bytes)
  have "length entries = length (dq_pending d)" using Frame.hyps(2) by (rule mset_eq_length)
  with Frame show ?case
    by (auto simp: handle_frame_def handler_eqs error_from_defs split: sum.splits
        intro!: exI [of _ entries])
next
  case (ReadError d entries d' e)
  have "length entries = length (dq_pending d)" using ReadError.hyps(2) by (rule mset_eq_length)
  with ReadError show ?case
    by (auto simp: handle_read_error_def handler_eqs error_from_defs intro!: exI [of _ entries])
next
  case (EndOfStream d entries d')
  have "length entries = length (dq_pending d)" using EndOfStream.hyps(2) by (rule mset_eq_length)
  with EndOfStream show ?case
    by (auto simp: handle_end_def handler_eqs error_from_defs intro!: exI [of _ entries])
qed simp_all

section \<open>Order of writes and the counter\<close>

text \<open>
  C27. Requests go out in the order they were submitted: what has been written is a prefix of
  the serialised requests in submission order, and while the task runs the rest of that list is
  exactly the queue, which never exceeds 64 entries.
\<close>

theorem writes_in_order:
  assumes "druns L spawn es d"
  shows "length (dq_queue d) \<le> 64 \<and>
    prefix (map Some (dq_written d)) (map (wire_bytes L) (dq_requests d)) \<and>
    (dq_running d \<longrightarrow>
       map (wire_bytes L) (dq_requests d) = map Some (dq_written d @ map ob_bytes (dq_queue d)))"
proof -
  have "inv_queue L d" using reachable_dinv [OF assms] by (simp add: dinv_def)
  then show ?thesis by (auto simp: inv_queue_def SEND_QUEUE_CAPACITY_def)
qed

text \<open>No running task has dropped a slot, as long as no two requests shared an id.\<close>

definition inv_lost :: "dispatcher \<Rightarrow> bool" where
  "inv_lost d =
     (dq_running d \<longrightarrow> dq_unsent d = [] \<and>
        (distinct (map request_id (dq_requests d)) \<longrightarrow> dq_lost d = []))"

lemma take_keeps_lost:
  assumes "dinv L d" "dq_queue d = ob # obs" "distinct (map request_id (dq_requests d))"
  shows "map_of (dq_pending d) (ob_id ob) = None"
proof (rule ccontr)
  assume "map_of (dq_pending d) (ob_id ob) \<noteq> None"
  then obtain p where p: "(ob_id ob, p) \<in> set (dq_pending d)"
    by (auto dest: map_of_SomeD)
  have a: "slot_for d (pn_reply p) (ob_id ob) (pn_kind p)"
    using assms(1) p by (auto simp: dinv_def inv_table_def)
  have b: "slot_for d (ob_reply ob) (ob_id ob) (ob_kind ob)"
    using assms(1,2) by (auto simp: dinv_def inv_table_def)
  have "pn_reply p \<in> set (table_slots d)"
    using p by (force simp: table_slots_def)
  then have "pn_reply p \<noteq> ob_reply ob"
    using slots_distinct [OF assms(1)] assms(2) by auto
  with a b assms(3) show False
    unfolding slot_for_def distinct_conv_nth by (metis length_map nth_map)
qed

lemma dstep_inv_lost:
  "dstep L d e d' \<Longrightarrow> dinv L d \<Longrightarrow> inv_lost d \<Longrightarrow> inv_lost d'"
proof (induction rule: dstep.induct)
  case (Submit r d s d')
  then show ?case by (auto simp: inv_lost_def elim!: submit_Enqueued)
next
  case (Take d ob obs entries d' failed)
  then show ?case
    using take_keeps_lost [OF Take.prems(1) Take.hyps(2)]
    by (cases failed) (auto simp: inv_lost_def handle_outbound_def insert_pending_def handler_eqs)
next
  case (Frame d entries d' bytes)
  then show ?case
    by (auto simp: inv_lost_def handle_frame_def answer_def handler_eqs
        split: sum.splits option.splits)
qed (simp_all add: inv_lost_def handle_read_error_def handle_end_def stop_def)

lemma reachable_inv_lost: "druns L spawn es d \<Longrightarrow> inv_lost d"
proof (induction "spawn" es d rule: druns.induct)
  case Nil
  show ?case by (simp add: inv_lost_def spawn_def)
next
  case (Snoc es d e d')
  then show ?case using dstep_inv_lost reachable_dinv by blast
qed

text \<open>
  The load counter the pool reads counts what it should: while the task runs and no two
  requests had the same id, it is the number of requests written and not yet answered (modulo
  \<open>2^32\<close>), and no slot has been dropped.
\<close>

theorem in_flight_counts_pending:
  assumes "druns L spawn es d" "dq_running d" "distinct (map request_id (dq_requests d))"
  shows "dq_in_flight d = of_nat (length (dq_pending d)) \<and> dq_lost d = [] \<and> dq_unsent d = []"
proof -
  have "inv_count d" "inv_lost d"
    using reachable_dinv [OF assms(1)] reachable_inv_lost [OF assms(1)] by (simp_all add: dinv_def)
  with assms(2,3) show ?thesis by (simp add: inv_count_def inv_lost_def)
qed


section \<open>Remapping and classification\<close>

lemma remap_idem: "remap_response k (remap_response k r) = remap_response k r"
  by (cases "(k, r)" rule: remap_response.cases) simp_all

text \<open>
  Remapping changes an answer only where the daemon's bare acknowledgement is ambiguous: a
  \<open>Connected\<close> that answers \<open>getdbjob\<close>, a \<open>Pong\<close> that answers \<open>setconfig\<close>, \<open>sqlclose\<close>,
  \<open>exit\<close>, \<open>prepare_sql\<close> or \<open>gettracedata\<close>. It keeps the id, and remapping twice is remapping
  once.
\<close>

theorem remap_only_bare_acks:
  "(remap_response k r \<noteq> r \<longleftrightarrow>
      (k = KGetDbJob \<and> (\<exists>i v j. r = Connected i v j)) \<or>
      (k \<in> {KSetConfig, KSqlClose, KExit, KPrepareSql, KGetTraceData} \<and> (\<exists>i. r = Pong i))) \<and>
   response_id (remap_response k r) = response_id r \<and>
   remap_response k (remap_response k r) = remap_response k r"
  by (cases "(k, r)" rule: remap_response.cases) simp_all

text \<open>
  Whether a decoding error is the missing-columns error is decided by searching its text. For
  the errors whose text is fixed the answer is right; the others quote the frame.
\<close>

definition quotes_frame :: "de_error \<Rightarrow> bool" where
  "quotes_frame e =
     (case e of UnknownResponseTag _ \<Rightarrow> True | BadRowShape _ _ \<Rightarrow> True | SeverityShape _ \<Rightarrow> True
      | Serde _ \<Rightarrow> True | JsonSyntax _ \<Rightarrow> True | _ \<Rightarrow> False)"

lemma contains_self: "contains s s"
  by (simp add: contains_def)

lemma show_nat_digits: "c \<in> set (show_nat n) \<Longrightarrow> 48 \<le> (of_char c :: nat) \<and> (of_char c :: nat) < 58"
proof (induction n rule: show_nat.induct)
  case (1 n)
  have digit: "48 \<le> (of_char (char_of (48 + k) :: char) :: nat) \<and>
      (of_char (char_of (48 + k) :: char) :: nat) < 58" if "k < 10" for k :: nat
    using that by (simp add: of_char_of take_bit_eq_mod)
  show ?case
  proof (cases "n < 10")
    case True
    with "1.prems" digit show ?thesis by (simp add: show_nat_digit)
  next
    case False
    with "1.prems" show ?thesis
      using "1.IH" [OF False] digit [of "n mod 10"] by (auto simp: show_nat_step [OF False])
  qed
qed

lemma q_not_digit: "CHR ''q'' \<notin> set (show_nat n)"
  by (auto dest!: show_nat_digits)

lemma not_contains_phrase: "CHR ''q'' \<notin> set s \<Longrightarrow> \<not> contains s terse_phrase"
  by (auto simp: contains_def terse_phrase_def dest: set_mono_sublist)

lemma terse_error_recognised:
  "\<not> quotes_frame e \<Longrightarrow>
   protocol_decode_error L e =
     (if e = TerseRowsNoColumns then TerseRowsWithoutColumns else Json e)"
  by (cases e)
     (simp_all add: quotes_frame_def protocol_decode_error_def contains_self not_contains_phrase
        q_not_digit)

lemma terse_error_misread:
  "protocol_decode_error L (UnknownResponseTag terse_phrase) = TerseRowsWithoutColumns"
proof -
  have "contains (''unknown response type: '' @ terse_phrase) terse_phrase"
    unfolding contains_def by (metis append.right_neutral sublist_appendI)
  then show ?thesis by (simp only: protocol_decode_error_def de_message.simps if_True)
qed

section \<open>A sample connection\<close>

text \<open>A concrete instance of the foreign code, and runs of one or two pings over it.\<close>

definition sample :: foreign where
  "sample =
     \<lparr>fo_to_vec = (\<lambda>v. Inr ''ping''),
      fo_from_slice = (\<lambda>s.
        if s = ''ok'' then Inr (JObject [(''id'', JString ''1''), (''success'', JBool True)])
        else if s = ''odd'' then Inr (JObject [(''id'', JString ''1'')])
        else Inl (JsonSyntax s)),
      fo_show_json = (\<lambda>v. ''json''), fo_render = (\<lambda>r. ''reason'')\<rparr>"

definition sample_ob :: "nat \<Rightarrow> outbound" where
  "sample_ob s = \<lparr>ob_id = ''1'', ob_bytes = ''ping'', ob_reply = s, ob_kind = KPing\<rparr>"

definition sample_queued :: dispatcher where
  "sample_queued = spawn\<lparr>dq_queue := [sample_ob 0], dq_requests := [Ping ''1'']\<rparr>"

definition sample_pending :: dispatcher where
  "sample_pending = sample_queued\<lparr>dq_queue := [],
     dq_pending := [(''1'', \<lparr>pn_reply = 0, pn_kind = KPing\<rparr>)],
     dq_in_flight := 1, dq_written := [''ping'']\<rparr>"

definition sample_again :: dispatcher where
  "sample_again = sample_pending\<lparr>dq_queue := [sample_ob 1], dq_requests := [Ping ''1'', Ping ''1'']\<rparr>"

lemmas sample_defs = sample_def sample_ob_def sample_queued_def sample_pending_def
  sample_again_def spawn_def SEND_QUEUE_CAPACITY_def

lemma sample_queued_run: "druns sample spawn [Submit (Ping ''1'')] sample_queued"
  using druns.Snoc [OF druns.Nil, of sample spawn "Submit (Ping ''1'')" sample_queued]
  by (simp add: dstep_Submit submit_def sample_defs)

lemma sample_pending_run: "druns sample spawn [Submit (Ping ''1''), Take None] sample_pending"
proof -
  have "dstep sample sample_queued (Take None) sample_pending"
    by (rule dstep.Take [of _ "sample_ob 0" "[]" "[]"])
       (simp_all add: handle_outbound_def insert_pending_def sample_defs)
  from druns.Snoc [OF sample_queued_run this] show ?thesis by simp
qed

lemma sample_again_run:
  "druns sample spawn [Submit (Ping ''1''), Take None, Submit (Ping ''1'')] sample_again"
proof -
  have "dstep sample sample_pending (Submit (Ping ''1'')) sample_again"
    by (simp add: dstep_Submit submit_def sample_defs)
  from druns.Snoc [OF sample_pending_run this] show ?thesis by simp
qed

lemma sample_frame:
  "dstep sample sample_pending (Frame b) (handle_frame sample (dq_pending sample_pending) b sample_pending)"
  by (rule dstep.Frame) (simp_all add: sample_defs)

lemma sample_answered_run:
  "druns sample spawn [Submit (Ping ''1''), Take None, Frame ''ok'']
     (handle_frame sample (dq_pending sample_pending) ''ok'' sample_pending)"
  using druns.Snoc [OF sample_pending_run sample_frame] by simp

lemma sample_decodes:
  "fo_from_slice sample ''ok'' = Inr (JObject [(''id'', JString ''1''), (''success'', JBool True)])"
  "decode_value (JObject [(''id'', JString ''1''), (''success'', JBool True)]) = Inr (Pong ''1'')"
  "fo_from_slice sample ''odd'' = Inr (JObject [(''id'', JString ''1'')])"
  "decode_value (JObject [(''id'', JString ''1'')]) = Inl UnrecognizedUntagged"
  by (simp_all add: sample_def decode_value_def contains_key_def decode_untagged_def obj_get_def
      str_field_def)

lemma sample_end:
  "dstep sample sample_pending EndOfStream (handle_end (dq_pending sample_pending) sample_pending)"
  by (rule dstep.EndOfStream) (simp_all add: sample_defs)

lemma sample_end_run:
  "druns sample spawn [Submit (Ping ''1''), Take None, EndOfStream]
     (handle_end (dq_pending sample_pending) sample_pending)"
  using druns.Snoc [OF sample_pending_run sample_end] by simp

lemma slot_accounting_witness:
  "mset (map ob_reply (dq_queue sample_again)) +
     mset (map (\<lambda>p. pn_reply (snd p)) (dq_pending sample_again)) +
     mset (map fst (dq_delivered sample_again)) + mset (dq_unsent sample_again) +
     mset (dq_lost sample_again) = mset [0..<length (dq_requests sample_again)]"
  by (rule slot_accounting [OF sample_again_run])

lemma nobody_hangs_witness:
  "received 0 (handle_end (dq_pending sample_pending) sample_pending) \<noteq> None"
  by (rule nobody_hangs [OF sample_end_run]) (simp_all add: handle_end_def handler_eqs sample_defs)

lemma reply_correlated_witness:
  "response_id (Pong ''1'') = request_id (dq_requests
     (handle_frame sample (dq_pending sample_pending) ''ok'' sample_pending) ! 0)"
proof -
  have "received 0 (handle_frame sample (dq_pending sample_pending) ''ok'' sample_pending) =
      Some (Inr (Pong ''1''))"
    by (simp add: handle_frame_def sample_decodes answer_def deliver_def received_def)
       (simp add: sample_defs)
  from reply_correlated [OF sample_answered_run this] show ?thesis by blast
qed

lemma frame_answers_its_caller_witness:
  "received 0 (handle_frame sample (dq_pending sample_pending) ''ok'' sample_pending) =
     Some (Inr (Pong ''1''))"
  using frame_answers_its_caller [OF sample_pending_run sample_frame sample_decodes(1,2),
      of "\<lparr>pn_reply = 0, pn_kind = KPing\<rparr>"]
  by (simp add: sample_defs)

lemma sample_lookup:
  "map_of (dq_pending sample_pending) ''1'' = Some \<lparr>pn_reply = 0, pn_kind = KPing\<rparr>"
  "frame_id (JObject [(''id'', JString ''1'')]) = Some ''1''"
  by (simp_all add: sample_defs frame_id_def obj_get_def)

lemma bad_frame_is_contained_witness:
  "received 0 (handle_frame sample (dq_pending sample_pending) ''odd'' sample_pending) =
     Some (Inl (Protocol (Json UnrecognizedUntagged)))"
  using bad_frame_is_contained [OF sample_pending_run sample_frame sample_decodes(3,4)]
  by (simp add: sample_lookup terse_error_recognised quotes_frame_def)

lemma fatal_event_drains_witness:
  "dq_pending (handle_end (dq_pending sample_pending) sample_pending) = []"
  using fatal_event_drains [OF sample_end, of "Transport Closed"] by simp

lemma writes_in_order_witness:
  "map (wire_bytes sample) (dq_requests sample_again) =
     map Some (dq_written sample_again @ map ob_bytes (dq_queue sample_again))"
proof -
  have "dq_running sample_again" by (simp add: sample_defs)
  with writes_in_order [OF sample_again_run] show ?thesis by blast
qed

lemma in_flight_counts_pending_witness:
  "dq_in_flight sample_pending = of_nat (length (dq_pending sample_pending))"
proof -
  have "dq_running sample_pending" "distinct (map request_id (dq_requests sample_pending))"
    by (simp_all add: sample_defs)
  with in_flight_counts_pending [OF sample_pending_run] show ?thesis by blast
qed

definition sample_reused :: dispatcher where
  "sample_reused = handle_outbound (dq_pending sample_again) None (sample_ob 1)
     (sample_again\<lparr>dq_queue := []\<rparr>)"


end
