(* ===== verification/Session.thy ===== *)
theory Session
  imports Dispatcher Codec
begin

text \<open>
  One complete exchange over a connection, and the interface the client's operations rely on.

  The daemon is a parameter: what it does with the bytes of a request -- the write fails, or a
  list of frames comes back -- and its own state. A daemon that has sent its frames without
  answering is taken to close the socket, so every exchange resolves.

  The locale \<open>correlated_send\<close> states what the operations of theories Query, Job and Pool rely
  on: an answer carries the id of its request, and is never a bare acknowledgement that the
  request's kind turns into something else. The dispatcher provides it, for every daemon.
\<close>

section \<open>An exchange\<close>

type_synonym 'd daemon = "string \<Rightarrow> 'd \<Rightarrow> (transport_error + string list) \<times> 'd"

type_synonym 'w sender = "request \<Rightarrow> 'w \<Rightarrow> reply \<times> 'w"

fun feed :: "foreign \<Rightarrow> string list \<Rightarrow> dispatcher \<Rightarrow> dispatcher" where
  "feed L [] d = d"
| "feed L (b # bs) d =
     (if dq_running d then feed L bs (handle_frame L (dq_pending d) b d) else d)"

definition finish :: "slot \<Rightarrow> dispatcher \<Rightarrow> dispatcher" where
  "finish s d =
     (if received s d = None \<and> dq_running d then handle_end (dq_pending d) d else d)"

text \<open>
  \<open>send\<close> on an idle connection: the request is queued, the task writes it, the daemon's frames
  are handled in order, and the caller takes what its slot got.
\<close>

definition exchange ::
  "foreign \<Rightarrow> 'd daemon \<Rightarrow> request \<Rightarrow> dispatcher \<times> 'd \<Rightarrow> reply \<times> dispatcher \<times> 'd" where
  "exchange L daemon r w =
     (let (sub, d1) = submit L r (fst w) in
      case (sub, dq_queue d1) of
        (Refused e, _) \<Rightarrow> (Inl e, d1, snd w)
      | (Enqueued s, ob # obs) \<Rightarrow>
          (let (out, x) = daemon (ob_bytes ob) (snd w);
               d2 = d1\<lparr>dq_queue := obs\<rparr>;
               d3 = (case out of
                       Inl e \<Rightarrow> handle_outbound (dq_pending d1) (Some e) ob d2
                     | Inr bs \<Rightarrow>
                         finish s (feed L bs (handle_outbound (dq_pending d1) None ob d2)))
           in (unwrap_or (Inl (error_from_transport Closed)) (received s d3), d3, x))
      | _ \<Rightarrow> (Inl (error_from_transport Closed), d1, snd w))"

text \<open>A connection that has run from its start and has nothing queued.\<close>

definition idle :: "foreign \<Rightarrow> dispatcher \<times> 'd \<Rightarrow> bool" where
  "idle L w = (dq_queue (fst w) = [] \<and> (\<exists>es. druns L spawn es (fst w)))"

lemma idle_start: "idle L (spawn, x)"
  by (auto simp: idle_def spawn_def intro: druns.Nil)

lemma frame_queue [simp]: "dq_queue d = [] \<Longrightarrow> dq_queue (handle_frame L es b d) = []"
  by (auto simp: handle_frame_def answer_def handler_eqs split: sum.splits option.splits)

lemma frame_requests [simp]: "dq_requests (handle_frame L es b d) = dq_requests d"
  by (auto simp: handle_frame_def answer_def handler_eqs split: sum.splits option.splits)

lemma end_queue [simp]: "dq_queue (handle_end es d) = []"
  by (simp add: handle_end_def stop_def)

lemma end_requests [simp]: "dq_requests (handle_end es d) = dq_requests d"
  by (simp add: handle_end_def handler_eqs)

lemma outbound_requests [simp]: "dq_requests (handle_outbound es f ob d) = dq_requests d"
  by (auto simp: handle_outbound_def insert_pending_def handler_eqs split: option.splits)

lemma outbound_queue: "dq_queue d = [] \<Longrightarrow> dq_queue (handle_outbound es f ob d) = []"
  by (auto simp: handle_outbound_def insert_pending_def handler_eqs split: option.splits)

lemma feed_runs:
  assumes "\<exists>es. druns L spawn es d" "dq_queue d = []"
  shows "(\<exists>es. druns L spawn es (feed L bs d)) \<and> dq_queue (feed L bs d) = [] \<and>
         dq_requests (feed L bs d) = dq_requests d"
  using assms
proof (induction bs arbitrary: d)
  case (Cons b bs)
  show ?case
  proof (cases "dq_running d")
    case True
    then have step: "dstep L d (Frame b) (handle_frame L (dq_pending d) b d)"
      by (auto simp: dstep_Frame)
    with Cons.prems(1) have "\<exists>es. druns L spawn es (handle_frame L (dq_pending d) b d)"
      by (blast intro: druns.Snoc)
    from Cons.IH [OF this] Cons.prems(2) True show ?thesis by simp
  qed (use Cons.prems in simp)
qed simp

lemma finish_runs:
  assumes "\<exists>es. druns L spawn es d" "dq_queue d = []"
  shows "(\<exists>es. druns L spawn es (finish s d)) \<and> dq_queue (finish s d) = [] \<and>
         dq_requests (finish s d) = dq_requests d"
proof (cases "received s d = None \<and> dq_running d")
  case True
  then have "dstep L d EndOfStream (handle_end (dq_pending d) d)"
    by (auto intro: dstep.EndOfStream)
  with assms(1) have "\<exists>es. druns L spawn es (handle_end (dq_pending d) d)"
    by (blast intro: druns.Snoc)
  with True show ?thesis by (simp add: finish_def)
next
  case False
  then have "finish s d = d" by (auto simp: finish_def)
  with assms show ?thesis by simp
qed

lemma finish_received:
  assumes "\<exists>es. druns L spawn es d" "s < length (dq_requests d)"
  shows "received s (finish s d) \<noteq> None"
proof -
  have inv: "dinv L d" using assms(1) reachable_dinv by blast
  show ?thesis
  proof (cases "received s d = None \<and> dq_running d")
    case True
    then have "dstep L d EndOfStream (handle_end (dq_pending d) d)"
      by (auto intro: dstep.EndOfStream)
    then have "dinv L (handle_end (dq_pending d) d)" using inv by (rule dstep_dinv)
    moreover have "\<not> dq_running (handle_end (dq_pending d) d)"
      by (simp add: handle_end_def stop_def)
    ultimately show ?thesis using True assms(2) ended_received by (auto simp: finish_def)
  next
    case False
    with ended_received [OF inv _ assms(2)] show ?thesis by (auto simp: finish_def)
  qed
qed

lemma exchange_enqueued:
  assumes "idle L w" "submit L r (fst w) = (Enqueued s, d1)"
  obtains ob where "dq_queue d1 = [ob]" "s = length (dq_requests (fst w))"
    "dq_requests d1 = dq_requests (fst w) @ [r]" "\<exists>es. druns L spawn es d1" "dq_running d1"
proof -
  have "\<exists>es. druns L spawn es d1"
    using assms by (auto simp: idle_def intro: druns.Snoc dstep.Submit)
  with assms that show thesis
    by (elim submit_Enqueued) (auto simp: idle_def)
qed

lemma take_runs:
  assumes "\<exists>es. druns L spawn es d" "dq_running d" "dq_queue d = ob # obs"
  shows "\<exists>es. druns L spawn es (handle_outbound (dq_pending d) f ob (d\<lparr>dq_queue := obs\<rparr>))"
proof -
  have "dstep L d (Take f) (handle_outbound (dq_pending d) f ob (d\<lparr>dq_queue := obs\<rparr>))"
    using assms(2,3) by (auto intro: dstep.Take)
  with assms(1) show ?thesis by (blast intro: druns.Snoc)
qed

text \<open>The outcome of an exchange, as a relation between its reply and the task's state.\<close>

definition exchanged ::
  "foreign \<Rightarrow> dispatcher \<Rightarrow> request \<Rightarrow> reply \<Rightarrow> dispatcher \<Rightarrow> bool" where
  "exchanged L d r x d' =
     (case x of
        Inl e \<Rightarrow> wire_error e
      | Inr q \<Rightarrow> dq_requests d' = dq_requests d @ [r] \<and>
          (length (dq_requests d), Inr q) \<in> set (dq_delivered d') \<and>
          (\<exists>p. response_id p = request_id r \<and> q = remap_response (request_kind r) p))"

lemma exchanged_received:
  assumes "\<exists>es. druns L spawn es d'" "dq_requests d' = dq_requests d @ [r]"
  shows "exchanged L d r
     (unwrap_or (Inl (error_from_transport Closed)) (received (length (dq_requests d)) d')) d'"
proof (cases "received (length (dq_requests d)) d'")
  case None
  then show ?thesis by (simp add: exchanged_def)
next
  case (Some x)
  from assms(1) obtain es where run: "druns L spawn es d'" by blast
  show ?thesis
  proof (cases x)
    case (Inl e)
    with Some received_errors [OF run] show ?thesis by (simp add: exchanged_def)
  next
    case (Inr q)
    with Some have mem: "(length (dq_requests d), Inr q) \<in> set (dq_delivered d')"
      by (simp add: received_Inr)
    with run_delivered [OF run mem] assms(2) Some Inr show ?thesis
      by (auto simp: exchanged_def slot_for_def)
  qed
qed

lemma exchange_outcome:
  assumes "idle L w"
  shows "idle L (snd (exchange L daemon r w)) \<and>
    exchanged L (fst w) r (fst (exchange L daemon r w)) (fst (snd (exchange L daemon r w)))"
proof (cases "submit L r (fst w)")
  case (Pair sub d1)
  show ?thesis
  proof (cases sub)
    case (Refused e)
    then have "d1 = fst w" "wire_error e"
      using Pair by (auto simp: submit_def Let_def split: sum.splits if_splits)
    with Refused Pair assms show ?thesis by (simp add: exchange_def idle_def exchanged_def)
  next
    case Blocked
    then have "d1 = fst w" using Pair by (auto simp: submit_def Let_def split: sum.splits if_splits)
    with Blocked Pair assms show ?thesis
      by (simp add: exchange_def idle_def exchanged_def split: list.splits)
  next
    case (Enqueued s)
    with Pair have sub: "submit L r (fst w) = (Enqueued s, d1)" by simp
    obtain ob where ob: "dq_queue d1 = [ob]" "s = length (dq_requests (fst w))"
      "dq_requests d1 = dq_requests (fst w) @ [r]" "\<exists>es. druns L spawn es d1" "dq_running d1"
      by (rule exchange_enqueued [OF assms sub])
    obtain out x where out: "daemon (ob_bytes ob) (snd w) = (out, x)" by force
    define d3 where "d3 = (case out of
        Inl e \<Rightarrow> handle_outbound (dq_pending d1) (Some e) ob (d1\<lparr>dq_queue := []\<rparr>)
      | Inr bs \<Rightarrow> finish s (feed L bs
          (handle_outbound (dq_pending d1) None ob (d1\<lparr>dq_queue := []\<rparr>))))"
    have ex: "exchange L daemon r w =
        (unwrap_or (Inl (error_from_transport Closed)) (received s d3), d3, x)"
      by (simp add: exchange_def sub ob(1) out d3_def Let_def)
    have "(\<exists>es. druns L spawn es d3) \<and> dq_queue d3 = [] \<and> dq_requests d3 = dq_requests d1"
    proof (cases out)
      case (Inl e)
      then show ?thesis
        using take_runs [OF ob(4,5,1)] by (simp add: d3_def outbound_queue)
    next
      case (Inr bs)
      let ?d2 = "handle_outbound (dq_pending d1) None ob (d1\<lparr>dq_queue := []\<rparr>)"
      have "(\<exists>es. druns L spawn es (feed L bs ?d2)) \<and> dq_queue (feed L bs ?d2) = [] \<and>
          dq_requests (feed L bs ?d2) = dq_requests ?d2"
        using take_runs [OF ob(4,5,1)] by (intro feed_runs) (simp_all add: outbound_queue)
      then show ?thesis
        using finish_runs [of L "feed L bs ?d2" s] by (simp add: d3_def Inr)
    qed
    with exchanged_received [of L d3 "fst w" r] ob(2,3) show ?thesis
      by (simp add: ex idle_def)
  qed
qed

section \<open>The interface\<close>

locale correlated_send =
  fixes send :: "'w sender"
    and good :: "'w \<Rightarrow> bool"
  assumes send_good: "good w \<Longrightarrow> good (snd (send r w))"
    and send_id: "good w \<Longrightarrow> fst (send r w) = Inr q \<Longrightarrow> response_id q = request_id r"
    and send_stable: "good w \<Longrightarrow> fst (send r w) = Inr q \<Longrightarrow> remap_response (request_kind r) q = q"

interpretation conn: correlated_send "exchange L daemon" "idle L"
  for L and daemon :: "'d daemon"
proof unfold_locales
  fix w :: "dispatcher \<times> 'd" and r q
  assume "idle L w"
  note ex = exchange_outcome [OF this, of daemon r]
  then show "idle L (snd (exchange L daemon r w))" by blast
  assume "fst (exchange L daemon r w) = Inr q"
  with ex obtain p where p: "response_id p = request_id r" "q = remap_response (request_kind r) p"
    by (auto simp: exchanged_def)
  then show "response_id q = request_id r" by simp
  from p(2) show "remap_response (request_kind r) q = q" by (simp add: remap_idem)
qed

section \<open>Sessions\<close>

text \<open>
  What the operations of a job see: the connection they send over, the job's id allocator, and
  whether a Tokio runtime is present for fire-and-forget tasks. The session logs the requests
  handed to \<open>send\<close> with what came back and, apart, those handed to best-effort tasks, whose
  answers nobody reads.
\<close>

record 'w session =
  ss_world :: 'w
  ss_ids :: id_allocator
  ss_runtime :: bool
  ss_sent :: "request list"
  ss_received :: "reply list"
  ss_spawned :: "request list"

type_synonym ('w, 'a) op = "'w session \<Rightarrow> (error + 'a) \<times> 'w session"

definition liftS :: "error + 'a \<Rightarrow> ('w, 'a) op" where
  "liftS r s = (r, s)"

definition bindS :: "('w, 'a) op \<Rightarrow> ('a \<Rightarrow> ('w, 'b) op) \<Rightarrow> ('w, 'b) op" where
  "bindS m f s = (case m s of (Inl e, t) \<Rightarrow> (Inl e, t) | (Inr x, t) \<Rightarrow> f x t)"

definition fresh_id :: "('w, string) op" where
  "fresh_id s = (let (i, a) = next_id (ss_ids s) in (Inr i, s\<lparr>ss_ids := a\<rparr>))"

definition send_request :: "'w sender \<Rightarrow> request \<Rightarrow> ('w, response) op" where
  "send_request send r s =
     (let (x, w) = send r (ss_world s)
      in (x, s\<lparr>ss_world := w, ss_sent := ss_sent s @ [r], ss_received := ss_received s @ [x]\<rparr>))"

definition spawn_best_effort :: "request \<Rightarrow> 'w session \<Rightarrow> 'w session" where
  "spawn_best_effort r s =
     (if ss_runtime s then s\<lparr>ss_spawned := ss_spawned s @ [r]\<rparr> else s)"

text \<open>The id the next operation will use.\<close>

definition peek_id :: "'w session \<Rightarrow> string" where
  "peek_id s = fst (next_id (ss_ids s))"

lemma bindS_liftS [simp]: "bindS (liftS (Inr x)) f = f x" "bindS (liftS (Inl e)) f = liftS (Inl e)"
  by (auto simp: bindS_def liftS_def)

lemma bindS_fresh_id:
  "bindS fresh_id f s = f (peek_id s) (s\<lparr>ss_ids := snd (next_id (ss_ids s))\<rparr>)"
  by (simp add: bindS_def fresh_id_def peek_id_def split: prod.splits)

lemma bindS_send:
  "bindS (send_request send r) f s =
     (let s' = s\<lparr>ss_world := snd (send r (ss_world s)), ss_sent := ss_sent s @ [r],
                 ss_received := ss_received s @ [fst (send r (ss_world s))]\<rparr>
      in case fst (send r (ss_world s)) of Inl e \<Rightarrow> (Inl e, s') | Inr x \<Rightarrow> f x s')"
  by (cases "send r (ss_world s)") (simp add: bindS_def send_request_def split: sum.split)

lemma spawn_best_effort_world [simp]:
  "ss_world (spawn_best_effort r s) = ss_world s" "ss_sent (spawn_best_effort r s) = ss_sent s"
  "ss_received (spawn_best_effort r s) = ss_received s"
  "ss_ids (spawn_best_effort r s) = ss_ids s" "ss_runtime (spawn_best_effort r s) = ss_runtime s"
  by (simp_all add: spawn_best_effort_def)

text \<open>
  Every operation of theories Query and Job is built from one pattern: take an id, send one
  request with it, and turn the answer into a result.
\<close>

definition call ::
  "'w sender \<Rightarrow> (string \<Rightarrow> request) \<Rightarrow> (string \<Rightarrow> response \<Rightarrow> error + 'a) \<Rightarrow> ('w, 'a) op" where
  "call send mk k = bindS fresh_id (\<lambda>i. bindS (send_request send (mk i)) (\<lambda>r. liftS (k i r)))"

definition after_call :: "'w sender \<Rightarrow> request \<Rightarrow> 'w session \<Rightarrow> 'w session" where
  "after_call send r s =
     s\<lparr>ss_ids := snd (next_id (ss_ids s)), ss_world := snd (send r (ss_world s)),
       ss_sent := ss_sent s @ [r],
       ss_received := ss_received s @ [fst (send r (ss_world s))]\<rparr>"

lemma call_eq:
  "call send mk k s =
     (bindR (fst (send (mk (peek_id s)) (ss_world s))) (k (peek_id s)),
      after_call send (mk (peek_id s)) s)"
  by (cases "fst (send (mk (peek_id s)) (ss_world s))")
     (simp_all add: call_def bindS_fresh_id bindS_send liftS_def after_call_def Let_def)

lemma after_call_simps [simp]:
  "ss_sent (after_call send r s) = ss_sent s @ [r]"
  "ss_received (after_call send r s) = ss_received s @ [fst (send r (ss_world s))]"
  "ss_spawned (after_call send r s) = ss_spawned s"
  "ss_runtime (after_call send r s) = ss_runtime s"
  "ss_world (after_call send r s) = snd (send r (ss_world s))"
  by (simp_all add: after_call_def)

context correlated_send
begin

text \<open>The id guards of the operations never reject: an answer that arrives has the id.\<close>

lemma call_reply_id:
  assumes "good (ss_world s)" "\<And>i. request_id (mk i) = i"
    and "fst (send (mk (peek_id s)) (ss_world s)) = Inr r"
  shows "response_id r = peek_id s"
  using send_id [OF assms(1,3)] assms(2) by simp

lemma call_good:
  "good (ss_world s) \<Longrightarrow> good (ss_world (snd (call send mk k s)))"
  by (simp add: call_eq send_good)

end

end
