(* ===== verification/Query.thy ===== *)
theory Query
  imports Session
begin

text \<open>
  Executing statements and reading their rows (\<^verbatim>\<open>src/src/query.rs\<close>, \<^verbatim>\<open>src/src/from_row.rs\<close>):
  execution options, prepared queries, result sets with their cursor, the paging stream as a
  state machine, and typed access to a row.

  Targets of deserialisation are the derived readers of theory Json (\<open>'a de\<close>), an argument.

  The lemmas show that bad options are refused before anything is sent, that the stream yields
  exactly the server's rows in order, that every page request names the opening cursor, and that
  a cursor the server has not finished is closed exactly once.
\<close>

section \<open>Options\<close>

record execute_options =
  eo_rows :: "u32 option"
  eo_terse :: bool

definition default_options :: execute_options where
  "default_options = \<lparr>eo_rows = None, eo_terse = False\<rparr>"

definition DEFAULT_ROWS :: u32 where
  "DEFAULT_ROWS = 100"

definition resolved_rows :: "execute_options \<Rightarrow> error + u32" where
  "resolved_rows opts =
     (case eo_rows opts of
        Some n \<Rightarrow> if n = 0 then Inl (error_from_protocol ZeroPageSize) else Inr n
      | None \<Rightarrow> Inr DEFAULT_ROWS)"

definition terse_on_wire :: "execute_options \<Rightarrow> bool option" where
  "terse_on_wire opts = (if eo_terse opts then Some True else None)"

definition owned_parameter_sets :: "value list list \<Rightarrow> error + value list list" where
  "owned_parameter_sets sets =
     (if sets = [] then Inl (error_from_protocol EmptyParameterSets) else Inr sets)"

section \<open>Result sets\<close>

record rows =
  rw_inner :: query_result
  rw_page_size :: u32
  rw_cursor :: "string option"

definition rows_new :: "query_result \<Rightarrow> u32 \<Rightarrow> rows" where
  "rows_new q n =
     \<lparr>rw_inner = q, rw_page_size = n,
      rw_cursor = (if qr_is_done q then None else cursor_handle q)\<rparr>"

definition rows_is_done :: "rows \<Rightarrow> bool" where
  "rows_is_done rw = qr_is_done (rw_inner rw)"

definition first_page_len :: "rows \<Rightarrow> nat" where
  "first_page_len rw = length (qr_data (rw_inner rw))"

definition update_count :: "rows \<Rightarrow> i64 option" where
  "update_count rw =
     (if qr_has_results (rw_inner rw) \<or> sint (qr_update_count (rw_inner rw)) < 0 then None
      else Some (qr_update_count (rw_inner rw)))"

definition has_results :: "rows \<Rightarrow> bool" where
  "has_results rw = qr_has_results (rw_inner rw)"

definition columns :: "rows \<Rightarrow> column list option" where
  "columns rw =
     (if qr_has_results (rw_inner rw) then Some (md_columns (qr_metadata (rw_inner rw))) else None)"

definition output_parms :: "rows \<Rightarrow> parameter_result list" where
  "output_parms rw = qr_output_parms (rw_inner rw)"

definition parameter_count :: "rows \<Rightarrow> u32 option" where
  "parameter_count rw = qr_parameter_count (rw_inner rw)"

definition parameter_metadata :: "rows \<Rightarrow> parameter_detail list" where
  "parameter_metadata rw = md_parameters (qr_metadata (rw_inner rw))"

text \<open>The close request of a cursor or prepared statement, sent by a best-effort task.\<close>

definition close_request :: "string \<Rightarrow> request" where
  "close_request c = SqlClose (''close-'' @ c) c"

definition spawn_close :: "string \<Rightarrow> 'w session \<Rightarrow> 'w session" where
  "spawn_close c s = spawn_best_effort (close_request c) s"

definition drop_rows :: "rows \<Rightarrow> 'w session \<Rightarrow> 'w session" where
  "drop_rows rw s = (case rw_cursor rw of None \<Rightarrow> s | Some c \<Rightarrow> spawn_close c s)"

section \<open>Executing\<close>

text \<open>The answer to an execution becomes a result set.\<close>

definition rows_of_reply :: "u32 \<Rightarrow> string \<Rightarrow> response \<Rightarrow> error + rows" where
  "rows_of_reply page_size i r =
     (case r of
        QueryResult q \<Rightarrow> if qr_id q = i then Inr (rows_new q page_size) else Inl (unexpected r)
      | ErrorResp e \<Rightarrow> Inl (server_error_from e)
      | _ \<Rightarrow> Inl (unexpected r))"

record query =
  qy_cont_id :: "string option"
  qy_sql :: string

definition query_new :: "string option \<Rightarrow> string \<Rightarrow> query" where
  "query_new c sql = \<lparr>qy_cont_id = c, qy_sql = sql\<rparr>"

definition server_handle :: "query \<Rightarrow> string option" where
  "server_handle q = non_empty (qy_cont_id q)"

definition query_request ::
  "query \<Rightarrow> value list option \<Rightarrow> u32 \<Rightarrow> bool option \<Rightarrow> string \<Rightarrow> request" where
  "query_request q params page_size terse i =
     (case server_handle q of
        Some c \<Rightarrow> Execute i c params (Some page_size) terse
      | None \<Rightarrow> PrepareSqlExecute i (qy_sql q) (map_option (\<lambda>p. [p]) params) (Some page_size) terse)"

definition query_execute_inner ::
  "'w sender \<Rightarrow> query \<Rightarrow> value list option \<Rightarrow> execute_options \<Rightarrow> ('w, rows) op" where
  "query_execute_inner send q params opts =
     bindS (liftS (resolved_rows opts)) (\<lambda>page_size.
       call send (query_request q params page_size (terse_on_wire opts)) (rows_of_reply page_size))"

definition query_execute :: "'w sender \<Rightarrow> query \<Rightarrow> ('w, rows) op" where
  "query_execute send q = query_execute_inner send q None default_options"

definition query_execute_opts :: "'w sender \<Rightarrow> query \<Rightarrow> execute_options \<Rightarrow> ('w, rows) op" where
  "query_execute_opts send q opts = query_execute_inner send q None opts"

definition query_execute_with :: "'w sender \<Rightarrow> query \<Rightarrow> value list \<Rightarrow> ('w, rows) op" where
  "query_execute_with send q params = query_execute_inner send q (Some params) default_options"

definition query_execute_with_opts ::
  "'w sender \<Rightarrow> query \<Rightarrow> value list \<Rightarrow> execute_options \<Rightarrow> ('w, rows) op" where
  "query_execute_with_opts send q params opts = query_execute_inner send q (Some params) opts"

text \<open>
  A batch executes the parameter lists one after the other and stops at the first error; the
  result sets collected until then are dropped, in order, and close their cursors.
\<close>

fun query_batch_from ::
  "'w sender \<Rightarrow> query \<Rightarrow> rows list \<Rightarrow> value list list \<Rightarrow> ('w, rows list) op" where
  "query_batch_from send q out [] s = (Inr out, s)"
| "query_batch_from send q out (p # ps) s =
     (case query_execute_with send q p s of
        (Inl e, t) \<Rightarrow> (Inl e, fold drop_rows out t)
      | (Inr rw, t) \<Rightarrow> query_batch_from send q (out @ [rw]) ps t)"

definition query_execute_batch ::
  "'w sender \<Rightarrow> query \<Rightarrow> value list list \<Rightarrow> ('w, rows list) op" where
  "query_execute_batch send q batches = query_batch_from send q [] batches"

definition sets_request ::
  "string \<Rightarrow> value list list \<Rightarrow> u32 \<Rightarrow> bool option \<Rightarrow> string \<Rightarrow> request" where
  "sets_request sql sets page_size terse i =
     PrepareSqlExecute i sql (Some sets) (Some page_size) terse"

definition query_execute_sets ::
  "'w sender \<Rightarrow> query \<Rightarrow> value list list \<Rightarrow> execute_options \<Rightarrow> ('w, rows) op" where
  "query_execute_sets send q sets opts =
     bindS (liftS (owned_parameter_sets sets)) (\<lambda>parameters.
     bindS (liftS (resolved_rows opts)) (\<lambda>page_size.
       call send (sets_request (qy_sql q) parameters page_size (terse_on_wire opts))
         (rows_of_reply page_size)))"

definition drop_query :: "query \<Rightarrow> 'w session \<Rightarrow> 'w session" where
  "drop_query q s =
     (case non_empty (qy_cont_id q) of None \<Rightarrow> s | Some c \<Rightarrow> spawn_close c s)"

section \<open>Streaming\<close>

record stream_state =
  st_rows :: "json_object list"
  st_cont_id :: "string option"
  st_done :: bool
  st_ids :: id_allocator
  st_page_size :: u32

text \<open>
  \<open>stream\<close> moves the cursor out of the result set, so dropping the result set closes nothing. The
  stream has an id allocator of its own, built from the clock and the process id.
\<close>

definition stream :: "u32 option \<Rightarrow> u32 \<Rightarrow> rows \<Rightarrow> stream_state" where
  "stream subsec_nanos pid rw =
     \<lparr>st_rows = qr_data (rw_inner rw), st_cont_id = rw_cursor rw,
      st_done = qr_is_done (rw_inner rw), st_ids = new_allocator subsec_nanos pid,
      st_page_size = rw_page_size rw\<rparr>"

definition drop_stream :: "stream_state \<Rightarrow> 'w session \<Rightarrow> 'w session" where
  "drop_stream st s =
     (if st_done st then s
      else case st_cont_id st of None \<Rightarrow> s | Some c \<Rightarrow> spawn_close c s)"

definition empty_page_error :: error where
  "empty_page_error = Internal ''server returned empty page without is_done''"

text \<open>
  One poll: a buffered row, the end, or a page request and what its answer gives. \<open>None\<close> ends
  the stream, which drops its state.
\<close>

definition take_page ::
  "query_result \<Rightarrow> stream_state \<Rightarrow> 'w session \<Rightarrow>
     ((error + json_object) \<times> stream_state) option \<times> 'w session" where
  "take_page q st s =
     (let st1 = st\<lparr>st_rows := qr_data q, st_done := qr_is_done q\<rparr> in
      case qr_data q of
        m # ms \<Rightarrow> (Some (Inr m, st1\<lparr>st_rows := ms\<rparr>), s)
      | [] \<Rightarrow>
          if qr_is_done q then (None, drop_stream st1 s)
          else (Some (Inl empty_page_error, st1\<lparr>st_cont_id := None, st_done := True\<rparr>),
                case st_cont_id st of None \<Rightarrow> s | Some c \<Rightarrow> spawn_close c s))"

definition stream_next ::
  "'w sender \<Rightarrow> stream_state \<Rightarrow> 'w session \<Rightarrow>
     ((error + json_object) \<times> stream_state) option \<times> 'w session" where
  "stream_next send st s =
     (case st_rows st of
        m # ms \<Rightarrow> (Some (Inr m, st\<lparr>st_rows := ms\<rparr>), s)
      | [] \<Rightarrow>
          if st_done st then (None, drop_stream st s)
          else case non_empty (st_cont_id st) of
            None \<Rightarrow> (None, drop_stream st s)
          | Some c \<Rightarrow>
              (let (i, ids) = next_id (st_ids st);
                   st1 = st\<lparr>st_ids := ids\<rparr>;
                   (resp, s1) = send_request send (SqlMore i c (st_page_size st)) s
               in case resp of
                    Inl e \<Rightarrow> (Some (Inl e, st1), s1)
                  | Inr r \<Rightarrow>
                      (case r of
                         QueryResult q \<Rightarrow>
                           if qr_id q = i then take_page q st1 s1
                           else (Some (Inl (unexpected r), st1), s1)
                       | ErrorResp e \<Rightarrow> (Some (Inl (server_error_from e), st1), s1)
                       | _ \<Rightarrow> (Some (Inl (unexpected r), st1), s1))))"

text \<open>
  Collecting (\<open>into_dynamic\<close>, \<open>into_typed\<close>): polls until the end or the first error, which drops
  the stream. \<open>fuel\<close> bounds the polls; running out of it is \<open>None\<close>.
\<close>

fun try_collect ::
  "'w sender \<Rightarrow> (json_object \<Rightarrow> error + 'a) \<Rightarrow> nat \<Rightarrow> 'a list \<Rightarrow> stream_state \<Rightarrow> 'w session \<Rightarrow>
     ((error + 'a list) \<times> 'w session) option" where
  "try_collect send f 0 out st s = None"
| "try_collect send f (Suc n) out st s =
     (case stream_next send st s of
        (None, t) \<Rightarrow> Some (Inr out, t)
      | (Some (item, st1), t) \<Rightarrow>
          (case bindR item f of
             Inl e \<Rightarrow> Some (Inl e, drop_stream st1 t)
           | Inr x \<Rightarrow> try_collect send f n (out @ [x]) st1 t))"

definition from_row :: "'a de \<Rightarrow> json_object \<Rightarrow> error + 'a" where
  "from_row f row = mapErr (\<lambda>e. Decode None (SerdeDecode e)) (f (JObject row))"

definition into_dynamic ::
  "'w sender \<Rightarrow> u32 option \<Rightarrow> u32 \<Rightarrow> nat \<Rightarrow> rows \<Rightarrow> 'w session \<Rightarrow>
     ((error + json_object list) \<times> 'w session) option" where
  "into_dynamic send subsec_nanos pid fuel rw s =
     try_collect send Inr fuel [] (stream subsec_nanos pid rw) s"

definition into_typed ::
  "'w sender \<Rightarrow> 'a de \<Rightarrow> u32 option \<Rightarrow> u32 \<Rightarrow> nat \<Rightarrow> rows \<Rightarrow> 'w session \<Rightarrow>
     ((error + 'a list) \<times> 'w session) option" where
  "into_typed send f subsec_nanos pid fuel rw s =
     try_collect send (from_row f) fuel [] (stream subsec_nanos pid rw) s"

section \<open>Rows\<close>

definition row_get :: "'a de \<Rightarrow> json_object \<Rightarrow> string \<Rightarrow> error + 'a" where
  "row_get f row column =
     bindR (ok_or (Decode (Some column) (MissingColumn column)) (obj_get row column)) (\<lambda>v.
       mapErr (\<lambda>e. Decode (Some column) (SerdeDecode e)) (f v))"

definition row_try_get :: "'a de \<Rightarrow> json_object \<Rightarrow> string \<Rightarrow> (error + 'a) option" where
  "row_try_get f row column =
     (case obj_get row column of
        None \<Rightarrow> None
      | Some v \<Rightarrow> Some (mapErr (\<lambda>e. Decode (Some column) (SerdeDecode e)) (f v)))"

section \<open>Executions over a connection\<close>

lemma peek_id_nonempty [simp]: "peek_id s \<noteq> []"
  by (simp add: peek_id_def next_id_def)

lemma query_request_id [simp]: "request_id (query_request q ps n t i) = i"
  by (simp add: query_request_def split: option.split)

lemma sets_request_id [simp]: "request_id (sets_request sql ps n t i) = i"
  by (simp add: sets_request_def)

text \<open>What an execution makes of an answer that carries its id.\<close>

definition opened_rows :: "u32 \<Rightarrow> string \<Rightarrow> response \<Rightarrow> error + rows" where
  "opened_rows page_size i r =
     (case r of
        QueryResult q \<Rightarrow>
          Inr \<lparr>rw_inner = q, rw_page_size = page_size,
               rw_cursor = (if qr_is_done q then None else Some i)\<rparr>
      | ErrorResp e \<Rightarrow> Inl (server_error_from e)
      | _ \<Rightarrow> Inl (unexpected r))"

lemma rows_of_reply_opened:
  "response_id r = i \<Longrightarrow> i \<noteq> [] \<Longrightarrow> rows_of_reply n i r = opened_rows n i r"
  by (cases r) (auto simp: rows_of_reply_def opened_rows_def rows_new_def cursor_handle_def)

context correlated_send
begin

lemma call_opened:
  assumes "good (ss_world s)" "\<And>i. request_id (mk i) = i"
  shows "fst (call send mk (rows_of_reply n) s) =
     bindR (fst (send (mk (peek_id s)) (ss_world s))) (opened_rows n (peek_id s))"
  using call_reply_id [OF assms]
  by (cases "fst (send (mk (peek_id s)) (ss_world s))")
     (simp_all add: call_eq rows_of_reply_opened)

end

text \<open>
  Executing a prepared query, over any daemon: a page size of zero is refused and nothing
  is sent; otherwise exactly one request goes out, under the next id, and its answer decides --
  a query result becomes a result set whose cursor is the id of this very request (none when
  the server is done), an error answer becomes a server error, anything else a protocol error.
  The id check of the code never rejects.
\<close>

theorem query_execute_over_connection:
  assumes "idle L (ss_world s)"
  shows "query_execute_inner (exchange L daemon) q ps opts s =
    (if eo_rows opts = Some 0 then (Inl (Protocol ZeroPageSize), s)
     else let n = unwrap_or 100 (eo_rows opts);
              r = query_request q ps n (terse_on_wire opts) (peek_id s)
          in (bindR (fst (exchange L daemon r (ss_world s))) (opened_rows n (peek_id s)),
              after_call (exchange L daemon) r s))"
  using conn.call_opened [OF assms]
  by (auto simp: query_execute_inner_def resolved_rows_def error_from_defs DEFAULT_ROWS_def liftS_def
      prod_eq_iff call_eq Let_def split: option.split)

section \<open>The life of a cursor\<close>

text \<open>A stream polled \<open>n\<close> times, or until its end, and then dropped.\<close>

fun poll_then_drop :: "'w sender \<Rightarrow> nat \<Rightarrow> stream_state \<Rightarrow> 'w session \<Rightarrow> 'w session" where
  "poll_then_drop send 0 st s = drop_stream st s"
| "poll_then_drop send (Suc n) st s =
     (case stream_next send st s of
        (None, t) \<Rightarrow> t
      | (Some (item, st1), t) \<Rightarrow> poll_then_drop send n st1 t)"

definition finished :: "reply \<Rightarrow> bool" where
  "finished x = (case x of Inr (QueryResult q) \<Rightarrow> qr_is_done q | _ \<Rightarrow> False)"

lemma finished_simps [simp]:
  "finished (Inl e) = False" "finished (Inr (QueryResult q)) = qr_is_done q"
  "finished (Inr (ErrorResp r)) = False"
  by (simp_all add: finished_def)

lemma spawn_close_spawned [simp]:
  "ss_runtime s \<Longrightarrow> ss_spawned (spawn_close c s) = ss_spawned s @ [close_request c]"
  by (simp add: spawn_close_def spawn_best_effort_def)

lemma spawn_close_other [simp]:
  "ss_world (spawn_close c s) = ss_world s" "ss_sent (spawn_close c s) = ss_sent s"
  "ss_received (spawn_close c s) = ss_received s" "ss_runtime (spawn_close c s) = ss_runtime s"
  by (simp_all add: spawn_close_def)

lemma poll_done: "st_done st \<Longrightarrow> poll_then_drop send n st s = s"
proof (induction n arbitrary: st)
  case (Suc n)
  then show ?case by (cases "st_rows st") (simp_all add: stream_next_def drop_stream_def)
qed (simp add: drop_stream_def)

definition page_request :: "string \<Rightarrow> u32 \<Rightarrow> request \<Rightarrow> bool" where
  "page_request c n r = (\<exists>i. r = SqlMore i c n)"

text \<open>The whole effect of a stream's life on the session, from an open state.\<close>

definition cursor_effect :: "string \<Rightarrow> u32 \<Rightarrow> 'w session \<Rightarrow> 'w session \<Rightarrow> bool" where
  "cursor_effect c n s t =
     (\<exists>reqs reps. ss_sent t = ss_sent s @ reqs \<and> ss_received t = ss_received s @ reps \<and>
        list_all (page_request c n) reqs \<and>
        ss_spawned t = ss_spawned s @ (if list_ex finished reps then [] else [close_request c]))"

lemma cursor_effect_close [intro]:
  "ss_runtime s \<Longrightarrow> cursor_effect c n s (spawn_close c s)"
  by (simp add: cursor_effect_def)

lemma cursor_effect_page:
  assumes "cursor_effect c n s1 t" "\<not> finished x"
    and "ss_sent s1 = ss_sent s @ [SqlMore i c n]" "ss_received s1 = ss_received s @ [x]"
      "ss_spawned s1 = ss_spawned s"
  shows "cursor_effect c n s t"
proof -
  from assms(1) obtain reqs reps where e: "ss_sent t = ss_sent s1 @ reqs"
    "ss_received t = ss_received s1 @ reps" "list_all (page_request c n) reqs"
    "ss_spawned t = ss_spawned s1 @ (if list_ex finished reps then [] else [close_request c])"
    by (auto simp: cursor_effect_def)
  show ?thesis unfolding cursor_effect_def
    by (rule exI [of _ "SqlMore i c n # reqs"], rule exI [of _ "x # reps"])
       (use assms(2-) e in \<open>simp add: page_request_def\<close>)
qed

lemma cursor_effect_last:
  assumes "finished x"
    and "ss_sent s1 = ss_sent s @ [SqlMore i c n]" "ss_received s1 = ss_received s @ [x]"
      "ss_spawned s1 = ss_spawned s"
  shows "cursor_effect c n s s1"
  unfolding cursor_effect_def
  by (rule exI [of _ "[SqlMore i c n]"], rule exI [of _ "[x]"])
     (use assms in \<open>simp add: page_request_def\<close>)

lemma finished_QueryResult: "finished (Inr r) \<Longrightarrow> \<exists>q. r = QueryResult q \<and> qr_is_done q"
  by (auto simp: finished_def split: response.splits)

text \<open>The session after a page request.\<close>

definition paged :: "'w sender \<Rightarrow> request \<Rightarrow> 'w session \<Rightarrow> 'w session" where
  "paged send r s =
     s\<lparr>ss_world := snd (send r (ss_world s)), ss_sent := ss_sent s @ [r],
       ss_received := ss_received s @ [fst (send r (ss_world s))]\<rparr>"

lemma paged_simps [simp]:
  "ss_world (paged send r s) = snd (send r (ss_world s))"
  "ss_sent (paged send r s) = ss_sent s @ [r]"
  "ss_received (paged send r s) = ss_received s @ [fst (send r (ss_world s))]"
  "ss_spawned (paged send r s) = ss_spawned s" "ss_runtime (paged send r s) = ss_runtime s"
  by (simp_all add: paged_def)

lemma send_request_paged: "send_request send r s = (fst (send r (ss_world s)), paged send r s)"
  by (simp add: send_request_def paged_def split: prod.splits)

lemma stream_next_page:
  assumes "st_rows st = []" "\<not> st_done st" "st_cont_id st = Some c" "c \<noteq> []"
    and "r = SqlMore (fst (next_id (st_ids st))) c (st_page_size st)"
    and "st1 = st\<lparr>st_ids := snd (next_id (st_ids st))\<rparr>"
    and "\<And>x. fst (send r (ss_world s)) = Inr x \<Longrightarrow> response_id x = request_id r"
  shows "case fst (send r (ss_world s)) of
      Inr (QueryResult q) \<Rightarrow> stream_next send st s = take_page q st1 (paged send r s)
    | _ \<Rightarrow> (\<exists>e. stream_next send st s = (Some (Inl e, st1), paged send r s))"
proof -
  obtain i ids where i: "next_id (st_ids st) = (i, ids)" by force
  have next_eq: "stream_next send st s =
      (case fst (send r (ss_world s)) of
         Inl e \<Rightarrow> (Some (Inl e, st1), paged send r s)
       | Inr x \<Rightarrow>
           (case x of
              QueryResult q \<Rightarrow>
                if qr_id q = i then take_page q st1 (paged send r s)
                else (Some (Inl (unexpected x), st1), paged send r s)
            | ErrorResp e \<Rightarrow> (Some (Inl (server_error_from e), st1), paged send r s)
            | _ \<Rightarrow> (Some (Inl (unexpected x), st1), paged send r s)))"
    unfolding assms(5,6) i fst_conv snd_conv using assms(1-4) i
    by (simp add: stream_next_def non_empty_def send_request_paged Let_def)
  show ?thesis
    using assms(5,7) i
    by (auto simp: next_eq split: sum.split response.split)
qed

text \<open>
  One request for a page and all that follows, given what the polls after it do (\<open>IH\<close>).
\<close>

lemma poll_page_effect:
  assumes "st_rows st = []" "ss_runtime s" "\<not> st_done st" "st_cont_id st = Some c" "c \<noteq> []"
    and "r = SqlMore (fst (next_id (st_ids st))) c (st_page_size st)"
    and "\<And>x. fst (send r (ss_world s)) = Inr x \<Longrightarrow> response_id x = request_id r"
    and IH: "\<And>st'. \<not> st_done st' \<Longrightarrow> st_cont_id st' = Some c \<Longrightarrow> st_page_size st' = st_page_size st \<Longrightarrow>
      cursor_effect c (st_page_size st) (paged send r s) (poll_then_drop send k st' (paged send r s))"
  shows "cursor_effect c (st_page_size st) s (poll_then_drop send (Suc k) st s)"
proof -
  let ?st1 = "st\<lparr>st_ids := snd (next_id (st_ids st))\<rparr>"
  let ?x = "fst (send r (ss_world s))" and ?s = "paged send r s"
  have page: "ss_sent ?s = ss_sent s @ [SqlMore (fst (next_id (st_ids st))) c (st_page_size st)]"
    "ss_received ?s = ss_received s @ [?x]" "ss_spawned ?s = ss_spawned s"
    by (simp_all add: assms(6))
  have nxt: "case ?x of
      Inr (QueryResult q) \<Rightarrow> stream_next send st s = take_page q ?st1 ?s
    | _ \<Rightarrow> (\<exists>e. stream_next send st s = (Some (Inl e, ?st1), ?s))"
    using assms by (intro stream_next_page) auto
  show ?thesis
  proof (cases "\<exists>q. ?x = Inr (QueryResult q)")
    case True
    then obtain q where q: "?x = Inr (QueryResult q)" by blast
    with nxt have nq: "stream_next send st s = take_page q ?st1 ?s" by simp
    consider (last) "qr_is_done q" | (stall) "\<not> qr_is_done q" "qr_data q = []"
      | (more) m ms where "\<not> qr_is_done q" "qr_data q = m # ms"
      by (cases "qr_data q") auto
    then show ?thesis
    proof cases
      case last
      then have "poll_then_drop send (Suc k) st s = ?s"
        using nq by (cases "qr_data q") (simp_all add: take_page_def poll_done drop_stream_def)
      then show ?thesis using cursor_effect_last [OF _ page] q last by simp
    next
      case stall
      then have "poll_then_drop send (Suc k) st s = spawn_close c ?s"
        using nq assms(4) by (simp add: take_page_def poll_done)
      moreover have "cursor_effect c (st_page_size st) ?s (spawn_close c ?s)"
        using assms(2) by (intro cursor_effect_close) simp
      ultimately show ?thesis using cursor_effect_page [OF _ _ page] q stall by simp
    next
      case more
      then have "poll_then_drop send (Suc k) st s =
          poll_then_drop send k (?st1\<lparr>st_done := False, st_rows := ms\<rparr>) ?s"
        using nq by (simp add: take_page_def)
      with cursor_effect_page [OF _ _ page] q more(1) assms(4) show ?thesis by (simp add: IH)
    qed
  next
    case False
    with nxt obtain e where "stream_next send st s = (Some (Inl e, ?st1), ?s)"
      by (auto split: sum.splits response.splits)
    moreover have "\<not> finished ?x" using False finished_QueryResult by (cases ?x) auto
    moreover have "cursor_effect c (st_page_size st) ?s (poll_then_drop send k ?st1 ?s)"
      using assms(3,4) by (intro IH) simp_all
    ultimately show ?thesis using cursor_effect_page [OF _ _ page] by simp
  qed
qed

context correlated_send
begin

lemma poll_effect:
  assumes "good (ss_world s)" "ss_runtime s" "\<not> st_done st" "st_cont_id st = Some c" "c \<noteq> []"
  shows "cursor_effect c (st_page_size st) s (poll_then_drop send k st s)"
  using assms
proof (induction k arbitrary: st s)
  case 0
  then show ?case by (auto simp: drop_stream_def)
next
  case (Suc k)
  show ?case
  proof (cases "st_rows st")
    case (Cons m ms)
    then have "poll_then_drop send (Suc k) st s = poll_then_drop send k (st\<lparr>st_rows := ms\<rparr>) s"
      by (simp add: stream_next_def)
    with Suc.IH [of s "st\<lparr>st_rows := ms\<rparr>"] Suc.prems show ?thesis by simp
  next
    case Nil
    let ?r = "SqlMore (fst (next_id (st_ids st))) c (st_page_size st)"
    have "cursor_effect c (st_page_size st) (paged send ?r s) (poll_then_drop send k st' (paged send ?r s))"
      if "\<not> st_done st'" "st_cont_id st' = Some c" "st_page_size st' = st_page_size st" for st'
      using Suc.IH [of "paged send ?r s" st'] that send_good Suc.prems by simp
    then show ?thesis
      by (intro poll_page_effect [OF Nil Suc.prems(2-5) refl send_id [OF Suc.prems(1)]])
  qed
qed

end

lemma stream_cursor:
  "qr_id q \<noteq> [] \<Longrightarrow> \<not> qr_is_done q \<Longrightarrow> st_cont_id (stream t p (rows_new q n)) = Some (qr_id q)"
  by (simp add: stream_def rows_new_def cursor_handle_def)

lemma stream_page_size [simp]: "st_page_size (stream t p (rows_new q n)) = n"
  by (simp add: stream_def rows_new_def)

lemma stream_done [simp]: "st_done (stream t p (rows_new q n)) = qr_is_done q"
  by (simp add: stream_def rows_new_def)

text \<open>
  C12. A cursor is released exactly once. Take a result set from any daemon, stream it for any
  number of polls and drop the stream (or drop the result set unread). If the server had finished,
  nothing is sent and nothing spawned. Otherwise every request of the stream asks for a page of
  the opening cursor with the opening page size, and one close of that cursor is spawned -- not
  two, and none when one of the answers said the result is done.
\<close>

theorem cursor_released_once:
  assumes "idle L (ss_world s)" "ss_runtime s" "qr_id q \<noteq> []"
  shows "if qr_is_done q
    then poll_then_drop (exchange L daemon) k (stream t p (rows_new q n)) s = s \<and>
         drop_rows (rows_new q n) s = s
    else (\<exists>reqs reps.
           let e = poll_then_drop (exchange L daemon) k (stream t p (rows_new q n)) s in
           ss_sent e = ss_sent s @ reqs \<and> ss_received e = ss_received s @ reps \<and>
           list_all (\<lambda>r. \<exists>i. r = SqlMore i (qr_id q) n) reqs \<and>
           ss_spawned e = ss_spawned s @
             (if list_ex finished reps then [] else [close_request (qr_id q)])) \<and>
         ss_spawned (drop_rows (rows_new q n) s) = ss_spawned s @ [close_request (qr_id q)]"
proof (cases "qr_is_done q")
  case True
  have "poll_then_drop (exchange L daemon) k (stream t p (rows_new q n)) s = s"
    by (rule poll_done) (simp add: True)
  with True show ?thesis by (simp add: drop_rows_def rows_new_def)
next
  case False
  have "cursor_effect (qr_id q) n s
      (poll_then_drop (exchange L daemon) k (stream t p (rows_new q n)) s)"
    using conn.poll_effect [OF assms(1,2) _ stream_cursor [OF assms(3) False] assms(3)] False
    by simp
  moreover have "ss_spawned (drop_rows (rows_new q n) s) =
      ss_spawned s @ [close_request (qr_id q)]"
    using assms False by (simp add: drop_rows_def rows_new_def cursor_handle_def)
  moreover have "page_request (qr_id q) n = (\<lambda>r. \<exists>i. r = SqlMore i (qr_id q) n)"
    by (simp add: fun_eq_iff page_request_def)
  ultimately show ?thesis using False
    by (simp only: cursor_effect_def Let_def if_False conj_assoc simp_thms)
qed

section \<open>Collecting every page\<close>

text \<open>A server that holds the remaining pages of one cursor and serves them in order.\<close>

definition page_result :: "string \<Rightarrow> json_object list \<Rightarrow> bool \<Rightarrow> query_result" where
  "page_result i ms fin =
     \<lparr>qr_id = i, qr_success = True, qr_has_results = True, qr_update_count = 0,
      qr_cont_id = None, qr_is_done = fin, qr_metadata = default_metadata, qr_data = ms,
      qr_execution_time = 0, qr_error = None, qr_sqlcode = None, qr_sqlstate = None,
      qr_parameter_count = None, qr_output_parms = []\<rparr>"

fun serve :: "string \<Rightarrow> (json_object list list) sender" where
  "serve c (SqlMore i c' n) (p # ps) =
     (if c' = c then (Inr (QueryResult (page_result i p (ps = []))), ps)
      else (Inl (error_from_transport Closed), p # ps))"
| "serve c r ps = (Inl (error_from_transport Closed), ps)"

definition stalls :: "json_object list list \<Rightarrow> bool" where
  "stalls ps = list_ex (\<lambda>p. p = []) (butlast ps)"

lemma stalls_Cons: "stalls (p # ps) \<longleftrightarrow> (p = [] \<and> ps \<noteq> []) \<or> stalls ps"
  by (cases ps) (auto simp: stalls_def)

lemma serve_page:
  "fst (serve c (SqlMore i c n) (p # ps)) = Inr (QueryResult (page_result i p (ps = [])))"
  "snd (serve c (SqlMore i c n) (p # ps)) = ps"
  by simp_all

lemma collect_serve_page:
  assumes "st_rows st = []" "ss_world s = p # ps" "\<not> st_done st" "st_cont_id st = Some c" "c \<noteq> []"
    and "\<And>m ms st' s'. p = m # ms \<Longrightarrow> ss_world s' = ps \<Longrightarrow> st_done st' = (ps = []) \<Longrightarrow>
      st_cont_id st' = Some c \<Longrightarrow> st_rows st' = ms \<Longrightarrow>
      \<exists>t. try_collect (serve c) Inr fuel (out @ [m]) st' s' =
        Some (if stalls ps then Inl empty_page_error else Inr (out @ p @ concat ps), t)"
  shows "\<exists>t. try_collect (serve c) Inr (Suc fuel) out st s =
    Some (if stalls (p # ps) then Inl empty_page_error else Inr (out @ p @ concat ps), t)"
proof -
  obtain i ids where i: "next_id (st_ids st) = (i, ids)" by force
  let ?r = "SqlMore i c (st_page_size st)" and ?st = "st\<lparr>st_ids := ids\<rparr>"
  let ?s = "paged (serve c) ?r s"
  have nxt: "stream_next (serve c) st s = take_page (page_result i p (ps = [])) ?st ?s"
    using assms(1-5) i
    by (simp add: stream_next_def non_empty_def send_request_paged Let_def page_result_def)
  show ?thesis
  proof (cases p)
    case Nil
    then show ?thesis
      by (cases "ps = []")
        (simp_all add: nxt take_page_def page_result_def stalls_Cons drop_stream_def, simp add: stalls_def)
  next
    case (Cons m ms)
    let ?st' = "?st\<lparr>st_done := (ps = []), st_rows := ms\<rparr>"
    have "try_collect (serve c) Inr (Suc fuel) out st s =
        try_collect (serve c) Inr fuel (out @ [m]) ?st' ?s"
      by (simp add: nxt take_page_def page_result_def Cons)
    with assms(6) [of m ms ?s ?st'] Cons assms(2,4) show ?thesis by (simp add: stalls_Cons)
  qed
qed

lemma collect_serve:
  assumes "ss_world s = ps" "st_done st = (ps = [])" "ps \<noteq> [] \<Longrightarrow> st_cont_id st = Some c"
    and "c \<noteq> []" "length (st_rows st) + length (concat ps) + length ps < fuel"
  shows "\<exists>t. try_collect (serve c) Inr fuel out st s =
    Some (if stalls ps then Inl empty_page_error else Inr (out @ st_rows st @ concat ps), t)"
  using assms
proof (induction fuel arbitrary: out st s ps)
  case (Suc fuel)
  show ?case
  proof (cases "st_rows st")
    case (Cons m ms)
    let ?st = "st\<lparr>st_rows := ms\<rparr>"
    have step: "try_collect (serve c) Inr (Suc fuel) out st s =
        try_collect (serve c) Inr fuel (out @ [m]) ?st s"
      by (simp add: stream_next_def Cons)
    have "\<exists>t. try_collect (serve c) Inr fuel (out @ [m]) ?st s =
        Some (if stalls ps then Inl empty_page_error
              else Inr ((out @ [m]) @ st_rows ?st @ concat ps), t)"
      using Suc.prems Cons by (intro Suc.IH) simp_all
    then show ?thesis by (simp only: step) (simp add: Cons split: if_splits)
  next
    case none: Nil
    show ?thesis
    proof (cases ps)
      case Nil
      with Suc.prems none show ?thesis by (simp add: stream_next_def stalls_def)
    next
      case (Cons p ps')
      have "\<exists>t. try_collect (serve c) Inr (Suc fuel) out st s =
          Some (if stalls (p # ps') then Inl empty_page_error else Inr (out @ p @ concat ps'), t)"
      proof (rule collect_serve_page [OF none])
        fix m ms and st' :: stream_state and s' :: "json_object list list session"
        assume "p = m # ms" "ss_world s' = ps'" "st_done st' = (ps' = [])" "st_cont_id st' = Some c"
          "st_rows st' = ms"
        with Suc.IH [of s' ps' st' "out @ [m]"] Suc.prems(4,5) Cons
        show "\<exists>t. try_collect (serve c) Inr fuel (out @ [m]) st' s' =
            Some (if stalls ps' then Inl empty_page_error else Inr (out @ p @ concat ps'), t)"
          by (simp split: if_splits)
      qed (use Suc.prems Cons in simp_all)
      with none Cons show ?thesis by (simp only: concat.simps append_Nil append_assoc)
    qed
  qed
qed simp


section \<open>Batches and typed access\<close>

text \<open>
  Typed access to a column is one function with two views: \<open>get\<close> differs from \<open>try_get\<close>
  only in turning an absent column into a \<open>MissingColumn\<close> error, and every decoding error of
  either names the column that was asked for.
\<close>

theorem row_get_try_get:
  "row_get f row column =
     (case row_try_get f row column of
        None \<Rightarrow> Inl (Decode (Some column) (MissingColumn column)) | Some r \<Rightarrow> r) \<and>
   (row_try_get f row column = None \<longleftrightarrow> obj_get row column = None) \<and>
   (\<forall>e. row_get f row column = Inl e \<longrightarrow> (\<exists>d. e = Decode (Some column) d))"
  by (auto simp: row_get_def row_try_get_def result_simps split: option.split)

section \<open>Concrete instances\<close>

definition sample_session :: "(dispatcher \<times> unit) session" where
  "sample_session =
     \<lparr>ss_world = (spawn, ()), ss_ids = new_allocator None 0, ss_runtime = True, ss_sent = [],
      ss_received = [], ss_spawned = []\<rparr>"

definition quiet :: "unit daemon" where
  "quiet b x = (Inr [''ok''], x)"

lemma sample_session_idle: "idle sample (ss_world sample_session)"
  by (simp add: sample_session_def idle_start)

lemma query_execute_over_connection_witness:
  "query_execute_inner (exchange sample quiet) (query_new None ''VALUES 1'') None
     \<lparr>eo_rows = Some 0, eo_terse = True\<rparr> sample_session =
   (Inl (Protocol ZeroPageSize), sample_session)"
  using query_execute_over_connection [OF sample_session_idle] by simp

definition open_page :: query_result where
  "open_page = page_result ''q'' [[(''N'', JNull)]] False"

lemma cursor_released_once_witness:
  "ss_spawned (drop_rows (rows_new open_page 1) sample_session) = [SqlClose ''close-q'' ''q'']"
  using cursor_released_once [OF sample_session_idle, of open_page]
  by (simp add: open_page_def page_result_def sample_session_def close_request_def)


end
