(* ===== verification/Transport.thy ===== *)
theory Transport
  imports Session Config
begin

text \<open>
  Getting a connection (\<^verbatim>\<open>src/src/transport\<close>): the filtering of WebSocket frames (\<^verbatim>\<open>socket.rs\<close>),
  TCP and TLS with the choice of the certificate verifier (\<^verbatim>\<open>tls.rs\<close>), and the handshake that
  upgrades, authenticates and sends \<open>connect\<close> (\<^verbatim>\<open>handshake.rs\<close>).

  rustls, native-tls, tungstenite, the base64 encoder and the operating system are parameters,
  gathered in records. An error of theirs is the text it displays.

  The lemmas show which frames reach the dispatcher, which certificates a TLS mode admits, where
  names and credentials go, and what a finished handshake leaves behind.
\<close>

section \<open>WebSocket frames\<close>

datatype ws_message = MText string | MBinary string | MPing string | MPong string | MFrame string | MClose

datatype ws_error =
    ConnectionClosed
  | AlreadyClosed
  | WsIo string
  | WsHttp nat string
  | WsOther string

text \<open>
  \<open>WsHttp\<close> carries the status code and its display. The display of a whole error is the
  library's, a parameter \<open>show_ws\<close>.
\<close>

fun map_ws_err :: "(ws_error \<Rightarrow> string) \<Rightarrow> ws_error \<Rightarrow> transport_error" where
  "map_ws_err show_ws ConnectionClosed = Closed"
| "map_ws_err show_ws AlreadyClosed = Closed"
| "map_ws_err show_ws (WsIo e) = Io e"
| "map_ws_err show_ws other = Io (show_ws other)"

definition start_send :: "(string \<Rightarrow> bool) \<Rightarrow> string \<Rightarrow> transport_error + ws_message" where
  "start_send valid_utf8 item =
     (if valid_utf8 item then Inr (MText item)
      else Inl (Io ''non-UTF-8 bytes handed to WsTransport (caller contract violation)''))"

text \<open>The rest of the sink forwards to the inner one: pending, done or failed.\<close>

datatype 'e sink_poll = SinkPending | SinkDone | SinkFailed 'e

fun sink_map_err :: "(ws_error \<Rightarrow> transport_error) \<Rightarrow> ws_error sink_poll \<Rightarrow> transport_error sink_poll" where
  "sink_map_err f SinkPending = SinkPending"
| "sink_map_err f SinkDone = SinkDone"
| "sink_map_err f (SinkFailed e) = SinkFailed (f e)"

definition poll_ready :: "(ws_error \<Rightarrow> string) \<Rightarrow> ws_error sink_poll \<Rightarrow> transport_error sink_poll" where
  "poll_ready show_ws inner = sink_map_err (map_ws_err show_ws) inner"

definition poll_flush :: "(ws_error \<Rightarrow> string) \<Rightarrow> ws_error sink_poll \<Rightarrow> transport_error sink_poll" where
  "poll_flush show_ws inner = sink_map_err (map_ws_err show_ws) inner"

definition poll_close :: "(ws_error \<Rightarrow> string) \<Rightarrow> ws_error sink_poll \<Rightarrow> transport_error sink_poll" where
  "poll_close show_ws inner = sink_map_err (map_ws_err show_ws) inner"

text \<open>
  The inner stream is the list of what it has ready; after them it is pending, or has ended.
  \<open>Ready None\<close> is the end of the transport's stream.
\<close>

datatype poll = Pending | Ready "(transport_error + string) option"

fun poll_next ::
  "(ws_error \<Rightarrow> string) \<Rightarrow> bool \<Rightarrow> (ws_error + ws_message) list \<Rightarrow>
     poll \<times> (ws_error + ws_message) list" where
  "poll_next show_ws ended [] = (if ended then Ready None else Pending, [])"
| "poll_next show_ws ended (Inl e # xs) = (Ready (Some (Inl (map_ws_err show_ws e))), xs)"
| "poll_next show_ws ended (Inr (MText s) # xs) = (Ready (Some (Inr s)), xs)"
| "poll_next show_ws ended (Inr (MBinary b) # xs) = (Ready (Some (Inr b)), xs)"
| "poll_next show_ws ended (Inr (MPing p) # xs) = poll_next show_ws ended xs"
| "poll_next show_ws ended (Inr (MPong p) # xs) = poll_next show_ws ended xs"
| "poll_next show_ws ended (Inr (MFrame f) # xs) = poll_next show_ws ended xs"
| "poll_next show_ws ended (Inr MClose # xs) = (Ready None, xs)"

lemma poll_next_shrinks:
  "poll_next show_ws ended xs = (Ready (Some r), ys) \<Longrightarrow> length ys < length xs"
  by (induction show_ws ended xs rule: poll_next.induct) (auto split: if_splits)

text \<open>The inbound side of the dispatcher's loop: what it handles until the stream ends or pends.\<close>

function read_all ::
  "(ws_error \<Rightarrow> string) \<Rightarrow> bool \<Rightarrow> (ws_error + ws_message) list \<Rightarrow> (transport_error + string) list \<times> poll"
  where
  "read_all show_ws ended xs =
     (case poll_next show_ws ended xs of
        (Ready (Some (Inr b)), ys) \<Rightarrow> (let (bs, e) = read_all show_ws ended ys in (Inr b # bs, e))
      | (Ready (Some (Inl e)), ys) \<Rightarrow> ([Inl e], Ready (Some (Inl e)))
      | (p, ys) \<Rightarrow> ([], p))"
  by pat_completeness auto
termination
  by (relation "measure (\<lambda>(f, e, xs). length xs)") (auto dest: poll_next_shrinks [OF sym])

declare read_all.simps [simp del]

section \<open>Errors of the upgrade and credentials\<close>

fun map_upgrade_error :: "(ws_error \<Rightarrow> string) \<Rightarrow> ws_error \<Rightarrow> error" where
  "map_upgrade_error show_ws (WsHttp status shown) =
     (if status = 401 \<or> status = 403
      then Auth (''websocket upgrade rejected: HTTP '' @ shown)
      else Internal (''websocket upgrade failed: '' @ show_ws (WsHttp status shown)))"
| "map_upgrade_error show_ws other = Internal (''websocket upgrade failed: '' @ show_ws other)"

definition basic_authorization :: "(string \<Rightarrow> string) \<Rightarrow> string \<Rightarrow> string \<Rightarrow> string" where
  "basic_authorization b64_encode u p = ''Basic '' @ b64_encode (u @ '':'' @ p)"

definition WS_PATH :: string where
  "WS_PATH = ''/db/''"

record ws_request =
  wr_uri :: string
  wr_headers :: "(string \<times> string) list"

definition show_u16 :: "u16 \<Rightarrow> string" where
  "show_u16 n = show_nat (unat n)"

definition upgrade_request :: "(string \<Rightarrow> string) \<Rightarrow> string \<Rightarrow> daemon_server \<Rightarrow> ws_request" where
  "upgrade_request b64_encode ws_key s =
     \<lparr>wr_uri = ''wss://'' @ ds_host s @ '':'' @ show_u16 (ds_port s) @ WS_PATH,
      wr_headers =
        [(''Host'', ds_host s),
         (''Authorization'', basic_authorization b64_encode (ds_user s) (expose (ds_password s))),
         (''Upgrade'', ''websocket''), (''Connection'', ''Upgrade''),
         (''Sec-WebSocket-Version'', ''13''), (''Sec-WebSocket-Key'', ws_key)]\<rparr>"

definition connect_request :: "daemon_server \<Rightarrow> string \<Rightarrow> request" where
  "connect_request s i = Connect i ''tcp'' (ds_application s) (ds_jdbc_props s)"

section \<open>TLS\<close>

text \<open>
  A verification callback is asked about the leaf, the intermediates, the server name, the OCSP
  response and the time.
\<close>

type_synonym der = "u8 list"
type_synonym verify = "der \<Rightarrow> der list \<Rightarrow> string \<Rightarrow> u8 list \<Rightarrow> nat \<Rightarrow> string + unit"

text \<open>\<open>webpki\<close> verifies against the built-in roots and the extra ones it is given.\<close>

record tls_backend =
  tb_tcp_connect :: "string \<Rightarrow> string + unit"
  tb_add_root :: "der \<Rightarrow> string + unit"
  tb_build_verifier :: "der list \<Rightarrow> string + unit"
  tb_webpki :: "der list \<Rightarrow> verify"
  tb_server_name :: "string \<Rightarrow> bool"
  tb_handshake :: "verify \<Rightarrow> string \<Rightarrow> string + der list option"

definition pin_or_webpki :: "der \<Rightarrow> verify \<Rightarrow> verify" where
  "pin_or_webpki pin inner leaf inters name ocsp now =
     (if leaf = pin then Inr () else inner leaf inters name ocsp now)"

text \<open>
  A whole verifier: certificates, the signatures of the two protocol versions, the schemes
  offered. The pinning verifier decides only the first itself.
\<close>

record cert_verifier =
  cv_cert :: verify
  cv_tls12 :: "string \<Rightarrow> der \<Rightarrow> string \<Rightarrow> string + unit"
  cv_tls13 :: "string \<Rightarrow> der \<Rightarrow> string \<Rightarrow> string + unit"
  cv_schemes :: "string list"

definition pin_verifier :: "der \<Rightarrow> cert_verifier \<Rightarrow> cert_verifier" where
  "pin_verifier pin inner =
     \<lparr>cv_cert = pin_or_webpki pin (cv_cert inner),
      cv_tls12 = (\<lambda>message cert dss. cv_tls12 inner message cert dss),
      cv_tls13 = (\<lambda>message cert dss. cv_tls13 inner message cert dss),
      cv_schemes = cv_schemes inner\<rparr>"

text \<open>The process-wide provider is installed if there is none.\<close>

definition ensure_crypto_provider :: "'p \<Rightarrow> 'p option \<Rightarrow> 'p option" where
  "ensure_crypto_provider ring installed =
     (case installed of None \<Rightarrow> Some ring | Some p \<Rightarrow> Some p)"

definition no_verify :: verify where
  "no_verify leaf inters name ocsp now = Inr ()"

text \<open>The once-per-process warning: the flag, and the lines written to standard error.\<close>

definition insecure_warning :: string where
  "insecure_warning =
     ''WARNING: TlsConfig::Insecure is in use - TLS certificate verification is disabled. NEVER use this in production.''"

definition warn_insecure_once :: "bool \<times> string list \<Rightarrow> bool \<times> string list" where
  "warn_insecure_once w = (if fst w then w else (True, snd w @ [insecure_warning]))"

definition tls_config_verifier ::
  "tls_backend \<Rightarrow> tls_config \<Rightarrow> bool \<times> string list \<Rightarrow> (error + verify) \<times> bool \<times> string list" where
  "tls_config_verifier B cfg w =
     (case cfg of
        Verified \<Rightarrow> (Inr (tb_webpki B []), w)
      | Ca der \<Rightarrow>
          (bindR (mapErr (\<lambda>e. Internal (''invalid Ca cert: '' @ e)) (tb_add_root B der)) (\<lambda>_.
           bindR (mapErr (\<lambda>e. Internal (''tls verifier: '' @ e)) (tb_build_verifier B [der])) (\<lambda>_.
             Inr (pin_or_webpki der (tb_webpki B [der])))), w)
      | Insecure \<Rightarrow> (Inr no_verify, warn_insecure_once w))"

definition tls_session :: "tls_backend \<Rightarrow> verify \<Rightarrow> string \<Rightarrow> error + der list option" where
  "tls_session B v name =
     (if tb_server_name B name
      then mapErr (\<lambda>e. error_from_transport (Io e)) (tb_handshake B v name)
      else Inl (Internal (''invalid hostname: '' @ name)))"

definition tls_handshake ::
  "tls_backend \<Rightarrow> daemon_server \<Rightarrow> bool \<times> string list \<Rightarrow>
     (error + der list option) \<times> bool \<times> string list" where
  "tls_handshake B s w =
     (let (v, w1) = tls_config_verifier B (ds_tls s) w
      in (bindR v (\<lambda>v. tls_session B v (ds_host s)), w1))"

definition tls_connect ::
  "tls_backend \<Rightarrow> daemon_server \<Rightarrow> bool \<times> string list \<Rightarrow>
     (error + der list option) \<times> bool \<times> string list" where
  "tls_connect B s w =
     (let (tcp_host, tcp_port) = tcp_target s in
      case tb_tcp_connect B (tcp_host @ '':'' @ show_u16 tcp_port) of
        Inl e \<Rightarrow> (Inl (error_from_transport (Io e)), w)
      | Inr _ \<Rightarrow> tls_handshake B s w)"

definition fetch_certificate_from ::
  "tls_backend \<Rightarrow> string \<Rightarrow> string \<Rightarrow> u16 \<Rightarrow> bool \<times> string list \<Rightarrow>
     (error + der) \<times> bool \<times> string list" where
  "fetch_certificate_from B server_name addr p w =
     (case tb_tcp_connect B (addr @ '':'' @ show_u16 p) of
        Inl e \<Rightarrow> (Inl (error_from_transport (Io e)), w)
      | Inr _ \<Rightarrow>
          (bindR (tls_session B no_verify server_name) (\<lambda>certs.
           bindR (ok_or (Internal ''server did not present a certificate chain'') certs) (\<lambda>chain.
             case chain of
               [] \<Rightarrow> Inl (Internal ''server presented an empty certificate chain'')
             | leaf # _ \<Rightarrow> Inr leaf)), warn_insecure_once w))"

definition fetch_certificate ::
  "tls_backend \<Rightarrow> string \<Rightarrow> u16 \<Rightarrow> bool \<times> string list \<Rightarrow> (error + der) \<times> bool \<times> string list" where
  "fetch_certificate B h p w = fetch_certificate_from B h h p w"

text \<open>The variants built with \<open>native-tls\<close> instead of rustls.\<close>

record native_options =
  no_root :: "der option"
  no_accept_invalid_certs :: bool
  no_accept_invalid_hostnames :: bool

record native_backend =
  nt_from_der :: "der \<Rightarrow> string + unit"
  nt_build :: "native_options \<Rightarrow> string + unit"
  nt_connect :: "native_options \<Rightarrow> string \<Rightarrow> string + unit"
  nt_peer_certificate :: "native_options \<Rightarrow> string \<Rightarrow> string + der option"

definition strict_options :: native_options where
  "strict_options =
     \<lparr>no_root = None, no_accept_invalid_certs = False, no_accept_invalid_hostnames = False\<rparr>"

definition lax_options :: native_options where
  "lax_options =
     \<lparr>no_root = None, no_accept_invalid_certs = True, no_accept_invalid_hostnames = True\<rparr>"

definition native_session :: "native_backend \<Rightarrow> native_options \<Rightarrow> string \<Rightarrow> error + unit" where
  "native_session N opts name =
     bindR (mapErr (\<lambda>e. Internal (''native-tls builder: '' @ e)) (nt_build N opts)) (\<lambda>_.
       mapErr (\<lambda>e. Internal (''native-tls handshake: '' @ e)) (nt_connect N opts name))"

definition native_tls_handshake ::
  "native_backend \<Rightarrow> daemon_server \<Rightarrow> bool \<times> string list \<Rightarrow> (error + unit) \<times> bool \<times> string list" where
  "native_tls_handshake N s w =
     (case ds_tls s of
        Verified \<Rightarrow> (native_session N strict_options (ds_host s), w)
      | Ca der \<Rightarrow>
          (bindR (mapErr (\<lambda>e. Internal (''invalid Ca cert: '' @ e)) (nt_from_der N der)) (\<lambda>_.
             native_session N (strict_options\<lparr>no_root := Some der\<rparr>) (ds_host s)), w)
      | Insecure \<Rightarrow> (native_session N lax_options (ds_host s), warn_insecure_once w))"

definition native_fetch_certificate_from ::
  "tls_backend \<Rightarrow> native_backend \<Rightarrow> string \<Rightarrow> string \<Rightarrow> u16 \<Rightarrow> bool \<times> string list \<Rightarrow>
     (error + der) \<times> bool \<times> string list" where
  "native_fetch_certificate_from B N server_name addr p w =
     (case tb_tcp_connect B (addr @ '':'' @ show_u16 p) of
        Inl e \<Rightarrow> (Inl (error_from_transport (Io e)), w)
      | Inr _ \<Rightarrow>
          (bindR (native_session N lax_options server_name) (\<lambda>_.
           bindR (mapErr (\<lambda>e. error_from_transport (Io e))
                    (nt_peer_certificate N lax_options server_name)) (\<lambda>cert.
             ok_or (Internal ''server did not present a certificate'') cert)), warn_insecure_once w))"

definition native_fetch_certificate ::
  "tls_backend \<Rightarrow> native_backend \<Rightarrow> string \<Rightarrow> u16 \<Rightarrow> bool \<times> string list \<Rightarrow>
     (error + der) \<times> bool \<times> string list" where
  "native_fetch_certificate B N h p w = native_fetch_certificate_from B N h h p w"

text \<open>The entry points on \<open>DaemonServer\<close>.\<close>

definition server_fetch_certificate ::
  "tls_backend \<Rightarrow> string \<Rightarrow> u16 \<Rightarrow> bool \<times> string list \<Rightarrow> (error + der) \<times> bool \<times> string list" where
  "server_fetch_certificate B h p w = fetch_certificate B h p w"

definition server_fetch_certificate_from ::
  "tls_backend \<Rightarrow> string \<Rightarrow> string \<Rightarrow> u16 \<Rightarrow> bool \<times> string list \<Rightarrow>
     (error + der) \<times> bool \<times> string list" where
  "server_fetch_certificate_from B server_name addr p w =
     fetch_certificate_from B server_name addr p w"

section \<open>The handshake\<close>

record upgrader =
  up_b64_encode :: "string \<Rightarrow> string"
  up_generate_key :: string
  up_build :: "ws_request \<Rightarrow> string + unit"
  up_client_async :: "ws_request \<Rightarrow> ws_error + unit"
  up_show_ws :: "ws_error \<Rightarrow> string"

record 'w connected =
  cd_world :: 'w
  cd_version :: string
  cd_initial_job :: string
  cd_ids :: id_allocator

definition connected_of_reply ::
  "string \<Rightarrow> response \<Rightarrow> error + string \<times> string" where
  "connected_of_reply connect_id r =
     (case r of
        Connected i v j \<Rightarrow> Inr (v, j)
      | ErrorResp e \<Rightarrow> Inl (Auth (unwrap_or ''connect rejected'' (er_error e)))
      | _ \<Rightarrow> Inl (error_from_protocol (CorrelationMismatch connect_id (DebugOf [] r))))"

definition handshake ::
  "tls_backend \<Rightarrow> upgrader \<Rightarrow> 'w sender \<Rightarrow> 'w \<Rightarrow> u32 option \<Rightarrow> u32 \<Rightarrow> daemon_server \<Rightarrow>
     bool \<times> string list \<Rightarrow> (error + 'w connected) \<times> bool \<times> string list" where
  "handshake B U send w0 subsec_nanos pid s w =
     (let (tls, w1) = tls_connect B s w;
          req = upgrade_request (up_b64_encode U) (up_generate_key U) s
      in (bindR tls (\<lambda>_.
          bindR (mapErr (\<lambda>e. Internal (''malformed ws request: '' @ e)) (up_build U req)) (\<lambda>_.
          bindR (mapErr (map_upgrade_error (up_show_ws U)) (up_client_async U req)) (\<lambda>_.
            let (connect_id, ids) = next_id (new_allocator subsec_nanos pid);
                (resp, w2) = send (connect_request s connect_id) w0
            in bindR resp (\<lambda>r.
               bindR (connected_of_reply connect_id r) (\<lambda>(v, j).
               Inr \<lparr>cd_world = w2, cd_version = v, cd_initial_job = j, cd_ids = ids\<rparr>))))), w1))"

section \<open>Frames\<close>

definition carries_on :: "ws_error + ws_message \<Rightarrow> bool" where
  "carries_on x = (case x of Inl e \<Rightarrow> False | Inr m \<Rightarrow> m \<noteq> MClose)"

fun data_of :: "ws_error + ws_message \<Rightarrow> string option" where
  "data_of (Inr (MText s)) = Some s"
| "data_of (Inr (MBinary b)) = Some b"
| "data_of x = None"

text \<open>How the stream of the transport ends, from the first item that ends it.\<close>

definition last_poll :: "(ws_error \<Rightarrow> string) \<Rightarrow> bool \<Rightarrow> (ws_error + ws_message) list \<Rightarrow> poll" where
  "last_poll show_ws ended rest =
     (case rest of
        [] \<Rightarrow> if ended then Ready None else Pending
      | Inl e # _ \<Rightarrow> Ready (Some (Inl (map_ws_err show_ws e)))
      | Inr m # _ \<Rightarrow> Ready None)"

lemma read_all_data:
  "read_all show_ws ended (Inr (MText b) # xs) =
     (Inr b # fst (read_all show_ws ended xs), snd (read_all show_ws ended xs))"
  "read_all show_ws ended (Inr (MBinary b) # xs) =
     (Inr b # fst (read_all show_ws ended xs), snd (read_all show_ws ended xs))"
  by (subst read_all.simps, simp add: Let_def split: prod.split)+

lemma read_all_control:
  "read_all show_ws ended (Inr (MPing p) # xs) = read_all show_ws ended xs"
  "read_all show_ws ended (Inr (MPong p) # xs) = read_all show_ws ended xs"
  "read_all show_ws ended (Inr (MFrame p) # xs) = read_all show_ws ended xs"
  by (subst (1 2) read_all.simps, simp)+

lemma read_all_end:
  "read_all show_ws ended (Inr MClose # xs) = ([], Ready None)"
  "read_all show_ws ended (Inl e # xs) =
     ([Inl (map_ws_err show_ws e)], Ready (Some (Inl (map_ws_err show_ws e))))"
  "read_all show_ws ended [] = ([], if ended then Ready None else Pending)"
  by (subst read_all.simps, simp)+

lemmas read_all_eqs = read_all_data read_all_control read_all_end

text \<open>
  The dispatcher sees exactly the daemon's data: the payloads of the text and binary
  messages, in order, up to the first close message or error; control frames are skipped, a close
  message ends the stream even when data follows it, and an error is reported once, as \<open>Closed\<close>
  when the connection was already closed.
\<close>

theorem transport_stream_contents:
  "read_all show_ws ended xs =
     (let rest = dropWhile carries_on xs;
          stop = last_poll show_ws ended rest
      in (map Inr (List.map_filter data_of (takeWhile carries_on xs)) @
            (case stop of Ready (Some r) \<Rightarrow> [r] | _ \<Rightarrow> []), stop))"
proof (induction xs)
  case Nil
  show ?case by (simp add: read_all_eqs last_poll_def)
next
  case (Cons x xs)
  show ?case
  proof (cases x)
    case (Inl e)
    then show ?thesis by (simp add: read_all_eqs carries_on_def last_poll_def)
  next
    case (Inr m)
    with Cons.IH show ?thesis
      by (cases m) (simp_all add: read_all_eqs carries_on_def last_poll_def Let_def
          List.map_filter_def)
  qed
qed

section \<open>Certificates\<close>

text \<open>
  What the TLS library does with the verification callback: a session exists only when the
  callback accepted the leaf of the presented chain for the server name of the session.
\<close>

definition consults_verifier :: "tls_backend \<Rightarrow> bool" where
  "consults_verifier B =
     (\<forall>v name certs. tb_handshake B v name = Inr certs \<longrightarrow>
        (\<exists>leaf inters ocsp now. certs = Some (leaf # inters) \<and> v leaf inters name ocsp now = Inr ()))"

lemma tls_session_peer:
  assumes "consults_verifier B" "tls_session B v name = Inr certs"
  shows "\<exists>leaf inters ocsp now. certs = Some (leaf # inters) \<and> v leaf inters name ocsp now = Inr ()"
  using assms by (auto simp: tls_session_def consults_verifier_def result_simps split: if_splits)

text \<open>
  C37. A connection that verifies is a verified connection: unless the mode is \<open>Insecure\<close>, TLS
  succeeds only with a leaf certificate that the web PKI accepts for the configured host name --
  against the built-in roots, or with the pinned certificate as a further root -- or, in mode
  \<open>Ca\<close>, with a leaf that is the pinned certificate byte for byte. The TCP hop never stands in for
  the name.
\<close>

theorem verified_peer:
  assumes "consults_verifier B" "fst (tls_connect B s w) = Inr certs" "ds_tls s \<noteq> Insecure"
  shows "\<exists>leaf inters ocsp now. certs = Some (leaf # inters) \<and>
    (case ds_tls s of
       Verified \<Rightarrow> tb_webpki B [] leaf inters (ds_host s) ocsp now = Inr ()
     | Ca pin \<Rightarrow> leaf = pin \<or> tb_webpki B [pin] leaf inters (ds_host s) ocsp now = Inr ())"
proof -
  obtain v where v: "fst (tls_config_verifier B (ds_tls s) w) = Inr v"
    "tls_session B v (ds_host s) = Inr certs"
    using assms(2)
    by (auto simp: tls_connect_def tls_handshake_def result_simps split: prod.splits sum.splits)
  from tls_session_peer [OF assms(1) v(2)] obtain leaf inters ocsp now
    where peer: "certs = Some (leaf # inters)" "v leaf inters (ds_host s) ocsp now = Inr ()" by blast
  have "case ds_tls s of
       Verified \<Rightarrow> tb_webpki B [] leaf inters (ds_host s) ocsp now = Inr ()
     | Ca pin \<Rightarrow> leaf = pin \<or> tb_webpki B [pin] leaf inters (ds_host s) ocsp now = Inr ()"
    using v(1) peer(2) assms(3)
    by (cases "ds_tls s")
       (auto simp: tls_config_verifier_def result_simps pin_or_webpki_def split: if_splits)
  with peer(1) show ?thesis by blast
qed

text \<open>
  Where names and credentials go: the TCP hop is in no header and no name, and user and password
  are in the \<open>Authorization\<close> header alone, not in the URI, the other headers or the request.
\<close>

lemma hop_only_for_tcp:
  "upgrade_request enc k (s\<lparr>ds_connect_address := a\<rparr>) = upgrade_request enc k s"
  "tls_handshake B (s\<lparr>ds_connect_address := a\<rparr>) w = tls_handshake B s w"
  by (simp_all add: upgrade_request_def tls_handshake_def)

lemma credentials_only_in_authorization:
  "connect_request (s\<lparr>ds_user := u, ds_password := p\<rparr>) i = connect_request s i"
  "wr_uri (upgrade_request enc k (s\<lparr>ds_user := u, ds_password := p\<rparr>)) =
     wr_uri (upgrade_request enc k s)"
  "AList.delete ''Authorization'' (wr_headers (upgrade_request enc k (s\<lparr>ds_user := u, ds_password := p\<rparr>))) =
     AList.delete ''Authorization'' (wr_headers (upgrade_request enc k s))"
  by (simp_all add: connect_request_def upgrade_request_def)

lemma insecure_warns_once:
  "warn_insecure_once (warn_insecure_once w) = warn_insecure_once w"
  by (simp add: warn_insecure_once_def)

section \<open>What a handshake leaves behind\<close>

lemma single_answered:
  assumes "dinv L d" "length (dq_requests d) = 1" "(0, x) \<in> set (dq_delivered d)"
  shows "dq_pending d = [] \<and> dq_lost d = [] \<and> dq_in_flight d = 0"
proof -
  have "slots d = {#0#}" using assms(1,2) by (simp add: dinv_def inv_slots_def)
  then have "size (slots d) = 1" by simp
  then have "length (dq_queue d) + length (table_slots d) + length (dq_delivered d) +
      length (dq_unsent d) + length (dq_lost d) = 1"
    by (simp add: slots_def)
  moreover have "0 < length (dq_delivered d)" using assms(3) by (cases "dq_delivered d") auto
  ultimately have "length (table_slots d) = 0" "length (dq_lost d) = 0" by linarith+
  then have "table_slots d = []" "dq_lost d = []" by simp_all
  then show ?thesis
    using assms(1) by (simp add: dinv_def inv_count_def table_slots_def)
qed

text \<open>
  A finished handshake leaves a fresh connection: exactly one request was sent, the
  \<open>connect\<close>, under the first id; the version and job are those of the \<open>Connected\<close> answer with that
  id; nothing is pending and the load counter is zero; and the id allocator goes on from there.
\<close>

theorem handshake_leaves_idle:
  assumes "fst (handshake B U (exchange L daemon) (spawn, x) t pid s w) = Inr c"
  shows "let d = fst (cd_world c); (i, ids) = next_id (new_allocator t pid) in
    idle L (cd_world c) \<and> dq_requests d = [connect_request s i] \<and>
    dq_delivered d \<noteq> [] \<and> (0, Inr (Connected i (cd_version c) (cd_initial_job c))) \<in> set (dq_delivered d) \<and>
    dq_pending d = [] \<and> dq_in_flight d = 0 \<and> cd_ids c = ids"
proof -
  obtain i ids where i: "next_id (new_allocator t pid) = (i, ids)" by force
  let ?ex = "exchange L daemon (connect_request s i) (spawn, x)"
  obtain q v j where q: "fst ?ex = Inr q" "connected_of_reply i q = Inr (v, j)"
    "c = \<lparr>cd_world = snd ?ex, cd_version = v, cd_initial_job = j, cd_ids = ids\<rparr>"
    using assms by (auto simp: handshake_def i bindR_eq_Inr Let_def split: prod.splits)
  have ex: "idle L (snd ?ex)" "exchanged L spawn (connect_request s i) (Inr q) (fst (snd ?ex))"
    using exchange_outcome [OF idle_start [of L x], of daemon "connect_request s i"] q(1) by simp_all
  have rs: "dq_requests (fst (snd ?ex)) = [connect_request s i]"
    and mem: "(0, Inr q) \<in> set (dq_delivered (fst (snd ?ex)))"
    and rid: "response_id q = i"
    using ex(2) by (auto simp: exchanged_def spawn_def connect_request_def)
  from q(2) rid have conn: "q = Connected i v j"
    by (cases q) (auto simp: connected_of_reply_def)
  have "dinv L (fst (snd ?ex))"
    using ex(1) reachable_dinv by (auto simp: idle_def)
  from single_answered [OF this _ mem] rs
  have "dq_pending (fst (snd ?ex)) = []" "dq_in_flight (fst (snd ?ex)) = 0" by simp_all
  with ex(1) rs mem conn show ?thesis by (auto simp: i q(3))
qed

lemma tls_connect_not_auth: "fst (tls_connect B s w) \<noteq> Inl (Auth m)"
  by (auto simp: tls_connect_def tls_handshake_def tls_config_verifier_def tls_session_def
      result_simps error_from_defs split: prod.splits sum.splits tls_config.splits if_splits)

lemma map_upgrade_error_auth:
  "Auth m = map_upgrade_error f e \<longleftrightarrow>
   (\<exists>st sh. e = WsHttp st sh \<and> st \<in> {401, 403} \<and> m = ''websocket upgrade rejected: HTTP '' @ sh)"
  by (cases e) auto

text \<open>
  C28. An authentication error means rejected credentials, and the other way round: the handshake
  fails with \<open>Auth\<close> exactly when TLS stood and either the upgrade was answered with HTTP 401 or
  403, or the daemon answered \<open>connect\<close> with an error, whose text is passed on. No transport, TLS
  or protocol failure is reported as one.
\<close>

theorem handshake_auth_iff:
  "fst (handshake B U (exchange L daemon) (spawn, x) t pid s w) = Inl (Auth m) \<longleftrightarrow>
   (\<exists>certs. fst (tls_connect B s w) = Inr certs) \<and>
   (let req = upgrade_request (up_b64_encode U) (up_generate_key U) s;
        i = fst (next_id (new_allocator t pid)) in
    up_build U req = Inr () \<and>
    ((\<exists>st sh. up_client_async U req = Inl (WsHttp st sh) \<and> st \<in> {401, 403} \<and>
        m = ''websocket upgrade rejected: HTTP '' @ sh) \<or>
     (up_client_async U req = Inr () \<and>
      (\<exists>e. fst (exchange L daemon (connect_request s i) (spawn, x)) = Inr (ErrorResp e) \<and>
         m = unwrap_or ''connect rejected'' (er_error e)))))"
proof -
  obtain i ids where i: "next_id (new_allocator t pid) = (i, ids)" by force
  let ?req = "upgrade_request (up_b64_encode U) (up_generate_key U) s"
  let ?ex = "exchange L daemon (connect_request s i) (spawn, x)"
  have hs: "fst (handshake B U (exchange L daemon) (spawn, x) t pid s w) =
    bindR (fst (tls_connect B s w)) (\<lambda>_.
    bindR (mapErr (\<lambda>e. Internal (''malformed ws request: '' @ e)) (up_build U ?req)) (\<lambda>_.
    bindR (mapErr (map_upgrade_error (up_show_ws U)) (up_client_async U ?req)) (\<lambda>_.
    bindR (fst ?ex) (\<lambda>r.
    bindR (connected_of_reply i r) (\<lambda>(v, j).
      Inr \<lparr>cd_world = snd ?ex, cd_version = v, cd_initial_job = j, cd_ids = ids\<rparr>)))))"
    by (simp add: handshake_def i Let_def split: prod.split)
  have "fst ?ex \<noteq> Inl (Auth m)"
    using exchange_outcome [OF idle_start [of L x], of daemon "connect_request s i"]
    by (auto simp: exchanged_def wire_error_def split: sum.splits)
  moreover have "connected_of_reply i r = Inl (Auth m) \<longleftrightarrow>
      (\<exists>e. r = ErrorResp e \<and> m = unwrap_or ''connect rejected'' (er_error e))" for r
    by (cases r) (auto simp: connected_of_reply_def error_from_defs)
  ultimately show ?thesis
    by (simp only: hs bindR_eq_Inl mapErr_eq_Inl map_upgrade_error_auth)
       (auto simp: i Let_def mapErr_eq_Inr tls_connect_not_auth)
qed

section \<open>Concrete instances\<close>

definition sample_tls :: tls_backend where
  "sample_tls =
     \<lparr>tb_tcp_connect = (\<lambda>addr. Inr ()), tb_add_root = (\<lambda>der. Inr ()),
      tb_build_verifier = (\<lambda>roots. Inr ()),
      tb_webpki = (\<lambda>roots leaf inters name ocsp now.
        if leaf \<in> set roots \<and> name = ''ibmi'' then Inr () else Inl ''unknown issuer''),
      tb_server_name = (\<lambda>name. True),
      tb_handshake = (\<lambda>v name. bindR (v [1] [] name [] 0) (\<lambda>_. Inr (Some [[1]])))\<rparr>"

definition sample_server :: daemon_server where
  "sample_server =
     \<lparr>ds_host = ''ibmi'', ds_connect_address = Some ''127.0.0.1'', ds_port = 8076, ds_user = ''u'',
      ds_password = Password ''p'', ds_tls = Ca [1], ds_jdbc_props = None,
      ds_application = ''app''\<rparr>"

lemma sample_tls_connect: "fst (tls_connect sample_tls sample_server (False, [])) = Inr (Some [[1]])"
  by (simp add: tls_connect_def tcp_target_def tls_handshake_def tls_config_verifier_def
      tls_session_def sample_tls_def sample_server_def pin_or_webpki_def)

lemma sample_tls_consults: "consults_verifier sample_tls"
  by (auto simp: consults_verifier_def sample_tls_def result_simps)

lemma verified_peer_witness:
  "fst (tls_connect sample_tls sample_server (False, [])) = Inr (Some [[1]]) \<and>
   (\<exists>leaf inters ocsp now. Some [[1]] = Some (leaf # inters) \<and>
      (leaf = [1] \<or> tb_webpki sample_tls [[1]] leaf inters ''ibmi'' ocsp now = Inr ()))"
  using verified_peer [OF sample_tls_consults sample_tls_connect] sample_tls_connect
  by (simp add: sample_server_def)

text \<open>A daemon that greets, and a parser that knows its greeting.\<close>

definition greeter :: foreign where
  "greeter = sample\<lparr>fo_from_slice := (\<lambda>s. Inr (JObject
     [(''type'', JString ''connected''), (''id'', JString s), (''version'', JString ''2''),
      (''job'', JString ''JOB'')]))\<rparr>"

definition greet :: "string \<Rightarrow> unit daemon" where
  "greet i b x = (Inr [i], x)"

definition sample_upgrader :: upgrader where
  "sample_upgrader =
     \<lparr>up_b64_encode = id, up_generate_key = ''k'', up_build = (\<lambda>r. Inr ()),
      up_client_async = (\<lambda>r. Inr ()), up_show_ws = (\<lambda>e. [])\<rparr>"

lemma greeting_decodes:
  "decode_value (JObject [(''type'', JString ''connected''), (''id'', JString i),
     (''version'', JString ''2''), (''job'', JString ''JOB'')]) = Inr (Connected i ''2'' ''JOB'')"
  by (simp add: decode_value_def contains_key_def decode_tagged_def obj_get_def decode_tag_def
      payload_def de_connected_body_def obj_remove_def wire_simps req_def dflt_def)

lemma greeting_exchange:
  "fst (exchange greeter (greet i) (connect_request sample_server i) (spawn, ())) =
     Inr (Connected i ''2'' ''JOB'')"
proof -
  have k: "request_id (connect_request sample_server i) = i"
    "request_kind (connect_request sample_server i) = KConnect"
    by (simp_all add: connect_request_def)
  show ?thesis
    by (simp add: exchange_def submit_def greeter_def sample_def spawn_def SEND_QUEUE_CAPACITY_def
        greet_def handle_outbound_def insert_pending_def handle_frame_def greeting_decodes
        answer_def deliver_def finish_def received_def k)
qed

lemma handshake_leaves_idle_witness:
  "\<exists>c. fst (handshake sample_tls sample_upgrader
        (exchange greeter (greet (fst (next_id (new_allocator None 0))))) (spawn, ()) None 0
        sample_server (False, [])) = Inr c \<and>
     cd_version c = ''2'' \<and> dq_in_flight (fst (cd_world c)) = 0"
proof -
  obtain i ids where i: "next_id (new_allocator None 0) = (i, ids)" by force
  have "\<exists>c. fst (handshake sample_tls sample_upgrader
        (exchange greeter (greet i)) (spawn, ()) None 0 sample_server (False, [])) = Inr c \<and>
     cd_version c = ''2''"
    using sample_tls_connect greeting_exchange [of i]
    by (auto simp: handshake_def i Let_def sample_upgrader_def connected_of_reply_def
        split: prod.split)
  then obtain c where c: "fst (handshake sample_tls sample_upgrader
        (exchange greeter (greet i)) (spawn, ()) None 0 sample_server (False, [])) = Inr c"
    "cd_version c = ''2''" by blast
  from handshake_leaves_idle [OF c(1)] have "dq_in_flight (fst (cd_world c)) = 0"
    by (simp add: Let_def split: prod.splits)
  with c show ?thesis by (auto simp: i)
qed

end
