(* ===== verification/Job.thy ===== *)
theory Job
  imports Query Transport
begin

text \<open>
  The operations of a job (\<^verbatim>\<open>src/src/job.rs\<close>): executing SQL directly, preparing, the status and
  trace operations, visual explain, CL commands with their job log, and the farewell when a job
  is dropped.

  Every operation is one exchange over the session of theory Session. The lemmas give its result
  for every answer of every daemon.
\<close>

section \<open>Tracing options\<close>

datatype trace_level = TraceOff | TraceErrors | TraceDatastream | TraceAll

fun level_as_str :: "trace_level \<Rightarrow> string" where
  "level_as_str TraceOff = ''OFF''"
| "level_as_str TraceErrors = ''ERRORS''"
| "level_as_str TraceDatastream = ''DATASTREAM''"
| "level_as_str TraceAll = ''ON''"

datatype trace_dest = ToFile | ToInMem

definition default_dest :: trace_dest where
  "default_dest = ToInMem"

fun dest_as_str :: "trace_dest \<Rightarrow> string" where
  "dest_as_str ToFile = ''FILE''"
| "dest_as_str ToInMem = ''IN_MEM''"

section \<open>The job\<close>

record 'w job =
  jb_session :: "'w session"
  jb_version :: string
  jb_initial_job :: string

definition job_connect ::
  "tls_backend \<Rightarrow> upgrader \<Rightarrow> 'w sender \<Rightarrow> 'w \<Rightarrow> u32 option \<Rightarrow> u32 \<Rightarrow> bool \<Rightarrow> daemon_server \<Rightarrow>
     bool \<times> string list \<Rightarrow> (error + 'w job) \<times> bool \<times> string list" where
  "job_connect B U send w0 subsec_nanos pid runtime s w =
     (let (c, w1) = handshake B U send w0 subsec_nanos pid s w
      in (bindR c (\<lambda>c. Inr
            \<lparr>jb_session = \<lparr>ss_world = cd_world c, ss_ids = cd_ids c, ss_runtime = runtime,
               ss_sent = [], ss_received = [], ss_spawned = []\<rparr>,
             jb_version = cd_version c, jb_initial_job = cd_initial_job c\<rparr>), w1))"

definition job_version :: "'w job \<Rightarrow> string" where
  "job_version j = jb_version j"

definition job_initial_job :: "'w job \<Rightarrow> string" where
  "job_initial_job j = jb_initial_job j"

definition debug_job :: "'w job \<Rightarrow> dbg_struct" where
  "debug_job j =
     (''Job'', [(''version'', DString (jb_version j)), (''initial_job'', DString (jb_initial_job j))])"

definition job_in_flight :: "(dispatcher \<times> 'd) session \<Rightarrow> u32" where
  "job_in_flight s = dq_in_flight (fst (ss_world s))"

section \<open>Executing SQL\<close>

definition sql_request ::
  "string \<Rightarrow> value list option \<Rightarrow> u32 \<Rightarrow> bool option \<Rightarrow> string \<Rightarrow> request" where
  "sql_request sql params page_size terse i =
     (case params of
        None \<Rightarrow> Sql i sql (Some page_size) None terse
      | Some ps \<Rightarrow> PrepareSqlExecute i sql (Some [ps]) (Some page_size) terse)"

definition job_execute_inner ::
  "'w sender \<Rightarrow> string \<Rightarrow> value list option \<Rightarrow> execute_options \<Rightarrow> ('w, rows) op" where
  "job_execute_inner send sql params opts =
     bindS (liftS (resolved_rows opts)) (\<lambda>page_size.
       call send (sql_request sql params page_size (terse_on_wire opts)) (rows_of_reply page_size))"

definition job_execute :: "'w sender \<Rightarrow> string \<Rightarrow> ('w, rows) op" where
  "job_execute send sql = job_execute_inner send sql None default_options"

definition job_execute_opts :: "'w sender \<Rightarrow> string \<Rightarrow> execute_options \<Rightarrow> ('w, rows) op" where
  "job_execute_opts send sql opts = job_execute_inner send sql None opts"

definition job_execute_with :: "'w sender \<Rightarrow> string \<Rightarrow> value list \<Rightarrow> ('w, rows) op" where
  "job_execute_with send sql params = job_execute_inner send sql (Some params) default_options"

definition job_execute_with_opts ::
  "'w sender \<Rightarrow> string \<Rightarrow> value list \<Rightarrow> execute_options \<Rightarrow> ('w, rows) op" where
  "job_execute_with_opts send sql params opts = job_execute_inner send sql (Some params) opts"

definition job_execute_sets ::
  "'w sender \<Rightarrow> string \<Rightarrow> value list list \<Rightarrow> execute_options \<Rightarrow> ('w, rows) op" where
  "job_execute_sets send sql sets opts =
     bindS (liftS (owned_parameter_sets sets)) (\<lambda>parameters.
     bindS (liftS (resolved_rows opts)) (\<lambda>page_size.
       call send (sets_request sql parameters page_size (terse_on_wire opts))
         (rows_of_reply page_size)))"

section \<open>Preparing\<close>

definition query_of_reply :: "string \<Rightarrow> string \<Rightarrow> response \<Rightarrow> error + query" where
  "query_of_reply sql i r =
     (case r of
        PreparedStatement got success c t \<Rightarrow>
          if got = i then Inr (query_new (if c = [] then None else Some c) sql)
          else Inl (unexpected r)
      | Pong got \<Rightarrow> if got = i then Inr (query_new None sql) else Inl (unexpected r)
      | ErrorResp e \<Rightarrow> Inl (server_error_from e)
      | _ \<Rightarrow> Inl (unexpected r))"

definition prepare :: "'w sender \<Rightarrow> string \<Rightarrow> ('w, query) op" where
  "prepare send sql = call send (\<lambda>i. PrepareSql i sql None) (query_of_reply sql)"

section \<open>Status and tracing\<close>

text \<open>\<open>elapsed\<close> is the reading of the clock between sending and receiving.\<close>

definition ping :: "'w sender \<Rightarrow> duration \<Rightarrow> ('w, duration) op" where
  "ping send elapsed = call send Ping (\<lambda>i r.
     case r of
       Pong got \<Rightarrow> if got = i then Inr elapsed else Inl (unexpected r)
     | _ \<Rightarrow> Inl (unexpected r))"

definition server_version :: "'w sender \<Rightarrow> ('w, string) op" where
  "server_version send = call send GetVersion (\<lambda>i r.
     case r of
       Version got success v \<Rightarrow>
         if got = i then (if success then Inr v else Inl (server_failed ''server_version''))
         else Inl (unexpected r)
     | _ \<Rightarrow> Inl (unexpected r))"

definition db_job_name :: "'w sender \<Rightarrow> ('w, string) op" where
  "db_job_name send = call send GetDbJob (\<lambda>i r.
     case r of
       DbJob got success j \<Rightarrow>
         if got = i then (if success then Inr j else Inl (server_failed ''db_job_name''))
         else Inl (unexpected r)
     | _ \<Rightarrow> Inl (unexpected r))"

definition apply_trace :: "'w sender \<Rightarrow> trace_dest \<Rightarrow> trace_level \<Rightarrow> ('w, unit) op" where
  "apply_trace send dest level =
     call send (\<lambda>i. SetConfig i (level_as_str level) (dest_as_str dest)) (\<lambda>i r.
     case r of
       ConfigSet got success \<Rightarrow>
         if got = i then (if success then Inr () else Inl (server_failed ''set_trace''))
         else Inl (unexpected r)
     | _ \<Rightarrow> Inl (unexpected r))"

definition set_trace :: "'w sender \<Rightarrow> trace_level \<Rightarrow> ('w, unit) op" where
  "set_trace send level = apply_trace send ToInMem level"

definition set_trace_config :: "'w sender \<Rightarrow> trace_dest \<Rightarrow> trace_level \<Rightarrow> ('w, unit) op" where
  "set_trace_config send dest level = apply_trace send dest level"

definition fetch_trace :: "'w sender \<Rightarrow> ('w, string) op" where
  "fetch_trace send = call send GetTraceData (\<lambda>i r.
     case r of
       TraceData got success t \<Rightarrow>
         if got = i then (if success then Inr t else Inl (server_failed ''fetch_trace''))
         else Inl (unexpected r)
     | _ \<Rightarrow> Inl (unexpected r))"

definition visual_explain :: "'w sender \<Rightarrow> string \<Rightarrow> ('w, value) op" where
  "visual_explain send sql = call send (\<lambda>i. Dove i sql (Some True) None None) (\<lambda>i r.
     case r of
       DoveResult got success d m \<Rightarrow>
         if got = i then (if success then Inr d else Inl (server_failed ''visual_explain''))
         else Inl (unexpected r)
     | ErrorResp e \<Rightarrow> Inl (server_error_from e)
     | _ \<Rightarrow> Inl (unexpected r))"

section \<open>CL commands\<close>

record cl_outcome =
  co_success :: bool
  co_error :: "string option"
  co_sqlcode :: "i32 option"
  co_sqlstate :: "string option"
  co_entries :: "job_log_entry list"

fun result_unwrap_or :: "'a \<Rightarrow> 'e + 'a \<Rightarrow> 'a" where
  "result_unwrap_or d (Inl e) = d"
| "result_unwrap_or d (Inr x) = x"

definition from_query_result :: "(u64 \<Rightarrow> string) \<Rightarrow> query_result \<Rightarrow> cl_outcome" where
  "from_query_result show_num q =
     \<lparr>co_success = qr_success q, co_error = qr_error q, co_sqlcode = qr_sqlcode q,
      co_sqlstate = qr_sqlstate q,
      co_entries = map (\<lambda>row. result_unwrap_or default_job_log_entry
        (de_job_log_entry show_num (JObject row))) (qr_data q)\<rparr>"

fun find_map :: "('a \<Rightarrow> 'b option) \<Rightarrow> 'a list \<Rightarrow> 'b option" where
  "find_map f [] = None"
| "find_map f (x # xs) = (case f x of None \<Rightarrow> find_map f xs | Some y \<Rightarrow> Some y)"

definition from_cl_result :: "bool \<Rightarrow> cl_message list \<Rightarrow> cl_outcome" where
  "from_cl_result success messages =
     \<lparr>co_success = success,
      co_error = (if success then None else find_map cm_text messages),
      co_sqlcode = None, co_sqlstate = None,
      co_entries = map (\<lambda>m. default_job_log_entry\<lparr>jl_message_id := cm_id m,
        jl_message_type := cm_kind m, jl_message_text := cm_text m\<rparr>) messages\<rparr>"

definition cl_outcome_from_response ::
  "(u64 \<Rightarrow> string) \<Rightarrow> string \<Rightarrow> response \<Rightarrow> error + cl_outcome" where
  "cl_outcome_from_response show_num expected_id r =
     (case r of
        QueryResult q \<Rightarrow>
          if qr_id q = expected_id then Inr (from_query_result show_num q) else Inl (unexpected r)
      | ClResult got success messages \<Rightarrow>
          if got = expected_id then Inr (from_cl_result success messages) else Inl (unexpected r)
      | ErrorResp e \<Rightarrow> Inl (server_error_from e)
      | _ \<Rightarrow> Inl (unexpected r))"

definition cl :: "'w sender \<Rightarrow> (u64 \<Rightarrow> string) \<Rightarrow> string \<Rightarrow> ('w, cl_outcome) op" where
  "cl send show_num command =
     call send (\<lambda>i. Cl i command None) (cl_outcome_from_response show_num)"

section \<open>Leaving\<close>

text \<open>
  Dropping a job spawns the farewell and then aborts the dispatcher: whether the farewell still
  goes out depends on the scheduler, and whoever waits for an answer sees the connection closed.
\<close>

definition drop_job :: "(dispatcher \<times> 'd) session \<Rightarrow> (dispatcher \<times> 'd) session" where
  "drop_job s =
     (let (i, ids) = next_id (ss_ids s);
          s1 = spawn_best_effort (Exit i) (s\<lparr>ss_ids := ids\<rparr>)
      in s1\<lparr>ss_world := (stop (fst (ss_world s1)), snd (ss_world s1))\<rparr>)"

section \<open>Results over a connection\<close>

context correlated_send
begin

lemma call_result:
  assumes "good (ss_world s)" "\<And>i. request_id (mk i) = i"
    and "\<And>r. response_id r = peek_id s \<Longrightarrow> remap_response (request_kind (mk (peek_id s))) r = r \<Longrightarrow>
           k (peek_id s) r = k' r"
  shows "fst (call send mk k s) = bindR (fst (send (mk (peek_id s)) (ss_world s))) k'"
proof (cases "fst (send (mk (peek_id s)) (ss_world s))")
  case (Inr r)
  with call_reply_id [OF assms(1,2) Inr] send_stable [OF assms(1) Inr] assms(3) show ?thesis
    by (simp add: call_eq)
qed (simp add: call_eq)

end

lemma sql_request_id [simp]: "request_id (sql_request sql ps n t i) = i"
  by (simp add: sql_request_def split: option.split)

lemmas conn_result = conn.call_result

text \<open>What the status operations make of an answer that carries their id.\<close>

definition ping_result :: "duration \<Rightarrow> response \<Rightarrow> error + duration" where
  "ping_result el r = (case r of Pong i \<Rightarrow> Inr el | _ \<Rightarrow> Inl (unexpected r))"

definition flagged :: "string \<Rightarrow> bool \<Rightarrow> 'a \<Rightarrow> error + 'a" where
  "flagged meth success x = (if success then Inr x else Inl (server_failed meth))"

definition version_result :: "response \<Rightarrow> error + string" where
  "version_result r =
     (case r of Version i b v \<Rightarrow> flagged ''server_version'' b v | _ \<Rightarrow> Inl (unexpected r))"

definition db_job_result :: "response \<Rightarrow> error + string" where
  "db_job_result r =
     (case r of DbJob i b j \<Rightarrow> flagged ''db_job_name'' b j | _ \<Rightarrow> Inl (unexpected r))"

definition trace_result :: "response \<Rightarrow> error + string" where
  "trace_result r =
     (case r of TraceData i b t \<Rightarrow> flagged ''fetch_trace'' b t | _ \<Rightarrow> Inl (unexpected r))"

definition config_result :: "response \<Rightarrow> error + unit" where
  "config_result r =
     (case r of ConfigSet i b \<Rightarrow> flagged ''set_trace'' b () | _ \<Rightarrow> Inl (unexpected r))"

definition explain_result :: "response \<Rightarrow> error + value" where
  "explain_result r =
     (case r of DoveResult i b d m \<Rightarrow> flagged ''visual_explain'' b d
      | ErrorResp e \<Rightarrow> Inl (server_error_from e) | _ \<Rightarrow> Inl (unexpected r))"

definition prepare_result :: "string \<Rightarrow> response \<Rightarrow> error + query" where
  "prepare_result sql r =
     (case r of PreparedStatement i b c t \<Rightarrow> Inr (query_new (non_empty (Some c)) sql)
      | ErrorResp e \<Rightarrow> Inl (server_error_from e) | _ \<Rightarrow> Inl (unexpected r))"

definition cl_result :: "(u64 \<Rightarrow> string) \<Rightarrow> response \<Rightarrow> error + cl_outcome" where
  "cl_result show_num r =
     (case r of QueryResult q \<Rightarrow> Inr (from_query_result show_num q)
      | ClResult i b ms \<Rightarrow> Inr (from_cl_result b ms)
      | ErrorResp e \<Rightarrow> Inl (server_error_from e) | _ \<Rightarrow> Inl (unexpected r))"

lemmas result_defs = ping_result_def version_result_def db_job_result_def trace_result_def
  config_result_def explain_result_def prepare_result_def cl_result_def flagged_def

text \<open>
  The status operations over a connection: for any daemon, \<open>ping\<close>, \<open>server_version\<close>,
  \<open>db_job_name\<close>, \<open>set_trace\<close>, \<open>fetch_trace\<close> and \<open>visual_explain\<close> send one request each and return
  what the answer of the matching variant says -- its value when flagged successful, a server
  error naming the method when flagged failed; any other answer is a protocol error, and the id
  checks never reject.
\<close>

theorem status_operations:
  assumes "idle L (ss_world s)"
  shows "fst (ping (exchange L daemon) el s) =
      bindR (fst (exchange L daemon (Ping (peek_id s)) (ss_world s))) (ping_result el) \<and>
    fst (server_version (exchange L daemon) s) =
      bindR (fst (exchange L daemon (GetVersion (peek_id s)) (ss_world s))) version_result \<and>
    fst (db_job_name (exchange L daemon) s) =
      bindR (fst (exchange L daemon (GetDbJob (peek_id s)) (ss_world s))) db_job_result \<and>
    fst (apply_trace (exchange L daemon) dest level s) =
      bindR (fst (exchange L daemon (SetConfig (peek_id s) (level_as_str level) (dest_as_str dest))
        (ss_world s))) config_result \<and>
    fst (fetch_trace (exchange L daemon) s) =
      bindR (fst (exchange L daemon (GetTraceData (peek_id s)) (ss_world s))) trace_result \<and>
    fst (visual_explain (exchange L daemon) sql s) =
      bindR (fst (exchange L daemon (Dove (peek_id s) sql (Some True) None None) (ss_world s)))
        explain_result"
  unfolding ping_def server_version_def db_job_name_def apply_trace_def fetch_trace_def
    visual_explain_def
  by (intro conjI; rule conn_result [OF assms]; auto simp: result_defs split: response.split)

text \<open>
  C38. How a failure reaches the caller depends on the operation. To a daemon that answers with an
  error frame -- which is what every untagged \<open>success: false\<close> answer without result keys
  decodes to -- executing, preparing, explaining and CL answer with the daemon's own error, its
  message and SQLSTATE included. The status and trace operations answer the same frame with a
  protocol error about an unexpected variant.
\<close>

theorem error_answers:
  assumes "idle L (ss_world s)"
    and "\<forall>r. request_id r = peek_id s \<longrightarrow> fst (exchange L daemon r (ss_world s)) = Inr (ErrorResp e)"
  shows "fst (ping (exchange L daemon) el s) = Inl (unexpected (ErrorResp e)) \<and>
    fst (server_version (exchange L daemon) s) = Inl (unexpected (ErrorResp e)) \<and>
    fst (db_job_name (exchange L daemon) s) = Inl (unexpected (ErrorResp e)) \<and>
    fst (apply_trace (exchange L daemon) dest level s) = Inl (unexpected (ErrorResp e)) \<and>
    fst (fetch_trace (exchange L daemon) s) = Inl (unexpected (ErrorResp e)) \<and>
    fst (visual_explain (exchange L daemon) sql s) = Inl (server_error_from e) \<and>
    fst (job_execute (exchange L daemon) sql s) = Inl (server_error_from e) \<and>
    fst (prepare (exchange L daemon) sql s) = Inl (server_error_from e) \<and>
    fst (cl (exchange L daemon) show_num sql s) = Inl (server_error_from e)"
proof -
  have *: "fst (call (exchange L daemon) mk k s) = k (peek_id s) (ErrorResp e)"
    if "\<And>i. request_id (mk i) = i" for mk k
    using assms(2) that by (simp add: call_eq)
  show ?thesis
    by (simp add: ping_def server_version_def db_job_name_def apply_trace_def fetch_trace_def
        visual_explain_def job_execute_def job_execute_inner_def prepare_def cl_def *
        resolved_rows_def default_options_def rows_of_reply_def query_of_reply_def
        cl_outcome_from_response_def)
qed

text \<open>
  Preparing over a connection: the query keeps the SQL text and the daemon's handle, or
  no handle when the daemon gave an empty one -- which is also what a bare acknowledgement becomes,
  so the code's own case for a bare \<open>Pong\<close> is never reached. Executing a query without handle
  sends the SQL text again, and dropping it closes nothing.
\<close>

theorem prepare_over_connection:
  assumes "idle L (ss_world s)"
  shows "fst (prepare (exchange L daemon) sql s) =
      bindR (fst (exchange L daemon (PrepareSql (peek_id s) sql None) (ss_world s)))
        (prepare_result sql) \<and>
    query_request (query_new (non_empty (Some [])) sql) params n terse i =
      PrepareSqlExecute i sql (map_option (\<lambda>p. [p]) params) (Some n) terse \<and>
    drop_query (query_new (non_empty (Some [])) sql) t = t"
proof -
  have "fst (prepare (exchange L daemon) sql s) =
      bindR (fst (exchange L daemon (PrepareSql (peek_id s) sql None) (ss_world s)))
        (prepare_result sql)"
    unfolding prepare_def
    by (rule conn_result [OF assms])
       (auto simp: result_defs query_of_reply_def non_empty_def split: response.split)
  then show ?thesis
    by (simp add: query_request_def server_handle_def query_new_def non_empty_def drop_query_def)
qed

text \<open>
  A failed CL command is an outcome, not an error: any query result is returned as an
  outcome with the daemon's flag, error text, SQL code and SQLSTATE, and with one job-log entry
  per row, in order -- a row that does not decode gives an empty entry and hides no other.
\<close>

theorem cl_over_connection:
  assumes "idle L (ss_world s)"
  shows "fst (cl (exchange L daemon) show_num command s) =
      bindR (fst (exchange L daemon (Cl (peek_id s) command None) (ss_world s))) (cl_result show_num) \<and>
    co_success (from_query_result show_num q) = qr_success q \<and>
    co_error (from_query_result show_num q) = qr_error q \<and>
    length (co_entries (from_query_result show_num q)) = length (qr_data q) \<and>
    (\<forall>k < length (qr_data q). co_entries (from_query_result show_num q) ! k =
       (case de_job_log_entry show_num (JObject (qr_data q ! k)) of
          Inr x \<Rightarrow> x | Inl d \<Rightarrow> default_job_log_entry))"
proof -
  have "fst (cl (exchange L daemon) show_num command s) =
      bindR (fst (exchange L daemon (Cl (peek_id s) command None) (ss_world s))) (cl_result show_num)"
    unfolding cl_def
    by (rule conn_result [OF assms])
       (auto simp: result_defs cl_outcome_from_response_def split: response.split)
  moreover have "result_unwrap_or default_job_log_entry r =
      (case r of Inr x \<Rightarrow> x | Inl d \<Rightarrow> default_job_log_entry)" for r :: "de_error + job_log_entry"
    by (cases r) simp_all
  ultimately show ?thesis by (simp add: from_query_result_def)
qed

text \<open>
  C29. Executing SQL on a job, over any daemon: an empty list of parameter sets is refused
  first, then a page size of zero, each before anything is sent; otherwise one request goes out --
  plain \<open>sql\<close> without parameters, \<open>prepare_sql_execute\<close> with them -- and a query result becomes a
  result set whose cursor is the id of that request.
\<close>

theorem job_execute_over_connection:
  assumes "idle L (ss_world s)"
  shows "job_execute_inner (exchange L daemon) sql params opts s =
      (if eo_rows opts = Some 0 then (Inl (Protocol ZeroPageSize), s)
       else let n = unwrap_or 100 (eo_rows opts);
                r = sql_request sql params n (terse_on_wire opts) (peek_id s)
            in (bindR (fst (exchange L daemon r (ss_world s))) (opened_rows n (peek_id s)),
                after_call (exchange L daemon) r s)) \<and>
    job_execute_sets (exchange L daemon) sql sets opts s =
      (if sets = [] then (Inl (Protocol EmptyParameterSets), s)
       else if eo_rows opts = Some 0 then (Inl (Protocol ZeroPageSize), s)
       else let n = unwrap_or 100 (eo_rows opts);
                r = sets_request sql sets n (terse_on_wire opts) (peek_id s)
            in (bindR (fst (exchange L daemon r (ss_world s))) (opened_rows n (peek_id s)),
                after_call (exchange L daemon) r s))"
  using conn.call_opened [OF assms]
  by (auto simp: job_execute_inner_def job_execute_sets_def owned_parameter_sets_def
      resolved_rows_def error_from_defs DEFAULT_ROWS_def liftS_def prod_eq_iff call_eq Let_def
      split: option.split)

section \<open>Concrete instances\<close>

definition refusal :: "string \<Rightarrow> error_response" where
  "refusal i =
     \<lparr>er_id = i, er_success = False, er_sqlstate = Some ''42501'',
      er_sqlcode = None, er_error = Some ''no'', er_job = None\<rparr>"

definition rejecter :: foreign where
  "rejecter = sample\<lparr>fo_from_slice := (\<lambda>s. Inr (JObject
     [(''id'', JString s), (''success'', JBool False), (''error'', JString ''no''),
      (''sqlstate'', JString ''42501'')]))\<rparr>"

lemma refusal_decodes:
  "decode_value (JObject [(''id'', JString i), (''success'', JBool False),
     (''error'', JString ''no''), (''sqlstate'', JString ''42501'')]) = Inr (ErrorResp (refusal i))"
  by (simp add: decode_value_def contains_key_def decode_untagged_def obj_get_def refusal_def
      de_error_response_def de_fields.simps present_def req_def dflt_def de_option_def)

lemma rejecter_exchange:
  "fst (exchange rejecter (greet (request_id r)) r (spawn, ())) =
     Inr (ErrorResp (refusal (request_id r)))"
proof -
  have "er_id (refusal i) = i" for i by (simp add: refusal_def)
  then show ?thesis
    by (simp add: exchange_def submit_def rejecter_def sample_def spawn_def SEND_QUEUE_CAPACITY_def
        greet_def handle_outbound_def insert_pending_def handle_frame_def refusal_decodes
        answer_def deliver_def finish_def received_def)
qed

lemma sample_session_world [simp]: "ss_world sample_session = (spawn, ())"
  by (simp add: sample_session_def)

lemma rejecter_answers:
  "\<forall>r. request_id r = peek_id sample_session \<longrightarrow>
     fst (exchange rejecter (greet (peek_id sample_session)) r (ss_world sample_session)) =
       Inr (ErrorResp (refusal (peek_id sample_session)))"
  using rejecter_exchange by (metis sample_session_world)

lemma rejecter_idle: "idle rejecter (ss_world sample_session)"
  by (simp add: idle_start)

lemma status_operations_witness:
  "fst (server_version (exchange rejecter quiet) sample_session) =
     bindR (fst (exchange rejecter quiet (GetVersion (peek_id sample_session)) (spawn, ())))
       version_result"
  using status_operations [OF rejecter_idle] by simp

lemma error_answers_witness:
  "fst (server_version (exchange rejecter (greet (peek_id sample_session))) sample_session) =
     Inl (unexpected (ErrorResp (refusal (peek_id sample_session)))) \<and>
   fst (prepare (exchange rejecter (greet (peek_id sample_session))) ''VALUES 1'' sample_session) =
     Inl (server_error_from (refusal (peek_id sample_session)))"
  using error_answers [OF rejecter_idle rejecter_answers] by blast

lemma prepare_over_connection_witness:
  "fst (prepare (exchange rejecter quiet) ''VALUES 1'' sample_session) =
     bindR (fst (exchange rejecter quiet (PrepareSql (peek_id sample_session) ''VALUES 1'' None)
       (spawn, ()))) (prepare_result ''VALUES 1'')"
  using prepare_over_connection [OF rejecter_idle, of quiet "''VALUES 1''", THEN conjunct1] by simp

lemma cl_over_connection_witness:
  "length (co_entries (from_query_result (\<lambda>b. []) open_page)) = 1"
  using cl_over_connection [OF rejecter_idle, of quiet "\<lambda>b. []" "''CLRLIB''" open_page]
  by (simp add: open_page_def page_result_def)

lemma job_execute_over_connection_witness:
  "job_execute_sets (exchange rejecter quiet) ''VALUES 1'' [] \<lparr>eo_rows = Some 0, eo_terse = False\<rparr>
     sample_session = (Inl (Protocol EmptyParameterSets), sample_session)"
  using job_execute_over_connection [OF rejecter_idle, of quiet "''VALUES 1''" None
      "\<lparr>eo_rows = Some 0, eo_terse = False\<rparr>" "[]"] by simp

end
