(* ===== verification/Pool.thy ===== *)
theory Pool
  imports Job
begin

text \<open>
  The connection pool (\<^verbatim>\<open>src/src/pool\<close>): the registry of weak references with its two scans
  (\<^verbatim>\<open>routing.rs\<close>), creating and recycling jobs (\<^verbatim>\<open>manager.rs\<close>), routed execution over three tiers
  and checkout (\<^verbatim>\<open>runtime.rs\<close>), the builder (\<^verbatim>\<open>builder.rs\<close>) and the idle reaper.

  Jobs live in an arena and are named by their index; each has its session and its count of
  strong references. deadpool is a parameter: the size it reports, and its \<open>get\<close>. An \<open>Arc\<close> that a scan
  upgrades is counted while the scan looks at it.

  The lemmas show which job a routed statement goes to, that the scan limit does not matter,
  what a checkout fails with, and when an idle connection is closed.
\<close>

section \<open>State\<close>

record 'd pool_state =
  ps_jobs :: "(dispatcher \<times> 'd) session list"
  ps_strong :: "nat list"
  ps_weaks :: "nat list"

definition in_flight :: "'d pool_state \<Rightarrow> nat \<Rightarrow> u32" where
  "in_flight st i = job_in_flight (ps_jobs st ! i)"

definition strong_count :: "'d pool_state \<Rightarrow> nat \<Rightarrow> nat" where
  "strong_count st i = ps_strong st ! i"

definition store_in_flight :: "u32 \<Rightarrow> nat \<Rightarrow> 'd pool_state \<Rightarrow> 'd pool_state" where
  "store_in_flight n i st =
     (let s = ps_jobs st ! i; w = ss_world s
      in st\<lparr>ps_jobs := (ps_jobs st)[i := s\<lparr>ss_world := (fst w\<lparr>dq_in_flight := n\<rparr>, snd w)\<rparr>]\<rparr>)"

definition run_on :: "nat \<Rightarrow> (dispatcher \<times> 'd, 'a) op \<Rightarrow> 'd pool_state \<Rightarrow> (error + 'a) \<times> 'd pool_state"
  where
  "run_on i m st =
     (let (r, s) = m (ps_jobs st ! i) in (r, st\<lparr>ps_jobs := (ps_jobs st)[i := s]\<rparr>))"

section \<open>The registry\<close>

definition track :: "nat \<Rightarrow> 'd pool_state \<Rightarrow> 'd pool_state" where
  "track i st = st\<lparr>ps_weaks := ps_weaks st @ [i]\<rparr>"

text \<open>Dead references are dropped, as both scans do first.\<close>

definition retain_live :: "'d pool_state \<Rightarrow> 'd pool_state" where
  "retain_live st = st\<lparr>ps_weaks := filter (\<lambda>i. 0 < strong_count st i) (ps_weaks st)\<rparr>"

fun idle_scan :: "'d pool_state \<Rightarrow> nat list \<Rightarrow> nat option" where
  "idle_scan st [] = None"
| "idle_scan st (i # is) =
     (let n = in_flight st i in
      if n = u32_MAX then idle_scan st is
      else if n = 0 \<and> strong_count st i + 1 = 2 then Some i
      else idle_scan st is)"

definition peek_idle :: "'d pool_state \<Rightarrow> nat option \<times> 'd pool_state" where
  "peek_idle st = (let st1 = retain_live st in (idle_scan st1 (ps_weaks st1), st1))"

definition least_busy :: "nat \<Rightarrow> 'd pool_state \<Rightarrow> nat list \<times> 'd pool_state" where
  "least_busy limit st =
     (let st1 = retain_live st;
          live = filter (\<lambda>i. in_flight st1 i \<noteq> u32_MAX) (ps_weaks st1)
      in (take limit (sort_key (in_flight st1) live), st1))"

section \<open>Creating and recycling\<close>

text \<open>\<open>conn\<close> is the outcome of \<open>Job::connect\<close> (\<open>job_connect\<close>).\<close>

definition manager_create ::
  "error + (dispatcher \<times> 'd) job \<Rightarrow> 'd pool_state \<Rightarrow> (error + nat) \<times> 'd pool_state" where
  "manager_create conn st =
     (case conn of
        Inl e \<Rightarrow> (Inl e, st)
      | Inr j \<Rightarrow>
          (let i = length (ps_jobs st) in
           (Inr i, track i (st\<lparr>ps_jobs := ps_jobs st @ [jb_session j],
                              ps_strong := ps_strong st @ [1]\<rparr>))))"

definition recycle ::
  "(dispatcher \<times> 'd) sender \<Rightarrow> nat \<Rightarrow> 'd pool_state \<Rightarrow> (error + unit) \<times> 'd pool_state" where
  "recycle send i st =
     (let (r, st1) = run_on i (ping send 0) st in (bindR r (\<lambda>_. Inr ()), st1))"

datatype pool_error = PoolTimeout | PoolBackend error | PoolOther string

text \<open>deadpool's \<open>get\<close> is a parameter: it hands out a job or fails, and may change the jobs.\<close>

type_synonym 'd dead_get = "'d pool_state \<Rightarrow> (pool_error + nat) \<times> 'd pool_state"

section \<open>The pool\<close>

datatype parameter_logging = LogNone | LogTypesAndCount | LogFull

record pool =
  pl_acquire_timeout :: "duration option"
  pl_default_page_size :: u32
  pl_parameter_logging :: parameter_logging

record pool_status =
  po_size :: nat
  po_available :: nat
  po_waiting :: nat

definition SATURATION_THRESHOLD :: u32 where
  "SATURATION_THRESHOLD = 32"

definition pick_unsaturated :: "nat \<Rightarrow> 'd pool_state \<Rightarrow> nat option \<times> 'd pool_state" where
  "pick_unsaturated n st =
     (let (candidates, st1) = least_busy (min n 8) st;
          kept = filter (\<lambda>i. in_flight st1 i < SATURATION_THRESHOLD) candidates
      in (case kept of [] \<Rightarrow> None | i # _ \<Rightarrow> Some i, st1))"

definition pool_opts :: "pool \<Rightarrow> execute_options \<Rightarrow> execute_options" where
  "pool_opts p opts =
     (if eo_rows opts = None then opts\<lparr>eo_rows := Some (pl_default_page_size p)\<rparr> else opts)"

definition checkout_error :: "pool \<Rightarrow> pool_error \<Rightarrow> error" where
  "checkout_error p e =
     (case e of
        PoolTimeout \<Rightarrow> PoolExhausted (unwrap_or 0 (pl_acquire_timeout p))
      | PoolBackend b \<Rightarrow> b
      | PoolOther m \<Rightarrow> Internal (''pool: '' @ m))"

definition get_or_timeout :: "'d dead_get \<Rightarrow> pool \<Rightarrow> 'd pool_state \<Rightarrow> (error + nat) \<times> 'd pool_state" where
  "get_or_timeout get p st = (let (r, st1) = get st in (mapErr (checkout_error p) r, st1))"

text \<open>
  What a call finds around it: the way to send, and of deadpool the size it reports and its
  \<open>get\<close>.
\<close>

record 'd surroundings =
  su_send :: "(dispatcher \<times> 'd) sender"
  su_size :: nat
  su_get :: "'d dead_get"

text \<open>The three tiers: an idle job, the least busy job below the threshold, a checkout.\<close>

definition route :: "'d surroundings \<Rightarrow> pool \<Rightarrow> 'd pool_state \<Rightarrow> (error + nat) \<times> 'd pool_state" where
  "route E p st =
     (let (found, st1) = peek_idle st in
      case found of
        Some i \<Rightarrow> (Inr i, st1)
      | None \<Rightarrow>
          (let (pick, st2) = pick_unsaturated (su_size E) st1 in
           case pick of
             Some i \<Rightarrow> (Inr i, st2)
           | None \<Rightarrow> get_or_timeout (su_get E) p st2))"

definition routed ::
  "'d surroundings \<Rightarrow> pool \<Rightarrow> (dispatcher \<times> 'd, 'a) op \<Rightarrow> 'd pool_state \<Rightarrow> (error + 'a) \<times> 'd pool_state"
  where
  "routed E p m st =
     (let (r, st1) = route E p st in
      case r of Inl e \<Rightarrow> (Inl e, st1) | Inr i \<Rightarrow> run_on i m st1)"

definition pool_execute ::
  "'d surroundings \<Rightarrow> pool \<Rightarrow> string \<Rightarrow> 'd pool_state \<Rightarrow> (error + rows) \<times> 'd pool_state" where
  "pool_execute E p sql = routed E p (job_execute_opts (su_send E) sql (pool_opts p default_options))"

definition pool_execute_with ::
  "'d surroundings \<Rightarrow> pool \<Rightarrow> string \<Rightarrow> value list \<Rightarrow> 'd pool_state \<Rightarrow> (error + rows) \<times> 'd pool_state"
  where
  "pool_execute_with E p sql params =
     routed E p (job_execute_with_opts (su_send E) sql params (pool_opts p default_options))"

definition pool_execute_opts ::
  "'d surroundings \<Rightarrow> pool \<Rightarrow> string \<Rightarrow> execute_options \<Rightarrow> 'd pool_state \<Rightarrow>
     (error + rows) \<times> 'd pool_state" where
  "pool_execute_opts E p sql opts = routed E p (job_execute_opts (su_send E) sql (pool_opts p opts))"

definition pool_execute_with_opts ::
  "'d surroundings \<Rightarrow> pool \<Rightarrow> string \<Rightarrow> value list \<Rightarrow> execute_options \<Rightarrow> 'd pool_state \<Rightarrow>
     (error + rows) \<times> 'd pool_state" where
  "pool_execute_with_opts E p sql params opts =
     routed E p (job_execute_with_opts (su_send E) sql params (pool_opts p opts))"

definition status :: "nat \<Rightarrow> nat \<Rightarrow> nat \<Rightarrow> pool_status" where
  "status n available waiting =
     \<lparr>po_size = n, po_available = available, po_waiting = waiting\<rparr>"

text \<open>What a call's span records of its parameters, by the pool's policy.\<close>

fun type_name :: "value \<Rightarrow> string" where
  "type_name (JString s) = ''String''"
| "type_name (JNumber n) = ''Number''"
| "type_name (JBool b) = ''Bool''"
| "type_name JNull = ''Null''"
| "type_name (JArray xs) = ''Array''"
| "type_name (JObject ob) = ''Object''"

fun recorded_parameters :: "parameter_logging \<Rightarrow> value list \<Rightarrow> (string \<times> dbg) list" where
  "recorded_parameters LogNone params = []"
| "recorded_parameters LogTypesAndCount params =
     [(''param_types'', DTuple [] (map (\<lambda>v. DString (type_name v)) params))]"
| "recorded_parameters LogFull params = [(''params'', DValues params)]"

lemma recorded_parameters_private:
  "map type_name ps = map type_name qs \<Longrightarrow> l \<noteq> LogFull \<Longrightarrow>
   recorded_parameters l ps = recorded_parameters l qs"
proof (cases l)
  case LogTypesAndCount
  assume "map type_name ps = map type_name qs"
  then have "map DString (map type_name ps) = map DString (map type_name qs)" by simp
  with LogTypesAndCount show ?thesis by (simp add: comp_def)
qed simp_all

section \<open>Builder and reaper\<close>

definition seconds :: "nat \<Rightarrow> duration" where
  "seconds n = n * 10 ^ 9"

record pool_builder =
  bp_max_size :: nat
  bp_starting_size :: nat
  bp_acquire_timeout :: "duration option"
  bp_idle_timeout :: "duration option"
  bp_default_page_size :: u32
  bp_parameter_logging :: parameter_logging

definition pool_builder_new :: pool_builder where
  "pool_builder_new =
     \<lparr>bp_max_size = 16, bp_starting_size = 0, bp_acquire_timeout = Some (seconds 5),
      bp_idle_timeout = Some (seconds 300), bp_default_page_size = 100,
      bp_parameter_logging = LogNone\<rparr>"

definition max_size :: "nat \<Rightarrow> pool_builder \<Rightarrow> pool_builder" where
  "max_size n b = b\<lparr>bp_max_size := n\<rparr>"

definition starting_size :: "nat \<Rightarrow> pool_builder \<Rightarrow> pool_builder" where
  "starting_size n b = b\<lparr>bp_starting_size := n\<rparr>"

definition acquire_timeout :: "duration option \<Rightarrow> pool_builder \<Rightarrow> pool_builder" where
  "acquire_timeout d b = b\<lparr>bp_acquire_timeout := d\<rparr>"

definition idle_timeout :: "duration option \<Rightarrow> pool_builder \<Rightarrow> pool_builder" where
  "idle_timeout d b = b\<lparr>bp_idle_timeout := d\<rparr>"

definition default_page_size :: "u32 \<Rightarrow> pool_builder \<Rightarrow> pool_builder" where
  "default_page_size n b = b\<lparr>bp_default_page_size := n\<rparr>"

definition set_parameter_logging :: "parameter_logging \<Rightarrow> pool_builder \<Rightarrow> pool_builder" where
  "set_parameter_logging l b = b\<lparr>bp_parameter_logging := l\<rparr>"

definition reaper_period :: "duration \<Rightarrow> duration option" where
  "reaper_period d =
     (if d = 0 then None else Some (min (max (d div 4) (seconds 1)) (seconds 60)))"

text \<open>
  Building: deadpool's own builder may fail (\<open>built\<close>); then \<open>starting_size\<close> checkouts are made,
  one after the other, each returned at once. The \<open>k\<close>-th checkout is \<open>gets k\<close>.
\<close>

fun eager_open ::
  "(nat \<Rightarrow> 'd dead_get) \<Rightarrow> (pool_error \<Rightarrow> string) \<Rightarrow> nat \<Rightarrow> nat \<Rightarrow> 'd pool_state \<Rightarrow> (error + unit) \<times> 'd pool_state" where
  "eager_open gets show_pool k 0 st = (Inr (), st)"
| "eager_open gets show_pool k (Suc n) st =
     (case gets k st of
        (Inl e, st1) \<Rightarrow> (Inl (Internal (''starting_size eager open: '' @ show_pool e)), st1)
      | (Inr i, st1) \<Rightarrow> eager_open gets show_pool (Suc k) n st1)"

definition pool_build ::
  "(nat \<Rightarrow> 'd dead_get) \<Rightarrow> (pool_error \<Rightarrow> string) \<Rightarrow> string + unit \<Rightarrow> pool_builder \<Rightarrow>
     (error + pool \<times> (duration \<times> duration) option) \<times> 'd pool_state" where
  "pool_build gets show_pool built b =
     (let st = \<lparr>ps_jobs = [], ps_strong = [], ps_weaks = []\<rparr> in
      case built of
        Inl e \<Rightarrow> (Inl (Internal (''pool builder: '' @ e)), st)
      | Inr _ \<Rightarrow>
          (let (r, st1) = eager_open gets show_pool 0 (bp_starting_size b) st
           in (bindR r (\<lambda>_. Inr
                 (\<lparr>pl_acquire_timeout = bp_acquire_timeout b,
                   pl_default_page_size = bp_default_page_size b,
                   pl_parameter_logging = bp_parameter_logging b\<rparr>,
                  Option.bind (bp_idle_timeout b)
                    (\<lambda>d. map_option (\<lambda>p. (d, p)) (reaper_period d)))), st1)))"

text \<open>
  The loop of the reaper, counting in nanoseconds from its start: the \<open>k\<close>-th sweep comes at
  \<open>k * p\<close> and keeps the idle connections last used less than the timeout ago. A connection returned
  to the pool at \<open>t0\<close> and never used again stays until the sweep that closes it.
\<close>

definition sweep :: "duration \<Rightarrow> (nat \<times> duration) list \<Rightarrow> (nat \<times> duration) list" where
  "sweep d conns = filter (\<lambda>(i, last_used). last_used < d) conns"

function reaper_loop :: "duration \<Rightarrow> duration \<Rightarrow> nat \<Rightarrow> nat \<Rightarrow> nat" where
  "reaper_loop d p t0 k =
     (if p = 0 \<or> sweep d [(0, k * p - t0)] = [] then k * p else reaper_loop d p t0 (Suc k))"
  by auto

termination
  by (relation "measure (\<lambda>(d, p, t0, k). t0 + d - k * p)") (auto simp: sweep_def split: if_splits)

declare reaper_loop.simps [simp del]

section \<open>Routing\<close>

fun first_least :: "('a \<Rightarrow> 'b::linorder) \<Rightarrow> 'a list \<Rightarrow> 'a option" where
  "first_least f [] = None"
| "first_least f (x # xs) =
     (case first_least f xs of None \<Rightarrow> Some x | Some y \<Rightarrow> if f x \<le> f y then Some x else Some y)"

lemma first_least_None [simp]: "first_least f xs = None \<longleftrightarrow> xs = []"
  by (cases xs) (simp_all split: option.split)

definition first_elem :: "'a list \<Rightarrow> 'a option" where
  "first_elem xs = (case xs of [] \<Rightarrow> None | x # _ \<Rightarrow> Some x)"

lemma head_insort:
  "first_elem (insort_key f x ys) =
     (case ys of [] \<Rightarrow> Some x | y # _ \<Rightarrow> if f x \<le> f y then Some x else Some y)"
  by (cases ys) (simp_all add: first_elem_def)

lemma head_sort: "first_elem (sort_key f xs) = first_least f xs"
proof (induction xs)
  case (Cons x xs)
  then show ?case
    by (cases "sort_key f xs") (auto simp: head_insort first_elem_def split: option.splits)
qed (simp add: first_elem_def)

lemma head_filter_sorted:
  assumes "sorted (map f xs)"
  shows "first_elem (filter (\<lambda>x. f x < c) xs) =
     (case xs of [] \<Rightarrow> None | x # _ \<Rightarrow> if f x < c then Some x else None)"
proof (cases xs)
  case (Cons x ys)
  show ?thesis
  proof (cases "f x < c")
    case False
    with assms Cons have "\<forall>y\<in>set xs. \<not> f y < c" by auto
    then have "filter (\<lambda>x. f x < c) xs = []" by (simp add: filter_empty_conv)
    with Cons False show ?thesis by (simp add: first_elem_def)
  qed (simp add: Cons first_elem_def)
qed (simp add: first_elem_def)

lemma first_least_Some:
  "first_least f xs = Some x \<Longrightarrow>
   \<exists>k < length xs. xs ! k = x \<and> (\<forall>y\<in>set xs. f x \<le> f y) \<and> (\<forall>j<k. f x < f (xs ! j))"
proof (induction xs arbitrary: x)
  case (Cons z zs)
  show ?case
  proof (cases "first_least f zs")
    case (Some y)
    from Cons.IH [OF this] obtain k where k: "k < length zs" "zs ! k = y"
      "\<forall>w\<in>set zs. f y \<le> f w" "\<forall>j<k. f y < f (zs ! j)" by blast
    show ?thesis
    proof (cases "f z \<le> f y")
      case True
      then show ?thesis using Cons.prems Some k(3) by (intro exI [of _ 0]) force
    next
      case False
      then show ?thesis using Cons.prems Some k
        by (intro exI [of _ "Suc k"]) (auto simp: nth_Cons split: nat.split)
    qed
  qed (use Cons.prems in auto)
qed simp

lemma find_least:
  "find (\<lambda>x. P (f x) \<and> list_all (\<lambda>y. f x \<le> f y) xs) xs =
     (case first_least f xs of None \<Rightarrow> None | Some x \<Rightarrow> if P (f x) then Some x else None)"
proof (cases "first_least f xs")
  case (Some x)
  from first_least_Some [OF this] obtain k where k: "k < length xs" "xs ! k = x"
    "\<forall>y\<in>set xs. f x \<le> f y" "\<forall>j<k. f x < f (xs ! j)" by blast
  show ?thesis
  proof (cases "P (f x)")
    case True
    have "find (\<lambda>x. P (f x) \<and> list_all (\<lambda>y. f x \<le> f y) xs) xs = Some x"
      unfolding find_Some_iff list_all_iff
      by (intro exI [of _ k]) (use k True in \<open>auto simp: not_le intro!: bexI [of _ x]\<close>)
    with Some True show ?thesis by simp
  next
    case False
    have "f y = f x" if "y \<in> set xs" "\<forall>z\<in>set xs. f y \<le> f z" for y
      using that k by (metis antisym nth_mem)
    then have "\<not> (P (f y) \<and> list_all (\<lambda>z. f y \<le> f z) xs)" if "y \<in> set xs" for y
      using that False unfolding list_all_iff by metis
    then have "find (\<lambda>x. P (f x) \<and> list_all (\<lambda>y. f x \<le> f y) xs) xs = None"
      by (auto simp: find_None_iff)
    with Some False show ?thesis by simp
  qed
qed simp

lemma retain_live_loads [simp]:
  "in_flight (retain_live st) = in_flight st" "strong_count (retain_live st) = strong_count st"
  "ps_jobs (retain_live st) = ps_jobs st" "ps_strong (retain_live st) = ps_strong st"
  by (auto simp: fun_eq_iff retain_live_def in_flight_def strong_count_def)

lemma idle_scan_eq:
  "idle_scan st is = find (\<lambda>i. in_flight st i = 0 \<and> strong_count st i = 1) is"
  by (induction "is") (auto simp: Let_def)

lemma pick_head:
  fixes f :: "'a \<Rightarrow> u32"
  assumes "0 < n" "c \<le> u32_MAX"
  shows "first_elem (filter (\<lambda>i. f i < c) (take n (sort_key f (filter (\<lambda>i. f i \<noteq> u32_MAX) xs)))) =
     (case first_least f xs of None \<Rightarrow> None | Some x \<Rightarrow> if f x < c then Some x else None)"
proof -
  define ys where "ys = sort_key f (filter (\<lambda>i. f i \<noteq> u32_MAX) xs)"
  have sorted: "sorted (map f ys)" by (simp add: ys_def)
  then have "sorted (map f (take n ys))" by (simp add: take_map [symmetric] sorted_wrt_take)
  note heads = head_filter_sorted [OF this] head_filter_sorted [OF sorted]
  have "first_elem (filter (\<lambda>i. f i < c) (take n ys)) = first_elem (filter (\<lambda>i. f i < c) ys)"
    unfolding heads using assms(1) by (cases ys; cases n) simp_all
  moreover have "filter (\<lambda>i. f i < c) ys = filter (\<lambda>i. f i < c) (sort_key f xs)"
    using assms(2) by (auto simp: ys_def filter_sort [symmetric] intro!: filter_cong)
  moreover have "first_elem (filter (\<lambda>i. f i < c) (sort_key f xs)) =
      (case first_least f xs of None \<Rightarrow> None | Some x \<Rightarrow> if f x < c then Some x else None)"
    by (simp add: head_filter_sorted head_sort [symmetric]) (simp add: first_elem_def split: list.split)
  ultimately show ?thesis by (simp add: ys_def)
qed

lemma peek_idle_eq:
  "peek_idle st =
     (find (\<lambda>i. in_flight st i = 0 \<and> strong_count st i = 1) (ps_weaks (retain_live st)),
      retain_live st)"
  by (simp add: peek_idle_def idle_scan_eq Let_def)

lemma pick_unsaturated_eq:
  "pick_unsaturated n st =
     (if n = 0 then None
      else find (\<lambda>i. in_flight st i < 32 \<and>
             list_all (\<lambda>j. in_flight st i \<le> in_flight st j) (ps_weaks (retain_live st)))
           (ps_weaks (retain_live st)),
      retain_live st)"
proof -
  have "(case xs of [] \<Rightarrow> None | i # is \<Rightarrow> Some i) = first_elem xs" for xs :: "nat list"
    by (simp add: first_elem_def)
  moreover have "first_elem (filter (\<lambda>i. f i < 32) (take (min n 8) (sort_key f
       (filter (\<lambda>i. f i \<noteq> u32_MAX) xs)))) =
     (if n = 0 then None else find (\<lambda>x. f x < 32 \<and> list_all (\<lambda>y. f x \<le> f y) xs) xs)"
    for f :: "nat \<Rightarrow> u32" and xs
  proof (cases "n = 0")
    case False
    then show ?thesis
      using pick_head [of "min n 8" 32 f xs] find_least [of "\<lambda>k. k < 32" f xs] by simp
  qed (simp add: first_elem_def)
  ultimately show ?thesis
    by (simp add: pick_unsaturated_def least_busy_def Let_def
        SATURATION_THRESHOLD_def)
qed

text \<open>
  C15. Which job a routed statement goes to. The scans forget the references whose job is gone.
  The first scan picks the first live job with nothing in flight that only deadpool holds. The
  second picks the first of the live jobs with the fewest requests in flight, provided that is
  below 32 and deadpool reports any connection at all; how many candidates it looks at does not
  matter. A job at the sentinel \<open>u32::MAX\<close> is never picked by either.
\<close>

theorem routing_choice:
  "peek_idle st =
     (find (\<lambda>i. in_flight st i = 0 \<and> strong_count st i = 1) (ps_weaks (retain_live st)),
      retain_live st) \<and>
   pick_unsaturated n st =
     (if n = 0 then None
      else find (\<lambda>i. in_flight st i < 32 \<and>
             list_all (\<lambda>j. in_flight st i \<le> in_flight st j) (ps_weaks (retain_live st)))
           (ps_weaks (retain_live st)),
      retain_live st)"
  by (simp add: peek_idle_eq pick_unsaturated_eq)

section \<open>The reaper\<close>

lemma sweep_empty: "sweep d [(i, u)] = [] \<longleftrightarrow> d \<le> u"
  by (auto simp: sweep_def)

lemma reaper_loop_step:
  "reaper_loop d p t0 k =
     (if p = 0 \<or> d \<le> k * p - t0 then k * p else reaper_loop d p t0 (Suc k))"
  by (subst reaper_loop.simps) (simp add: sweep_empty)

lemma reaper_loop_bounds:
  assumes "0 < p" "0 < d" "k * p < t0 + d + p"
  shows "t0 + d \<le> reaper_loop d p t0 k \<and> reaper_loop d p t0 k < t0 + d + p"
  using assms
proof (induction d p t0 k rule: reaper_loop.induct)
  case (1 d p t0 k)
  show ?case
  proof (cases "d \<le> k * p - t0")
    case True
    then show ?thesis using 1(2-) by (subst (1 2) reaper_loop_step) auto
  next
    case False
    then have "Suc k * p < t0 + d + p" by auto
    with 1 False show ?thesis
      by (subst (1 2) reaper_loop_step) (auto simp: sweep_empty)
  qed
qed

lemma reaper_loop_late:
  assumes "0 < p" "0 < d" "t0 + d = Suc (n * p)"
  shows "reaper_loop d p t0 0 = Suc n * p"
proof -
  have "\<exists>m. reaper_loop d p t0 k = m * p" for k
    by (induction d p t0 k rule: reaper_loop.induct) (subst reaper_loop_step, auto simp: sweep_empty)
  then obtain m where m: "reaper_loop d p t0 0 = m * p" by blast
  with reaper_loop_bounds [of p d 0 t0] assms have b: "Suc (n * p) \<le> m * p" "m * p < Suc (n * p) + p"
    by simp_all
  from b(1) have "n * p < m * p" by linarith
  from b(2) assms(1) have "m * p < (n + 2) * p" by (simp add: algebra_simps)
  with \<open>n * p < m * p\<close> have "n < m" "m < n + 2" using mult_less_cancel2 by blast+
  then have "m = Suc n" by simp
  with m show ?thesis by simp
qed

lemma reaper_period_Some:
  "reaper_period d = Some p \<longleftrightarrow> 0 < d \<and> p = min (max (d div 4) (seconds 1)) (seconds 60)"
  by (auto simp: reaper_period_def)



section \<open>Routed statements\<close>

definition chosen :: "nat \<Rightarrow> 'd pool_state \<Rightarrow> nat option" where
  "chosen n st =
     (let W = ps_weaks (retain_live st) in
      case find (\<lambda>i. in_flight st i = 0 \<and> strong_count st i = 1) W of
        Some i \<Rightarrow> Some i
      | None \<Rightarrow>
          if n = 0 then None
          else find (\<lambda>i. in_flight st i < 32 \<and>
                 list_all (\<lambda>j. in_flight st i \<le> in_flight st j) W) W)"

definition page_on ::
  "'d surroundings \<Rightarrow> pool \<Rightarrow> string \<Rightarrow> value list option \<Rightarrow> execute_options \<Rightarrow> nat \<Rightarrow> 'd pool_state \<Rightarrow>
     (error + rows) \<times> 'd pool_state" where
  "page_on E p sql params opts i st =
     (let n = unwrap_or (pl_default_page_size p) (eo_rows opts);
          s = ps_jobs st ! i;
          r = sql_request sql params n (terse_on_wire opts) (peek_id s)
      in if n = 0 then (Inl (Protocol ZeroPageSize), st)
         else (bindR (fst (su_send E r (ss_world s))) (rows_of_reply n (peek_id s)),
               st\<lparr>ps_jobs := (ps_jobs st)[i := after_call (su_send E) r s]\<rparr>))"

lemma pool_opts_simps [simp]:
  "eo_rows (pool_opts p opts) = Some (unwrap_or (pl_default_page_size p) (eo_rows opts))"
  "terse_on_wire (pool_opts p opts) = terse_on_wire opts"
  by (auto simp: pool_opts_def terse_on_wire_def split: option.split)

lemma run_on_page:
  "run_on i (job_execute_inner (su_send E) sql params (pool_opts p opts)) st =
     page_on E p sql params opts i st"
  by (simp add: run_on_def job_execute_inner_def resolved_rows_def page_on_def call_eq Let_def
      error_from_defs liftS_def)

lemma retain_live_idem [simp]: "retain_live (retain_live st) = retain_live st"
  by (simp add: retain_live_def strong_count_def)


lemma route_eq:
  "route E p st =
     (case chosen (su_size E) st of
        Some i \<Rightarrow> (Inr i, retain_live st)
      | None \<Rightarrow> get_or_timeout (su_get E) p (retain_live st))"
  by (simp add: route_def chosen_def peek_idle_eq pick_unsaturated_eq Let_def split: option.split)

text \<open>
  A routed statement runs on the chosen job, and only where none is eligible on one
  checked out of deadpool; if that fails its error is the answer and nothing is sent. One request
  goes out, on that job alone, and asks for the page size of the options, or the pool's default
  without one. A page size of zero -- also as the pool's default -- is refused before anything
  is sent.
\<close>

theorem routed_statements:
  "routed E p (job_execute_inner (su_send E) sql params (pool_opts p opts)) st =
     (case chosen (su_size E) st of
        Some i \<Rightarrow> page_on E p sql params opts i (retain_live st)
      | None \<Rightarrow>
          (case get_or_timeout (su_get E) p (retain_live st) of
             (Inl e, st1) \<Rightarrow> (Inl e, st1)
           | (Inr i, st1) \<Rightarrow> page_on E p sql params opts i st1)) \<and>
   pool_execute_opts E p sql opts st =
     routed E p (job_execute_inner (su_send E) sql None (pool_opts p opts)) st \<and>
   pool_execute_with_opts E p sql ps opts st =
     routed E p (job_execute_inner (su_send E) sql (Some ps) (pool_opts p opts)) st"
  by (auto simp: routed_def route_eq run_on_page pool_execute_opts_def pool_execute_with_opts_def
      job_execute_opts_def job_execute_with_opts_def split: option.split sum.split prod.split)

section \<open>Checkout\<close>

text \<open>
  What deadpool documents of \<open>get\<close>, as far as the pool relies on it: it fails, or offers its idle
  jobs in turn to \<open>Manager::recycle\<close>, drops each that fails, and hands out the first that does not;
  with none left it asks \<open>Manager::create\<close>. Dropping the last reference drops the job.
\<close>

definition release :: "nat \<Rightarrow> 'd pool_state \<Rightarrow> 'd pool_state" where
  "release i st =
     (let n = strong_count st i - 1;
          st1 = st\<lparr>ps_strong := (ps_strong st)[i := n]\<rparr>
      in if n = 0 then st1\<lparr>ps_jobs := (ps_jobs st1)[i := drop_job (ps_jobs st1 ! i)]\<rparr> else st1)"

datatype checkout = CheckoutFails pool_error | Offers "nat list"

fun checkout_offers ::
  "(dispatcher \<times> 'd) sender \<Rightarrow> error + (dispatcher \<times> 'd) job \<Rightarrow> nat list \<Rightarrow> 'd pool_state \<Rightarrow>
     (pool_error + nat) \<times> 'd pool_state" where
  "checkout_offers send conn [] st =
     (let (r, st1) = manager_create conn st in (mapErr PoolBackend r, st1))"
| "checkout_offers send conn (i # is) st =
     (case recycle send i st of
        (Inr _, st1) \<Rightarrow> (Inr i, st1)
      | (Inl _, st1) \<Rightarrow> checkout_offers send conn is (release i st1))"

fun documented_get ::
  "(dispatcher \<times> 'd) sender \<Rightarrow> error + (dispatcher \<times> 'd) job \<Rightarrow> checkout \<Rightarrow> 'd pool_state \<Rightarrow>
     (pool_error + nat) \<times> 'd pool_state" where
  "documented_get send conn (CheckoutFails e) st = (Inl e, st)"
| "documented_get send conn (Offers is) st = checkout_offers send conn is st"

definition answers_ping :: "(dispatcher \<times> 'd) sender \<Rightarrow> 'd pool_state \<Rightarrow> nat \<Rightarrow> bool" where
  "answers_ping send st i = (case fst (ping send 0 (ps_jobs st ! i)) of Inr _ \<Rightarrow> True | Inl _ \<Rightarrow> False)"

definition closed_job :: "'d pool_state \<Rightarrow> nat \<Rightarrow> bool" where
  "closed_job st i = (strong_count st i = 0 \<and> \<not> dq_running (fst (ss_world (ps_jobs st ! i))))"

lemma recycle_outcome:
  "(case fst (recycle send i st) of Inr _ \<Rightarrow> True | Inl _ \<Rightarrow> False) = answers_ping send st i"
  "j \<noteq> i \<Longrightarrow> ps_jobs (snd (recycle send i st)) ! j = ps_jobs st ! j"
  "ps_strong (snd (recycle send i st)) = ps_strong st"
  "length (ps_jobs (snd (recycle send i st))) = length (ps_jobs st)"
  by (auto simp: recycle_def run_on_def answers_ping_def split: prod.split sum.split elim: bindR.elims)

lemma release_other:
  "j \<noteq> i \<Longrightarrow> ps_jobs (release i st) ! j = ps_jobs st ! j"
  "j \<noteq> i \<Longrightarrow> strong_count (release i st) j = strong_count st j"
  "length (ps_jobs (release i st)) = length (ps_jobs st)"
  "length (ps_strong (release i st)) = length (ps_strong st)"
  by (auto simp: release_def strong_count_def Let_def)

lemma release_closes:
  "strong_count st i = 1 \<Longrightarrow> i < length (ps_jobs st) \<Longrightarrow> i < length (ps_strong st) \<Longrightarrow>
   closed_job (release i st) i"
  by (auto simp: release_def closed_job_def strong_count_def Let_def drop_job_def stop_def
      split: prod.split)

text \<open>After a failed ping of \<open>i\<close> everything else is as before.\<close>

lemma retry_other:
  assumes "recycle send i st = (r, st1)"
  shows "j \<noteq> i \<Longrightarrow> ps_jobs (release i st1) ! j = ps_jobs st ! j"
    and "j \<noteq> i \<Longrightarrow> strong_count (release i st1) j = strong_count st j"
    and "j \<noteq> i \<Longrightarrow> answers_ping send (release i st1) j = answers_ping send st j"
    and "length (ps_jobs (release i st1)) = length (ps_jobs st)"
    and "length (ps_strong (release i st1)) = length (ps_strong st)"
proof -
  note out = recycle_outcome [where send = send and i = i and st = st, unfolded assms, simplified]
  show jobs: "ps_jobs (release i st1) ! j = ps_jobs st ! j" if "j \<noteq> i"
    using that out(2) by (simp add: release_other)
  show "answers_ping send (release i st1) j = answers_ping send st j" if "j \<noteq> i"
    by (simp only: answers_ping_def jobs [OF that])
  show "strong_count (release i st1) j = strong_count st j" if "j \<noteq> i"
    unfolding release_other(2) [OF that] by (simp add: strong_count_def out(3))
qed (use recycle_outcome [where send = send and i = i and st = st, unfolded assms]
     in \<open>simp_all add: release_other\<close>)

lemma checkout_other:
  "j \<notin> set is \<Longrightarrow> j < length (ps_jobs st) \<Longrightarrow> length (ps_strong st) = length (ps_jobs st) \<Longrightarrow>
   ps_jobs (snd (checkout_offers send conn is st)) ! j = ps_jobs st ! j \<and>
   strong_count (snd (checkout_offers send conn is st)) j = strong_count st j"
proof (induction send conn "is" st rule: checkout_offers.induct)
  case (1 send conn st)
  then show ?case
    by (auto simp: manager_create_def track_def strong_count_def nth_append Let_def
        split: sum.split)
next
  case (2 send conn i "is" st)
  obtain r st1 where rc: "recycle send i st = (r, st1)" by force
  note other = retry_other [OF rc]
  show ?case
  proof (cases r)
    case (Inl e)
    have "ps_jobs (snd (checkout_offers send conn is (release i st1))) ! j = ps_jobs (release i st1) ! j \<and>
        strong_count (snd (checkout_offers send conn is (release i st1))) j = strong_count (release i st1) j"
      using 2(2-) other(4,5) by (intro "2.IH" [OF rc [symmetric] Inl]) simp_all
    with Inl rc 2(2) other(1,2) show ?thesis by simp
  next
    case (Inr x)
    with rc recycle_outcome [where send = send and i = i and st = st] 2(2) show ?thesis
      by (simp add: strong_count_def)
  qed
qed

lemma checkout_result:
  "distinct is \<Longrightarrow> \<forall>i\<in>set is. i < length (ps_jobs st) \<Longrightarrow>
   fst (checkout_offers send conn is st) =
     (case find (answers_ping send st) is of
        Some i \<Rightarrow> Inr i
      | None \<Rightarrow> (case conn of Inl e \<Rightarrow> Inl (PoolBackend e) | Inr j \<Rightarrow> Inr (length (ps_jobs st))))"
proof (induction send conn "is" st rule: checkout_offers.induct)
  case (1 send conn st)
  then show ?case by (simp add: manager_create_def Let_def split: sum.split)
next
  case (2 send conn i "is" st)
  obtain r st1 where rc: "recycle send i st = (r, st1)" by force
  note out = recycle_outcome [where send = send and i = i and st = st, unfolded rc, simplified]
  show ?case
  proof (cases r)
    case (Inl e)
    let ?st2 = "release i st1"
    note other = retry_other [OF rc]
    have "\<And>j. j \<in> set is \<Longrightarrow> j \<noteq> i" using 2(2) by auto
    then have same: "find (answers_ping send ?st2) is = find (answers_ping send st) is"
      by (intro find_cong refl other(3))
    have "fst (checkout_offers send conn is ?st2) =
      (case find (answers_ping send ?st2) is of
        Some i \<Rightarrow> Inr i
      | None \<Rightarrow> (case conn of Inl e \<Rightarrow> Inl (PoolBackend e) | Inr j \<Rightarrow> Inr (length (ps_jobs ?st2))))"
      using 2(2,3) other(4) by (intro "2.IH" [OF rc [symmetric] Inl]) simp_all
    then show ?thesis using Inl rc out(1) unfolding same other(4) by simp
  next
    case (Inr x)
    then show ?thesis using rc out(1) by simp
  qed
qed

lemma checkout_closes:
  "distinct is \<Longrightarrow> \<forall>i\<in>set is. i < length (ps_jobs st) \<Longrightarrow> length (ps_strong st) = length (ps_jobs st) \<Longrightarrow>
   i \<in> set (takeWhile (\<lambda>i. \<not> answers_ping send st i) is) \<Longrightarrow> strong_count st i = 1 \<Longrightarrow>
   closed_job (snd (checkout_offers send conn is st)) i"
proof (induction send conn "is" st rule: checkout_offers.induct)
  case (2 send conn k "is" st)
  obtain r st1 where rc: "recycle send k st = (r, st1)" by force
  note out = recycle_outcome [where send = send and i = k and st = st, unfolded rc, simplified]
  obtain e where r: "r = Inl e" using 2(5) out(1) by (cases r) auto
  let ?st2 = "release k st1"
  note other = retry_other [OF rc]
  have eq: "snd (checkout_offers send conn (k # is) st) = snd (checkout_offers send conn is ?st2)"
    by (simp add: rc r)
  show ?case
  proof (cases "i = k")
    case True
    have "closed_job ?st2 k"
      using out 2(3,4,6) True by (intro release_closes) (auto simp: strong_count_def)
    moreover have "k \<notin> set is" "k < length (ps_jobs ?st2)" using 2(2,3) other(4) by auto
    ultimately show ?thesis
      using checkout_other [of k "is" ?st2 send conn] other(4,5) 2(4)
      unfolding eq True closed_job_def by simp
  next
    case False
    have "\<And>j. j \<in> set is \<Longrightarrow> j \<noteq> k" using 2(2) by auto
    then have tw: "takeWhile (\<lambda>i. \<not> answers_ping send ?st2 i) is =
        takeWhile (\<lambda>i. \<not> answers_ping send st i) is"
      using other(3) by (intro takeWhile_cong refl) metis
    have "i \<in> set (takeWhile (\<lambda>i. \<not> answers_ping send st i) is)"
      using 2(5) False by (simp split: if_splits)
    then show ?thesis
      unfolding eq using 2(2-4,6) other(2,4,5) False
      by (intro "2.IH" [OF rc [symmetric] r]) (simp_all add: tw)
  qed
qed simp


section \<open>A concrete pool\<close>

definition sample_pool :: pool where
  "sample_pool = \<lparr>pl_acquire_timeout = Some (seconds 5), pl_default_page_size = 100,
     pl_parameter_logging = LogNone\<rparr>"

definition one_job :: "unit pool_state" where
  "one_job = \<lparr>ps_jobs = [sample_session], ps_strong = [1], ps_weaks = [0]\<rparr>"

lemma refused_ping:
  "\<not> answers_ping (exchange rejecter (greet (peek_id sample_session))) one_job 0"
  using rejecter_exchange [of "Ping (peek_id sample_session)"]
  by (simp add: answers_ping_def one_job_def ping_def call_eq)


end
