(* ===== verification/Reserved.thy ===== *)
theory Reserved
  imports Pool
begin

text \<open>
  The exclusive handle (\<^verbatim>\<open>src/src/pool/reserved.rs\<close>, and \<open>acquire\<close> of \<^verbatim>\<open>runtime.rs\<close>): acquiring marks
  the job with the sentinel \<open>u32::MAX\<close> in its load counter, statements are watched for
  \<open>BEGIN\<close>, \<open>COMMIT\<close> and \<open>ROLLBACK\<close>, and dropping the handle may spawn a \<open>ROLLBACK\<close> and clears the
  counter.

  The lemmas show that the tracked state is what the successful statements say and gates
  exactly the \<open>ROLLBACK\<close>, that the sentinel keeps the job out of routing, and how the counter's
  own wrap-around defeats it.
\<close>

section \<open>State and operations\<close>

datatype tx_state = NotStarted | Started | TxClosed

record reserved =
  rv_job :: nat
  rv_rollback_on_drop :: bool
  rv_tx :: tx_state

definition reserved_new :: "nat \<Rightarrow> 'd pool_state \<Rightarrow> reserved \<times> 'd pool_state" where
  "reserved_new i st =
     (\<lparr>rv_job = i, rv_rollback_on_drop = False, rv_tx = NotStarted\<rparr>, store_in_flight u32_MAX i st)"

definition acquire ::
  "'d dead_get \<Rightarrow> pool \<Rightarrow> 'd pool_state \<Rightarrow> (error + reserved) \<times> 'd pool_state" where
  "acquire get p st =
     (case get_or_timeout get p st of
        (Inl e, st1) \<Rightarrow> (Inl e, st1)
      | (Inr i, st1) \<Rightarrow> (let (rv, st2) = reserved_new i st1 in (Inr rv, st2)))"

definition rollback_on_drop :: "reserved \<Rightarrow> reserved" where
  "rollback_on_drop rv = rv\<lparr>rv_rollback_on_drop := True\<rparr>"

definition observe_sql :: "tx_state \<Rightarrow> string \<Rightarrow> tx_state" where
  "observe_sql tx sql =
     (let head = first_word sql in
      if eq_ignore_ascii_case head ''BEGIN'' then Started
      else if eq_ignore_ascii_case head ''COMMIT'' \<or> eq_ignore_ascii_case head ''ROLLBACK''
      then TxClosed
      else tx)"

text \<open>Running an operation on the held job, and watching its SQL if it succeeds.\<close>

type_synonym ('d, 'a) reserved_op =
  "reserved \<times> 'd pool_state \<Rightarrow> (error + 'a) \<times> reserved \<times> 'd pool_state"

definition untracked :: "(dispatcher \<times> 'd, 'a) op \<Rightarrow> ('d, 'a) reserved_op" where
  "untracked m h = (let (r, st) = run_on (rv_job (fst h)) m (snd h) in (r, fst h, st))"

definition tracked :: "(dispatcher \<times> 'd, 'a) op \<Rightarrow> string \<Rightarrow> ('d, 'a) reserved_op" where
  "tracked m sql h =
     (case untracked m h of
        (Inl e, rv, st) \<Rightarrow> (Inl e, rv, st)
      | (Inr x, rv, st) \<Rightarrow> (Inr x, rv\<lparr>rv_tx := observe_sql (rv_tx rv) sql\<rparr>, st))"

definition reserved_execute :: "(dispatcher \<times> 'd) sender \<Rightarrow> string \<Rightarrow> ('d, rows) reserved_op" where
  "reserved_execute send sql = tracked (job_execute send sql) sql"

definition reserved_execute_with ::
  "(dispatcher \<times> 'd) sender \<Rightarrow> string \<Rightarrow> value list \<Rightarrow> ('d, rows) reserved_op" where
  "reserved_execute_with send sql params = tracked (job_execute_with send sql params) sql"

definition reserved_execute_opts ::
  "(dispatcher \<times> 'd) sender \<Rightarrow> string \<Rightarrow> execute_options \<Rightarrow> ('d, rows) reserved_op" where
  "reserved_execute_opts send sql opts = tracked (job_execute_opts send sql opts) sql"

definition reserved_execute_with_opts ::
  "(dispatcher \<times> 'd) sender \<Rightarrow> string \<Rightarrow> value list \<Rightarrow> execute_options \<Rightarrow> ('d, rows) reserved_op"
  where
  "reserved_execute_with_opts send sql params opts =
     tracked (job_execute_with_opts send sql params opts) sql"

definition reserved_begin :: "(dispatcher \<times> 'd) sender \<Rightarrow> ('d, rows) reserved_op" where
  "reserved_begin send = reserved_execute send ''BEGIN''"

definition commit :: "(dispatcher \<times> 'd) sender \<Rightarrow> ('d, rows) reserved_op" where
  "commit send = reserved_execute send ''COMMIT''"

definition rollback :: "(dispatcher \<times> 'd) sender \<Rightarrow> ('d, rows) reserved_op" where
  "rollback send = reserved_execute send ''ROLLBACK''"

text \<open>Dropping the handle; afterwards deadpool has the job back.\<close>

definition spawn_rollback :: "(dispatcher \<times> 'd) session \<Rightarrow> (dispatcher \<times> 'd) session" where
  "spawn_rollback s =
     (let (i, ids) = next_id (ss_ids s)
      in spawn_best_effort (Sql i ''ROLLBACK'' None None None) (s\<lparr>ss_ids := ids\<rparr>))"

definition reserved_drop :: "reserved \<Rightarrow> 'd pool_state \<Rightarrow> 'd pool_state" where
  "reserved_drop rv st =
     (let i = rv_job rv;
          in_tx = (rv_tx rv = Started);
          st1 = (if rv_rollback_on_drop rv \<and> in_tx
                 then st\<lparr>ps_jobs := (ps_jobs st)[i := spawn_rollback (ps_jobs st ! i)]\<rparr>
                 else st)
      in store_in_flight 0 i st1)"

section \<open>Statements watched\<close>

lemma observe_sql_known [simp]:
  "observe_sql tx ''BEGIN'' = Started" "observe_sql tx ''COMMIT'' = TxClosed"
  "observe_sql tx ''ROLLBACK'' = TxClosed"
  by (simp_all add: observe_sql_def first_word_def skip_ws.simps ws_len_def ws_encodings_def
      eq_ignore_ascii_case_def ascii_lower_def Let_def)

text \<open>A caller's use of the handle: statements with optional parameters and options.\<close>

type_synonym statement = "string \<times> value list option \<times> execute_options"

definition run_statement :: "(dispatcher \<times> 'd) sender \<Rightarrow> statement \<Rightarrow> ('d, rows) reserved_op" where
  "run_statement send c =
     (case c of
        (sql, None, opts) \<Rightarrow> reserved_execute_opts send sql opts
      | (sql, Some ps, opts) \<Rightarrow> reserved_execute_with_opts send sql ps opts)"

fun run_statements ::
  "(dispatcher \<times> 'd) sender \<Rightarrow> statement list \<Rightarrow> reserved \<times> 'd pool_state \<Rightarrow>
     (error + rows) list \<times> reserved \<times> 'd pool_state" where
  "run_statements send [] h = ([], h)"
| "run_statements send (c # cs) h =
     (let (r, h1) = run_statement send c h; (rs, h2) = run_statements send cs h1 in (r # rs, h2))"

text \<open>The successful statements, and those of them that begin or end a transaction.\<close>

definition went_well :: "error + rows \<Rightarrow> bool" where
  "went_well r = (case r of Inr x \<Rightarrow> True | Inl e \<Rightarrow> False)"

definition succeeded :: "statement list \<Rightarrow> (error + rows) list \<Rightarrow> string list" where
  "succeeded cs rs = map (fst \<circ> fst) (filter (\<lambda>(c, r). went_well r) (zip cs rs))"

definition is_begin :: "string \<Rightarrow> bool" where
  "is_begin sql = eq_ignore_ascii_case (first_word sql) ''BEGIN''"

definition is_end :: "string \<Rightarrow> bool" where
  "is_end sql = (eq_ignore_ascii_case (first_word sql) ''COMMIT'' \<or>
     eq_ignore_ascii_case (first_word sql) ''ROLLBACK'')"

definition tx_after :: "tx_state \<Rightarrow> string list \<Rightarrow> tx_state" where
  "tx_after tx sqls =
     (case find (\<lambda>sql. is_begin sql \<or> is_end sql) (rev sqls) of
        None \<Rightarrow> tx
      | Some sql \<Rightarrow> if is_begin sql then Started else TxClosed)"

lemma tx_after_Nil [simp]: "tx_after tx [] = tx"
  by (simp add: tx_after_def)

lemma find_append: "find P (xs @ ys) = (case find P xs of None \<Rightarrow> find P ys | Some x \<Rightarrow> Some x)"
  by (induction xs) simp_all

lemma observe_sql_eq:
  "observe_sql tx sql = (if is_begin sql then Started else if is_end sql then TxClosed else tx)"
  by (simp add: observe_sql_def is_begin_def is_end_def Let_def)

lemma tx_after_Cons: "tx_after tx (sql # sqls) = tx_after (observe_sql tx sql) sqls"
  by (auto simp: tx_after_def find_append observe_sql_eq split: option.split)

lemma untracked_eq:
  "untracked m h =
     (fst (m (ps_jobs (snd h) ! rv_job (fst h))), fst h,
      (snd h)\<lparr>ps_jobs := (ps_jobs (snd h))[rv_job (fst h) :=
        snd (m (ps_jobs (snd h) ! rv_job (fst h)))]\<rparr>)"
  by (simp add: untracked_def run_on_def split: prod.split)

lemma job_execute_inner_spawned:
  "ss_spawned (snd (job_execute_inner send sql ps opts s)) = ss_spawned s \<and>
   ss_runtime (snd (job_execute_inner send sql ps opts s)) = ss_runtime s"
  by (cases "resolved_rows opts") (simp_all add: job_execute_inner_def call_eq liftS_def)

lemma run_statement_eq:
  "run_statement send (sql, ps, opts) = tracked (job_execute_inner send sql ps opts) sql"
  by (simp add: run_statement_def reserved_execute_opts_def reserved_execute_with_opts_def
      job_execute_opts_def job_execute_with_opts_def split: option.split)

definition held :: "reserved \<times> 'd pool_state \<Rightarrow> (dispatcher \<times> 'd) session" where
  "held h = ps_jobs (snd h) ! rv_job (fst h)"

lemma tracked_step:
  assumes "tracked m sql h = (r, h1)" "rv_job (fst h) < length (ps_jobs (snd h))"
  shows "rv_job (fst h1) = rv_job (fst h)"
    and "rv_rollback_on_drop (fst h1) = rv_rollback_on_drop (fst h)"
    and "length (ps_jobs (snd h1)) = length (ps_jobs (snd h))"
    and "rv_tx (fst h1) = (case r of Inr x \<Rightarrow> observe_sql (rv_tx (fst h)) sql | Inl e \<Rightarrow> rv_tx (fst h))"
    and "held h1 = snd (m (held h))" "r = fst (m (held h))"
  using assms
  by (auto simp: tracked_def untracked_eq held_def split: sum.splits prod.splits)

lemma run_statements_effect:
  assumes "run_statements send cs h = (rs, h1)" "rv_job (fst h) < length (ps_jobs (snd h))"
  shows "rv_job (fst h1) = rv_job (fst h) \<and>
    rv_rollback_on_drop (fst h1) = rv_rollback_on_drop (fst h) \<and>
    length (ps_jobs (snd h1)) = length (ps_jobs (snd h)) \<and>
    rv_tx (fst h1) = tx_after (rv_tx (fst h)) (succeeded cs rs) \<and>
    ss_spawned (held h1) = ss_spawned (held h) \<and> ss_runtime (held h1) = ss_runtime (held h)"
  using assms
proof (induction cs arbitrary: h rs h1)
  case Nil
  then show ?case by (simp add: succeeded_def)
next
  case (Cons c cs)
  obtain sql ps opts where c: "c = (sql, ps, opts)" by (cases c) auto
  obtain r h2 where one: "run_statement send c h = (r, h2)" by (metis prod.exhaust)
  obtain qs h3 where more: "run_statements send cs h2 = (qs, h3)" by (metis prod.exhaust)
  from Cons.prems(1) have rs: "rs = r # qs" "h1 = h3" by (simp_all add: one more)
  note step = tracked_step [OF one [unfolded c run_statement_eq] Cons.prems(2)]
  have spawned: "ss_spawned (held h2) = ss_spawned (held h)" "ss_runtime (held h2) = ss_runtime (held h)"
    unfolding step(5) by (simp_all add: job_execute_inner_spawned)
  have tx: "tx_after (rv_tx (fst h2)) (succeeded cs qs) =
      tx_after (rv_tx (fst h)) (succeeded (c # cs) (r # qs))"
    unfolding step(4) succeeded_def by (simp add: c went_well_def tx_after_Cons split: sum.split)
  show ?case
    using Cons.IH [OF more] Cons.prems(2) step(1-3) spawned tx rs by simp
qed

lemma drop_spawns:
  assumes "rv_job rv < length (ps_jobs st)"
  shows "ss_spawned (held (rv, reserved_drop rv st)) = ss_spawned (held (rv, st)) @
    (if rv_rollback_on_drop rv \<and> rv_tx rv = Started \<and> ss_runtime (held (rv, st))
     then [Sql (peek_id (held (rv, st))) ''ROLLBACK'' None None None] else [])"
  using assms
  by (simp add: held_def reserved_drop_def store_in_flight_def spawn_rollback_def
      spawn_best_effort_def peek_id_def Let_def split: prod.split)

text \<open>
  C6. Transactions on a reserved connection. After any sequence of statements the tracked state
  is what the last of the successful ones whose first word is \<open>BEGIN\<close>, \<open>COMMIT\<close> or \<open>ROLLBACK\<close> in
  any case made it; failed statements and all others leave it. Dropping the handle spawns
  exactly one \<open>ROLLBACK\<close>, with a fresh id, if the caller opted in and that state is \<open>Started\<close>,
  and nothing otherwise (nor without a runtime); the statements themselves spawn nothing.
\<close>

theorem rollback_exactly_when_open:
  assumes "run_statements send cs (rv, st) = (rs, rv1, st1)" "rv_job rv < length (ps_jobs st)"
  shows "rv_tx rv1 = tx_after (rv_tx rv) (succeeded cs rs) \<and>
    ss_spawned (held (rv1, reserved_drop rv1 st1)) = ss_spawned (held (rv, st)) @
      (if rv_rollback_on_drop rv \<and> tx_after (rv_tx rv) (succeeded cs rs) = Started \<and>
          ss_runtime (held (rv, st))
       then [Sql (peek_id (held (rv1, st1))) ''ROLLBACK'' None None None] else []) \<and>
    in_flight (reserved_drop rv1 st1) (rv_job rv) = 0"
proof -
  note run = run_statements_effect [OF assms(1)]
  from run assms(2) have range: "rv_job rv1 < length (ps_jobs st1)" by simp
  have "in_flight (reserved_drop rv1 st1) (rv_job rv1) = 0"
    using range by (simp add: reserved_drop_def store_in_flight_def in_flight_def
        job_in_flight_def Let_def split: prod.split)
  with run assms(2) drop_spawns [OF range] show ?thesis by simp
qed

section \<open>The sentinel\<close>

lemma find_reject: "\<not> P i \<Longrightarrow> find P xs \<noteq> Some i"
  by (auto simp: find_Some_iff)

lemma never_chosen: "in_flight st i = u32_MAX \<Longrightarrow> chosen n st \<noteq> Some i"
  using find_reject [of "\<lambda>i. in_flight st i = 0 \<and> strong_count st i = 1" i]
    find_reject [of "\<lambda>i. in_flight st i < 32 \<and> list_all (\<lambda>j. in_flight st i \<le> in_flight st j)
      (ps_weaks (retain_live st))" i]
  by (auto simp: chosen_def Let_def split: option.split)

lemma store_in_flight_load [simp]:
  "i < length (ps_jobs st) \<Longrightarrow> in_flight (store_in_flight n i st) i = n"
  "strong_count (store_in_flight n i st) = strong_count st"
  "ps_weaks (store_in_flight n i st) = ps_weaks st"
  "length (ps_jobs (store_in_flight n i st)) = length (ps_jobs st)"
  by (auto simp: store_in_flight_def in_flight_def job_in_flight_def strong_count_def Let_def)

text \<open>
  While the counter of an acquired job holds the sentinel no statement is routed to it; a
  fresh handle tracks no transaction and does not roll back, and a failed acquisition is
  the checkout's own error.
\<close>

theorem acquired_is_exclusive:
  assumes "acquire get p st = (Inr rv, st1)" "rv_job rv < length (ps_jobs st1)"
  shows "in_flight st1 (rv_job rv) = u32_MAX \<and> chosen n st1 \<noteq> Some (rv_job rv) \<and>
    rv_tx rv = NotStarted \<and> \<not> rv_rollback_on_drop rv \<and>
    fst (get_or_timeout get p st) = Inr (rv_job rv) \<and>
    (in_flight st2 (rv_job rv) = u32_MAX \<longrightarrow> chosen n st2 \<noteq> Some (rv_job rv))"
proof -
  from assms(1) obtain st0 where st: "get_or_timeout get p st = (Inr (rv_job rv), st0)"
    "st1 = store_in_flight u32_MAX (rv_job rv) st0" "rv_tx rv = NotStarted" "\<not> rv_rollback_on_drop rv"
    by (auto simp: acquire_def reserved_new_def split: prod.splits sum.splits)
  with assms(2) have "in_flight st1 (rv_job rv) = u32_MAX" by simp
  with st never_chosen [of st1] never_chosen [of st2] show ?thesis by auto
qed

definition job_dispatcher :: "'d pool_state \<Rightarrow> nat \<Rightarrow> dispatcher" where
  "job_dispatcher st i = fst (ss_world (ps_jobs st ! i))"

definition set_dispatcher :: "nat \<Rightarrow> dispatcher \<Rightarrow> 'd pool_state \<Rightarrow> 'd pool_state" where
  "set_dispatcher i d st =
     (let s = ps_jobs st ! i
      in st\<lparr>ps_jobs := (ps_jobs st)[i := s\<lparr>ss_world := (d, snd (ss_world s))\<rparr>]\<rparr>)"

lemma set_dispatcher_load [simp]:
  "i < length (ps_jobs st) \<Longrightarrow> in_flight (set_dispatcher i d st) i = dq_in_flight d"
  "strong_count (set_dispatcher i d st) = strong_count st"
  "ps_weaks (set_dispatcher i d st) = ps_weaks st"
  "length (ps_jobs (set_dispatcher i d st)) = length (ps_jobs st)"
  by (auto simp: set_dispatcher_def in_flight_def job_in_flight_def strong_count_def Let_def)

lemma drop_dispatcher:
  "i < length (ps_jobs st) \<Longrightarrow> rv_job rv = i \<Longrightarrow>
   job_dispatcher (reserved_drop rv st) i = (job_dispatcher st i)\<lparr>dq_in_flight := 0\<rparr>"
  by (simp add: reserved_drop_def store_in_flight_def job_dispatcher_def spawn_rollback_def Let_def
      split: prod.split)

lemma drop_other [simp]:
  "strong_count (reserved_drop rv st) = strong_count st"
  "ps_weaks (reserved_drop rv st) = ps_weaks st"
  "length (ps_jobs (reserved_drop rv st)) = length (ps_jobs st)"
  by (auto simp: reserved_drop_def store_in_flight_def strong_count_def Let_def)

lemma chosen_single:
  assumes "ps_weaks st = [i]" "strong_count st i = 1"
  shows "in_flight st i = 0 \<Longrightarrow> chosen n st = Some i"
    and "in_flight st i = u32_MAX \<Longrightarrow> chosen n st = None"
  using assms by (auto simp: chosen_def retain_live_def Let_def)

lemma frame_clears_one:
  assumes "dq_pending d = [x]" "dq_in_flight d = c" "dstep L d (Frame b) d1" "dq_pending d1 = []"
  shows "dq_in_flight d1 = c - 1"
proof -
  obtain es where es: "mset es = mset (dq_pending d)" "d1 = handle_frame L es b d"
    using assms(3) by (auto elim: dstepE)
  from es(1) assms(1) have "length es = 1" by (metis One_nat_def length_Cons list.size(3) size_mset)
  with assms es(2) show ?thesis
    by (auto simp: handle_frame_def answer_def handler_eqs split: sum.splits option.splits if_splits)
qed

text \<open>
  C23. The sentinel is a number in the counter it stands in, and the dispatcher counts on. In a
  pool whose one job is reserved nothing is chosen; but while a request of the holder is out
  the counter has wrapped to 0 and the first scan picks the reserved job. If the handle is dropped
  before the answer comes -- a cancelled caller -- the answer wraps the counter back to the
  sentinel, and the job is not chosen although nobody holds it.
\<close>

theorem sentinel_wraps:
  assumes "ps_weaks st = [i]" "strong_count st i = 1" "i < length (ps_jobs st)"
    and "in_flight st i = u32_MAX" "dq_pending (job_dispatcher st i) = []"
    and "dstep L (job_dispatcher st i) (Take None) d1"
    and "st1 = set_dispatcher i d1 st" "rv_job rv = i"
    and "dstep L (job_dispatcher (reserved_drop rv st1) i) (Frame b) d2" "dq_pending d2 = []"
  shows "chosen n st = None \<and> chosen n st1 = Some i \<and>
    chosen n (set_dispatcher i d2 (reserved_drop rv st1)) = None"
proof -
  let ?d = "job_dispatcher st i"
  have "dq_in_flight ?d = u32_MAX"
    using assms(4) by (simp add: in_flight_def job_in_flight_def job_dispatcher_def)
  then have d1: "dq_in_flight d1 = 0" "length (dq_pending d1) = 1"
    using assms(5,6) by (auto simp: handle_outbound_def insert_pending_def elim!: dstepE)
  then obtain x where x: "dq_pending d1 = [x]" by (auto simp: length_Suc_conv)
  have "job_dispatcher st1 i = d1"
    using assms(3) by (simp add: assms(7) job_dispatcher_def set_dispatcher_def Let_def)
  then have "job_dispatcher (reserved_drop rv st1) i = d1\<lparr>dq_in_flight := 0\<rparr>"
    using assms(3,7,8) drop_dispatcher [of i st1 rv] by simp
  with assms(9,10) x have "dq_in_flight d2 = u32_MAX"
    using frame_clears_one [of "d1\<lparr>dq_in_flight := 0\<rparr>" x 0 L b d2] by simp
  then have "in_flight (set_dispatcher i d2 (reserved_drop rv st1)) i = u32_MAX"
    using assms(3) by (subst set_dispatcher_load) (simp_all add: assms(7))
  then have "chosen n (set_dispatcher i d2 (reserved_drop rv st1)) = None"
    using assms(1,2) by (intro chosen_single(2)) (simp_all add: assms(7))
  moreover have "chosen n st1 = Some i"
    using assms(1-3) d1(1) by (intro chosen_single) (simp_all add: assms(7))
  ultimately show ?thesis using chosen_single(2) [OF assms(1,2,4)] by simp
qed

section \<open>Concrete instances\<close>

definition sent_ping :: outbound where
  "sent_ping = \<lparr>ob_id = ''p'', ob_bytes = [], ob_reply = 0, ob_kind = request_kind (Ping ''p'')\<rparr>"

definition queued :: dispatcher where
  "queued = spawn\<lparr>dq_queue := [sent_ping], dq_requests := [Ping ''p''], dq_in_flight := u32_MAX\<rparr>"

definition written :: dispatcher where
  "written = handle_outbound [] None sent_ping (queued\<lparr>dq_queue := []\<rparr>)"

definition answered :: dispatcher where
  "answered = handle_frame rejecter (dq_pending written) ''p'' (written\<lparr>dq_in_flight := 0\<rparr>)"

definition held_job :: "unit pool_state" where
  "held_job = one_job\<lparr>ps_jobs := [sample_session\<lparr>ss_world := (queued, ())\<rparr>]\<rparr>"

definition handle :: reserved where
  "handle = \<lparr>rv_job = 0, rv_rollback_on_drop = True, rv_tx = NotStarted\<rparr>"

lemma concrete_steps:
  "dstep L queued (Take None) written"
  "dstep rejecter (written\<lparr>dq_in_flight := 0\<rparr>) (Frame ''p'') answered"
  "dq_pending answered = []"
  by (auto simp: queued_def written_def answered_def spawn_def handle_outbound_def
      insert_pending_def handle_frame_def rejecter_def refusal_decodes refusal_def answer_def
      deliver_def sent_ping_def intro!: dstep.Take dstep.Frame)

lemma sentinel_wraps_witness:
  "chosen 1 held_job = None \<and> chosen 1 (set_dispatcher 0 written held_job) = Some 0"
proof -
  have st: "ps_weaks held_job = [0]" "strong_count held_job 0 = 1" "0 < length (ps_jobs held_job)"
    "job_dispatcher held_job 0 = queued" "in_flight held_job 0 = u32_MAX"
    by (simp_all add: held_job_def one_job_def strong_count_def job_dispatcher_def in_flight_def
        job_in_flight_def queued_def)
  have "job_dispatcher (set_dispatcher 0 written held_job) 0 = written"
    using st(3) by (simp add: job_dispatcher_def set_dispatcher_def Let_def)
  then have "job_dispatcher (reserved_drop handle (set_dispatcher 0 written held_job)) 0 =
      written\<lparr>dq_in_flight := 0\<rparr>"
    using st(3) drop_dispatcher [of 0 "set_dispatcher 0 written held_job" handle]
    by (simp add: handle_def)
  then show ?thesis
    using sentinel_wraps [of held_job 0 rejecter written "set_dispatcher 0 written held_job" handle
        "''p''" answered 1] st concrete_steps
    by (simp add: handle_def queued_def spawn_def)
qed

definition fresh_job :: "(dispatcher \<times> unit) job" where
  "fresh_job = \<lparr>jb_session = sample_session, jb_version = ''1'', jb_initial_job = ''J''\<rparr>"

lemma acquired_is_exclusive_witness:
  "fst (acquire (documented_get (exchange rejecter quiet) (Inr fresh_job) (Offers [])) sample_pool
     \<lparr>ps_jobs = [], ps_strong = [], ps_weaks = []\<rparr>) =
     Inr \<lparr>rv_job = 0, rv_rollback_on_drop = False, rv_tx = NotStarted\<rparr> \<and>
   chosen 1 (snd (acquire (documented_get (exchange rejecter quiet) (Inr fresh_job) (Offers [])) sample_pool
     \<lparr>ps_jobs = [], ps_strong = [], ps_weaks = []\<rparr>)) \<noteq> Some 0"
proof -
  let ?st = "\<lparr>ps_jobs = [], ps_strong = [], ps_weaks = []\<rparr> :: unit pool_state"
  let ?st1 = "store_in_flight u32_MAX 0
    \<lparr>ps_jobs = [sample_session], ps_strong = [1], ps_weaks = [0]\<rparr>"
  have acq: "acquire (documented_get (exchange rejecter quiet) (Inr fresh_job) (Offers [])) sample_pool ?st =
      (Inr \<lparr>rv_job = 0, rv_rollback_on_drop = False, rv_tx = NotStarted\<rparr>, ?st1)"
    by (simp add: acquire_def get_or_timeout_def manager_create_def track_def reserved_new_def
        fresh_job_def)
  from acquired_is_exclusive [OF acq, where n = 1 and ?st2.0 = ?st1] acq show ?thesis by simp
qed

lemma rollback_exactly_when_open_witness:
  "ss_spawned (held (handle\<lparr>rv_tx := Started\<rparr>, reserved_drop (handle\<lparr>rv_tx := Started\<rparr>) one_job)) =
     [Sql (peek_id sample_session) ''ROLLBACK'' None None None]"
  using rollback_exactly_when_open [of "exchange rejecter quiet" "[]" "handle\<lparr>rv_tx := Started\<rparr>"
      one_job "[]" "handle\<lparr>rv_tx := Started\<rparr>" one_job]
  by (simp add: handle_def one_job_def held_def succeeded_def sample_session_def)

end
