(* ===== verification/Executor.thy ===== *)
theory Executor
  imports Reserved
begin

text \<open>
  The trait \<open>Executor\<close> (\<^verbatim>\<open>src/src/executor.rs\<close>) and its three implementations. The locale states what
  generic callers of the trait take for granted: the plain methods are the ones with options,
  at their defaults. Jobs, pools and the inherent methods of a reserved handle satisfy it; the
  trait's implementation for a reserved handle does not, its plain methods go to the job
  directly and the handle does not see them.
\<close>

section \<open>Implementations\<close>

definition ex_job_execute :: "'w sender \<Rightarrow> string \<Rightarrow> ('w, rows) op" where
  "ex_job_execute send sql = job_execute send sql"

definition ex_job_execute_with :: "'w sender \<Rightarrow> string \<Rightarrow> value list \<Rightarrow> ('w, rows) op" where
  "ex_job_execute_with send sql params = job_execute_with send sql params"

definition ex_job_execute_opts :: "'w sender \<Rightarrow> string \<Rightarrow> execute_options \<Rightarrow> ('w, rows) op" where
  "ex_job_execute_opts send sql opts = job_execute_opts send sql opts"

definition ex_job_execute_with_opts ::
  "'w sender \<Rightarrow> string \<Rightarrow> value list \<Rightarrow> execute_options \<Rightarrow> ('w, rows) op" where
  "ex_job_execute_with_opts send sql params opts = job_execute_with_opts send sql params opts"

text \<open>A call of a pool, as an operation on the pool's state.\<close>

type_synonym 'd pool_op = "'d pool_state \<Rightarrow> (error + rows) \<times> 'd pool_state"

definition ex_pool_execute :: "'d surroundings \<Rightarrow> pool \<Rightarrow> string \<Rightarrow> 'd pool_op" where
  "ex_pool_execute E p sql = pool_execute E p sql"

definition ex_pool_execute_with :: "'d surroundings \<Rightarrow> pool \<Rightarrow> string \<Rightarrow> value list \<Rightarrow> 'd pool_op" where
  "ex_pool_execute_with E p sql params = pool_execute_with E p sql params"

definition ex_pool_execute_opts ::
  "'d surroundings \<Rightarrow> pool \<Rightarrow> string \<Rightarrow> execute_options \<Rightarrow> 'd pool_op" where
  "ex_pool_execute_opts E p sql opts = pool_execute_opts E p sql opts"

definition ex_pool_execute_with_opts ::
  "'d surroundings \<Rightarrow> pool \<Rightarrow> string \<Rightarrow> value list \<Rightarrow> execute_options \<Rightarrow> 'd pool_op" where
  "ex_pool_execute_with_opts E p sql params opts = pool_execute_with_opts E p sql params opts"

definition ex_reserved_execute :: "(dispatcher \<times> 'd) sender \<Rightarrow> string \<Rightarrow> ('d, rows) reserved_op" where
  "ex_reserved_execute send sql = untracked (job_execute send sql)"

definition ex_reserved_execute_with ::
  "(dispatcher \<times> 'd) sender \<Rightarrow> string \<Rightarrow> value list \<Rightarrow> ('d, rows) reserved_op" where
  "ex_reserved_execute_with send sql params = untracked (job_execute_with send sql params)"

definition ex_reserved_execute_opts ::
  "(dispatcher \<times> 'd) sender \<Rightarrow> string \<Rightarrow> execute_options \<Rightarrow> ('d, rows) reserved_op" where
  "ex_reserved_execute_opts = reserved_execute_opts"

definition ex_reserved_execute_with_opts ::
  "(dispatcher \<times> 'd) sender \<Rightarrow> string \<Rightarrow> value list \<Rightarrow> execute_options \<Rightarrow> ('d, rows) reserved_op"
  where
  "ex_reserved_execute_with_opts = reserved_execute_with_opts"

section \<open>Callers\<close>

text \<open>A generic caller: statements one after the other, keeping every answer.\<close>

fun run_script :: "(string \<Rightarrow> 'h \<Rightarrow> 'r \<times> 'h) \<Rightarrow> string list \<Rightarrow> 'h \<Rightarrow> 'r list \<times> 'h" where
  "run_script exec [] h = ([], h)"
| "run_script exec (sql # sqls) h =
     (let (r, h1) = exec sql h; (rs, h2) = run_script exec sqls h1 in (r # rs, h2))"

locale executor =
  fixes execute :: "string \<Rightarrow> 'h \<Rightarrow> (error + rows) \<times> 'h"
    and execute_with :: "string \<Rightarrow> value list \<Rightarrow> 'h \<Rightarrow> (error + rows) \<times> 'h"
    and execute_opts :: "string \<Rightarrow> execute_options \<Rightarrow> 'h \<Rightarrow> (error + rows) \<times> 'h"
    and execute_with_opts :: "string \<Rightarrow> value list \<Rightarrow> execute_options \<Rightarrow> 'h \<Rightarrow> (error + rows) \<times> 'h"
  assumes execute_default: "execute sql = execute_opts sql default_options"
    and execute_with_default: "execute_with sql ps = execute_with_opts sql ps default_options"
begin

lemma script_default: "run_script execute sqls = run_script (\<lambda>sql. execute_opts sql default_options) sqls"
  by (rule ext, rule arg_cong [where f = "\<lambda>e. run_script e sqls h" for h]) (simp add: fun_eq_iff execute_default)

end

interpretation job: executor "ex_job_execute send" "ex_job_execute_with send"
    "ex_job_execute_opts send" "ex_job_execute_with_opts send" for send
  by unfold_locales (simp_all add: ex_job_execute_def ex_job_execute_with_def
      ex_job_execute_opts_def ex_job_execute_with_opts_def job_execute_def job_execute_with_def job_execute_opts_def
      job_execute_with_opts_def)

interpretation pool: executor "ex_pool_execute E p" "ex_pool_execute_with E p"
    "ex_pool_execute_opts E p" "ex_pool_execute_with_opts E p" for E p
  by unfold_locales (simp_all add: ex_pool_execute_def ex_pool_execute_with_def
      ex_pool_execute_opts_def ex_pool_execute_with_opts_def pool_execute_def pool_execute_with_def pool_execute_opts_def
      pool_execute_with_opts_def)

interpretation reserved: executor "reserved_execute send" "reserved_execute_with send"
    "reserved_execute_opts send" "reserved_execute_with_opts send" for send
  by unfold_locales (simp_all add: reserved_execute_def reserved_execute_with_def
      reserved_execute_opts_def reserved_execute_with_opts_def job_execute_def
      job_execute_with_def job_execute_opts_def job_execute_with_opts_def)

lemmas scripts_default = job.script_default pool.script_default reserved.script_default

section \<open>The trait on a reserved handle\<close>

lemma tracked_untracked:
  "fst (tracked m sql h) = fst (untracked m h)"
  "snd (snd (tracked m sql h)) = snd (snd (untracked m h))"
  "rv_job (fst (snd (tracked m sql h))) = rv_job (fst h)"
  "fst (snd (untracked m h)) = fst h"
  by (auto simp: tracked_def untracked_eq split: sum.split)

lemma untracked_other:
  "rv_job rv = rv_job rv' \<Longrightarrow> fst (untracked m (rv, st)) = fst (untracked m (rv', st))"
  "rv_job rv = rv_job rv' \<Longrightarrow> snd (snd (untracked m (rv, st))) = snd (snd (untracked m (rv', st)))"
  by (simp_all add: untracked_eq)

lemma scripts_agree:
  assumes "rv_job rv = rv_job rv'"
  shows "fst (run_script (ex_reserved_execute send) sqls (rv, st)) =
      fst (run_script (reserved_execute send) sqls (rv', st)) \<and>
    snd (snd (run_script (ex_reserved_execute send) sqls (rv, st))) =
      snd (snd (run_script (reserved_execute send) sqls (rv', st))) \<and>
    fst (snd (run_script (ex_reserved_execute send) sqls (rv, st))) = rv"
  using assms
proof (induction sqls arbitrary: rv' st)
  case (Cons sql sqls)
  obtain r st1 where one: "untracked (job_execute send sql) (rv, st) = (r, rv, st1)"
    by (metis fst_conv prod.collapse tracked_untracked(4))
  then have ex: "ex_reserved_execute send sql (rv, st) = (r, rv, st1)"
    by (simp add: ex_reserved_execute_def)
  obtain q rv1 st2 where two: "reserved_execute send sql (rv', st) = (q, rv1, st2)"
    by (metis prod.collapse)
  have same: "q = r" "st2 = st1" "rv_job rv = rv_job rv1"
    using two tracked_untracked(1-3) [of "job_execute send sql" sql "(rv', st)"] Cons.prems
      untracked_other [OF Cons.prems, of "job_execute send sql" st] one
    by (simp_all add: reserved_execute_def)
  show ?case
    using Cons.IH [OF same(3), of st1] same(1,2)
    by (simp add: ex two case_prod_beta)
qed simp

text \<open>
  C31. The trait on a reserved handle. Whatever statements a generic caller runs through the
  trait's \<open>execute\<close>, the answers and the connection are those of the handle's own method, but the
  handle is left as it was: dropped afterwards it behaves as if nothing had been executed, so a
  \<open>BEGIN\<close> run this way is not rolled back. Through the handle's own \<open>execute\<close>, and through the
  trait's \<open>execute_opts\<close>, a successful \<open>BEGIN\<close> is tracked.
\<close>

theorem trait_execute_untracked:
  "fst (run_script (ex_reserved_execute send) sqls (rv, st)) =
     fst (run_script (reserved_execute send) sqls (rv, st)) \<and>
   snd (snd (run_script (ex_reserved_execute send) sqls (rv, st))) =
     snd (snd (run_script (reserved_execute send) sqls (rv, st))) \<and>
   reserved_drop (fst (snd (run_script (ex_reserved_execute send) sqls (rv, st)))) = reserved_drop rv \<and>
   rv_tx (fst (snd (reserved_begin send (rv, st)))) =
     (case fst (reserved_begin send (rv, st)) of Inr x \<Rightarrow> Started | Inl e \<Rightarrow> rv_tx rv) \<and>
   ex_reserved_execute_opts send ''BEGIN'' default_options = reserved_begin send"
  using scripts_agree [of rv rv send sqls st]
  by (auto simp: reserved_begin_def tracked_def untracked_eq ex_reserved_execute_opts_def
      reserved.execute_default reserved_execute_opts_def split: sum.split)

end
