(* ===== verification/Call_Board.thy ===== *)
theory Call_Board
  imports Session
begin

text \<open>
  What a connection promises its callers, without queue, table, counter or frames: a board of
  the calls made so far, each with its outcome or none yet, and whether the connection is up. A
  call is entered, one call gets its outcome, or the connection goes down and every open call
  fails at once.

  The dispatcher of theory Dispatcher refines the board: the abstraction function reads the
  outcome of each slot, and every step of the task is a step of the board that the event allows.
\<close>

section \<open>The board\<close>

type_synonym entry = "request \<times> reply option"

record board =
  bd_calls :: "entry list"
  bd_up :: bool

datatype board_event = Call request | Resolve slot reply | Silent | Shutdown

definition board_start :: board where
  "board_start = \<lparr>bd_calls = [], bd_up = True\<rparr>"

text \<open>
  An outcome a call may get: an answer with the id of its request, rewritten by the rule for its
  kind alone, or an error of the transport or the protocol.
\<close>

definition admissible :: "request \<Rightarrow> reply \<Rightarrow> bool" where
  "admissible r x =
     (case x of
        Inl e \<Rightarrow> wire_error e
      | Inr q \<Rightarrow> \<exists>p. response_id p = request_id r \<and> q = remap_response (request_kind r) p)"

definition failed_or_kept :: "entry \<Rightarrow> entry \<Rightarrow> bool" where
  "failed_or_kept c c' =
     (fst c' = fst c \<and>
      (case snd c of
         Some x \<Rightarrow> snd c' = Some x
       | None \<Rightarrow> \<exists>e. wire_error e \<and> snd c' = Some (Inl e)))"

inductive board_step :: "board \<Rightarrow> board_event \<Rightarrow> board \<Rightarrow> bool" where
  Call: "bd_up b \<Longrightarrow> board_step b (Call r) (b\<lparr>bd_calls := bd_calls b @ [(r, None)]\<rparr>)"
| Resolve: "bd_up b \<Longrightarrow> s < length (bd_calls b) \<Longrightarrow> bd_calls b ! s = (r, None) \<Longrightarrow>
     admissible r x \<Longrightarrow>
     board_step b (Resolve s x) (b\<lparr>bd_calls := (bd_calls b)[s := (r, Some x)]\<rparr>)"
| Silent: "bd_up b \<Longrightarrow> board_step b Silent b"
| Shutdown: "bd_up b \<Longrightarrow> list_all2 failed_or_kept (bd_calls b) cs \<Longrightarrow>
     board_step b Shutdown \<lparr>bd_calls = cs, bd_up = False\<rparr>"

inductive board_runs :: "board \<Rightarrow> board_event list \<Rightarrow> board \<Rightarrow> bool" where
  Nil: "board_runs b [] b"
| Snoc: "board_runs b as b' \<Longrightarrow> board_step b' a b'' \<Longrightarrow> board_runs b (as @ [a]) b''"

inductive_cases board_stepE: "board_step b a b'"

subsection \<open>What the board alone guarantees\<close>

definition outcome :: "board \<Rightarrow> slot \<Rightarrow> reply option" where
  "outcome b s = (if s < length (bd_calls b) then snd (bd_calls b ! s) else None)"

lemma board_step_final:
  "board_step b a b' \<Longrightarrow> outcome b s = Some x \<Longrightarrow> outcome b' s = Some x"
proof (induction rule: board_step.induct)
  case (Shutdown b cs)
  then have "s < length (bd_calls b)" "length cs = length (bd_calls b)"
    by (auto simp: outcome_def list_all2_lengthD split: if_splits)
  moreover have "failed_or_kept (bd_calls b ! s) (cs ! s)"
    using Shutdown.hyps(2) calculation(1) by (rule list_all2_nthD)
  ultimately show ?case using Shutdown.prems by (simp add: outcome_def failed_or_kept_def)
qed (auto simp: outcome_def nth_append nth_list_update split: if_splits)

definition board_ok :: "board \<Rightarrow> bool" where
  "board_ok b =
     ((\<not> bd_up b \<longrightarrow> (\<forall>(r, x) \<in> set (bd_calls b). x \<noteq> None)) \<and>
      (\<forall>(r, x) \<in> set (bd_calls b). case x of None \<Rightarrow> True | Some y \<Rightarrow> admissible r y))"

lemma board_ok_entry:
  "board_ok b \<Longrightarrow> c \<in> set (bd_calls b) \<Longrightarrow> snd c = Some y \<Longrightarrow> admissible (fst c) y"
  by (cases c) (auto simp: board_ok_def)

lemma admissible_error [simp]: "admissible r (Inl e) = wire_error e"
  by (simp add: admissible_def)

lemma board_step_ok: "board_step b a b' \<Longrightarrow> board_ok b \<Longrightarrow> board_ok b'"
proof (induction rule: board_step.induct)
  case (Resolve b s r x)
  then have "\<And>c. c \<in> set ((bd_calls b)[s := (r, Some x)]) \<Longrightarrow> c = (r, Some x) \<or> c \<in> set (bd_calls b)"
    using set_update_subset_insert [of "bd_calls b" s] by blast
  with Resolve show ?case by (fastforce simp: board_ok_def)
next
  case (Shutdown b cs)
  have "snd c \<noteq> None \<and> admissible (fst c) (the (snd c))" if "c \<in> set cs" for c
  proof -
    from Shutdown.hyps(2) that obtain c0 where "c0 \<in> set (bd_calls b)" "failed_or_kept c0 c"
      by (metis in_set_conv_nth list_all2_conv_all_nth)
    then show ?thesis
      using board_ok_entry [OF Shutdown.prems, of c0]
      by (auto simp: failed_or_kept_def split: option.splits)
  qed
  then show ?case by (fastforce simp: board_ok_def split: option.split)
qed (auto simp: board_ok_def)

lemma board_runs_ok: "board_runs b as b' \<Longrightarrow> board_ok b \<Longrightarrow> board_ok b'"
  by (induction rule: board_runs.induct) (simp_all add: board_step_ok)

lemma board_start_ok: "board_ok board_start"
  by (simp add: board_ok_def board_start_def)

section \<open>The dispatcher refines the board\<close>

definition board_of :: "dispatcher \<Rightarrow> board" where
  "board_of d =
     \<lparr>bd_calls = map (\<lambda>s. (dq_requests d ! s, received s d)) [0..<length (dq_requests d)],
      bd_up = dq_running d\<rparr>"

text \<open>The steps of the board an event of the task may stand for.\<close>

fun mediates :: "foreign \<Rightarrow> event \<Rightarrow> board_event \<Rightarrow> bool" where
  "mediates L (Submit r) a = (a = Call r)"
| "mediates L (Take None) a =
     (a = Silent \<or> (\<exists>s. a = Resolve s (Inl (Transport Closed))))"
| "mediates L (Frame b) a =
     (case fo_from_slice L b of
        Inl e \<Rightarrow> a = Shutdown
      | Inr v \<Rightarrow> a = Silent \<or>
          (\<exists>s k. a = Resolve s
             (case decode_value v of
                Inr q \<Rightarrow> Inr (remap_response k q)
              | Inl e \<Rightarrow> Inl (Protocol (protocol_decode_error L e)))))"
| "mediates L e a = (a = Shutdown)"

lemma board_of_simps [simp]:
  "length (bd_calls (board_of d)) = length (dq_requests d)"
  "bd_up (board_of d) = dq_running d"
  "s < length (dq_requests d) \<Longrightarrow> bd_calls (board_of d) ! s = (dq_requests d ! s, received s d)"
  by (simp_all add: board_of_def)

lemma board_of_spawn: "board_of spawn = board_start"
  by (simp add: board_of_def spawn_def board_start_def)

lemma board_eqI:
  assumes "bd_up b = dq_running d" "length (bd_calls b) = length (dq_requests d)"
    and "\<And>s. s < length (dq_requests d) \<Longrightarrow> bd_calls b ! s = (dq_requests d ! s, received s d)"
  shows "board_of d = b"
proof -
  have "bd_calls (board_of d) = bd_calls b"
    using assms(2,3) by (intro nth_equalityI) simp_all
  with assms(1) show ?thesis by (intro board.equality) (simp_all add: board_of_def)
qed

subsection \<open>Outcomes are kept\<close>

lemma received_kept:
  assumes "dinv L d'" "dq_delivered d' = dq_delivered d @ xs"
    and "set (dq_unsent d) \<subseteq> set (dq_unsent d')" "set (dq_lost d) \<subseteq> set (dq_lost d')"
    and "received s d = Some x"
  shows "received s d' = Some x"
proof (cases "map_of (dq_delivered d) s")
  case (Some y)
  then show ?thesis using assms(2,5) by (simp add: received_def map_add_def map_of_append)
next
  case None
  with assms(3-5) have s: "s \<in> set (dq_unsent d') \<or> s \<in> set (dq_lost d')"
    and x: "x = Inl (error_from_transport Closed)"
    by (auto simp: received_def split: if_splits)
  from s have "map_of (dq_delivered d') s = None"
    using slots_distinct [OF assms(1)] by (auto simp: map_of_eq_None_iff)
  with s x show ?thesis by (simp add: received_def)
qed

lemma dstep_logs:
  "dstep L d e d' \<Longrightarrow> (\<exists>xs. dq_delivered d' = dq_delivered d @ xs) \<and>
     set (dq_unsent d) \<subseteq> set (dq_unsent d') \<and> set (dq_lost d) \<subseteq> set (dq_lost d')"
proof (induction rule: dstep.induct)
  case (Take d ob obs entries d' failed)
  then show ?case
    by (cases failed) (auto simp: handle_outbound_def insert_pending_def handler_eqs)
next
  case (Frame d entries d' bytes)
  then show ?case
    by (auto simp: handle_frame_def answer_def handler_eqs split: sum.splits option.splits)
qed (auto simp: handle_read_error_def handle_end_def handler_eqs elim: submit_Enqueued)

lemma dstep_received:
  "dstep L d e d' \<Longrightarrow> dinv L d' \<Longrightarrow> received s d = Some x \<Longrightarrow> received s d' = Some x"
  using dstep_logs received_kept by blast

lemma dstep_was_running: "dstep L d e d' \<Longrightarrow> dq_running d"
  by (induction rule: dstep.induct) (auto elim: submit_Enqueued)

subsection \<open>Simulation\<close>

lemma simulate_submit:
  assumes "submit L r d = (Enqueued s, d')" "dinv L d'"
  shows "board_step (board_of d) (Call r) (board_of d')"
proof -
  from assms(1) have "\<exists>ob. dq_running d \<and> s = length (dq_requests d) \<and> ob_reply ob = s \<and>
      d' = d\<lparr>dq_queue := dq_queue d @ [ob], dq_requests := dq_requests d @ [r]\<rparr>"
    by (rule submit_Enqueued) (rule exI, intro conjI, assumption+, simp_all)
  then obtain ob where run: "dq_running d" and s: "s = length (dq_requests d)"
    and ob: "ob_reply ob = s"
    and d': "d' = d\<lparr>dq_queue := dq_queue d @ [ob], dq_requests := dq_requests d @ [r]\<rparr>"
    by blast
  have "received s d' = None"
    using slots_distinct [OF assms(2)] ob by (auto simp: received_None_iff d')
  moreover have "received t d' = received t d" for t
    by (simp add: received_def d')
  ultimately have "board_of d' = (board_of d)\<lparr>bd_calls := bd_calls (board_of d) @ [(r, None)]\<rparr>"
    by (intro board_eqI) (auto simp: d' s nth_append less_Suc_eq)
  with run show ?thesis by (simp add: board_step.Call)
qed

lemma simulate_silent:
  "dq_running d \<Longrightarrow> dq_running d' \<Longrightarrow> dq_requests d' = dq_requests d \<Longrightarrow>
   (\<And>s. received s d' = received s d) \<Longrightarrow> board_step (board_of d) Silent (board_of d')"
  using board_step.Silent [of "board_of d"] board_eqI [of "board_of d" d'] by simp

lemma simulate_resolve:
  assumes "dq_running d" "dq_running d'" "dq_requests d' = dq_requests d"
    and "s < length (dq_requests d)" "received s d = None" "received s d' = Some x"
    and "\<And>t. t \<noteq> s \<Longrightarrow> received t d' = received t d" "admissible (dq_requests d ! s) x"
  shows "board_step (board_of d) (Resolve s x) (board_of d')"
proof -
  have "board_of d' = (board_of d)\<lparr>bd_calls := (bd_calls (board_of d))[s := (dq_requests d ! s, Some x)]\<rparr>"
    using assms by (intro board_eqI) (auto simp: nth_list_update)
  with assms show ?thesis by (simp add: board_step.Resolve)
qed

text \<open>A step after which the task no longer runs fails every open call.\<close>

lemma simulate_shutdown:
  assumes "druns L spawn es d" "dstep L d e d'" "\<not> dq_running d'" "dq_requests d' = dq_requests d"
    and no_answer: "\<And>s r. (s, Inr r) \<in> set (dq_delivered d') \<Longrightarrow> (s, Inr r) \<in> set (dq_delivered d)"
  shows "board_step (board_of d) Shutdown (board_of d')"
proof -
  have run': "druns L spawn (es @ [e]) d'" using assms(1,2) by (rule druns.Snoc)
  note inv' = reachable_dinv [OF run']
  have "failed_or_kept (dq_requests d ! s, received s d) (dq_requests d ! s, received s d')"
    if s: "s < length (dq_requests d)" for s
  proof (cases "received s d")
    case None
    obtain x where x: "received s d' = Some x"
      using ended_received [OF inv' assms(3)] s assms(4) by fastforce
    have "x \<noteq> Inr q" for q
      using None x no_answer by (force simp: received_None_iff dest: received_Inr)
    with x obtain err where "x = Inl err" by (cases x) auto
    with None x received_errors [OF run'] show ?thesis by (auto simp: failed_or_kept_def)
  qed (simp add: failed_or_kept_def dstep_received [OF assms(2) inv'])
  then have "list_all2 failed_or_kept (bd_calls (board_of d)) (bd_calls (board_of d'))"
    using assms(4) by (simp add: list_all2_conv_all_nth)
  moreover have "board_of d' = \<lparr>bd_calls = bd_calls (board_of d'), bd_up = False\<rparr>"
    using assms(3) by (simp add: board_of_def)
  ultimately show ?thesis
    using board_step.Shutdown dstep_was_running [OF assms(2)] by (metis board_of_simps(2))
qed

lemma table_slot:
  assumes "dinv L d" "map_of (dq_pending d) i = Some p"
  shows "received (pn_reply p) d = None" "pn_reply p < length (dq_requests d)"
    and "request_id (dq_requests d ! pn_reply p) = i"
    and "request_kind (dq_requests d ! pn_reply p) = pn_kind p"
proof -
  have mem: "pn_reply p \<in> set (table_slots d)"
    using map_of_SomeD [OF assms(2)] by (force simp: table_slots_def)
  then show "received (pn_reply p) d = None"
    using slots_distinct [OF assms(1)] by (auto simp: received_None_iff)
  have "slot_for d (pn_reply p) i (pn_kind p)"
    using assms(1) map_of_SomeD [OF assms(2)] by (auto simp: dinv_def inv_table_def)
  then show "pn_reply p < length (dq_requests d)" "request_id (dq_requests d ! pn_reply p) = i"
    "request_kind (dq_requests d ! pn_reply p) = pn_kind p"
    by (simp_all add: slot_for_def)
qed

lemma simulate_take:
  assumes "dinv L d" "dq_running d" "dq_queue d = ob # obs"
    and d'_eq: "d' = handle_outbound entries None ob (d\<lparr>dq_queue := obs\<rparr>)"
  shows "\<exists>a. mediates L (Take None) a \<and> board_step (board_of d) a (board_of d')"
proof -
  have d': "dq_running d'" "dq_requests d' = dq_requests d" "dq_delivered d' = dq_delivered d"
    "dq_unsent d' = dq_unsent d" "dq_lost d' = dq_lost d @
       (case map_of (dq_pending d) (ob_id ob) of None \<Rightarrow> [] | Some q \<Rightarrow> [pn_reply q])"
    using assms(2) by (simp_all add: d'_eq handle_outbound_def insert_pending_def)
  show ?thesis
  proof (cases "map_of (dq_pending d) (ob_id ob)")
    case None
    then have "received s d' = received s d" for s by (simp add: received_def d')
    then show ?thesis using simulate_silent assms(2) d'(1,2) by auto
  next
    case (Some p)
    note slot = table_slot [OF assms(1) Some]
    let ?x = "Inl (Transport Closed) :: reply"
    have "map_of (dq_delivered d) (pn_reply p) = None"
      using slot(1) by (auto simp: received_def split: option.splits)
    then have "received (pn_reply p) d' = Some ?x"
      by (simp add: received_def d' Some error_from_defs)
    moreover have "received t d' = received t d" if "t \<noteq> pn_reply p" for t
      using that by (simp add: received_def d' Some)
    moreover have "admissible (dq_requests d ! pn_reply p) ?x" by (simp add: wire_error_def)
    ultimately have "board_step (board_of d) (Resolve (pn_reply p) ?x) (board_of d')"
      using slot assms(2) d'(1,2) by (intro simulate_resolve) simp_all
    then show ?thesis by auto
  qed
qed

lemma answer_requests [simp]: "dq_requests (answer i f d) = dq_requests d"
  by (simp add: answer_def deliver_def split: option.split)

lemma simulate_answer:
  assumes "dinv L d" "dq_running d"
    and "\<And>p. map_of (dq_pending d) i = Some p \<Longrightarrow> admissible (dq_requests d ! pn_reply p) (f (pn_kind p))"
  shows "\<exists>a. (a = Silent \<or> (\<exists>s k. a = Resolve s (f k))) \<and> board_step (board_of d) a (board_of (answer i f d))"
proof (cases "map_of (dq_pending d) i")
  case None
  then show ?thesis using assms(2) board_step.Silent [of "board_of d"] by (auto simp: answer_None)
next
  case (Some p)
  note slot = table_slot [OF assms(1) Some] and rec = received_answer [OF assms(1) Some, where f = f]
  have "board_step (board_of d) (Resolve (pn_reply p) (f (pn_kind p))) (board_of (answer i f d))"
    using slot rec assms(2) assms(3) [OF Some] by (intro simulate_resolve) simp_all
  then show ?thesis by blast
qed

lemma simulate_frame:
  assumes "druns L spawn es d" "dstep L d (Frame b) d'"
  shows "\<exists>a. mediates L (Frame b) a \<and> board_step (board_of d) a (board_of d')"
proof -
  have inv: "dinv L d" by (rule reachable_dinv [OF assms(1)])
  from assms(2) obtain entries where run: "dq_running d" and d': "d' = handle_frame L entries b d"
    by (auto simp: dstep_Frame)
  show ?thesis
  proof (cases "fo_from_slice L b")
    case (Inl e)
    have "board_step (board_of d) Shutdown (board_of d')"
      using assms by (rule simulate_shutdown)
        (auto simp: d' handle_frame_def Inl handler_eqs drain_replies_Inl)
    with Inl show ?thesis by auto
  next
    case v: (Inr v)
    show ?thesis
    proof (cases "decode_value v")
      case (Inr q)
      have "admissible (dq_requests d ! pn_reply p) (Inr (remap_response (pn_kind p) q))"
        if "map_of (dq_pending d) (response_id q) = Some p" for p
        using table_slot(3,4) [OF inv that] by (auto simp: admissible_def)
      from simulate_answer [OF inv run, of "response_id q" "\<lambda>k. Inr (remap_response k q)", OF this] show ?thesis
        by (auto simp: d' handle_frame_def v Inr)
    next
      case (Inl e)
      show ?thesis
      proof (cases "frame_id v")
        case None
        then show ?thesis
          using board_step.Silent [of "board_of d"] run by (auto simp: d' handle_frame_def v Inl)
      next
        case (Some i)
        from simulate_answer [OF inv run, of i
            "\<lambda>k. Inl (error_from_protocol (protocol_decode_error L e))"]
        show ?thesis by (auto simp: d' handle_frame_def v Inl Some error_from_defs wire_error_def)
      qed
    qed
  qed
qed

lemma simulate_fatal:
  assumes "druns L spawn es d" "dstep L d e d'" "\<not> dq_running d'"
    and "\<And>b. e \<noteq> Frame b" "\<And>r. e \<noteq> Submit r"
  shows "board_step (board_of d) Shutdown (board_of d')"
  using assms(1-3)
proof (rule simulate_shutdown)
  show "dq_requests d' = dq_requests d"
    using assms(2,5) by (cases rule: dstep.cases)
      (auto simp: handle_outbound_def insert_pending_def handle_read_error_def handle_end_def
        handler_eqs assms(4) split: option.splits)
next
  fix s r
  assume "(s, Inr r) \<in> set (dq_delivered d')"
  from dstep_delivered [OF assms(2) this] assms(4) show "(s, Inr r) \<in> set (dq_delivered d)" by blast
qed

lemma dstep_simulated:
  assumes "druns L spawn es d" "dstep L d e d'"
  shows "\<exists>a. mediates L e a \<and> board_step (board_of d) a (board_of d')"
proof -
  have inv: "dinv L d" by (rule reachable_dinv [OF assms(1)])
  have inv': "dinv L d'" using assms(2) inv by (rule dstep_dinv)
  show ?thesis
  proof (cases e)
    case (Submit r)
    with assms(2) simulate_submit [OF _ inv'] show ?thesis by (auto simp: dstep_Submit)
  next
    case (Frame b)
    with assms simulate_frame show ?thesis by simp
  next
    case (Take failed)
    show ?thesis
    proof (cases failed)
      case None
      with assms(2) Take simulate_take [OF inv] show ?thesis by (auto elim!: dstepE)
    next
      case (Some t)
      have "\<not> dq_running d'"
        using assms(2) Take Some by (auto simp: handle_outbound_def stop_def elim!: dstepE)
      with simulate_fatal [OF assms] Take Some show ?thesis by auto
    qed
  qed (use assms(2) simulate_fatal [OF assms] in
      \<open>auto simp: stop_def handle_read_error_def handle_end_def elim!: dstepE\<close>)
qed

lemma druns_simulated:
  "druns L spawn es d \<Longrightarrow>
   \<exists>as. board_runs board_start as (board_of d) \<and> list_all2 (mediates L) es as"
proof (induction "spawn" es d rule: druns.induct)
  case Nil
  show ?case by (auto simp: board_of_spawn intro: board_runs.Nil)
next
  case (Snoc es d e d')
  obtain as where "board_runs board_start as (board_of d)" "list_all2 (mediates L) es as"
    using Snoc.hyps(2) by blast
  moreover obtain a where "mediates L e a" "board_step (board_of d) a (board_of d')"
    using dstep_simulated [OF Snoc.hyps(1,3)] by blast
  ultimately show ?case
    by (intro exI [of _ "as @ [a]"]) (auto intro: board_runs.Snoc list_all2_appendI)
qed


lemma run_outcomes:
  assumes "druns L spawn es d"
  shows "list_all (\<lambda>(r, x). case x of None \<Rightarrow> dq_running d | Some y \<Rightarrow> admissible r y)
    (zip (dq_requests d) (map (\<lambda>s. received s d) [0..<length (dq_requests d)]))"
proof -
  have "board_ok (board_of d)"
    using druns_simulated [OF assms] board_runs_ok board_start_ok by blast
  then have "list_all (\<lambda>(r, x). case x of None \<Rightarrow> dq_running d | Some y \<Rightarrow> admissible r y)
      (bd_calls (board_of d))"
    by (fastforce simp: board_ok_def list_all_iff split: option.splits)
  moreover have "bd_calls (board_of d) =
      zip (dq_requests d) (map (\<lambda>s. received s d) [0..<length (dq_requests d)])"
    by (intro nth_equalityI) simp_all
  ultimately show ?thesis by simp
qed

text \<open>
  Outcomes are final, and only those the contract allows: once a caller's slot has an outcome no
  later event changes it; an outcome is an answer with the id of the request, rewritten by the rule
  for its kind, or an error of the transport or the protocol; and when the task has ended every
  call has one.
\<close>

theorem outcomes_are_final:
  assumes "druns L spawn es d" "dstep L d e d'"
  shows "(\<forall>s. case received s d of None \<Rightarrow> True | Some x \<Rightarrow> received s d' = Some x) \<and>
    list_all (\<lambda>(r, x). case x of None \<Rightarrow> dq_running d | Some y \<Rightarrow> admissible r y)
      (zip (dq_requests d) (map (\<lambda>s. received s d) [0..<length (dq_requests d)]))"
proof -
  have "dinv L d'" using assms(2) reachable_dinv [OF assms(1)] by (rule dstep_dinv)
  then have "\<forall>s. case received s d of None \<Rightarrow> True | Some x \<Rightarrow> received s d' = Some x"
    by (auto simp: dstep_received [OF assms(2)] split: option.split)
  with run_outcomes [OF assms(1)] show ?thesis by simp
qed


lemma outcomes_are_final_witness:
  "list_all (\<lambda>(r, x). case x of None \<Rightarrow> dq_running sample_pending | Some y \<Rightarrow> admissible r y)
     (zip (dq_requests sample_pending) (map (\<lambda>s. received s sample_pending) [0..<1]))"
  using outcomes_are_final [OF sample_pending_run sample_frame, of "''ok''"]
  by (simp add: sample_defs)

end
