(* ===== verification/Shared_Counter.thy ===== *)
theory Shared_Counter
  imports Reserved
begin

text \<open>
  The load counter of a pooled job has two writers: the dispatcher task counts requests up and
  down, and the pool overwrites it -- \<open>u32::MAX\<close> when the job is acquired, 0 when the handle is
  dropped (\<^verbatim>\<open>src/src/pool/reserved.rs\<close>). This theory interleaves the two.

  Handlers commute with shifting the counter, so the stores disturb nothing but the counter:
  what is proved of runs of the task alone holds for pooled jobs too. What the counter then says
  is the distance to its last store.
\<close>

section \<open>Shifting the counter\<close>

definition shift :: "u32 \<Rightarrow> dispatcher \<Rightarrow> dispatcher" where
  "shift k d = d\<lparr>dq_in_flight := dq_in_flight d + k\<rparr>"

lemma shift_simps [simp]:
  "dq_queue (shift k d) = dq_queue d" "dq_pending (shift k d) = dq_pending d"
  "dq_in_flight (shift k d) = dq_in_flight d + k" "dq_running (shift k d) = dq_running d"
  "dq_requests (shift k d) = dq_requests d" "dq_written (shift k d) = dq_written d"
  "dq_delivered (shift k d) = dq_delivered d" "dq_unsent (shift k d) = dq_unsent d"
  "dq_lost (shift k d) = dq_lost d"
  by (simp_all add: shift_def)

lemma shift_shift [simp]: "shift k (shift j d) = shift (j + k) d"
  by (simp add: shift_def ac_simps)

lemma shift_0 [simp]: "shift 0 d = d"
  by (simp add: shift_def)

lemma received_shift [simp]: "received s (shift k d) = received s d"
  by (simp add: received_def)

lemma shift_set_queue: "(shift k d)\<lparr>dq_queue := q\<rparr> = shift k (d\<lparr>dq_queue := q\<rparr>)"
  by (simp add: shift_def)

lemma stop_shift: "stop (shift k d) = shift k (stop d)"
  by (simp add: stop_def shift_def)

lemma deliver_shift: "deliver s r (shift k d) = shift k (deliver s r d)"
  by (simp add: deliver_def shift_def)

lemma drain_shift:
  "drain_pending_with_error es e (shift k d) = shift k (drain_pending_with_error es e d)"
  by (simp add: drain_with_error_eq shift_def)

lemma answer_shift: "answer i f (shift k d) = shift k (answer i f d)"
  by (simp add: answer_def deliver_def shift_def split: option.split)

lemmas shift_handlers = stop_shift deliver_shift drain_shift answer_shift

lemma outbound_shift:
  "handle_outbound es failed ob (shift k d) = shift k (handle_outbound es failed ob d)"
  by (cases failed)
     (simp_all add: handle_outbound_def drain_pending_def shift_handlers,
      simp add: insert_pending_def shift_def)

lemma frame_shift: "handle_frame L es b (shift k d) = shift k (handle_frame L es b d)"
  by (simp add: handle_frame_def shift_handlers split: sum.split option.split)

lemma read_error_shift: "handle_read_error es e (shift k d) = shift k (handle_read_error es e d)"
  by (simp add: handle_read_error_def shift_handlers)

lemma end_shift: "handle_end es (shift k d) = shift k (handle_end es d)"
  by (simp add: handle_end_def drain_pending_def shift_handlers)

lemma submit_shift: "submit L r (shift k d) = map_prod id (shift k) (submit L r d)"
  by (simp add: submit_def Let_def shift_def split: sum.split)

lemma dstep_shift: "dstep L d e d' \<Longrightarrow> dstep L (shift k d) e (shift k d')"
proof (induction rule: dstep.induct)
  case (Submit r d s d')
  then show ?case by (simp add: dstep_Submit submit_shift)
next
  case (Take d ob obs entries d' failed)
  then show ?case
    by (intro dstep.Take [of _ ob obs entries]) (simp_all add: shift_set_queue outbound_shift)
next
  case (NoSenders d)
  then show ?case using dstep.NoSenders [of "shift k d"] by (simp add: stop_shift)
next
  case (Frame d entries d' bytes)
  then show ?case by (intro dstep.Frame [of _ entries]) (simp_all add: frame_shift)
next
  case (ReadError d entries d' e)
  then show ?case by (intro dstep.ReadError [of _ entries]) (simp_all add: read_error_shift)
next
  case (EndOfStream d entries d')
  then show ?case by (intro dstep.EndOfStream [of _ entries]) (simp_all add: end_shift)
next
  case (Abort d)
  then show ?case using dstep.Abort [of "shift k d"] by (simp add: stop_shift)
qed

section \<open>Two writers\<close>

datatype job_event = Task event | Store u32

text \<open>
  Requests counted and not yet answered: those in the table and those whose slot was lost. The
  state remembers the last value stored and how many requests were out then.
\<close>

definition outstanding :: "dispatcher \<Rightarrow> nat" where
  "outstanding d = length (dq_pending d) + length (dq_lost d)"

record marked =
  mk_task :: dispatcher
  mk_stored :: u32
  mk_then :: nat

definition fresh_marked :: marked where
  "fresh_marked = \<lparr>mk_task = spawn, mk_stored = 0, mk_then = 0\<rparr>"

inductive jstep :: "foreign \<Rightarrow> marked \<Rightarrow> job_event \<Rightarrow> marked \<Rightarrow> bool" for L where
  Task: "dstep L (mk_task m) e d' \<Longrightarrow> jstep L m (Task e) (m\<lparr>mk_task := d'\<rparr>)"
| Store: "jstep L m (Store n)
     \<lparr>mk_task = (mk_task m)\<lparr>dq_in_flight := n\<rparr>, mk_stored = n, mk_then = outstanding (mk_task m)\<rparr>"

inductive jruns :: "foreign \<Rightarrow> marked \<Rightarrow> job_event list \<Rightarrow> marked \<Rightarrow> bool" for L where
  Nil: "jruns L m [] m"
| Snoc: "jruns L m es m' \<Longrightarrow> jstep L m' e m'' \<Longrightarrow> jruns L m (es @ [e]) m''"

inductive_cases jstep_TaskE: "jstep L m (Task e) m'"
inductive_cases jstep_StoreE: "jstep L m (Store n) m'"

definition task_events :: "job_event list \<Rightarrow> event list" where
  "task_events es = concat (map (\<lambda>e. case e of Task x \<Rightarrow> [x] | Store n \<Rightarrow> []) es)"

lemma task_events_simps [simp]:
  "task_events [] = []" "task_events (es @ [Task e]) = task_events es @ [e]"
  "task_events (es @ [Store n]) = task_events es"
  by (simp_all add: task_events_def)

lemma store_shift: "d\<lparr>dq_in_flight := n\<rparr> = shift (n - dq_in_flight d) d"
  by (simp add: shift_def)

text \<open>The stores change the counter and nothing else.\<close>

lemma jruns_shift:
  "jruns L fresh_marked es m \<Longrightarrow> \<exists>k. druns L spawn (task_events es) (shift k (mk_task m))"
proof (induction "fresh_marked" es m rule: jruns.induct)
  case Nil
  show ?case by (rule exI [of _ 0]) (simp add: fresh_marked_def)
next
  case (Snoc es m e m')
  then obtain k where k: "druns L spawn (task_events es) (shift k (mk_task m))" by blast
  show ?case
  proof (cases e)
    case (Task x)
    with Snoc.hyps(3) have "dstep L (mk_task m) x (mk_task m')" by (auto elim: jstep_TaskE)
    from druns.Snoc [OF k dstep_shift [OF this]] Task show ?thesis by auto
  next
    case (Store n)
    with Snoc.hyps(3) have m': "mk_task m' = (mk_task m)\<lparr>dq_in_flight := n\<rparr>"
      by (auto elim: jstep_StoreE)
    then have "shift (k + dq_in_flight (mk_task m) - n) (mk_task m') = shift k (mk_task m)"
      by (simp add: shift_def)
    with k Store show ?thesis by (metis task_events_simps(3))
  qed
qed

lemma jruns_dinv: "jruns L fresh_marked es m \<Longrightarrow> \<exists>k. dinv L (shift k (mk_task m))"
  using jruns_shift reachable_dinv by blast

lemma dstep_counts:
  assumes "dstep L d e d'" "dinv L (shift k d)"
  shows "dq_in_flight d' = dq_in_flight d + of_nat (outstanding d') - of_nat (outstanding d)"
proof -
  have "dinv L (shift k d')" by (rule dstep_dinv [OF dstep_shift [OF assms(1)] assms(2)])
  with assms(2) have "of_nat (outstanding d') = dq_in_flight d' + k"
    "of_nat (outstanding d) = dq_in_flight d + k"
    by (simp_all add: dinv_def inv_count_def outstanding_def)
  then show ?thesis by simp
qed

lemma jruns_counter:
  "jruns L fresh_marked es m \<Longrightarrow>
   dq_in_flight (mk_task m) = mk_stored m + of_nat (outstanding (mk_task m)) - of_nat (mk_then m)"
proof (induction "fresh_marked" es m rule: jruns.induct)
  case Nil
  show ?case by (simp add: fresh_marked_def outstanding_def spawn_def)
next
  case (Snoc es m e m')
  obtain k where inv: "dinv L (shift k (mk_task m))" using jruns_dinv [OF Snoc.hyps(1)] by blast
  show ?case
  proof (cases e)
    case (Task x)
    with Snoc.hyps(3) obtain d' where "dstep L (mk_task m) x d'" "m' = m\<lparr>mk_task := d'\<rparr>"
      by (auto elim: jstep_TaskE)
    with dstep_counts [OF _ inv] Snoc.hyps(2) show ?thesis by simp
  next
    case (Store n)
    with Snoc.hyps(3) show ?thesis by (auto simp: outstanding_def elim: jstep_StoreE)
  qed
qed

section \<open>The pool's stores\<close>

lemma reserved_new_stores:
  "i < length (ps_jobs st) \<Longrightarrow>
   job_dispatcher (snd (reserved_new i st)) i = (job_dispatcher st i)\<lparr>dq_in_flight := u32_MAX\<rparr>"
  by (simp add: reserved_new_def store_in_flight_def job_dispatcher_def Let_def)

lemma skipped_iff: "(u32_MAX :: u32) + of_nat n = u32_MAX \<longleftrightarrow> 2 ^ 32 dvd n"
proof -
  have "(u32_MAX :: u32) + of_nat n = u32_MAX \<longleftrightarrow> (of_nat n :: u32) = 0" by simp
  also have "\<dots> \<longleftrightarrow> 2 ^ 32 dvd n" by (simp add: word_of_nat_eq_0_iff)
  finally show ?thesis .
qed

text \<open>
  What the counter of a pooled job says. Take any interleaving of the task's events with the
  pool's stores. The stores disturb nothing but the counter: but for it, the state is one the task
  reaches by its own events alone, so callers see the same. The counter itself is the last value
  stored plus the requests counted out since, minus those counted in, modulo \<open>2^32\<close>. So a
  job that was acquired with nothing outstanding shows the sentinel exactly while a multiple of
  \<open>2^32\<close> of its requests is unanswered -- in practice, none.
\<close>

theorem two_writers:
  assumes "jruns L fresh_marked es m"
  shows "(\<exists>c. druns L spawn (task_events es) ((mk_task m)\<lparr>dq_in_flight := c\<rparr>)) \<and>
    dq_in_flight (mk_task m) = mk_stored m + of_nat (outstanding (mk_task m)) - of_nat (mk_then m) \<and>
    (mk_stored m = u32_MAX \<and> mk_then m = 0 \<longrightarrow>
       dq_in_flight (mk_task m) = u32_MAX \<longleftrightarrow> 2 ^ 32 dvd outstanding (mk_task m))"
proof -
  obtain k where "druns L spawn (task_events es) (shift k (mk_task m))"
    using jruns_shift [OF assms] by blast
  then have "\<exists>c. druns L spawn (task_events es) ((mk_task m)\<lparr>dq_in_flight := c\<rparr>)"
    unfolding shift_def by blast
  then show ?thesis using jruns_counter [OF assms] skipped_iff by simp
qed

lemma two_writers_witness:
  "dq_in_flight (mk_task \<lparr>mk_task = sample_pending\<lparr>dq_in_flight := u32_MAX\<rparr>, mk_stored = u32_MAX,
     mk_then = 1\<rparr>) = u32_MAX + of_nat (outstanding (sample_pending\<lparr>dq_in_flight := u32_MAX\<rparr>)) - 1"
proof -
  have "dstep sample (mk_task fresh_marked) (Submit (Ping ''1'')) sample_queued"
    by (simp add: fresh_marked_def dstep_Submit submit_def sample_defs)
  then have queued: "jruns sample fresh_marked [Task (Submit (Ping ''1''))]
      (fresh_marked\<lparr>mk_task := sample_queued\<rparr>)"
    using jruns.Snoc [OF jruns.Nil jstep.Task] by simp
  have "dstep sample sample_queued (Take None) sample_pending"
    by (rule dstep.Take [of _ "sample_ob 0" "[]" "[]"])
       (simp_all add: handle_outbound_def insert_pending_def sample_defs)
  then have "jstep sample (fresh_marked\<lparr>mk_task := sample_queued\<rparr>) (Task (Take None))
      (fresh_marked\<lparr>mk_task := sample_pending\<rparr>)"
    using jstep.Task [of sample "fresh_marked\<lparr>mk_task := sample_queued\<rparr>"] by simp
  from jruns.Snoc [OF queued this]
  have "jruns sample fresh_marked [Task (Submit (Ping ''1'')), Task (Take None)]
      (fresh_marked\<lparr>mk_task := sample_pending\<rparr>)" by simp
  moreover have "jstep sample (fresh_marked\<lparr>mk_task := sample_pending\<rparr>) (Store u32_MAX)
      \<lparr>mk_task = sample_pending\<lparr>dq_in_flight := u32_MAX\<rparr>, mk_stored = u32_MAX, mk_then = 1\<rparr>"
    using jstep.Store [of sample "fresh_marked\<lparr>mk_task := sample_pending\<rparr>" u32_MAX]
    by (simp add: outstanding_def sample_defs)
  ultimately have "jruns sample fresh_marked
      ([Task (Submit (Ping ''1'')), Task (Take None)] @ [Store u32_MAX])
      \<lparr>mk_task = sample_pending\<lparr>dq_in_flight := u32_MAX\<rparr>, mk_stored = u32_MAX, mk_then = 1\<rparr>"
    by (rule jruns.Snoc)
  from two_writers [OF this] show ?thesis by simp
qed

end
