(* ===== verification/Resting.thy ===== *)
theory Resting
  imports Shared_Counter
begin

text \<open>
  Connections at rest, whatever the pool stored in their counters. An exchange over a connection
  whose counter was overwritten is the exchange over the untouched connection, it leaves the
  connection at rest and the counter as it found it; so the interface \<open>correlated_send\<close> holds on
  pooled jobs too (interpretation \<open>shared\<close>).
\<close>

section \<open>Exchanges with a shifted counter\<close>

lemma feed_shift: "feed L bs (shift k d) = shift k (feed L bs d)"
  by (induction bs arbitrary: d) (simp_all add: frame_shift)

lemma finish_shift: "finish s (shift k d) = shift k (finish s d)"
  by (simp add: finish_def end_shift)

definition shift_world :: "u32 \<Rightarrow> dispatcher \<times> 'd \<Rightarrow> dispatcher \<times> 'd" where
  "shift_world k w = (shift k (fst w), snd w)"

lemma shift_world_simps [simp]:
  "fst (shift_world k w) = shift k (fst w)" "snd (shift_world k w) = snd w"
  by (simp_all add: shift_world_def)

lemma exchange_shift:
  "exchange L daemon r (shift_world k w) =
     map_prod id (shift_world k) (exchange L daemon r w)"
proof (cases "submit L r (fst w)")
  case (Pair sub d1)
  show ?thesis
  proof (cases sub)
    case (Enqueued s)
    then show ?thesis
      by (cases "dq_queue d1")
         (simp_all add: exchange_def submit_shift Pair shift_world_def shift_set_queue
           outbound_shift feed_shift finish_shift Let_def split: prod.split sum.split)
  qed (simp_all add: exchange_def submit_shift Pair shift_world_def split: list.split)
qed

text \<open>
  A connection at rest: nothing queued, nothing waiting for an answer, no slot lost, and reached by
  the task from its start, whatever the counter was set to.
\<close>

definition at_rest :: "foreign \<Rightarrow> dispatcher \<times> 'd \<Rightarrow> bool" where
  "at_rest L w =
     (dq_pending (fst w) = [] \<and> dq_lost (fst w) = [] \<and> (\<exists>k. idle L (shift_world k w)))"

lemma at_rest_start: "at_rest L (spawn, x)"
proof -
  have "idle L (shift_world 0 (spawn, x))" by (simp add: shift_world_def idle_start)
  then show ?thesis unfolding at_rest_def by (auto simp: spawn_def)
qed

lemma at_rest_store:
  assumes "at_rest L w"
  shows "at_rest L ((fst w)\<lparr>dq_in_flight := n\<rparr>, snd w)"
proof -
  from assms obtain k where k: "idle L (shift_world k w)" by (auto simp: at_rest_def)
  have "shift_world (k + dq_in_flight (fst w) - n) ((fst w)\<lparr>dq_in_flight := n\<rparr>, snd w) =
      shift_world k w"
    by (simp add: shift_world_def shift_def)
  with k have "idle L (shift_world (k + dq_in_flight (fst w) - n) ((fst w)\<lparr>dq_in_flight := n\<rparr>, snd w))"
    by simp
  then have "\<exists>k. idle L (shift_world k ((fst w)\<lparr>dq_in_flight := n\<rparr>, snd w))" by (rule exI)
  with assms show ?thesis unfolding at_rest_def by simp
qed

text \<open>While one exchange is under way its own entry is all there is in the table.\<close>

definition only_slot :: "slot \<Rightarrow> dispatcher \<Rightarrow> bool" where
  "only_slot s d =
     (dq_lost d = [] \<and> (dq_pending d = [] \<or> (\<exists>x. dq_pending d = [x] \<and> pn_reply (snd x) = s)))"

lemma only_slot_frame: "only_slot s d \<Longrightarrow> only_slot s (handle_frame L (dq_pending d) b d)"
  by (auto simp: only_slot_def handle_frame_def answer_def handler_eqs
      split: sum.splits option.splits if_splits)

lemma only_slot_feed: "only_slot s d \<Longrightarrow> only_slot s (feed L bs d)"
  by (induction bs arbitrary: d) (simp_all add: only_slot_frame)

lemma only_slot_finish:
  assumes "only_slot s d" "dinv L d"
  shows "dq_pending (finish s d) = [] \<and> dq_lost (finish s d) = []"
proof (cases "dq_pending d = []")
  case True
  with assms(1) show ?thesis
    by (simp add: finish_def only_slot_def handle_end_def handler_eqs)
next
  case False
  with assms(1) obtain x where x: "dq_pending d = [x]" "pn_reply (snd x) = s" "dq_lost d = []"
    by (auto simp: only_slot_def)
  then have "received s d = None"
    using slots_distinct [OF assms(2)] by (auto simp: received_None_iff table_slots_def)
  moreover have "dq_running d" using x(1) assms(2) by (auto simp: dinv_def inv_stopped_def)
  ultimately show ?thesis by (simp add: finish_def handle_end_def handler_eqs x(3))
qed

lemma exchange_rests:
  assumes "idle L w" "dq_pending (fst w) = []" "dq_lost (fst w) = []"
    and d3_def: "d3 = fst (snd (exchange L daemon r w))"
  shows "dq_pending d3 = [] \<and> dq_lost d3 = []"
proof (cases "submit L r (fst w)")
  case (Pair sub d1)
  show ?thesis
  proof (cases sub)
    case (Enqueued s)
    with Pair have sub: "submit L r (fst w) = (Enqueued s, d1)" by simp
    obtain ob where ob: "dq_queue d1 = [ob]" "s = length (dq_requests (fst w))"
      "\<exists>es. druns L spawn es d1" "dq_running d1"
      by (rule exchange_enqueued [OF assms(1) sub])
    have d1: "dq_pending d1 = []" "dq_lost d1 = []" "ob_reply ob = s"
      using sub assms(2,3) ob(1) assms(1) by (auto simp: idle_def elim!: submit_Enqueued)
    obtain out x where out: "daemon (ob_bytes ob) (snd w) = (out, x)" by force
    show ?thesis
    proof (cases out)
      case (Inl e)
      then show ?thesis
        by (simp add: d3_def exchange_def sub ob(1) out Let_def handle_outbound_def handler_eqs d1)
    next
      case (Inr bs)
      let ?d2 = "handle_outbound (dq_pending d1) None ob (d1\<lparr>dq_queue := []\<rparr>)"
      have "only_slot s ?d2"
        by (simp add: handle_outbound_def insert_pending_def only_slot_def d1)
      then have "only_slot s (feed L bs ?d2)" by (rule only_slot_feed)
      moreover have "\<exists>es. druns L spawn es (feed L bs ?d2)"
        using take_runs [OF ob(3,4,1)] feed_runs by (simp add: outbound_queue)
      ultimately have "dq_pending (finish s (feed L bs ?d2)) = [] \<and> dq_lost (finish s (feed L bs ?d2)) = []"
        using only_slot_finish reachable_dinv by blast
      then show ?thesis by (simp add: d3_def exchange_def sub ob(1) out Inr Let_def)
    qed
  qed (use Pair assms in \<open>auto simp: d3_def exchange_def submit_def Let_def split: sum.splits if_splits list.splits\<close>)
qed

lemma at_rest_exchange:
  assumes "at_rest L w"
  shows "at_rest L (snd (exchange L daemon r w))"
    and "fst (exchange L daemon r w) = Inr q \<Longrightarrow> response_id q = request_id r"
    and "fst (exchange L daemon r w) = Inr q \<Longrightarrow> remap_response (request_kind r) q = q"
    and "dq_in_flight (fst (snd (exchange L daemon r w))) = dq_in_flight (fst w)"
proof -
  from assms obtain k where k: "idle L (shift_world k w)"
    and rest: "dq_pending (fst w) = []" "dq_lost (fst w) = []" by (auto simp: at_rest_def)
  note ex = exchange_shift [of L daemon r k w]
  have idle': "idle L (shift_world k (snd (exchange L daemon r w)))"
    using conn.send_good [OF k, of daemon r] by (simp add: ex)
  have rest': "dq_pending (fst (snd (exchange L daemon r w))) = []"
    "dq_lost (fst (snd (exchange L daemon r w))) = []"
    using exchange_rests [OF k _ _ refl, of daemon r] rest by (simp_all add: ex)
  from idle' rest' show "at_rest L (snd (exchange L daemon r w))" by (auto simp: at_rest_def)
  have "inv_count (shift k (fst w))" "inv_count (shift k (fst (snd (exchange L daemon r w))))"
    using k idle' reachable_dinv by (auto simp: idle_def shift_world_def dinv_def)
  then show "dq_in_flight (fst (snd (exchange L daemon r w))) = dq_in_flight (fst w)"
    using rest rest' by (simp add: inv_count_def) (metis add_right_cancel)
  show "fst (exchange L daemon r w) = Inr q \<Longrightarrow> response_id q = request_id r"
    using conn.send_id [OF k, of daemon r q] by (simp add: ex)
  show "fst (exchange L daemon r w) = Inr q \<Longrightarrow> remap_response (request_kind r) q = q"
    using conn.send_stable [OF k, of daemon r q] by (simp add: ex)
qed

interpretation shared: correlated_send "exchange L daemon" "at_rest L"
  for L and daemon :: "'d daemon"
  by unfold_locales (rule at_rest_exchange; assumption)+

lemma at_rest_stop:
  assumes "at_rest L w"
  shows "at_rest L (stop (fst w), snd w)"
proof -
  from assms obtain k es where k: "druns L spawn es (shift k (fst w))" "dq_queue (fst w) = []"
    and rest: "dq_pending (fst w) = []" "dq_lost (fst w) = []"
    by (auto simp: at_rest_def idle_def shift_world_def)
  have "\<exists>es. druns L spawn es (shift k (stop (fst w)))"
  proof (cases "dq_running (fst w)")
    case True
    then have "dstep L (shift k (fst w)) Abort (stop (shift k (fst w)))" by (intro dstep.Abort) simp
    from druns.Snoc [OF k(1) this] show ?thesis by (auto simp: stop_shift)
  next
    case False
    then have "stop (fst w) = fst w" using k(2) rest by (simp add: stop_def)
    with k(1) show ?thesis by auto
  qed
  then show ?thesis using rest by (auto simp: at_rest_def idle_def shift_world_def stop_def)
qed

end
