(* ===== verification/Pool_System.thy ===== *)
theory Pool_System
  imports Resting Executor
begin

text \<open>
  The pool as a system: any sequence of the calls its users make -- routed statements, acquiring,
  statements on a handle, dropping a handle -- from the pool as built, one call after the other.

  Every call keeps the pool well formed: the arena, the reference counts and the registry fit
  together and every job's connection is at rest. A job's counter shows the sentinel exactly while
  a handle holds it, so routed statements keep away from it, and a routed statement is answered
  by the frame that carries its own id.
\<close>

section \<open>Well-formed pools\<close>

definition pool_wf :: "foreign \<Rightarrow> 'd pool_state \<Rightarrow> bool" where
  "pool_wf L st =
     (length (ps_strong st) = length (ps_jobs st) \<and>
      distinct (ps_weaks st) \<and>
      list_all (\<lambda>i. i < length (ps_jobs st)) (ps_weaks st) \<and>
      list_all (\<lambda>s. at_rest L (ss_world s)) (ps_jobs st))"

definition empty_pool :: "'d pool_state" where
  "empty_pool = \<lparr>ps_jobs = [], ps_strong = [], ps_weaks = []\<rparr>"

lemma pool_wf_empty: "pool_wf L empty_pool"
  by (simp add: pool_wf_def empty_pool_def)

lemma pool_wf_job: "pool_wf L st \<Longrightarrow> i < length (ps_jobs st) \<Longrightarrow> at_rest L (ss_world (ps_jobs st ! i))"
  by (simp add: pool_wf_def list_all_length)

lemma list_all_update: "list_all P xs \<Longrightarrow> P x \<Longrightarrow> list_all P (xs[i := x])"
  using set_update_subset_insert [of xs i x] by (auto simp: list_all_iff)

lemma pool_wf_set_job:
  "pool_wf L st \<Longrightarrow> (i < length (ps_jobs st) \<Longrightarrow> at_rest L (ss_world s)) \<Longrightarrow>
   pool_wf L (st\<lparr>ps_jobs := (ps_jobs st)[i := s]\<rparr>)"
  by (cases "i < length (ps_jobs st)") (simp_all add: pool_wf_def list_all_update list_update_beyond not_less)

lemma pool_wf_store:
  assumes "pool_wf L st"
  shows "pool_wf L (store_in_flight n i st)"
  unfolding store_in_flight_def Let_def
  by (rule pool_wf_set_job [OF assms])
     (use pool_wf_job [OF assms] in \<open>simp add: at_rest_store [where n = n]\<close>)

text \<open>
  A change of the pool that leaves it well formed and every counter as it was, new jobs with
  the counter at zero.
\<close>

definition calm :: "foreign \<Rightarrow> 'd pool_state \<Rightarrow> 'd pool_state \<Rightarrow> bool" where
  "calm L st st' =
     (pool_wf L st \<longrightarrow>
        pool_wf L st' \<and> length (ps_jobs st) \<le> length (ps_jobs st') \<and>
        (\<forall>i < length (ps_jobs st'). in_flight st' i =
           (if i < length (ps_jobs st) then in_flight st i else 0)))"

lemma calm_refl: "calm L st st"
  by (simp add: calm_def)

lemma calm_trans [trans]: "calm L st st' \<Longrightarrow> calm L st' st'' \<Longrightarrow> calm L st st''"
  by (auto simp: calm_def)

lemma calm_wf: "calm L st st' \<Longrightarrow> pool_wf L st \<Longrightarrow> pool_wf L st'"
  by (simp add: calm_def)

lemma calm_length: "calm L st st' \<Longrightarrow> pool_wf L st \<Longrightarrow> length (ps_jobs st) \<le> length (ps_jobs st')"
  by (simp add: calm_def)

lemma calm_retain: "calm L st (retain_live st)"
  by (auto simp: calm_def pool_wf_def retain_live_def list_all_iff in_flight_def)

text \<open>Operations on one job that leave its connection at rest and its counter alone.\<close>

definition keeps_rest :: "foreign \<Rightarrow> (dispatcher \<times> 'd, 'a) op \<Rightarrow> bool" where
  "keeps_rest L m =
     (\<forall>s. at_rest L (ss_world s) \<longrightarrow>
        at_rest L (ss_world (snd (m s))) \<and> job_in_flight (snd (m s)) = job_in_flight s)"

lemma keeps_call: "keeps_rest L (call (exchange L daemon) mk k)"
  by (simp add: keeps_rest_def call_eq at_rest_exchange job_in_flight_def)

lemma keeps_execute: "keeps_rest L (job_execute_inner (exchange L daemon) sql ps opts)"
proof (cases "resolved_rows opts")
  case (Inr n)
  then show ?thesis using keeps_call by (simp add: job_execute_inner_def)
qed (simp add: job_execute_inner_def keeps_rest_def liftS_def)

lemma keeps_ping: "keeps_rest L (ping (exchange L daemon) el)"
  unfolding ping_def by (rule keeps_call)

lemma calm_set_job:
  assumes "pool_wf L st \<Longrightarrow> i < length (ps_jobs st) \<Longrightarrow>
    at_rest L (ss_world s) \<and> job_in_flight s = job_in_flight (ps_jobs st ! i)"
  shows "calm L st (st\<lparr>ps_jobs := (ps_jobs st)[i := s]\<rparr>)"
  using assms pool_wf_set_job [of L st i s]
  by (cases "i < length (ps_jobs st)")
     (auto simp: calm_def in_flight_def nth_list_update list_update_beyond not_less)

lemma calm_run_on:
  assumes "keeps_rest L m"
  shows "calm L st (snd (run_on i m st))"
  using calm_set_job [of L st i "snd (m (ps_jobs st ! i))"] assms pool_wf_job [of L st i]
  by (simp add: run_on_def keeps_rest_def case_prod_beta)

lemma calm_recycle: "calm L st (snd (recycle (exchange L daemon) i st))"
  using calm_run_on [OF keeps_ping] by (simp add: recycle_def case_prod_beta)

lemma drop_job_rests:
  "at_rest L (ss_world s) \<Longrightarrow> at_rest L (ss_world (drop_job s)) \<and> job_in_flight (drop_job s) = job_in_flight s"
  by (simp add: drop_job_def case_prod_beta Let_def at_rest_stop job_in_flight_def)
     (simp add: stop_def)

lemma calm_strong: "calm L st (st\<lparr>ps_strong := (ps_strong st)[i := n]\<rparr>)"
  by (simp add: calm_def pool_wf_def in_flight_def)

lemma calm_release: "calm L st (release i st)"
proof -
  let ?st = "st\<lparr>ps_strong := (ps_strong st)[i := strong_count st i - 1]\<rparr>"
  have "calm L ?st (?st\<lparr>ps_jobs := (ps_jobs ?st)[i := drop_job (ps_jobs ?st ! i)]\<rparr>)"
    using drop_job_rests pool_wf_job [of L ?st i] by (intro calm_set_job) blast
  from calm_trans [OF calm_strong this] show ?thesis
    using calm_strong [of L st i]
    by (cases "strong_count st i - 1 = 0") (simp_all only: release_def Let_def if_True if_False simp_thms)
qed

section \<open>deadpool by its documentation\<close>

text \<open>
  A new connection is at rest with the counter at zero; that is what connecting over the
  dispatcher gives.
\<close>

definition fresh_connection :: "foreign \<Rightarrow> error + (dispatcher \<times> 'd) job \<Rightarrow> bool" where
  "fresh_connection L conn =
     (case conn of
        Inl e \<Rightarrow> True
      | Inr j \<Rightarrow> at_rest L (ss_world (jb_session j)) \<and> job_in_flight (jb_session j) = 0)"

lemma connect_is_fresh:
  "fresh_connection L
     (fst (job_connect B U (exchange L daemon) (spawn, x) subsec_nanos pid runtime s w))"
proof -
  obtain i ids where i: "next_id (new_allocator subsec_nanos pid) = (i, ids)" by force
  obtain rep w' where ex: "exchange L daemon (connect_request s i) (spawn, x) = (rep, w')"
    by (metis prod.exhaust)
  have "at_rest L w'" "dq_in_flight (fst w') = 0"
    using at_rest_exchange(1,4) [OF at_rest_start [of L x], of daemon "connect_request s i"]
    by (simp_all add: ex) (simp add: spawn_def)
  then show ?thesis
    by (auto simp: ex fresh_connection_def job_connect_def handshake_def i Let_def bindR_eq_Inr
        job_in_flight_def split: sum.split prod.splits)
qed

text \<open>
  deadpool hands out only jobs nobody holds, and behaves as documented; the daemon and the
  outcome of connecting may differ with every call.
\<close>

definition deadpool_ok :: "foreign \<Rightarrow> 'd daemon \<Rightarrow> nat list \<Rightarrow> 'd pool_state \<Rightarrow> 'd dead_get \<Rightarrow> bool" where
  "deadpool_ok L daemon busy st get =
     (\<exists>conn outcome. get st = documented_get (exchange L daemon) conn outcome st \<and>
        fresh_connection L conn \<and>
        (case outcome of
           CheckoutFails e \<Rightarrow> True
         | Offers is \<Rightarrow> list_all (\<lambda>i. i < length (ps_jobs st) \<and> i \<notin> set busy) is))"

lemma calm_create:
  assumes "fresh_connection L conn"
  shows "calm L st (snd (manager_create conn st))"
proof (cases conn)
  case (Inr j)
  have "\<not> length (ps_jobs st) < length (ps_jobs st)" by simp
  then show ?thesis
    using assms Inr
    by (auto simp: calm_def manager_create_def track_def Let_def pool_wf_def fresh_connection_def
        in_flight_def nth_append list_all_iff)
qed (simp add: manager_create_def calm_refl)

lemma calm_offers:
  "fresh_connection L conn \<Longrightarrow> calm L st (snd (checkout_offers (exchange L daemon) conn is st))"
proof (induction "exchange L daemon" conn "is" st rule: checkout_offers.induct)
  case (1 conn st)
  then show ?case using calm_create [of L conn st] by (simp add: case_prod_beta)
next
  case (2 conn i "is" st)
  obtain r st1 where rc: "recycle (exchange L daemon) i st = (r, st1)" by force
  have one: "calm L st st1" using calm_recycle [of L st daemon i] by (simp add: rc)
  show ?case
  proof (cases r)
    case (Inl e)
    have "calm L (release i st1) (snd (checkout_offers (exchange L daemon) conn is (release i st1)))"
      using rc Inl 2(2) by (intro "2.hyps") simp_all
    with one calm_release calm_trans show ?thesis by (simp add: rc Inl) blast
  qed (simp add: rc one)
qed

lemma offers_result:
  "fst (checkout_offers send conn is st) = Inr i \<Longrightarrow> i \<in> set is \<or> i = length (ps_jobs st)"
proof (induction send conn "is" st rule: checkout_offers.induct)
  case (1 send conn st)
  then show ?case by (auto simp: manager_create_def Let_def split: sum.splits)
next
  case (2 send conn k "is" st)
  obtain r st1 where rc: "recycle send k st = (r, st1)" by force
  have len: "length (ps_jobs (release k st1)) = length (ps_jobs st)"
    using retry_other(4) [OF rc] .
  show ?case
  proof (cases r)
    case (Inl e)
    with "2.IH" [OF rc [symmetric] Inl] "2.prems" len show ?thesis by (auto simp: rc)
  qed (use 2 rc in auto)
qed

lemma offers_in_range:
  "fst (checkout_offers send conn is st) = Inr i \<Longrightarrow> list_all (\<lambda>i. i < length (ps_jobs st)) is \<Longrightarrow>
   i < length (ps_jobs (snd (checkout_offers send conn is st)))"
proof (induction send conn "is" st rule: checkout_offers.induct)
  case (1 send conn st)
  then show ?case by (auto simp: manager_create_def track_def Let_def split: sum.splits)
next
  case (2 send conn k "is" st)
  obtain r st1 where rc: "recycle send k st = (r, st1)" by force
  show ?case
  proof (cases r)
    case (Inl e)
    with "2.IH" [OF rc [symmetric] Inl] "2.prems" retry_other(4) [OF rc] show ?thesis
      by (simp add: rc)
  next
    case (Inr x)
    with 2 rc recycle_outcome(4) [of send k st] show ?thesis by simp
  qed
qed

lemma get_outcome:
  assumes "deadpool_ok L daemon busy st get"
  shows "calm L st (snd (get_or_timeout get p st))"
    and "fst (get_or_timeout get p st) = Inr i \<Longrightarrow> list_all (\<lambda>j. j < length (ps_jobs st)) busy \<Longrightarrow>
         i \<notin> set busy \<and> i < length (ps_jobs (snd (get_or_timeout get p st)))"
proof -
  from assms obtain conn outcome where get: "get st = documented_get (exchange L daemon) conn outcome st"
    and fresh: "fresh_connection L conn"
    and offers: "case outcome of CheckoutFails e \<Rightarrow> True
         | Offers is \<Rightarrow> list_all (\<lambda>i. i < length (ps_jobs st) \<and> i \<notin> set busy) is"
    by (auto simp: deadpool_ok_def)
  show "calm L st (snd (get_or_timeout get p st))"
    using calm_offers [OF fresh, of st daemon]
    by (cases outcome) (simp_all add: get_or_timeout_def get case_prod_beta calm_refl)
  assume i: "fst (get_or_timeout get p st) = Inr i" and busy: "list_all (\<lambda>j. j < length (ps_jobs st)) busy"
  then obtain is' where o: "outcome = Offers is'"
    by (cases outcome) (simp_all add: get_or_timeout_def get)
  with i have "fst (checkout_offers (exchange L daemon) conn is' st) = Inr i"
    by (simp add: get_or_timeout_def get case_prod_beta mapErr_eq_Inr)
  with offers_result [OF this] offers_in_range [OF this] offers o busy
  show "i \<notin> set busy \<and> i < length (ps_jobs (snd (get_or_timeout get p st)))"
    by (auto simp: list_all_iff get_or_timeout_def get case_prod_beta)
qed

section \<open>Routing away from handles\<close>

lemma find_in_set: "find P xs = Some x \<Longrightarrow> x \<in> set xs"
  by (auto simp: find_Some_iff)

lemma chosen_tracked: "chosen n st = Some i \<Longrightarrow> i \<in> set (ps_weaks st)"
  by (auto simp: chosen_def Let_def retain_live_def split: option.splits if_splits
      dest!: find_in_set)

lemma calm_route:
  assumes "deadpool_ok L daemon busy (retain_live st) (su_get E)"
  shows "calm L st (snd (route E p st))"
  using get_outcome(1) [OF assms] calm_retain calm_trans
  by (fastforce simp: route_eq split: option.split)

lemma route_free:
  assumes "deadpool_ok L daemon busy (retain_live st) (su_get E)" "pool_wf L st"
    and "list_all (\<lambda>j. j < length (ps_jobs st) \<and> in_flight st j = u32_MAX) busy"
    and "fst (route E p st) = Inr i"
  shows "i \<notin> set busy \<and> i < length (ps_jobs (snd (route E p st)))"
proof (cases "chosen (su_size E) st")
  case (Some j)
  with assms(4) have j: "j = i" by (simp add: route_eq)
  with Some have "i < length (ps_jobs st)" "in_flight st i \<noteq> u32_MAX"
    using chosen_tracked [of _ st i] never_chosen [of st i] assms(2)
    by (auto simp: pool_wf_def list_all_iff)
  with Some assms(3) show ?thesis by (auto simp: route_eq list_all_iff retain_live_def)
next
  case None
  have busy: "list_all (\<lambda>j. j < length (ps_jobs (retain_live st))) busy"
    using assms(3) by (simp add: list_all_iff retain_live_def)
  show ?thesis
    using get_outcome(2) [OF assms(1) _ busy] assms(4) None by (simp add: route_eq)
qed

section \<open>The calls of the users\<close>

datatype client_call =
    Routed string "value list option" execute_options
  | Acquire
  | OnHandle nat statement
  | AskRollback nat
  | DropHandle nat

datatype client_answer = Answer "error + rows" | Handle "error + nat" | Nothing

type_synonym 'd system = "'d pool_state \<times> reserved option list"

text \<open>Handles are numbered as they are given out; a dropped one is \<open>None\<close>.\<close>

definition handle_at :: "reserved option list \<Rightarrow> nat \<Rightarrow> reserved option" where
  "handle_at hs k = (if k < length hs then hs ! k else None)"

fun client_step :: "'d surroundings \<Rightarrow> pool \<Rightarrow> client_call \<Rightarrow> 'd system \<Rightarrow> client_answer \<times> 'd system"
  where
  "client_step E p (Routed sql None opts) (st, hs) =
     (let (r, st1) = pool_execute_opts E p sql opts st in (Answer r, st1, hs))"
| "client_step E p (Routed sql (Some ps) opts) (st, hs) =
     (let (r, st1) = pool_execute_with_opts E p sql ps opts st in (Answer r, st1, hs))"
| "client_step E p Acquire (st, hs) =
     (case acquire (su_get E) p st of
        (Inl e, st1) \<Rightarrow> (Handle (Inl e), st1, hs)
      | (Inr rv, st1) \<Rightarrow> (Handle (Inr (length hs)), st1, hs @ [Some rv]))"
| "client_step E p (OnHandle k c) (st, hs) =
     (case handle_at hs k of
        None \<Rightarrow> (Nothing, st, hs)
      | Some rv \<Rightarrow>
          (let (r, rv1, st1) = run_statement (su_send E) c (rv, st)
           in (Answer r, st1, hs[k := Some rv1])))"
| "client_step E p (AskRollback k) (st, hs) =
     (case handle_at hs k of
        None \<Rightarrow> (Nothing, st, hs)
      | Some rv \<Rightarrow> (Nothing, st, hs[k := Some (rollback_on_drop rv)]))"
| "client_step E p (DropHandle k) (st, hs) =
     (case handle_at hs k of
        None \<Rightarrow> (Nothing, st, hs)
      | Some rv \<Rightarrow> (Nothing, reserved_drop rv st, hs[k := None]))"

fun held_jobs :: "reserved option list \<Rightarrow> nat list" where
  "held_jobs [] = []"
| "held_jobs (None # hs) = held_jobs hs"
| "held_jobs (Some rv # hs) = rv_job rv # held_jobs hs"

text \<open>What a call finds around it: the dispatcher, and a deadpool as documented.\<close>

definition surroundings_ok :: "foreign \<Rightarrow> 'd daemon \<Rightarrow> 'd system \<Rightarrow> 'd surroundings \<Rightarrow> bool" where
  "surroundings_ok L daemon s E =
     (su_send E = exchange L daemon \<and>
      deadpool_ok L daemon (held_jobs (snd s)) (fst s) (su_get E) \<and>
      deadpool_ok L daemon (held_jobs (snd s)) (retain_live (fst s)) (su_get E))"

inductive client_runs ::
  "foreign \<Rightarrow> 'd daemon \<Rightarrow> pool \<Rightarrow> 'd system \<Rightarrow> (client_call \<times> client_answer) list \<Rightarrow> 'd system \<Rightarrow> bool"
  for L daemon p where
  Nil: "client_runs L daemon p s [] s"
| Snoc: "client_runs L daemon p s cs s' \<Longrightarrow> surroundings_ok L daemon s' E \<Longrightarrow>
     client_step E p c s' = (a, s'') \<Longrightarrow> client_runs L daemon p s (cs @ [(c, a)]) s''"

text \<open>
  The invariant: the pool is well formed, no two handles hold the same job, and the counter of a
  job shows the sentinel exactly while a handle holds it, and zero otherwise.
\<close>

definition system_wf :: "foreign \<Rightarrow> 'd system \<Rightarrow> bool" where
  "system_wf L s =
     (pool_wf L (fst s) \<and> distinct (held_jobs (snd s)) \<and>
      list_all (\<lambda>i. i < length (ps_jobs (fst s))) (held_jobs (snd s)) \<and>
      (\<forall>i < length (ps_jobs (fst s)).
         in_flight (fst s) i = (if i \<in> set (held_jobs (snd s)) then u32_MAX else 0)))"

lemma held_append [simp]: "held_jobs (hs @ hs') = held_jobs hs @ held_jobs hs'"
  by (induction hs rule: held_jobs.induct) simp_all

lemma held_split:
  assumes "handle_at hs k = Some rv"
  shows "held_jobs hs = held_jobs (take k hs) @ rv_job rv # held_jobs (drop (Suc k) hs)"
    and "held_jobs (hs[k := x]) = held_jobs (take k hs) @ held_jobs [x] @ held_jobs (drop (Suc k) hs)"
proof -
  from assms have k: "k < length hs" "hs ! k = Some rv"
    by (simp_all add: handle_at_def split: if_splits)
  then show "held_jobs hs = held_jobs (take k hs) @ rv_job rv # held_jobs (drop (Suc k) hs)"
    by (metis held_append held_jobs.simps(3) id_take_nth_drop)
  have "hs[k := x] = take k hs @ [x] @ drop (Suc k) hs"
    using k(1) by (simp add: upd_conv_take_nth_drop)
  then show "held_jobs (hs[k := x]) = held_jobs (take k hs) @ held_jobs [x] @ held_jobs (drop (Suc k) hs)"
    by (simp only: held_append)
qed

lemma system_calm:
  "system_wf L (st, hs) \<Longrightarrow> calm L st st' \<Longrightarrow> held_jobs hs' = held_jobs hs \<Longrightarrow> system_wf L (st', hs')"
  by (fastforce simp: system_wf_def calm_def list_all_iff)

lemma system_busy:
  "system_wf L (st, hs) \<Longrightarrow>
   list_all (\<lambda>j. j < length (ps_jobs st) \<and> in_flight st j = u32_MAX) (held_jobs hs)"
  by (simp add: system_wf_def list_all_iff)

lemma in_flight_store:
  "i < length (ps_jobs st) \<Longrightarrow>
   in_flight (store_in_flight n i st) j = (if j = i then n else in_flight st j)"
  by (simp add: store_in_flight_def in_flight_def job_in_flight_def Let_def)

lemma calm_routed:
  assumes "deadpool_ok L daemon busy (retain_live st) (su_get E)" "keeps_rest L m"
  shows "calm L st (snd (routed E p m st))"
proof -
  obtain r st1 where r: "route E p st = (r, st1)" by (metis prod.exhaust)
  have one: "calm L st st1" using calm_route [OF assms(1), of p] by (simp add: r)
  show ?thesis
    using calm_trans [OF one calm_run_on [OF assms(2)]] one
    by (simp add: routed_def r split: sum.split)
qed

lemma calm_drop:
  "calm L st (st\<lparr>ps_jobs := (ps_jobs st)[i := spawn_rollback (ps_jobs st ! i)]\<rparr>)"
  by (rule calm_set_job)
     (use pool_wf_job in \<open>simp add: spawn_rollback_def case_prod_beta job_in_flight_def\<close>)

lemma system_acquire:
  assumes "system_wf L (st, hs)" "deadpool_ok L daemon (held_jobs hs) st get"
    and "acquire get p st = (Inr rv, st')"
  shows "system_wf L (st', hs @ [Some rv])"
proof -
  from assms(3) obtain st1 where g: "get_or_timeout get p st = (Inr (rv_job rv), st1)"
    "st' = store_in_flight u32_MAX (rv_job rv) st1"
    by (auto simp: acquire_def reserved_new_def split: prod.splits sum.splits)
  have calm: "calm L st st1" using get_outcome(1) [OF assms(2), of p] by (simp add: g)
  have free: "rv_job rv \<notin> set (held_jobs hs)" "rv_job rv < length (ps_jobs st1)"
    using get_outcome(2) [OF assms(2), of p "rv_job rv"] system_busy [OF assms(1)]
    by (auto simp: g list_all_iff)
  have wf1: "system_wf L (st1, hs)" using assms(1) calm by (rule system_calm) simp
  then have "pool_wf L st'" unfolding g(2) by (intro pool_wf_store) (simp add: system_wf_def)
  with wf1 free show ?thesis by (simp add: system_wf_def g(2) in_flight_store list_all_iff)
qed

lemma system_drop:
  assumes "system_wf L (st, hs)" "handle_at hs k = Some rv"
  shows "system_wf L (reserved_drop rv st, hs[k := None])"
proof -
  let ?i = "rv_job rv"
  obtain st1 where st1: "reserved_drop rv st = store_in_flight 0 ?i st1" "calm L st st1"
    using calm_drop [of L st ?i] calm_refl [of L st] by (auto simp: reserved_drop_def Let_def)
  have wf1: "system_wf L (st1, hs)" using assms(1) st1(2) by (rule system_calm) simp
  then have "pool_wf L (store_in_flight 0 ?i st1)" by (intro pool_wf_store) (simp add: system_wf_def)
  with wf1 show ?thesis
    unfolding st1(1) by (auto simp: system_wf_def held_split [OF assms(2)] in_flight_store list_all_iff)
qed

lemma step_acquire:
  assumes "system_wf L (st, hs)" "deadpool_ok L daemon (held_jobs hs) st (su_get E)"
    and "client_step E p Acquire (st, hs) = (a, s')"
  shows "system_wf L s'"
proof -
  obtain r st1 where r: "acquire (su_get E) p st = (r, st1)" by force
  show ?thesis
  proof (cases r)
    case (Inl e)
    with r have "st1 = snd (get_or_timeout (su_get E) p st)"
      by (auto simp: acquire_def split: prod.splits sum.splits)
    with get_outcome(1) [OF assms(2)] system_calm [OF assms(1)] assms(3) r Inl show ?thesis by auto
  next
    case (Inr rv)
    with system_acquire [OF assms(1,2)] assms(3) r show ?thesis by auto
  qed
qed

lemma step_on_handle:
  assumes "system_wf L (st, hs)" "su_send E = exchange L daemon"
    and "client_step E p (OnHandle k c) (st, hs) = (a, s')"
  shows "system_wf L s'"
proof (cases "handle_at hs k")
  case None
  with assms(1,3) show ?thesis by auto
next
  case (Some rv)
  obtain sql ps opts where c: "c = (sql, ps, opts)" by (cases c) auto
  let ?m = "job_execute_inner (exchange L daemon) sql ps opts"
  obtain r rv1 st1 where run: "tracked ?m sql (rv, st) = (r, rv1, st1)" by (metis prod.exhaust)
  have "st1 = snd (run_on (rv_job rv) ?m st)" "rv_job rv1 = rv_job rv"
    using tracked_untracked(2,3) [of ?m sql "(rv, st)"] run
    by (simp_all add: untracked_def case_prod_beta)
  moreover have "s' = (st1, hs[k := Some rv1])"
    using assms(3) Some run by (simp add: assms(2) c run_statement_eq)
  ultimately show ?thesis
    using system_calm [OF assms(1) calm_run_on [OF keeps_execute]] held_split [OF Some] by simp
qed

lemma client_step_wf:
  assumes "system_wf L s" "surroundings_ok L daemon s E" "client_step E p c s = (a, s')"
  shows "system_wf L s'"
proof -
  obtain st hs where s: "s = (st, hs)" by force
  from assms(2) have send: "su_send E = exchange L daemon"
    and pool: "deadpool_ok L daemon (held_jobs hs) st (su_get E)"
      "deadpool_ok L daemon (held_jobs hs) (retain_live st) (su_get E)"
    by (simp_all add: surroundings_ok_def s)
  note wf = assms(1) [unfolded s] and step = assms(3) [unfolded s]
  show ?thesis
  proof (cases c)
    case (Routed sql ps opts)
    let ?m = "job_execute_inner (exchange L daemon) sql ps (pool_opts p opts)"
    have "s' = (snd (routed E p ?m st), hs)"
      using step Routed
      by (cases ps) (auto simp: pool_execute_opts_def pool_execute_with_opts_def
        job_execute_opts_def job_execute_with_opts_def send split: prod.splits)
    with calm_routed [OF pool(2) keeps_execute] system_calm [OF wf] show ?thesis by simp
  next
    case (AskRollback k)
    then show ?thesis
      using step wf held_split [of hs k] system_calm [OF wf calm_refl]
      by (cases "handle_at hs k") (auto simp: rollback_on_drop_def)
  next
    case (DropHandle k)
    then show ?thesis
      using step wf system_drop [OF wf] by (cases "handle_at hs k") auto
  qed (use step step_acquire [OF wf pool(1)] step_on_handle [OF wf send] in simp_all)
qed

lemma client_runs_wf: "client_runs L daemon p s cs s' \<Longrightarrow> system_wf L s \<Longrightarrow> system_wf L s'"
  by (induction rule: client_runs.induct) (simp_all add: client_step_wf)

lemma system_wf_start: "system_wf L (empty_pool, [])"
  by (simp add: system_wf_def pool_wf_empty) (simp add: empty_pool_def)


section \<open>What users get\<close>

text \<open>
  C17. The pool stays well formed. After any calls of its users in any order -- routed statements,
  acquiring, statements on handles, dropping them -- with any daemon, every job has its reference
  count, the registry names existing jobs, each once, and every connection is at rest: nothing
  queued or waiting, reached by the task from its start but for the stores to its counter.
\<close>

theorem pool_stays_well_formed:
  assumes "client_runs L daemon p (empty_pool, []) cs (st, hs)"
  shows "length (ps_strong st) = length (ps_jobs st) \<and> distinct (ps_weaks st) \<and>
    list_all (\<lambda>i. i < length (ps_jobs st)) (ps_weaks st) \<and>
    list_all (\<lambda>s. dq_queue (fst (ss_world s)) = [] \<and> dq_pending (fst (ss_world s)) = [] \<and>
        dq_lost (fst (ss_world s)) = [] \<and>
        (\<exists>c es. druns L spawn es ((fst (ss_world s))\<lparr>dq_in_flight := c\<rparr>))) (ps_jobs st)"
proof -
  have "pool_wf L st"
    using client_runs_wf [OF assms system_wf_start] by (simp add: system_wf_def)
  moreover have "at_rest L w \<Longrightarrow> dq_queue (fst w) = [] \<and> dq_pending (fst w) = [] \<and>
      dq_lost (fst w) = [] \<and> (\<exists>c es. druns L spawn es ((fst w)\<lparr>dq_in_flight := c\<rparr>))"
    for w :: "dispatcher \<times> 'a"
    by (auto simp: at_rest_def idle_def shift_def)
  ultimately show ?thesis by (auto simp: pool_wf_def list_all_iff)
qed

text \<open>
  C11. A handle has its job to itself as long as calls run one after the other: no two handles hold
  the same job, its counter shows the sentinel exactly while it is held and zero otherwise, and no
  routed statement goes to a held job, by whichever tier. (Calls that overlap are another matter,
  see \<open>sentinel_wraps\<close>.)
\<close>

theorem handles_are_exclusive:
  assumes "client_runs L daemon p (empty_pool, []) cs (st, hs)"
    and "surroundings_ok L daemon (st, hs) E"
  shows "distinct (held_jobs hs) \<and>
    (\<forall>i < length (ps_jobs st). in_flight st i = (if i \<in> set (held_jobs hs) then u32_MAX else 0)) \<and>
    (case fst (route E p st) of Inl e \<Rightarrow> True | Inr i \<Rightarrow> i \<notin> set (held_jobs hs))"
proof -
  have wf: "system_wf L (st, hs)" by (rule client_runs_wf [OF assms(1) system_wf_start])
  moreover have "i \<notin> set (held_jobs hs)" if "fst (route E p st) = Inr i" for i
    using route_free [where L = L and daemon = daemon, OF _ _ system_busy [OF wf] that] wf assms(2)
    by (simp add: surroundings_ok_def system_wf_def)
  ultimately show ?thesis by (simp add: system_wf_def split: sum.split)
qed


section \<open>A concrete system\<close>

text \<open>A pool that opens one connection, for the handle its first user acquires.\<close>

definition quiet_surroundings :: "unit surroundings" where
  "quiet_surroundings = \<lparr>su_send = exchange rejecter quiet, su_size = 1,
     su_get = documented_get (exchange rejecter quiet) (Inr fresh_job) (Offers [])\<rparr>"

lemma quiet_surroundings_ok: "surroundings_ok rejecter quiet s quiet_surroundings"
proof -
  have fresh: "fresh_connection rejecter (Inr fresh_job :: error + (dispatcher \<times> unit) job)"
    using at_rest_start [of rejecter "()"]
    by (simp add: fresh_connection_def fresh_job_def job_in_flight_def) (simp add: spawn_def)
  have "deadpool_ok rejecter quiet busy st (su_get quiet_surroundings)" for busy st
    unfolding deadpool_ok_def
    by (rule exI [of _ "Inr fresh_job"], rule exI [of _ "Offers []"])
       (simp add: quiet_surroundings_def fresh)
  then show ?thesis by (simp add: surroundings_ok_def) (simp add: quiet_surroundings_def)
qed

definition after_acquire :: "unit system" where
  "after_acquire = snd (client_step quiet_surroundings sample_pool Acquire (empty_pool, []))"

lemma after_acquire_run:
  "client_runs rejecter quiet sample_pool (empty_pool, []) [(Acquire, Handle (Inr 0))]
     (fst after_acquire, snd after_acquire)"
proof -
  have "client_step quiet_surroundings sample_pool Acquire (empty_pool, []) =
      (Handle (Inr 0), fst after_acquire, snd after_acquire)"
    by (simp add: after_acquire_def quiet_surroundings_def acquire_def get_or_timeout_def
        manager_create_def track_def reserved_new_def empty_pool_def fresh_job_def)
  from client_runs.Snoc [OF client_runs.Nil quiet_surroundings_ok this] show ?thesis by simp
qed

lemma after_acquire_holds: "held_jobs (snd after_acquire) = [0]" "length (ps_jobs (fst after_acquire)) = 1"
  by (simp_all add: after_acquire_def quiet_surroundings_def acquire_def get_or_timeout_def
      manager_create_def track_def reserved_new_def empty_pool_def fresh_job_def)

lemma pool_stays_well_formed_witness:
  "length (ps_strong (fst after_acquire)) = 1 \<and> distinct (ps_weaks (fst after_acquire))"
  using pool_stays_well_formed [OF after_acquire_run] after_acquire_holds(2) by simp

lemma handles_are_exclusive_witness: "in_flight (fst after_acquire) 0 = u32_MAX"
  using handles_are_exclusive [OF after_acquire_run quiet_surroundings_ok] after_acquire_holds by simp


end
