(* ===== verification/Collecting.thy ===== *)
theory Collecting
  imports Query
begin

text \<open>
  When collecting a result set ends (\<^verbatim>\<open>into_dynamic\<close>, \<^verbatim>\<open>into_typed\<close> of \<^verbatim>\<open>src/src/query.rs\<close>), and the
  adapter \<open>stream_typed\<close>.

  A daemon may serve pages for ever, so collecting carries fuel. The lemmas show that fuel is no
  more than a bound on the rows: collecting runs out of it exactly when the stream yields that
  many rows, more fuel never changes a result, and the requests sent are bounded by the rows
  received -- there is no page request without progress.
\<close>

section \<open>Typed streams\<close>

definition stream_typed_next ::
  "'w sender \<Rightarrow> 'a de \<Rightarrow> stream_state \<Rightarrow> 'w session \<Rightarrow>
     ((error + 'a) \<times> stream_state) option \<times> 'w session" where
  "stream_typed_next send f st s =
     (case stream_next send st s of
        (None, t) \<Rightarrow> (None, t)
      | (Some (item, st1), t) \<Rightarrow> (Some (bindR item (from_row f), st1), t))"

text \<open>Collecting a typed stream with \<open>try_collect\<close>.\<close>

fun collect_typed ::
  "'w sender \<Rightarrow> 'a de \<Rightarrow> nat \<Rightarrow> 'a list \<Rightarrow> stream_state \<Rightarrow> 'w session \<Rightarrow>
     ((error + 'a list) \<times> 'w session) option" where
  "collect_typed send f 0 out st s = None"
| "collect_typed send f (Suc n) out st s =
     (case stream_typed_next send f st s of
        (None, t) \<Rightarrow> Some (Inr out, t)
      | (Some (Inl e, st1), t) \<Rightarrow> Some (Inl e, drop_stream st1 t)
      | (Some (Inr x, st1), t) \<Rightarrow> collect_typed send f n (out @ [x]) st1 t)"

lemma collect_typed_eq: "collect_typed send f n out st s = try_collect send (from_row f) n out st s"
  by (induction n arbitrary: out st s)
     (auto simp: stream_typed_next_def split: prod.split option.split sum.split)

lemma into_typed_is_collected_stream:
  "into_typed send f t pid fuel rw s = collect_typed send f fuel [] (stream t pid rw) s"
  by (simp add: into_typed_def collect_typed_eq)

section \<open>Rows served\<close>

text \<open>The rows of the first \<open>n\<close> polls, up to the end or the first error.\<close>

fun served :: "'w sender \<Rightarrow> nat \<Rightarrow> stream_state \<Rightarrow> 'w session \<Rightarrow> json_object list" where
  "served send 0 st s = []"
| "served send (Suc n) st s =
     (case stream_next send st s of
        (Some (Inr m, st1), t) \<Rightarrow> m # served send n st1 t
      | _ \<Rightarrow> [])"

lemma served_length: "length (served send n st s) \<le> n"
  by (induction n arbitrary: st s) (auto split: prod.split option.split sum.split)

lemma drop_stream_sent [simp]: "ss_sent (drop_stream st s) = ss_sent s"
  by (simp add: drop_stream_def split: option.split)

lemma take_page_sent: "take_page q st s = (r, t) \<Longrightarrow> ss_sent t = ss_sent s"
  by (auto simp: take_page_def Let_def split: list.splits if_splits option.splits)

text \<open>A poll sends at most one request, and none while a row is buffered.\<close>

lemma stream_next_sent:
  assumes "stream_next send st s = (r, t)"
  shows "length (ss_sent t) \<le> Suc (length (ss_sent s))"
    and "ss_sent t \<noteq> ss_sent s \<Longrightarrow> st_rows st = []"
  using assms
  by (auto simp: stream_next_def send_request_paged Let_def split: list.splits if_splits option.splits
      prod.splits sum.splits response.splits dest!: take_page_sent)

lemma collect_fuel:
  "(try_collect send Inr n out st s = None) = (length (served send n st s) = n)"
  by (induction n arbitrary: out st s) (auto split: prod.split option.split sum.split)

lemma collect_result:
  "try_collect send Inr n out st s = Some (r, u) \<Longrightarrow>
   try_collect send Inr (n + k) out st s = Some (r, u) \<and>
   served send (n + k) st s = served send n st s \<and>
   length (ss_sent u) \<le> length (ss_sent s) + length (served send n st s) + 1 \<and>
   (case r of Inl e \<Rightarrow> True | Inr rows \<Rightarrow> rows = out @ served send n st s)"
proof (induction n arbitrary: out st s)
  case (Suc n)
  obtain x t where nxt: "stream_next send st s = (x, t)" by (metis prod.exhaust)
  note sent = stream_next_sent(1) [OF nxt]
  show ?case
  proof (cases x)
    case None
    with Suc.prems nxt sent show ?thesis by auto
  next
    case (Some item)
    then obtain y st1 where y: "x = Some (y, st1)" by (cases item) auto
    show ?thesis
    proof (cases y)
      case (Inl e)
      with Suc.prems nxt y sent show ?thesis by auto
    next
      case (Inr m)
      with Suc.prems nxt y have "try_collect send Inr n (out @ [m]) st1 t = Some (r, u)" by simp
      from Suc.IH [OF this] sent Inr nxt y show ?thesis by (auto split: sum.splits)
    qed
  qed
qed simp

text \<open>
  C21. Collecting ends unless the daemon goes on serving rows. For any daemon and any fuel: the
  collection is cut short exactly when the stream yields as many rows as there is fuel, so it ends
  if and only if the rows end; a result does not depend on the fuel, and on success is every row
  served, in order. The requests sent exceed the rows received by at most one: no page request is
  repeated without progress, also against a daemon that answers with empty pages.
\<close>

theorem collecting_ends:
  "((\<exists>fuel. into_dynamic send t pid fuel rw s \<noteq> None) \<longleftrightarrow>
      (\<exists>n. length (served send n (stream t pid rw) s) < n)) \<and>
   (into_dynamic send t pid fuel rw s = None) = (length (served send fuel (stream t pid rw) s) = fuel) \<and>
   (case into_dynamic send t pid fuel rw s of
      None \<Rightarrow> True
    | Some (r, u) \<Rightarrow>
        into_dynamic send t pid (fuel + k) rw s = Some (r, u) \<and>
        length (ss_sent u) \<le> length (ss_sent s) + length (served send fuel (stream t pid rw) s) + 1 \<and>
        (case r of Inl e \<Rightarrow> True | Inr rows \<Rightarrow> rows = served send fuel (stream t pid rw) s))"
proof -
  have "(\<exists>fuel. into_dynamic send t pid fuel rw s \<noteq> None) \<longleftrightarrow>
      (\<exists>n. length (served send n (stream t pid rw) s) < n)"
    unfolding into_dynamic_def collect_fuel using served_length [of send _ "stream t pid rw" s]
    by (metis le_neq_implies_less less_irrefl)
  then show ?thesis
    using collect_fuel [of send fuel "[]" "stream t pid rw" s]
      collect_result [of send fuel "[]" "stream t pid rw" s _ _ k, unfolded append_Nil]
    by (auto simp: into_dynamic_def split: option.split)
qed

end
