(* ===== verification/Traffic.thy ===== *)
theory Traffic
  imports Pool_System Call_Board
begin

text \<open>
  A pool under concurrent traffic. Theory Pool_System lets one call end before the next begins;
  here every job's task runs interleaved with all callers and with the pool's own stores:
  requests are submitted to any job at any time (routed statements, handles, paging, work in
  the background), tasks take their steps, jobs are connected, tracked, acquired and handed back.

  deadpool and the reference counts are any that hand a job to one handle at a time.
\<close>

section \<open>Steps\<close>

text \<open>With every job: the value last stored into its counter and the requests then out.\<close>

record 'd traffic =
  tr_pool :: "'d pool_state"
  tr_marks :: "(u32 \<times> nat) list"
  tr_held :: "nat list"

definition no_traffic :: "'d traffic" where
  "no_traffic = \<lparr>tr_pool = empty_pool, tr_marks = [], tr_held = []\<rparr>"

datatype traffic_event =
  Connects | Tracked nat | Works nat event | Scans | Recounts | Acquires nat | HandsBack nat

inductive traffic_step :: "foreign \<Rightarrow> 'd traffic \<Rightarrow> traffic_event \<Rightarrow> 'd traffic \<Rightarrow> bool" for L where
  Connects: "fst (ss_world s) = spawn \<Longrightarrow> st = tr_pool t \<Longrightarrow>
    traffic_step L t Connects
      (t\<lparr>tr_pool := st\<lparr>ps_jobs := ps_jobs st @ [s], ps_strong := ps_strong st @ [1]\<rparr>,
         tr_marks := tr_marks t @ [(0, 0)]\<rparr>)"
| Tracked: "i < length (ps_jobs (tr_pool t)) \<Longrightarrow>
    traffic_step L t (Tracked i) (t\<lparr>tr_pool := track i (tr_pool t)\<rparr>)"
| Works: "i < length (ps_jobs (tr_pool t)) \<Longrightarrow> dstep L (job_dispatcher (tr_pool t) i) e d \<Longrightarrow>
    traffic_step L t (Works i e) (t\<lparr>tr_pool := set_dispatcher i d (tr_pool t)\<rparr>)"
| Scans: "traffic_step L t Scans (t\<lparr>tr_pool := retain_live (tr_pool t)\<rparr>)"
| Recounts: "traffic_step L t Recounts (t\<lparr>tr_pool := (tr_pool t)\<lparr>ps_strong := cs\<rparr>\<rparr>)"
| Acquires: "i < length (ps_jobs (tr_pool t)) \<Longrightarrow> i \<notin> set (tr_held t) \<Longrightarrow>
    traffic_step L t (Acquires i)
      (t\<lparr>tr_pool := snd (reserved_new i (tr_pool t)),
         tr_marks := (tr_marks t)[i := (u32_MAX, outstanding (job_dispatcher (tr_pool t) i))],
         tr_held := i # tr_held t\<rparr>)"
| HandsBack: "rv_job rv = i \<Longrightarrow> i \<in> set (tr_held t) \<Longrightarrow>
    traffic_step L t (HandsBack i)
      (t\<lparr>tr_pool := reserved_drop rv (tr_pool t),
         tr_marks := (tr_marks t)[i := (0, outstanding (job_dispatcher (tr_pool t) i))],
         tr_held := filter (\<lambda>j. j \<noteq> i) (tr_held t)\<rparr>)"

inductive traffic_runs :: "foreign \<Rightarrow> 'd traffic \<Rightarrow> traffic_event list \<Rightarrow> 'd traffic \<Rightarrow> bool" for L where
  Nil: "traffic_runs L t [] t"
| Snoc: "traffic_runs L t es t' \<Longrightarrow> traffic_step L t' e t'' \<Longrightarrow> traffic_runs L t (es @ [e]) t''"

section \<open>The invariant\<close>

definition marked_job :: "'d traffic \<Rightarrow> nat \<Rightarrow> marked" where
  "marked_job t i =
     \<lparr>mk_task = job_dispatcher (tr_pool t) i, mk_stored = fst (tr_marks t ! i),
      mk_then = snd (tr_marks t ! i)\<rparr>"

definition job_in_order :: "foreign \<Rightarrow> 'd traffic \<Rightarrow> nat \<Rightarrow> bool" where
  "job_in_order L t i =
     ((\<exists>es. jruns L fresh_marked es (marked_job t i)) \<and>
      fst (tr_marks t ! i) = (if i \<in> set (tr_held t) then u32_MAX else 0))"

definition in_order :: "foreign \<Rightarrow> 'd traffic \<Rightarrow> bool" where
  "in_order L t =
     (length (tr_marks t) = length (ps_jobs (tr_pool t)) \<and>
      (\<forall>i \<in> set (tr_held t) \<union> set (ps_weaks (tr_pool t)). i < length (ps_jobs (tr_pool t))) \<and>
      (\<forall>i < length (ps_jobs (tr_pool t)). job_in_order L t i))"

lemma job_dispatcher_simps [simp]:
  "i < length (ps_jobs st) \<Longrightarrow>
     job_dispatcher (set_dispatcher i d st) j = (if j = i then d else job_dispatcher st j)"
  "i < length (ps_jobs st) \<Longrightarrow>
     job_dispatcher (store_in_flight n i st) j =
       (if j = i then (job_dispatcher st i)\<lparr>dq_in_flight := n\<rparr> else job_dispatcher st j)"
  "i < length (ps_jobs st) \<Longrightarrow>
     job_dispatcher (reserved_drop rv st) i =
       (if i = rv_job rv then (job_dispatcher st i)\<lparr>dq_in_flight := 0\<rparr> else job_dispatcher st i)"
  "job_dispatcher (retain_live st) j = job_dispatcher st j"
  "job_dispatcher (track k st) j = job_dispatcher st j"
  "job_dispatcher (st\<lparr>ps_strong := cs\<rparr>) j = job_dispatcher st j"
  by (auto simp: job_dispatcher_def set_dispatcher_def store_in_flight_def reserved_drop_def
      spawn_rollback_def retain_live_def track_def Let_def nth_list_update split: prod.split)

lemma same_job:
  assumes "job_in_order L t i" "job_dispatcher (tr_pool t') i = job_dispatcher (tr_pool t) i"
    "tr_marks t' ! i = tr_marks t ! i" "i \<in> set (tr_held t') \<longleftrightarrow> i \<in> set (tr_held t)"
  shows "job_in_order L t' i"
  using assms(1) unfolding job_in_order_def marked_job_def assms(2-4) .

lemma in_orderI:
  assumes "length (tr_marks t) = length (ps_jobs (tr_pool t))"
    and "\<And>i. i \<in> set (tr_held t) \<Longrightarrow> i < length (ps_jobs (tr_pool t))"
    and "\<And>i. i \<in> set (ps_weaks (tr_pool t)) \<Longrightarrow> i < length (ps_jobs (tr_pool t))"
    and "\<And>i. i < length (ps_jobs (tr_pool t)) \<Longrightarrow> job_in_order L t i"
  shows "in_order L t"
  using assms unfolding in_order_def by blast

lemma in_orderD:
  assumes "in_order L t"
  shows "length (tr_marks t) = length (ps_jobs (tr_pool t))"
    and "i \<in> set (tr_held t) \<Longrightarrow> i < length (ps_jobs (tr_pool t))"
    and "i \<in> set (ps_weaks (tr_pool t)) \<Longrightarrow> i < length (ps_jobs (tr_pool t))"
    and "i < length (ps_jobs (tr_pool t)) \<Longrightarrow> job_in_order L t i"
  using assms unfolding in_order_def by blast+

lemma job_works:
  assumes "job_in_order L t i" "dstep L (job_dispatcher (tr_pool t) i) e d"
    and "job_dispatcher (tr_pool t') i = d" "tr_marks t' ! i = tr_marks t ! i" "tr_held t' = tr_held t"
  shows "job_in_order L t' i"
proof -
  obtain es where "jruns L fresh_marked es (marked_job t i)"
    using assms(1) by (auto simp: job_in_order_def)
  moreover have "jstep L (marked_job t i) (Task e) (marked_job t' i)"
    using jstep.Task [of L "marked_job t i" e d] assms(2-4) by (simp add: marked_job_def)
  ultimately have "jruns L fresh_marked (es @ [Task e]) (marked_job t' i)" by (rule jruns.Snoc)
  with assms show ?thesis by (auto simp: job_in_order_def)
qed

lemma job_stored:
  assumes "job_in_order L t i"
    and "job_dispatcher (tr_pool t') i = (job_dispatcher (tr_pool t) i)\<lparr>dq_in_flight := n\<rparr>"
    and "tr_marks t' ! i = (n, outstanding (job_dispatcher (tr_pool t) i))"
    and "n = (if i \<in> set (tr_held t') then u32_MAX else 0)"
  shows "job_in_order L t' i"
proof -
  obtain es where "jruns L fresh_marked es (marked_job t i)"
    using assms(1) by (auto simp: job_in_order_def)
  moreover have "jstep L (marked_job t i) (Store n) (marked_job t' i)"
    using jstep.Store [of L "marked_job t i" n] assms(2,3) by (simp add: marked_job_def)
  ultimately have "jruns L fresh_marked (es @ [Store n]) (marked_job t' i)" by (rule jruns.Snoc)
  with assms(3,4) show ?thesis by (auto simp: job_in_order_def)
qed

lemma pool_parts [simp]:
  "length (ps_jobs (set_dispatcher i d st)) = length (ps_jobs st)"
  "ps_weaks (set_dispatcher i d st) = ps_weaks st"
  "length (ps_jobs (snd (reserved_new i st))) = length (ps_jobs st)"
  "ps_weaks (snd (reserved_new i st)) = ps_weaks st"
  "length (ps_jobs (retain_live st)) = length (ps_jobs st)"
  "ps_jobs (track k st) = ps_jobs st" "ps_weaks (track k st) = ps_weaks st @ [k]"
  by (simp_all add: reserved_new_def store_in_flight_def retain_live_def track_def Let_def
      set_dispatcher_def)

lemma in_order_connects:
  assumes "in_order L t" "fst (ss_world s) = spawn"
  shows "in_order L (t\<lparr>tr_pool := (tr_pool t)\<lparr>ps_jobs := ps_jobs (tr_pool t) @ [s],
      ps_strong := ps_strong (tr_pool t) @ [1]\<rparr>, tr_marks := tr_marks t @ [(0, 0)]\<rparr>)"
proof (rule in_orderI)
  let ?n = "length (ps_jobs (tr_pool t))"
  let ?t = "t\<lparr>tr_pool := (tr_pool t)\<lparr>ps_jobs := ps_jobs (tr_pool t) @ [s],
    ps_strong := ps_strong (tr_pool t) @ [1]\<rparr>, tr_marks := tr_marks t @ [(0, 0)]\<rparr>"
  note wf = in_orderD [OF assms(1)]
  fix i assume i: "i < length (ps_jobs (tr_pool ?t))"
  show "job_in_order L ?t i"
  proof (cases "i = ?n")
    case True
    have "marked_job ?t i = fresh_marked"
      using assms(2) wf(1) True by (simp add: marked_job_def job_dispatcher_def nth_append fresh_marked_def)
    then have "jruns L fresh_marked [] (marked_job ?t i)" by (simp add: jruns.Nil)
    then show ?thesis
      using wf(1) wf(2) [of ?n] True unfolding job_in_order_def by (auto simp: nth_append)
  next
    case False
    with i have n: "i < ?n" by simp
    with wf(1) show ?thesis
      by (intro same_job [OF wf(4) [OF n]]) (simp_all add: job_dispatcher_def nth_append)
  qed
qed (use in_orderD [OF assms(1)] in \<open>auto simp: less_Suc_eq\<close>)

text \<open>A step that concerns the jobs \<open>I\<close> leaves the others as they were.\<close>

lemma in_order_change:
  assumes "in_order L t" "length (ps_jobs (tr_pool t')) = length (ps_jobs (tr_pool t))"
    and "length (tr_marks t') = length (tr_marks t)"
    and "\<And>i. i \<in> set (tr_held t') \<union> set (ps_weaks (tr_pool t')) \<Longrightarrow>
      i \<in> I \<or> i \<in> set (tr_held t) \<union> set (ps_weaks (tr_pool t))"
    and "\<And>i. i \<in> I \<Longrightarrow> i < length (ps_jobs (tr_pool t))"
    and "\<And>i. i \<in> I \<Longrightarrow> job_in_order L t i \<Longrightarrow> job_in_order L t' i"
    and "\<And>j. j < length (ps_jobs (tr_pool t)) \<Longrightarrow> j \<notin> I \<Longrightarrow>
      job_dispatcher (tr_pool t') j = job_dispatcher (tr_pool t) j \<and>
      tr_marks t' ! j = tr_marks t ! j \<and> (j \<in> set (tr_held t') \<longleftrightarrow> j \<in> set (tr_held t))"
  shows "in_order L t'"
proof (rule in_orderI)
  note wf = in_orderD [OF assms(1)]
  fix j assume "j < length (ps_jobs (tr_pool t'))"
  then have j: "j < length (ps_jobs (tr_pool t))" using assms(2) by simp
  show "job_in_order L t' j"
  proof (cases "j \<in> I")
    case False
    with assms(7) [OF j] show ?thesis by (intro same_job [OF wf(4) [OF j]]) auto
  qed (use assms(6) wf(4) [OF j] in blast)
next
  fix i
  have "i < length (ps_jobs (tr_pool t'))"
    if "i \<in> set (tr_held t') \<union> set (ps_weaks (tr_pool t'))"
    using assms(2) assms(4) [OF that] assms(5) in_orderD(2,3) [OF assms(1)] by auto
  then show "i \<in> set (tr_held t') \<Longrightarrow> i < length (ps_jobs (tr_pool t'))"
    "i \<in> set (ps_weaks (tr_pool t')) \<Longrightarrow> i < length (ps_jobs (tr_pool t'))" by auto
qed (use assms(2,3) in_orderD(1) [OF assms(1)] in simp)

lemma in_order_step: "traffic_step L t e t' \<Longrightarrow> in_order L t \<Longrightarrow> in_order L t'"
proof (induction rule: traffic_step.induct)
  case (Connects s st t)
  then show ?case using in_order_connects [of L t s] by simp
next
  case (Tracked i t)
  from Tracked.prems show ?case
    by (rule in_order_change [where I = "{i}"])
      (use Tracked.hyps in \<open>auto intro: same_job [of L t]\<close>)
next
  case (Works i t e d)
  from Works.prems show ?case
    by (rule in_order_change [where I = "{i}"])
      (use Works.hyps in \<open>auto intro: job_works [of L t i e d]\<close>)
next
  case (Scans t)
  from Scans.prems show ?case
    by (rule in_order_change [where I = "{}"]) (auto simp: retain_live_def [of "tr_pool t"]
      job_dispatcher_def)
next
  case (Recounts t cs)
  from Recounts.prems show ?case by (rule in_order_change [where I = "{}"]) auto
next
  case (Acquires i t)
  have stored: "snd (reserved_new i (tr_pool t)) = store_in_flight u32_MAX i (tr_pool t)"
    by (simp add: reserved_new_def)
  from Acquires.prems show ?case
    by (rule in_order_change [where I = "{i}"])
      (use Acquires.hyps stored in_orderD(1) [OF Acquires.prems] in
        \<open>auto intro: job_stored [of L t i _ u32_MAX]\<close>)
next
  case (HandsBack rv i t)
  have range: "i < length (ps_jobs (tr_pool t))"
    using in_orderD(2) [OF HandsBack.prems] HandsBack.hyps(2) by blast
  from HandsBack.prems show ?case
    by (rule in_order_change [where I = "{i}"])
      (use HandsBack.hyps range in_orderD(1) [OF HandsBack.prems] in
        \<open>auto intro: job_stored [of L t "rv_job rv" _ 0]\<close>)
qed

lemma in_order_start: "in_order L no_traffic"
  by (simp add: in_order_def no_traffic_def empty_pool_def)

lemma traffic_in_order: "traffic_runs L t es t' \<Longrightarrow> in_order L t \<Longrightarrow> in_order L t'"
  by (induction rule: traffic_runs.induct) (auto intro: in_order_step)

section \<open>What holds under traffic\<close>

lemma chosen_light: "chosen n st = Some i \<Longrightarrow> in_flight st i < 32"
  by (auto simp: chosen_def Let_def find_Some_iff split: option.splits if_splits)

lemma below_sentinel:
  fixes x :: u32
  assumes "u32_MAX + x < 32"
  shows "1 \<le> x \<and> x \<le> 32"
proof -
  have "x \<noteq> 0" using assms by auto
  then have pred: "unat (x - 1) = unat x - 1" by (rule unat_minus_one)
  have "u32_MAX + 1 = (0 :: u32)" by simp
  then have "u32_MAX + x + 1 = x" by (metis add.assoc add.commute add_0_left)
  then have "u32_MAX + x = x - 1" by (simp only: eq_diff_eq)
  with assms have "x - 1 < 32" by simp
  then have small: "unat (x - 1) < 32" by (simp add: word_less_nat_alt)
  have "unat x \<noteq> 0" using \<open>x \<noteq> 0\<close> by (simp add: unat_eq_0)
  with small pred show ?thesis by (simp add: word_le_nat_alt)
qed


section \<open>A concrete run\<close>

text \<open>A job is connected, tracked and acquired; its holder's request is written.\<close>

definition holding :: "dispatcher \<Rightarrow> unit traffic" where
  "holding d =
     \<lparr>tr_pool = \<lparr>ps_jobs = [sample_session\<lparr>ss_world := (d, ())\<rparr>], ps_strong = [1], ps_weaks = [0]\<rparr>,
      tr_marks = [(u32_MAX, 0)], tr_held = [0]\<rparr>"

lemma holding_simps [simp]:
  "job_dispatcher (tr_pool (holding d)) 0 = d" "length (ps_jobs (tr_pool (holding d))) = 1"
  "(holding d)\<lparr>tr_pool := set_dispatcher 0 d' (tr_pool (holding d))\<rparr> = holding d'"
  by (simp_all add: holding_def job_dispatcher_def set_dispatcher_def Let_def)

lemma acquired_run:
  "traffic_runs sample no_traffic [Connects, Tracked 0, Acquires 0] (holding (spawn\<lparr>dq_in_flight := u32_MAX\<rparr>))"
proof -
  let ?t1 = "\<lparr>tr_pool = \<lparr>ps_jobs = [sample_session], ps_strong = [1], ps_weaks = []\<rparr>,
    tr_marks = [(0, 0)], tr_held = []\<rparr> :: unit traffic"
  let ?t2 = "?t1\<lparr>tr_pool := track 0 (tr_pool ?t1)\<rparr>"
  have one: "traffic_step sample no_traffic Connects ?t1"
    using traffic_step.Connects [of sample_session "tr_pool no_traffic" no_traffic sample]
    by (simp add: no_traffic_def empty_pool_def sample_session_def)
  have two: "traffic_step sample ?t1 (Tracked 0) ?t2"
    by (rule traffic_step.Tracked) simp
  have three: "traffic_step sample ?t2 (Acquires 0) (holding (spawn\<lparr>dq_in_flight := u32_MAX\<rparr>))"
    using traffic_step.Acquires [of 0 ?t2 sample]
    by (simp add: track_def reserved_new_def store_in_flight_def outstanding_def job_dispatcher_def
        holding_def sample_session_def spawn_def Let_def)
  from traffic_runs.Snoc [OF traffic_runs.Snoc [OF traffic_runs.Snoc [OF traffic_runs.Nil one] two] three]
  show ?thesis by simp
qed

lemma busy_holder_run:
  "traffic_runs sample no_traffic
     ([Connects, Tracked 0, Acquires 0] @ [Works 0 (Submit (Ping ''1''))] @ [Works 0 (Take None)])
     (holding (sample_pending\<lparr>dq_in_flight := 0\<rparr>))"
proof -
  let ?q = "sample_queued\<lparr>dq_in_flight := u32_MAX\<rparr>"
  have "dstep sample (spawn\<lparr>dq_in_flight := u32_MAX\<rparr>) (Submit (Ping ''1'')) ?q"
    by (simp add: dstep_Submit submit_def sample_defs spawn_def)
  then have one: "traffic_step sample (holding (spawn\<lparr>dq_in_flight := u32_MAX\<rparr>))
      (Works 0 (Submit (Ping ''1''))) (holding ?q)"
    using traffic_step.Works [of 0 "holding (spawn\<lparr>dq_in_flight := u32_MAX\<rparr>)" sample] by simp
  have "dstep sample ?q (Take None) (sample_pending\<lparr>dq_in_flight := 0\<rparr>)"
    by (rule dstep.Take [of _ "sample_ob 0" "[]" "[]"])
       (simp_all add: handle_outbound_def insert_pending_def sample_defs)
  then have two: "traffic_step sample (holding ?q) (Works 0 (Take None))
      (holding (sample_pending\<lparr>dq_in_flight := 0\<rparr>))"
    using traffic_step.Works [of 0 "holding ?q" sample] by simp
  show ?thesis
    using traffic_runs.Snoc [OF traffic_runs.Snoc [OF acquired_run one] two] by simp
qed


end
