(* ===== verification/Exec_Time.thy ===== *)
theory Exec_Time
  imports Query
begin

text \<open>
  The execution time of a result set (\<open>Rows::execution_time\<close> of \<^verbatim>\<open>src/src/query.rs\<close>): the daemon's
  number of milliseconds, a double, is divided by 1000 and turned into a \<open>Duration\<close>.

  A finite double is \<open>m * 2 ^ (e - 1075)\<close> with \<open>e\<close> at least 1 and \<open>m\<close> below \<open>2 ^ 53\<close>. The
  division rounds to the nearest double, ties to even. \<open>Duration::from_secs_f64\<close> rounds to the
  nearest nanosecond, ties to even, and panics on negative numbers, on NaN and the infinities, and
  from \<open>2 ^ 64\<close> seconds on; a panic is \<open>None\<close>.

  The lemmas give the exact result for the integers a daemon sends, and when the call panics.
\<close>

section \<open>Doubles\<close>

definition f64_negative :: "u64 \<Rightarrow> bool" where
  "f64_negative b = (2 ^ 63 \<le> unat b)"

definition f64_exponent :: "u64 \<Rightarrow> nat" where
  "f64_exponent b = max 1 ((unat b div 2 ^ 52) mod 2048)"

definition f64_mantissa :: "u64 \<Rightarrow> nat" where
  "f64_mantissa b =
     (if (unat b div 2 ^ 52) mod 2048 = 0 then unat b mod 2 ^ 52 else 2 ^ 52 + unat b mod 2 ^ 52)"

definition round_div :: "nat \<Rightarrow> nat \<Rightarrow> nat" where
  "round_div a b =
     (let q = a div b; r = a mod b in if b < 2 * r \<or> (2 * r = b \<and> odd q) then q + 1 else q)"

text \<open>
  The quotient of \<open>m * 2 ^ (e - 1075)\<close> by 1000, as a mantissa and an exponent: the mantissa is
  scaled by the power of two that gives it 53 bits, or by less where the exponent would fall
  below 1.
\<close>

definition div_shift :: "nat \<Rightarrow> nat" where
  "div_shift m =
     (let j = 61 - log2_nat m in if 2 ^ 52 \<le> m * 2 ^ j div 1000 then j else j + 1)"

definition div_1000 :: "nat \<Rightarrow> nat \<Rightarrow> nat \<times> nat" where
  "div_1000 m e =
     (let j = min (div_shift m) (e - 1) in (round_div (m * 2 ^ j) 1000, e - j))"

section \<open>Durations\<close>

definition duration_from_secs_f64 :: "bool \<Rightarrow> nat \<Rightarrow> nat \<Rightarrow> duration option" where
  "duration_from_secs_f64 negative m e =
     (if negative \<and> m \<noteq> 0 then None
      else if 2 ^ (64 + 1075) \<le> m * 2 ^ e then None
      else Some (if 1075 \<le> e then m * 2 ^ (e - 1075) * 10 ^ 9
                 else round_shift (m * 10 ^ 9) (1075 - e)))"

definition execution_time :: "rows \<Rightarrow> duration option" where
  "execution_time rw =
     (let t = qr_execution_time (rw_inner rw) in
      if \<not> f64_finite t then None
      else (let (m, e) = div_1000 (f64_mantissa t) (f64_exponent t)
            in duration_from_secs_f64 (f64_negative t) m e))"

section \<open>Rounding\<close>

lemma round_shift_near:
  assumes "0 < k" "c * 2 ^ k < a + 2 ^ (k - 1)" "a < c * 2 ^ k + 2 ^ (k - 1)"
  shows "round_shift a k = c"
proof -
  define h :: nat where "h = 2 ^ (k - 1)"
  have p: "2 ^ k = 2 * h" "0 < h" using assms(1) by (simp_all add: h_def flip: power_Suc)
  have rs: "round_shift a k =
      (if h < a mod 2 ^ k \<or> (a mod 2 ^ k = h \<and> odd (a div 2 ^ k)) then a div 2 ^ k + 1 else a div 2 ^ k)"
    by (simp only: round_shift_def h_def Let_def)
  show ?thesis
  proof (cases "c * 2 ^ k \<le> a")
    case True
    then obtain r where r: "a = c * 2 ^ k + r" by (metis le_Suc_ex)
    with assms(3) have "r < h" by (simp add: h_def)
    with p r have "a div 2 ^ k = c" "a mod 2 ^ k = r" by simp_all
    with \<open>r < h\<close> show ?thesis by (simp add: rs)
  next
    case False
    then obtain d where d: "c = Suc d" by (cases c) auto
    define r where "r = a - d * 2 ^ k"
    from assms(2) p d False have r: "a = d * 2 ^ k + r" "h < r" "r < 2 * h"
      by (simp_all add: r_def h_def)
    then have "a div 2 ^ k = d" "a mod 2 ^ k = r" using p by simp_all
    then show ?thesis using r(2) by (simp only: rs) (simp add: d)
  qed
qed

lemma round_div_near:
  assumes "0 < b"
  shows "2 * (round_div a b * b) \<le> 2 * a + b" "2 * a \<le> 2 * (round_div a b * b) + b"
proof -
  define q r where "q = a div b" and "r = a mod b"
  have a: "a = q * b + r" "r < b" using assms by (simp_all add: q_def r_def)
  have "round_div a b = (if b < 2 * r \<or> (2 * r = b \<and> odd q) then q + 1 else q)"
    by (simp add: round_div_def q_def r_def Let_def)
  with a show "2 * (round_div a b * b) \<le> 2 * a + b" "2 * a \<le> 2 * (round_div a b * b) + b"
    by (auto simp: algebra_simps)
qed

lemma log2_nat_bounds: "0 < n \<Longrightarrow> 2 ^ log2_nat n \<le> n \<and> n < 2 ^ Suc (log2_nat n)"
proof (induction n rule: log2_nat.induct)
  case (1 n)
  show ?case
  proof (cases "n < 2")
    case True
    with "1.prems" have "n = 1" by simp
    then show ?thesis by (simp add: log2_nat.simps)
  next
    case False
    with "1.IH" have "2 ^ log2_nat (n div 2) \<le> n div 2 \<and> n div 2 < 2 ^ Suc (log2_nat (n div 2))"
      by simp
    moreover have "log2_nat n = Suc (log2_nat (n div 2))"
      using False by (subst log2_nat.simps) simp
    moreover have "n = 2 * (n div 2) \<or> n = 2 * (n div 2) + 1" by presburger
    ultimately show ?thesis by (auto simp del: One_nat_def)
  qed
qed

lemma log2_nat_eq: "2 ^ l \<le> n \<Longrightarrow> n < 2 ^ Suc l \<Longrightarrow> log2_nat n = l"
proof -
  assume n: "2 ^ l \<le> n" "n < 2 ^ Suc l"
  then have "0 < n" by (meson less_le_trans zero_less_power zero_less_numeral)
  from log2_nat_bounds [OF this] n have "(2::nat) ^ log2_nat n < 2 ^ Suc l" "(2::nat) ^ l < 2 ^ Suc (log2_nat n)"
    by linarith+
  then have "log2_nat n < Suc l" "l < Suc (log2_nat n)"
    by (auto intro: power_less_imp_less_exp [of "2::nat"] simp del: power_Suc)
  then show ?thesis by simp
qed

section \<open>Integers as doubles\<close>

text \<open>The double of a natural number below \<open>2 ^ 64\<close>: its fields, and that it is finite.\<close>

lemma round_shift_bounds: "n div 2 ^ k \<le> round_shift n k \<and> round_shift n k \<le> Suc (n div 2 ^ k)"
  by (simp add: round_shift_def Let_def)

lemma f64_of_nat_range:
  assumes "0 < n" "n < 2 ^ 64"
  shows "1023 * 2 ^ 52 \<le> f64_of_nat n \<and> f64_of_nat n \<le> 1087 * 2 ^ 52"
proof -
  let ?e = "log2_nat n"
  let ?m = "if ?e \<le> 52 then n * 2 ^ (52 - ?e) else round_shift n (?e - 52)"
  have b: "2 ^ ?e \<le> n" "n < 2 ^ Suc ?e" using log2_nat_bounds [OF assms(1)] by auto
  have "(2::nat) ^ ?e < 2 ^ 64" using b(1) assms(2) by linarith
  then have e: "?e < 64" by (rule power_less_imp_less_exp [rotated]) simp
  have "?m \<le> 2 ^ 53"
  proof (cases "?e \<le> 52")
    case True
    have "n * 2 ^ (52 - ?e) \<le> 2 ^ Suc ?e * 2 ^ (52 - ?e)" using b(2) by simp
    also have "\<dots> = 2 ^ 53" using True by (simp flip: power_add)
    finally show ?thesis using True by simp
  next
    case False
    have "(2::nat) ^ Suc ?e = 2 ^ (53 + (?e - 52))" using False by simp
    with b(2) have "n < 2 ^ 53 * 2 ^ (?e - 52)" by (simp only: power_add)
    then have "n div 2 ^ (?e - 52) < 2 ^ 53" by (simp add: less_mult_imp_div_less)
    with round_shift_bounds [of n "?e - 52"] False show ?thesis by simp
  qed
  moreover have "f64_of_nat n = (?e + 1023) * 2 ^ 52 + (?m - 2 ^ 52)"
    using assms(1) by (simp add: f64_of_nat_def Let_def)
  ultimately show ?thesis using e by simp
qed

lemma f64_of_nat_small:
  assumes "0 < n" "n < 2 ^ 32" "l = log2_nat n"
  shows "f64_of_nat n = (l + 1023) * 2 ^ 52 + (n * 2 ^ (52 - l) - 2 ^ 52)"
    and "2 ^ 52 \<le> n * 2 ^ (52 - l)" "n * 2 ^ (52 - l) < 2 ^ 53" "l < 32"
proof -
  have b: "2 ^ l \<le> n" "n < 2 ^ Suc l" using log2_nat_bounds [OF assms(1)] assms(3) by auto
  have "(2::nat) ^ l < 2 ^ 32" using b(1) assms(2) by linarith
  then show l: "l < 32" by (rule power_less_imp_less_exp [rotated]) simp
  then show "f64_of_nat n = (l + 1023) * 2 ^ 52 + (n * 2 ^ (52 - l) - 2 ^ 52)"
    using assms(1,3) by (simp add: f64_of_nat_def Let_def)
  have pw: "(2::nat) ^ 52 = 2 ^ l * 2 ^ (52 - l)" using l by (simp flip: power_add)
  show "2 ^ 52 \<le> n * 2 ^ (52 - l)" unfolding pw by (rule mult_le_mono1 [OF b(1)])
  have pw': "(2::nat) ^ 53 = 2 ^ Suc l * 2 ^ (52 - l)" using l by (simp flip: power_add)
  show "n * 2 ^ (52 - l) < 2 ^ 53"
    unfolding pw' by (rule mult_strict_right_mono [OF b(2)]) simp
qed

section \<open>The quotient\<close>

lemma div_1000_bounds:
  assumes "div_1000 m e = (q, d)"
  shows "500 * (q * 2 ^ d) \<le> m * 2 ^ e" "501 \<le> m \<Longrightarrow> q \<noteq> 0"
proof -
  define j where "j = min (div_shift m) (e - 1)"
  from assms have q: "q = round_div (m * 2 ^ j) 1000" and d: "d = e - j"
    by (simp_all add: div_1000_def j_def Let_def)
  note near = round_div_near [of 1000 "m * 2 ^ j", simplified, folded q]
  have "500 * q \<le> m * 2 ^ j"
    using near(1) by (cases q) simp_all
  then have "500 * q * 2 ^ d \<le> m * 2 ^ j * 2 ^ d" by (rule mult_right_mono) simp
  also have "\<dots> = m * 2 ^ e" by (simp add: d j_def mult.assoc flip: power_add)
  finally show "500 * (q * 2 ^ d) \<le> m * 2 ^ e" by (simp add: mult.assoc)
  have "m * 1 \<le> m * 2 ^ j" by (intro mult_left_mono) simp_all
  then show "501 \<le> m \<Longrightarrow> q \<noteq> 0" using near(2) by (cases q) simp_all
qed

section \<open>Execution times\<close>

definition timed :: "u64 \<Rightarrow> rows \<Rightarrow> rows" where
  "timed b rw = rw\<lparr>rw_inner := (rw_inner rw)\<lparr>qr_execution_time := b\<rparr>\<rparr>"

lemma f64_fields:
  assumes "x < 2 ^ 63" "x div 2 ^ 52 < 2047" "0 < x div 2 ^ 52" "b = of_nat (s * 2 ^ 63 + x)" "s \<le> 1"
  shows "f64_finite b" "f64_negative b = (s = 1)" "f64_exponent b = x div 2 ^ 52"
    "f64_mantissa b = 2 ^ 52 + x mod 2 ^ 52"
proof -
  have "s * 2 ^ 63 + x < 2 ^ 64" using assms(1,5) by (cases s) simp_all
  then have u: "unat b = s * 2 ^ 63 + x" by (simp only: assms(4) unat_of_nat) simp
  have field: "(unat b div 2 ^ 52) mod 2048 = x div 2 ^ 52"
    using assms(2,5) div_mult_self3 [of "2 ^ 52" 2048 x] unfolding u
    by (cases "s = 0") (auto simp: le_Suc_eq)
  have frac: "unat b mod 2 ^ 52 = x mod 2 ^ 52"
    using assms(5) mod_mult_self3 [of 2048 "2 ^ 52" x] unfolding u
    by (cases "s = 0") (auto simp: le_Suc_eq)
  show "f64_finite b" "f64_exponent b = x div 2 ^ 52" "f64_mantissa b = 2 ^ 52 + x mod 2 ^ 52"
    using field frac assms(2,3) by (simp_all add: f64_finite_def f64_exponent_def f64_mantissa_def)
  show "f64_negative b = (s = 1)"
    using assms(1,5) u by (cases "s = 0") (auto simp: f64_negative_def le_Suc_eq)
qed

lemma execution_time_eq:
  assumes "x < 2 ^ 63" "x div 2 ^ 52 < 2047" "0 < x div 2 ^ 52" "s \<le> 1"
  shows "execution_time (timed (of_nat (s * 2 ^ 63 + x)) rw) =
    (let (m, e) = div_1000 (2 ^ 52 + x mod 2 ^ 52) (x div 2 ^ 52)
     in duration_from_secs_f64 (s = 1) m e)"
  using f64_fields [OF assms(1-3) refl assms(4)]
  by (simp add: execution_time_def timed_def)

lemma nonnegative_never_panics:
  assumes "m < 2 ^ 53" "e \<le> 1087"
  shows "(case div_1000 m e of (q, d) \<Rightarrow> duration_from_secs_f64 False q d) \<noteq> None"
proof -
  obtain q d where q: "div_1000 m e = (q, d)" by (metis prod.exhaust)
  have "500 * (q * 2 ^ d) \<le> m * 2 ^ e" using div_1000_bounds(1) [OF q] .
  also have "\<dots> < 2 ^ 53 * 2 ^ e" using assms(1) by simp
  also have "\<dots> \<le> 2 ^ 53 * 2 ^ 1087" using assms(2) by (intro mult_left_mono power_increasing) simp_all
  finally have "500 * (q * 2 ^ d) < 2 ^ 1140" by (simp only: flip: power_add) simp
  moreover have "(2::nat) ^ 1140 = 2 * 2 ^ 1139" by (simp only: flip: power_Suc) simp
  ultimately have "q * 2 ^ d < 2 ^ 1139" by linarith
  then show ?thesis by (simp add: q duration_from_secs_f64_def)
qed

lemma whole_milliseconds:
  assumes "0 < n" "n < 2 ^ 32" "l = log2_nat n"
  shows "(case div_1000 (n * 2 ^ (52 - l)) (l + 1023) of (q, d) \<Rightarrow> duration_from_secs_f64 False q d) =
    Some (n * 10 ^ 6)"
proof -
  let ?m = "n * 2 ^ (52 - l)"
  note small = f64_of_nat_small [OF assms]
  have "log2_nat ?m = 52" using small(2,3) by (intro log2_nat_eq) simp_all
  then have j: "div_shift ?m = 9 \<or> div_shift ?m = 10" by (simp add: div_shift_def Let_def)
  define j where "j = div_shift ?m"
  define K where "K = 52 - l + j"
  define q where "q = round_div (?m * 2 ^ j) 1000"
  have jr: "9 \<le> j" "j \<le> 10" using j by (auto simp: j_def)
  have K: "30 \<le> K" using jr(1) small(4) by (simp add: K_def)
  have div: "div_1000 ?m (l + 1023) = (q, l + 1023 - j)"
    using jr(2) by (simp add: div_1000_def q_def min_def flip: j_def)
  have mK: "?m * 2 ^ j = n * 2 ^ K" by (simp add: K_def power_add)
  note near = round_div_near [of 1000 "n * 2 ^ K", simplified, folded mK, folded q_def, unfolded mK]
  have half: "(2::nat) ^ 29 \<le> 2 ^ (K - 1)" using K by (intro power_increasing) simp_all
  have "round_shift (q * 10 ^ 9) K = n * 10 ^ 6"
  proof (rule round_shift_near)
    show "0 < K" using K by simp
    show "n * 10 ^ 6 * 2 ^ K < q * 10 ^ 9 + 2 ^ (K - 1)"
      using near(2) half by simp
    show "q * 10 ^ 9 < n * 10 ^ 6 * 2 ^ K + 2 ^ (K - 1)"
      using near(1) half by simp
  qed
  moreover have "1075 - (l + 1023 - j) = K" using small(4) jr by (simp add: K_def)
  moreover have "(case div_1000 ?m (l + 1023) of (q, d) \<Rightarrow> duration_from_secs_f64 False q d) \<noteq> None"
    using small(3,4) by (intro nonnegative_never_panics) simp_all
  ultimately show ?thesis
    using small(4) by (auto simp: div duration_from_secs_f64_def split: if_splits)
qed

lemma execution_time_zero: "execution_time (timed 0 rw) = Some 0"
  by (simp add: execution_time_def timed_def f64_exponent_def f64_mantissa_def div_1000_def
      duration_from_secs_f64_def round_div_def round_shift_def f64_negative_def Let_def)

lemma f64_word_range:
  assumes "0 < n" "n < 2 ^ 64" "x = f64_of_nat n"
  shows "x < 2 ^ 63" "x div 2 ^ 52 < 2047" "0 < x div 2 ^ 52" "x div 2 ^ 52 \<le> 1087"
  using f64_of_nat_range [OF assms(1,2)] assms(3) by auto

lemma execution_time_negative:
  assumes "0 < n" "n < 2 ^ 64"
  shows "execution_time (timed (of_nat (2 ^ 63 + f64_of_nat n)) rw) = None"
proof -
  let ?x = "f64_of_nat n"
  obtain q d where q: "div_1000 (2 ^ 52 + ?x mod 2 ^ 52) (?x div 2 ^ 52) = (q, d)"
    by (metis prod.exhaust)
  have "q \<noteq> 0" using div_1000_bounds(2) [OF q] by simp
  then show ?thesis
    using execution_time_eq [OF f64_word_range(1-3) [OF assms refl], of 1 rw] q
    by (simp add: duration_from_secs_f64_def)
qed

lemma execution_time_positive:
  assumes "0 < n" "n < 2 ^ 64"
  shows "execution_time (timed (of_nat (f64_of_nat n)) rw) \<noteq> None \<and>
    (n < 2 ^ 32 \<longrightarrow> execution_time (timed (of_nat (f64_of_nat n)) rw) = Some (n * 10 ^ 6))"
proof -
  let ?x = "f64_of_nat n"
  note range = f64_word_range [OF assms refl]
  have eq: "execution_time (timed (of_nat ?x) rw) =
      (case div_1000 (2 ^ 52 + ?x mod 2 ^ 52) (?x div 2 ^ 52) of (q, d) \<Rightarrow>
         duration_from_secs_f64 False q d)"
    using execution_time_eq [OF range(1-3), of 0 rw] by simp
  have mant: "2 ^ 52 + ?x mod 2 ^ 52 < 2 ^ 53"
    using mod_less_divisor [of "2 ^ 52" ?x] by simp
  have "execution_time (timed (of_nat ?x) rw) = Some (n * 10 ^ 6)" if "n < 2 ^ 32"
  proof -
    define l where "l = log2_nat n"
    note small = f64_of_nat_small [OF assms(1) that l_def]
    let ?r = "n * 2 ^ (52 - l) - 2 ^ 52"
    have "?r < 2 ^ 52" using small(2,3) by simp
    then have "?x div 2 ^ 52 = l + 1023" "?x mod 2 ^ 52 = ?r"
      using small(1) div_mult_self3 [of "2 ^ 52" "l + 1023" ?r]
        mod_mult_self3 [of "l + 1023" "2 ^ 52" ?r] by simp_all
    with small(2) whole_milliseconds [OF assms(1) that l_def] show ?thesis by (simp add: eq)
  qed
  with nonnegative_never_panics [OF mant range(4)] show ?thesis by (simp add: eq)
qed

text \<open>
  C36. Execution times. When the daemon sends its milliseconds as an integer, \<open>execution_time\<close> panics
  exactly for the negative ones: for a non-negative integer below \<open>2 ^ 64\<close> there is a duration, and
  below \<open>2 ^ 32\<close> milliseconds (49 days) it is exact to the nanosecond, despite the detour through
  a division in floating point.
\<close>

theorem execution_time_of_integers:
  assumes "- (2 ^ 63) \<le> i" "i < 2 ^ 64" "de_f64 (JNumber (JInt i)) = Inr b"
  shows "(execution_time (timed b rw) = None \<longleftrightarrow> i < 0) \<and>
    (0 \<le> i \<and> i < 2 ^ 32 \<longrightarrow> execution_time (timed b rw) = Some (nat i * 10 ^ 6))"
proof -
  have b: "b = f64_of_int i" using assms(3) by simp
  consider (neg) "i < 0" | (zero) "i = 0" | (pos) "0 < i" by linarith
  then show ?thesis
  proof cases
    case neg
    then have "0 < nat (- i)" "nat (- i) < 2 ^ 64" using assms(1) by auto
    from execution_time_negative [OF this, of rw] neg show ?thesis by (simp add: b f64_of_int_def)
  next
    case zero
    then show ?thesis by (simp add: b execution_time_zero)
  next
    case pos
    then have n: "0 < nat i" "nat i < 2 ^ 64" using assms(2) by auto
    have "nat i < 2 ^ 32" if "i < 2 ^ 32" using that pos by auto
    with execution_time_positive [OF n, of rw] pos show ?thesis by (auto simp: b f64_of_int_def)
  qed
qed

lemma execution_time_of_integers_witness:
  "execution_time (timed (f64_of_int 1500) (rows_new open_page 1)) = Some 1500000000 \<and>
   execution_time (timed (f64_of_int (- 1)) (rows_new open_page 1)) = None"
  using execution_time_of_integers [of 1500 "f64_of_int 1500" "rows_new open_page 1"]
    execution_time_of_integers [of "- 1" "f64_of_int (- 1)" "rows_new open_page 1"]
  by simp

end
