(* ===== verification/Observability.thy ===== *)
theory Observability
  imports Reserved
begin

text \<open>
  What the client reports about itself (\<^verbatim>\<open>src/src/observability.rs\<close> and the places that emit the
  metrics): the names of the metrics, and for each instrumented operation what it emits, in
  order. A histogram takes the elapsed time in microseconds, saturated at \<open>u64::MAX\<close>, as a double.

  The lemmas show that a routed call names exactly one tier, and the one that gave it its job,
  and when the latency histogram and the counters of handles and roll-backs are fed.
\<close>

section \<open>Metrics\<close>

definition POOL_CREATE_TOTAL :: string where
  "POOL_CREATE_TOTAL = ''mapepire_pool_create_total''"

definition POOL_RECYCLE_SUCCESS_TOTAL :: string where
  "POOL_RECYCLE_SUCCESS_TOTAL = ''mapepire_pool_recycle_success_total''"

definition POOL_RECYCLE_FAIL_TOTAL :: string where
  "POOL_RECYCLE_FAIL_TOTAL = ''mapepire_pool_recycle_fail_total''"

definition POOL_ACQUIRE_LATENCY_MICROS :: string where
  "POOL_ACQUIRE_LATENCY_MICROS = ''mapepire_pool_acquire_latency_micros''"

definition JOB_EXECUTE_LATENCY_MICROS :: string where
  "JOB_EXECUTE_LATENCY_MICROS = ''mapepire_job_execute_latency_micros''"

definition POOL_SIZE :: string where
  "POOL_SIZE = ''mapepire_pool_size''"

definition POOL_AVAILABLE :: string where
  "POOL_AVAILABLE = ''mapepire_pool_available''"

definition POOL_WAITING :: string where
  "POOL_WAITING = ''mapepire_pool_waiting''"

definition POOL_ROUTING_TIER_WINS_TOTAL :: string where
  "POOL_ROUTING_TIER_WINS_TOTAL = ''mapepire_pool_routing_tier_wins_total''"

definition POOL_RESERVED_ACQUIRED_TOTAL :: string where
  "POOL_RESERVED_ACQUIRED_TOTAL = ''mapepire_pool_reserved_acquired_total''"

definition POOL_RESERVED_ROLLBACK_TOTAL :: string where
  "POOL_RESERVED_ROLLBACK_TOTAL = ''mapepire_pool_reserved_rollback_total''"

definition POOL_IDLE_REAPED_TOTAL :: string where
  "POOL_IDLE_REAPED_TOTAL = ''mapepire_pool_idle_reaped_total''"

lemmas metric_names = POOL_CREATE_TOTAL_def POOL_RECYCLE_SUCCESS_TOTAL_def
  POOL_RECYCLE_FAIL_TOTAL_def POOL_ACQUIRE_LATENCY_MICROS_def JOB_EXECUTE_LATENCY_MICROS_def
  POOL_SIZE_def POOL_AVAILABLE_def POOL_WAITING_def POOL_ROUTING_TIER_WINS_TOTAL_def
  POOL_RESERVED_ACQUIRED_TOTAL_def POOL_RESERVED_ROLLBACK_TOTAL_def POOL_IDLE_REAPED_TOTAL_def

datatype metric =
    Counter string "(string \<times> string) list" nat
  | Gauge string u64
  | Histogram string u64

lemma metric_names_distinct:
  "distinct [POOL_CREATE_TOTAL, POOL_RECYCLE_SUCCESS_TOTAL, POOL_RECYCLE_FAIL_TOTAL,
     POOL_ACQUIRE_LATENCY_MICROS, JOB_EXECUTE_LATENCY_MICROS, POOL_SIZE, POOL_AVAILABLE,
     POOL_WAITING, POOL_ROUTING_TIER_WINS_TOTAL, POOL_RESERVED_ACQUIRED_TOTAL,
     POOL_RESERVED_ROLLBACK_TOTAL, POOL_IDLE_REAPED_TOTAL]"
  by (simp add: metric_names)

section \<open>Emissions\<close>

definition elapsed_micros :: "duration \<Rightarrow> nat" where
  "elapsed_micros d = min (d div 1000) (2 ^ 64 - 1)"

definition as_f64 :: "nat \<Rightarrow> u64" where
  "as_f64 n = f64_of_int (int n)"

definition record_execute_latency :: "duration \<Rightarrow> metric list" where
  "record_execute_latency d =
     [Histogram JOB_EXECUTE_LATENCY_MICROS (as_f64 (elapsed_micros d))]"

definition emit_pool_status_gauges :: "pool_status \<Rightarrow> metric list" where
  "emit_pool_status_gauges s =
     [Gauge POOL_SIZE (as_f64 (po_size s)), Gauge POOL_AVAILABLE (as_f64 (po_available s)),
      Gauge POOL_WAITING (as_f64 (po_waiting s))]"

definition create_metrics :: "error + 'j \<Rightarrow> metric list" where
  "create_metrics conn =
     (case conn of Inl e \<Rightarrow> [] | Inr j \<Rightarrow> [Counter POOL_CREATE_TOTAL [] 1])"

definition recycle_metrics :: "error + unit \<Rightarrow> metric list" where
  "recycle_metrics r =
     (case r of
        Inl e \<Rightarrow> [Counter POOL_RECYCLE_FAIL_TOTAL [] 1]
      | Inr _ \<Rightarrow> [Counter POOL_RECYCLE_SUCCESS_TOTAL [] 1])"

text \<open>
  A batch of parameter sets: an empty batch, a bad page size and a failed exchange return before
  the histogram is fed.
\<close>

definition execute_sets_metrics ::
  "'w sender \<Rightarrow> string \<Rightarrow> value list list \<Rightarrow> execute_options \<Rightarrow> duration \<Rightarrow> 'w session \<Rightarrow> metric list" where
  "execute_sets_metrics send sql sets opts d s =
     (case owned_parameter_sets sets of
        Inl e \<Rightarrow> []
      | Inr ps \<Rightarrow>
          (case resolved_rows opts of
             Inl e \<Rightarrow> []
           | Inr n \<Rightarrow>
               (case fst (send (sets_request sql ps n (terse_on_wire opts) (peek_id s)) (ss_world s)) of
                  Inl e \<Rightarrow> []
                | Inr r \<Rightarrow> record_execute_latency d)))"

definition acquire_metrics :: "error + nat \<Rightarrow> duration \<Rightarrow> metric list" where
  "acquire_metrics r d =
     (case r of
        Inl e \<Rightarrow> []
      | Inr i \<Rightarrow>
          [Histogram POOL_ACQUIRE_LATENCY_MICROS (as_f64 (elapsed_micros d)),
           Counter POOL_RESERVED_ACQUIRED_TOTAL [] 1])"

definition drop_metrics :: "reserved \<Rightarrow> metric list" where
  "drop_metrics rv =
     (if rv_rollback_on_drop rv \<and> rv_tx rv = Started
      then [Counter POOL_RESERVED_ROLLBACK_TOTAL [] 1] else [])"

definition sweep_metrics :: "duration \<Rightarrow> (nat \<times> duration) list \<Rightarrow> metric list" where
  "sweep_metrics d conns =
     (let removed = length conns - length (sweep d conns)
      in if removed = 0 then [] else [Counter POOL_IDLE_REAPED_TOTAL [] removed])"

section \<open>The tier of a routed call\<close>

datatype tier = TryIdle | LeastBusyScan | FairQueue

fun tier_label :: "tier \<Rightarrow> string" where
  "tier_label TryIdle = ''try_idle''"
| "tier_label LeastBusyScan = ''least_busy_scan''"
| "tier_label FairQueue = ''fair_queue''"

definition tier_metric :: "tier \<Rightarrow> metric" where
  "tier_metric t = Counter POOL_ROUTING_TIER_WINS_TOTAL [(''tier'', tier_label t)] 1"

text \<open>
  A routed call: the gauges, the tier as soon as it is known, and the latency of the job's own
  \<open>execute_opts\<close> or \<open>execute_with_opts\<close> if the call gets as far as a job.
\<close>

definition routed_metrics ::
  "'d surroundings \<Rightarrow> pool \<Rightarrow> pool_status \<Rightarrow> duration \<Rightarrow> 'd pool_state \<Rightarrow> metric list" where
  "routed_metrics E p po d st =
     emit_pool_status_gauges po @
     (let (found, st1) = peek_idle st in
      case found of
        Some i \<Rightarrow> tier_metric TryIdle # record_execute_latency d
      | None \<Rightarrow>
          (let (pick, st2) = pick_unsaturated (su_size E) st1 in
           case pick of
             Some i \<Rightarrow> tier_metric LeastBusyScan # record_execute_latency d
           | None \<Rightarrow>
               tier_metric FairQueue #
               (case fst (get_or_timeout (su_get E) p st2) of
                  Inl e \<Rightarrow> [] | Inr i \<Rightarrow> record_execute_latency d)))"

definition is_tier :: "metric \<Rightarrow> bool" where
  "is_tier m = (case m of Counter k ls n \<Rightarrow> k = POOL_ROUTING_TIER_WINS_TOTAL | _ \<Rightarrow> False)"

definition is_latency :: "metric \<Rightarrow> bool" where
  "is_latency m = (case m of Histogram k v \<Rightarrow> k = JOB_EXECUTE_LATENCY_MICROS | _ \<Rightarrow> False)"

lemma metric_kinds [simp]:
  "is_tier (tier_metric t)" "\<not> is_latency (tier_metric t)"
  "filter is_tier (emit_pool_status_gauges po) = []"
  "filter is_latency (emit_pool_status_gauges po) = []"
  "filter is_tier (record_execute_latency d) = []"
  "filter is_latency (record_execute_latency d) = record_execute_latency d"
  by (simp_all add: is_tier_def is_latency_def tier_metric_def emit_pool_status_gauges_def
      record_execute_latency_def)

text \<open>The tier by what the registry held, without the scans.\<close>

definition tier_of :: "'d surroundings \<Rightarrow> 'd pool_state \<Rightarrow> tier" where
  "tier_of E st =
     (case chosen (su_size E) st of
        None \<Rightarrow> FairQueue
      | Some i \<Rightarrow> if in_flight st i = 0 \<and> strong_count st i = 1 then TryIdle else LeastBusyScan)"

text \<open>
  Every routed call counts exactly one tier, and the right one: \<open>try_idle\<close> when the job it runs
  on was idle and unshared, \<open>least_busy_scan\<close> when it was picked although neither, and
  \<open>fair_queue\<close> when none qualified -- also if the checkout then fails. The latency of the
  statement is recorded exactly if the call reaches a job. Dropping a handle counts a roll-back
  exactly when one is due, with or without a runtime to send it.
\<close>

theorem metrics_name_the_tier:
  "filter is_tier (routed_metrics E p po d st) = [tier_metric (tier_of E st)] \<and>
   filter is_latency (routed_metrics E p po d st) =
     (case fst (route E p st) of Inl e \<Rightarrow> [] | Inr i \<Rightarrow> record_execute_latency d) \<and>
   (drop_metrics rv = []) = (\<not> (rv_rollback_on_drop rv \<and> rv_tx rv = Started))"
proof -
  let ?W = "ps_weaks (retain_live st)"
  let ?idle = "\<lambda>i. in_flight st i = 0 \<and> strong_count st i = 1"
  have first: "find ?idle ?W = Some i \<Longrightarrow> ?idle i" for i
    by (auto simp: find_Some_iff)
  have second: "find ?idle ?W = None \<Longrightarrow> find (\<lambda>i. Q i) ?W = Some i \<Longrightarrow> \<not> ?idle i" for Q i
    by (auto simp: find_None_iff find_Some_iff)
  show ?thesis
  proof (cases "find ?idle ?W")
    case None
    then show ?thesis
      using second [OF None]
      by (auto simp: routed_metrics_def peek_idle_eq pick_unsaturated_eq route_def tier_of_def
          chosen_def drop_metrics_def Let_def split: option.splits sum.splits prod.splits if_splits)
  next
    case (Some i)
    then show ?thesis
      using first [OF Some]
      by (auto simp: routed_metrics_def peek_idle_eq pick_unsaturated_eq route_def tier_of_def
          chosen_def drop_metrics_def Let_def split: option.splits)
  qed
qed

end
