(* ===== verification/Lifecycle.thy ===== *)
theory Lifecycle
  imports Pool
begin

text \<open>
  The life of a pool and of its reaper (\<open>Pool\<close>, \<open>ReaperGuard\<close> and \<open>spawn_idle_reaper\<close> of
  \<^verbatim>\<open>src/src/pool/runtime.rs\<close>). Clones of a pool share deadpool's pool and the guard of the reaper
  task, each by a counted reference. A clone drops its fields in the order of their declaration:
  its reference to deadpool's pool first, its reference to the guard last. The task holds a weak
  reference, which it upgrades for the time of a sweep.

  The steps interleave freely, as on a runtime with several threads; an abort takes effect where
  the task next waits, after a sweep that is under way.
\<close>

section \<open>State\<close>

datatype reaper_task = Waiting | Sweeping | SweepingAborted | Ended

text \<open>
  The clones alive, those of which only the guard is left to drop, the timeout and the state of
  the task if there is one, and the idle connections with the time of their last use.
\<close>

record life =
  lf_clones :: nat
  lf_half :: nat
  lf_reaper :: "(duration \<times> reaper_task) option"
  lf_idle :: "(nat \<times> nat) list"

text \<open>The pool as built: one clone; \<open>reaper\<close> is what \<^const>\<open>pool_build\<close> decides.\<close>

definition pool_born :: "(duration \<times> duration) option \<Rightarrow> (nat \<times> nat) list \<Rightarrow> life" where
  "pool_born reaper conns =
     \<lparr>lf_clones = 1, lf_half = 0, lf_reaper = map_option (\<lambda>(d, p). (d, Waiting)) reaper,
      lf_idle = conns\<rparr>"

definition reaper_holds :: "life \<Rightarrow> bool" where
  "reaper_holds s =
     (case lf_reaper s of
        Some (d, Sweeping) \<Rightarrow> True | Some (d, SweepingAborted) \<Rightarrow> True | _ \<Rightarrow> False)"

text \<open>The strong references to deadpool's pool; with the last one it closes its connections.\<close>

definition strong_refs :: "life \<Rightarrow> nat" where
  "strong_refs s = lf_clones s + (if reaper_holds s then 1 else 0)"

definition close_if_unreferenced :: "life \<Rightarrow> life" where
  "close_if_unreferenced s = (if strong_refs s = 0 then s\<lparr>lf_idle := []\<rparr> else s)"

section \<open>Operations\<close>

definition clone_pool :: "life \<Rightarrow> life" where
  "clone_pool s = s\<lparr>lf_clones := lf_clones s + 1\<rparr>"

definition drop_clone :: "life \<Rightarrow> life" where
  "drop_clone s =
     close_if_unreferenced (s\<lparr>lf_clones := lf_clones s - 1, lf_half := lf_half s + 1\<rparr>)"

fun abort_task :: "reaper_task \<Rightarrow> reaper_task" where
  "abort_task Waiting = Ended"
| "abort_task Sweeping = SweepingAborted"
| "abort_task t = t"

definition drop_guard :: "life \<Rightarrow> life" where
  "drop_guard s =
     (let s1 = s\<lparr>lf_half := lf_half s - 1\<rparr>
      in if lf_clones s1 + lf_half s1 = 0
         then s1\<lparr>lf_reaper := map_option (\<lambda>(d, t). (d, abort_task t)) (lf_reaper s1)\<rparr> else s1)"

text \<open>The tick: upgrade, or return. Then the sweep, at time \<open>now\<close>, and the release.\<close>

definition reaper_tick :: "life \<Rightarrow> life" where
  "reaper_tick s =
     (case lf_reaper s of
        Some (d, Waiting) \<Rightarrow>
          s\<lparr>lf_reaper := Some (d, if strong_refs s = 0 then Ended else Sweeping)\<rparr>
      | _ \<Rightarrow> s)"

definition reaper_retain :: "nat \<Rightarrow> life \<Rightarrow> life" where
  "reaper_retain now s =
     (case lf_reaper s of
        Some (d, t) \<Rightarrow> s\<lparr>lf_idle := filter (\<lambda>(i, u). sweep d [(i, now - u)] \<noteq> []) (lf_idle s)\<rparr>
      | None \<Rightarrow> s)"

fun resume_task :: "reaper_task \<Rightarrow> reaper_task" where
  "resume_task Sweeping = Waiting"
| "resume_task SweepingAborted = Ended"
| "resume_task t = t"

definition reaper_release :: "life \<Rightarrow> life" where
  "reaper_release s =
     close_if_unreferenced (s\<lparr>lf_reaper := map_option (\<lambda>(d, t). (d, resume_task t)) (lf_reaper s)\<rparr>)"

section \<open>Steps\<close>

datatype life_event =
  CloneIt | DropClone | DropGuard | Tick | Retain nat | Release | ComesBack nat nat | TakenOut nat

inductive life_step :: "life \<Rightarrow> life_event \<Rightarrow> life \<Rightarrow> bool" where
  CloneIt: "0 < lf_clones s \<Longrightarrow> life_step s CloneIt (clone_pool s)"
| DropClone: "0 < lf_clones s \<Longrightarrow> life_step s DropClone (drop_clone s)"
| DropGuard: "0 < lf_half s \<Longrightarrow> life_step s DropGuard (drop_guard s)"
| Tick: "lf_reaper s = Some (d, Waiting) \<Longrightarrow> life_step s Tick (reaper_tick s)"
| Retain: "reaper_holds s \<Longrightarrow> life_step s (Retain now) (reaper_retain now s)"
| Release: "reaper_holds s \<Longrightarrow> life_step s Release (reaper_release s)"
| ComesBack: "0 < strong_refs s \<Longrightarrow> life_step s (ComesBack i now) (s\<lparr>lf_idle := (i, now) # lf_idle s\<rparr>)"
| TakenOut: "0 < lf_clones s \<Longrightarrow>
    life_step s (TakenOut i) (s\<lparr>lf_idle := filter (\<lambda>c. fst c \<noteq> i) (lf_idle s)\<rparr>)"

inductive life_runs :: "life \<Rightarrow> life_event list \<Rightarrow> life \<Rightarrow> bool" where
  Nil: "life_runs s [] s"
| Snoc: "life_runs s es s' \<Longrightarrow> life_step s' e s'' \<Longrightarrow> life_runs s (es @ [e]) s''"

lemmas life_defs = clone_pool_def drop_clone_def drop_guard_def reaper_tick_def reaper_retain_def
  reaper_release_def close_if_unreferenced_def strong_refs_def reaper_holds_def

text \<open>The state of the task by what is alive.\<close>

definition task_fits :: "life \<Rightarrow> bool" where
  "task_fits s =
     ((case lf_reaper s of
         None \<Rightarrow> True
       | Some (d, Waiting) \<Rightarrow> 0 < lf_clones s + lf_half s
       | Some (d, Sweeping) \<Rightarrow> 0 < lf_clones s + lf_half s
       | Some (d, SweepingAborted) \<Rightarrow> lf_clones s + lf_half s = 0
       | Some (d, Ended) \<Rightarrow> lf_clones s = 0) \<and>
      (strong_refs s = 0 \<longrightarrow> lf_idle s = []))"

lemma task_fits_step: "life_step s e s' \<Longrightarrow> task_fits s \<Longrightarrow> task_fits s'"
  by (induction rule: life_step.induct)
     (auto simp: task_fits_def life_defs Let_def split: option.splits prod.splits reaper_task.splits if_splits)

lemma same_timeout: "life_step s e s' \<Longrightarrow> map_option fst (lf_reaper s') = map_option fst (lf_reaper s)"
  by (induction rule: life_step.induct)
     (auto simp: life_defs Let_def option.map_comp comp_def case_prod_beta
        split: option.splits prod.splits reaper_task.splits if_splits)

lemma life_runs_fit:
  assumes "life_runs s es s'" "task_fits s"
  shows "task_fits s' \<and> map_option fst (lf_reaper s') = map_option fst (lf_reaper s)"
  using assms by (induction rule: life_runs.induct) (auto simp: same_timeout intro: task_fits_step)

lemma born_fits: "task_fits (pool_born reaper conns)"
  by (auto simp: task_fits_def pool_born_def life_defs split: option.split prod.split)

text \<open>
  C24. The reaper lives as long as the pool. In every reachable state of a pool with an idle
  timeout: while a clone is alive the task has not ended and every sweep uses that timeout; when
  the last clone and its guard are gone the task has ended, or ends with the sweep it is in;
  deadpool's pool is never kept alive by the reaper outside a sweep, and with its last reference
  every idle connection is closed.
\<close>

theorem reaper_lives_with_pool:
  assumes "life_runs (pool_born (Some (d, p)) conns) es s"
  shows "\<exists>t. lf_reaper s = Some (d, t) \<and>
    (0 < lf_clones s \<longrightarrow> t = Waiting \<or> t = Sweeping) \<and>
    (lf_clones s + lf_half s = 0 \<longrightarrow>
       t = Ended \<or> t = SweepingAborted \<and> lf_reaper (reaper_release s) = Some (d, Ended) \<and>
         lf_idle (reaper_release s) = []) \<and>
    (lf_clones s = 0 \<and> (t = Waiting \<or> t = Ended) \<longrightarrow> lf_idle s = [])"
proof -
  from life_runs_fit [OF assms born_fits]
  have fits: "task_fits s" and same: "map_option fst (lf_reaper s) = Some d"
    by (auto simp: pool_born_def)
  then obtain t where t: "lf_reaper s = Some (d, t)" by (cases "lf_reaper s") auto
  with fits show ?thesis
    by (cases t) (auto simp: task_fits_def life_defs)
qed

text \<open>
  The order of the fields matters: between the two drops of the last clone the pool is gone and
  the task not yet aborted, so a tick in between finds nothing to upgrade and ends by itself.
\<close>

lemma upgrade_can_fail:
  "life_runs (pool_born (Some (d, p)) conns) [DropClone, Tick]
     \<lparr>lf_clones = 0, lf_half = 1, lf_reaper = Some (d, Ended), lf_idle = []\<rparr>"
proof -
  let ?a = "pool_born (Some (d, p)) conns"
  have one: "life_step ?a DropClone (drop_clone ?a)"
    by (intro life_step.DropClone) (simp add: pool_born_def)
  have two: "life_step (drop_clone ?a) Tick (reaper_tick (drop_clone ?a))"
    by (rule life_step.Tick [where d = d]) (simp add: pool_born_def life_defs)
  have "reaper_tick (drop_clone ?a) =
      \<lparr>lf_clones = 0, lf_half = 1, lf_reaper = Some (d, Ended), lf_idle = []\<rparr>"
    by (simp add: pool_born_def life_defs)
  with life_runs.Snoc [OF life_runs.Snoc [OF life_runs.Nil one] two] show ?thesis by simp
qed

lemma reaper_lives_with_pool_witness:
  "\<exists>t. lf_reaper \<lparr>lf_clones = 0, lf_half = 1, lf_reaper = Some (5, Ended), lf_idle = []\<rparr> = Some (5, t) \<and>
     t = Ended"
  using reaper_lives_with_pool [OF upgrade_can_fail [of 5 1 "[(0, 0)]"]] by auto

end
