(* ===== verification/Examples.thy ===== *)
theory Examples
  imports Executor Collecting
begin

text \<open>
  The example programs (\<^verbatim>\<open>src/examples\<close>) as callers of the model: reading the settings from the
  environment, one statement through the pool, typed streaming, a prepared statement, a CL
  command, and a transaction.

  The environment and the file system are arguments. A run ends by exiting with a message on
  standard error, by an error that \<open>main\<close> returns, or with the lines printed. Values are dropped
  where Rust drops them: temporaries at the end of their statement, variables in reverse order
  when \<open>main\<close> returns, also by the question mark.
\<close>

section \<open>Settings\<close>

type_synonym env = "string \<Rightarrow> string option"

definition read_creds :: "env \<Rightarrow> (string \<times> string \<times> string) option" where
  "read_creds env =
     Option.bind (env ''MAPEPIRE_HOST'') (\<lambda>h.
     Option.bind (env ''MAPEPIRE_USER'') (\<lambda>u.
     Option.bind (env ''MAPEPIRE_PASSWORD'') (\<lambda>p. Some (h, u, p))))"

definition tls_from_env :: "env \<Rightarrow> (string \<Rightarrow> string + u8 list) \<Rightarrow> string + tls_config" where
  "tls_from_env env read_file =
     (case env ''MAPEPIRE_CA'' of
        None \<Rightarrow> Inr Verified
      | Some path \<Rightarrow>
          (case read_file path of
             Inr der \<Rightarrow> Inr (Ca der)
           | Inl e \<Rightarrow> Inl (''failed to read MAPEPIRE_CA='' @ path @ '': '' @ e)))"

text \<open>\<open>str::parse\<close> at type \<open>u16\<close>.\<close>

fun parse_digits :: "nat \<Rightarrow> string \<Rightarrow> nat option" where
  "parse_digits n [] = Some n"
| "parse_digits n (c # cs) =
     (let d = of_char c in
      if 48 \<le> d \<and> d < (58::nat) \<and> n * 10 + (d - 48) < 65536
      then parse_digits (n * 10 + (d - 48)) cs else None)"

definition parse_u16 :: "string \<Rightarrow> u16 option" where
  "parse_u16 s =
     (let digits = (case s of c # cs \<Rightarrow> if c = CHR ''+'' then cs else s | [] \<Rightarrow> [])
      in if digits = [] then None else map_option of_nat (parse_digits 0 digits))"

datatype failure = BuilderFailure builder_error | ClientFailure error | ParseFailure string

datatype finish_of_main =
  Exit1 string | Failed failure | FailedAfter "string list" failure | Printed "string list"

definition creds_message :: string where
  "creds_message =
     ''Set MAPEPIRE_HOST, MAPEPIRE_USER, and MAPEPIRE_PASSWORD before running.''"

definition verified_server :: "string \<times> string \<times> string \<Rightarrow> builder_error + daemon_server" where
  "verified_server c =
     (case c of (h, u, p) \<Rightarrow> build (tls Verified (set_password p (user u (host h builder)))))"

definition one_shot_server ::
  "env \<Rightarrow> tls_config \<Rightarrow> string \<times> string \<times> string \<Rightarrow> failure + daemon_server" where
  "one_shot_server env t c =
     (case c of (h, u, p) \<Rightarrow>
        let b0 = tls t (set_password p (user u (host h builder)));
            b1 = (case env ''MAPEPIRE_CONNECT_ADDRESS'' of None \<Rightarrow> b0 | Some a \<Rightarrow> connect_address a b0);
            b2 = (case env ''MAPEPIRE_PROPS'' of None \<Rightarrow> b1 | Some ps \<Rightarrow> jdbc_props ps b1)
        in bindR (case env ''MAPEPIRE_PORT'' of
                    None \<Rightarrow> Inr b2
                  | Some n \<Rightarrow>
                      (case parse_u16 n of
                         None \<Rightarrow> Inl (ParseFailure n) | Some k \<Rightarrow> Inr (port k b2)))
             (\<lambda>b3. mapErr BuilderFailure (build b3)))"

section \<open>Around a program\<close>

text \<open>
  What a program finds: deadpool's own builder and its \<open>get\<close>, the way to send, the clock
  at each stream's start, the process id, and fuel for collecting. \<open>None\<close> is a run whose
  daemon serves rows beyond the fuel.
\<close>

record 'd stage =
  sg_built :: "string + unit"
  sg_around :: "daemon_server \<Rightarrow> 'd surroundings"
  sg_show :: "pool_error \<Rightarrow> string"
  sg_clock :: "nat \<Rightarrow> u32 option"
  sg_pid :: u32
  sg_fuel :: nat

definition example_pool ::
  "'d stage \<Rightarrow> nat \<Rightarrow> daemon_server \<Rightarrow> (error + pool \<times> (duration \<times> duration) option) \<times> 'd pool_state" where
  "example_pool G n srv =
     pool_build (\<lambda>k. su_get (sg_around G srv)) (sg_show G) (sg_built G) (max_size n pool_builder_new)"

text \<open>A statement whose rows are collected on the connection they came over.\<close>

definition execute_and_collect ::
  "'w sender \<Rightarrow> string \<Rightarrow> execute_options \<Rightarrow>
     (rows \<Rightarrow> 'w session \<Rightarrow> ((error + 'a list) \<times> 'w session) option) \<Rightarrow>
     ('w, (error + 'a list) option) op" where
  "execute_and_collect send sql opts collect s =
     (case job_execute_opts send sql opts s of
        (Inl e, t) \<Rightarrow> (Inl e, t)
      | (Inr rw, t) \<Rightarrow>
          (case collect rw t of None \<Rightarrow> (Inr None, t) | Some (r, u) \<Rightarrow> (Inr (Some r), u)))"

section \<open>One statement\<close>

text \<open>One column of every row is printed as the rows come, until one cannot be read.\<close>

fun print_column ::
  "string \<Rightarrow> (string \<Rightarrow> string) \<Rightarrow> json_object list \<Rightarrow> string list \<Rightarrow> (error + unit) \<times> string list" where
  "print_column col render [] out = (Inr (), out)"
| "print_column col render (row # rs) out =
     (case row_get de_string row col of
        Inl e \<Rightarrow> (Inl e, out)
      | Inr s \<Rightarrow> print_column col render rs (out @ [render s]))"

definition one_shot_main ::
  "env \<Rightarrow> (string \<Rightarrow> string + u8 list) \<Rightarrow> 'd stage \<Rightarrow> finish_of_main option" where
  "one_shot_main env read_file G =
     (case read_creds env of
        None \<Rightarrow> Some (Exit1 creds_message)
      | Some c \<Rightarrow>
      case tls_from_env env read_file of
        Inl m \<Rightarrow> Some (Exit1 m)
      | Inr t \<Rightarrow>
      case one_shot_server env t c of
        Inl f \<Rightarrow> Some (Failed f)
      | Inr srv \<Rightarrow>
      case example_pool G 4 srv of
        (Inl e, st) \<Rightarrow> Some (Failed (ClientFailure e))
      | (Inr (p, reaper), st) \<Rightarrow>
      let E = sg_around G srv in
      case fst (routed E p (execute_and_collect (su_send E) ''SELECT IBMREQD FROM SYSIBM.SYSDUMMY1''
                  (pool_opts p default_options)
                  (into_dynamic (su_send E) (sg_clock G 0) (sg_pid G) (sg_fuel G))) st) of
        Inl e \<Rightarrow> Some (Failed (ClientFailure e))
      | Inr None \<Rightarrow> None
      | Inr (Some (Inl e)) \<Rightarrow> Some (Failed (ClientFailure e))
      | Inr (Some (Inr rs)) \<Rightarrow>
          (case print_column ''IBMREQD'' (\<lambda>v. ''IBMREQD = '' @ v) rs [] of
             (Inl e, out) \<Rightarrow> Some (FailedAfter out (ClientFailure e))
           | (Inr _, out) \<Rightarrow> Some (Printed out)))"

section \<open>Typed rows\<close>

record library =
  lb_name :: string
  lb_object_type :: string

definition de_library :: "library de" where
  "de_library v =
     bindR (de_fields (plain [''ODOBNM'', ''ODOBTP'']) v) (\<lambda>e.
     bindR (req e ''ODOBNM'' de_string) (\<lambda>n.
     bindR (req e ''ODOBTP'' de_string) (\<lambda>t. Inr \<lparr>lb_name = n, lb_object_type = t\<rparr>)))"

definition library_query :: string where
  "library_query = ''SELECT ODOBNM, ODOBTP FROM TABLE(QSYS2.OBJECT_STATISTICS('' @
     [CHR 0x27] @ ''*ALLUSR '' @ [CHR 0x27] @ '', '' @ [CHR 0x27] @ ''*LIB'' @ [CHR 0x27] @
     '')) X FETCH FIRST 5 ROWS ONLY''"

definition streaming_main :: "env \<Rightarrow> 'd stage \<Rightarrow> finish_of_main option" where
  "streaming_main env G =
     (case read_creds env of
        None \<Rightarrow> Some (Exit1 creds_message)
      | Some c \<Rightarrow>
      case verified_server c of
        Inl f \<Rightarrow> Some (Failed (BuilderFailure f))
      | Inr srv \<Rightarrow>
      case example_pool G 4 srv of
        (Inl e, st) \<Rightarrow> Some (Failed (ClientFailure e))
      | (Inr (p, reaper), st) \<Rightarrow>
      let E = sg_around G srv in
      case fst (routed E p (execute_and_collect (su_send E) library_query (pool_opts p default_options)
                  (\<lambda>rw. collect_typed (su_send E) de_library (sg_fuel G) []
                     (stream (sg_clock G 0) (sg_pid G) rw))) st) of
        Inl e \<Rightarrow> Some (Failed (ClientFailure e))
      | Inr None \<Rightarrow> None
      | Inr (Some (Inl e)) \<Rightarrow> Some (Failed (ClientFailure e))
      | Inr (Some (Inr libs)) \<Rightarrow>
          Some (Printed (map (\<lambda>l. lb_name l @ '' ('' @ lb_object_type l @ '')'') libs @
            [''('' @ show_nat (length libs) @ '' rows)''])))"

section \<open>A CL command\<close>

text \<open>The lines of a finished command; \<open>show_debug\<close> renders the three optional values.\<close>

definition cl_lines :: "(cl_outcome \<Rightarrow> string \<times> string \<times> string) \<Rightarrow> cl_outcome \<Rightarrow> string list" where
  "cl_lines show_debug out =
     (case show_debug out of (e, code, state) \<Rightarrow>
        [''success  = '' @ (if co_success out then ''true'' else ''false''),
         ''error    = '' @ e, ''sqlcode  = '' @ code, ''sqlstate = '' @ state]) @
     map (\<lambda>x. unwrap_or ''?'' (jl_message_id x) @ '' ['' @ unwrap_or ''?'' (jl_severity x) @ ''] '' @
            unwrap_or [] (jl_message_text x)) (co_entries out)"

definition cl_command_main ::
  "env \<Rightarrow> (daemon_server \<Rightarrow> error + 'w job) \<Rightarrow> 'w sender \<Rightarrow> (u64 \<Rightarrow> string) \<Rightarrow>
     (cl_outcome \<Rightarrow> string \<times> string \<times> string) \<Rightarrow> finish_of_main" where
  "cl_command_main env connect send show_num show_debug =
     (case read_creds env of
        None \<Rightarrow> Exit1 creds_message
      | Some c \<Rightarrow>
      case verified_server c of
        Inl f \<Rightarrow> Failed (BuilderFailure f)
      | Inr srv \<Rightarrow>
      case connect srv of
        Inl e \<Rightarrow> Failed (ClientFailure e)
      | Inr j \<Rightarrow>
      case fst (cl send show_num ''DSPLIB QGPL'' (jb_session j)) of
        Inl e \<Rightarrow> Failed (ClientFailure e)
      | Inr out \<Rightarrow> Printed (cl_lines show_debug out))"

section \<open>Tracing\<close>

text \<open>Two statements through the pool, the rows of each dropped at once.\<close>

definition run_and_drop :: "'d surroundings \<Rightarrow> pool \<Rightarrow> string \<Rightarrow> 'd pool_state \<Rightarrow> (error + unit) \<times> 'd pool_state"
  where
  "run_and_drop E p sql =
     routed E p (\<lambda>s. case job_execute_opts (su_send E) sql (pool_opts p default_options) s of
       (Inl e, t) \<Rightarrow> (Inl e, t) | (Inr rw, t) \<Rightarrow> (Inr (), drop_rows rw t))"

definition with_tracing_main :: "env \<Rightarrow> 'd stage \<Rightarrow> finish_of_main" where
  "with_tracing_main env G =
     (case read_creds env of
        None \<Rightarrow> Exit1 creds_message
      | Some c \<Rightarrow>
      case verified_server c of
        Inl f \<Rightarrow> Failed (BuilderFailure f)
      | Inr srv \<Rightarrow>
      case example_pool G 2 srv of
        (Inl e, st) \<Rightarrow> Failed (ClientFailure e)
      | (Inr (p, reaper), st) \<Rightarrow>
      case run_and_drop (sg_around G srv) p ''SELECT 1 FROM SYSIBM.SYSDUMMY1'' st of
        (Inl e, st1) \<Rightarrow> Failed (ClientFailure e)
      | (Inr _, st1) \<Rightarrow>
      case run_and_drop (sg_around G srv) p ''SELECT 2 FROM SYSIBM.SYSDUMMY1'' st1 of
        (Inl e, st2) \<Rightarrow> Failed (ClientFailure e)
      | (Inr _, st2) \<Rightarrow> Printed [])"

section \<open>A prepared statement\<close>

text \<open>
  The body of \<open>main\<close> once a connection is acquired: prepare, execute for every name, print as the
  rows come; the query is dropped, then the handle. The result holds what was printed, also
  when an error ends the loop. The arrow is printed as its three bytes in UTF-8.
\<close>

definition arrow_line :: "string \<Rightarrow> string \<Rightarrow> string" where
  "arrow_line name s = name @ '' '' @ [CHR 0xE2, CHR 0x86, CHR 0x92] @ '' '' @ s"

fun prepared_loop ::
  "'w sender \<Rightarrow> 'd stage \<Rightarrow> query \<Rightarrow> string list \<Rightarrow> string list \<Rightarrow> 'w session \<Rightarrow>
     (((error + unit) \<times> string list) \<times> 'w session) option" where
  "prepared_loop send G q [] out s = Some ((Inr (), out), s)"
| "prepared_loop send G q (name # names) out s =
     (case query_execute_with send q [JString name] s of
        (Inl e, t) \<Rightarrow> Some ((Inl e, out), t)
      | (Inr rw, t) \<Rightarrow>
      case into_dynamic send (sg_clock G (length names)) (sg_pid G) (sg_fuel G) rw t of
        None \<Rightarrow> None
      | Some (Inl e, u) \<Rightarrow> Some ((Inl e, out), u)
      | Some (Inr rs, u) \<Rightarrow>
      case print_column ''00001'' (arrow_line name) rs out of
        (Inl e, out1) \<Rightarrow> Some ((Inl e, out1), u)
      | (Inr _, out1) \<Rightarrow> prepared_loop send G q names out1 u)"

definition prepared_body ::
  "'w sender \<Rightarrow> 'd stage \<Rightarrow> 'w session \<Rightarrow> (((error + unit) \<times> string list) \<times> 'w session) option" where
  "prepared_body send G s =
     (case prepare send ''VALUES (CAST(? AS VARCHAR(64)))'' s of
        (Inl e, t) \<Rightarrow> Some ((Inl e, []), t)
      | (Inr q, t) \<Rightarrow>
          map_option (\<lambda>(r, u). (r, drop_query q u))
            (prepared_loop send G q [''alpha'', ''beta'', ''gamma''] [] t))"

definition prepared_main :: "env \<Rightarrow> 'd stage \<Rightarrow> finish_of_main option" where
  "prepared_main env G =
     (case read_creds env of
        None \<Rightarrow> Some (Exit1 creds_message)
      | Some c \<Rightarrow>
      case verified_server c of
        Inl f \<Rightarrow> Some (Failed (BuilderFailure f))
      | Inr srv \<Rightarrow>
      case example_pool G 2 srv of
        (Inl e, st) \<Rightarrow> Some (Failed (ClientFailure e))
      | (Inr (p, reaper), st) \<Rightarrow>
      let E = sg_around G srv in
      case acquire (su_get E) p st of
        (Inl e, st1) \<Rightarrow> Some (Failed (ClientFailure e))
      | (Inr conn, st1) \<Rightarrow>
      case prepared_body (su_send E) G (held (conn, st1)) of
        None \<Rightarrow> None
      | Some ((Inl e, out), s) \<Rightarrow> Some (FailedAfter out (ClientFailure e))
      | Some ((Inr _, out), s) \<Rightarrow> Some (Printed out))"

section \<open>A transaction\<close>

text \<open>Each statement's rows are dropped at once; the first error ends the sequence.\<close>

definition rows_ignored :: "('d, rows) reserved_op \<Rightarrow> ('d, unit) reserved_op" where
  "rows_ignored m h =
     (case m h of
        (Inl e, rv, st) \<Rightarrow> (Inl e, rv, st)
      | (Inr rw, rv, st) \<Rightarrow>
          (Inr (), rv, st\<lparr>ps_jobs := (ps_jobs st)[rv_job rv := drop_rows rw (ps_jobs st ! rv_job rv)]\<rparr>))"

fun in_turn :: "('d, unit) reserved_op list \<Rightarrow> ('d, unit) reserved_op" where
  "in_turn [] h = (Inr (), h)"
| "in_turn (m # ms) h =
     (case m h of (Inl e, h1) \<Rightarrow> (Inl e, h1) | (Inr _, h1) \<Rightarrow> in_turn ms h1)"

definition insert_sql :: string where
  "insert_sql = ''INSERT INTO SCRATCH.DEMO (ID, NAME) VALUES (?, ?)''"

definition update_sql :: string where
  "update_sql = ''UPDATE SCRATCH.DEMO SET NAME = ? WHERE ID = ?''"

definition transaction_work :: "(dispatcher \<times> 'd) sender \<Rightarrow> ('d, unit) reserved_op list" where
  "transaction_work send =
     [rows_ignored (reserved_execute_with send insert_sql [JNumber (JInt 1), JString ''first'']),
      rows_ignored (reserved_execute_with send update_sql [JString ''renamed'', JNumber (JInt 1)]),
      rows_ignored (commit send)]"

definition transaction_steps :: "(dispatcher \<times> 'd) sender \<Rightarrow> ('d, unit) reserved_op list" where
  "transaction_steps send = rows_ignored (reserved_begin send) # transaction_work send"

text \<open>With the pool as it is once the handle has been dropped.\<close>

definition transaction_main :: "env \<Rightarrow> 'd stage \<Rightarrow> finish_of_main \<times> 'd pool_state option" where
  "transaction_main env G =
     (case read_creds env of
        None \<Rightarrow> (Exit1 creds_message, None)
      | Some c \<Rightarrow>
      case verified_server c of
        Inl f \<Rightarrow> (Failed (BuilderFailure f), None)
      | Inr srv \<Rightarrow>
      case example_pool G 2 srv of
        (Inl e, st) \<Rightarrow> (Failed (ClientFailure e), Some st)
      | (Inr (p, reaper), st) \<Rightarrow>
      let E = sg_around G srv in
      case acquire (su_get E) p st of
        (Inl e, st1) \<Rightarrow> (Failed (ClientFailure e), Some st1)
      | (Inr rv, st1) \<Rightarrow>
      case in_turn (transaction_steps (su_send E)) (rollback_on_drop rv, st1) of
        (Inl e, conn, st2) \<Rightarrow> (Failed (ClientFailure e), Some (reserved_drop conn st2))
      | (Inr _, conn, st2) \<Rightarrow> (Printed [''Committed.''], Some (reserved_drop conn st2)))"

text \<open>The statements among the requests a connection sends in the background.\<close>

definition is_statement :: "request \<Rightarrow> bool" where
  "is_statement r = (case r of Sql i sql n t u \<Rightarrow> True | _ \<Rightarrow> False)"

definition background :: "reserved \<times> 'd pool_state \<Rightarrow> request list" where
  "background h = filter is_statement (ss_spawned (held h))"

text \<open>What a step of the handle keeps, and what it makes of the transaction's state.\<close>

definition steps_to :: "reserved \<times> 'd pool_state \<Rightarrow> tx_state \<Rightarrow> reserved \<times> 'd pool_state \<Rightarrow> bool" where
  "steps_to h tx h1 =
     (rv_job (fst h1) = rv_job (fst h) \<and>
      rv_rollback_on_drop (fst h1) = rv_rollback_on_drop (fst h) \<and>
      length (ps_jobs (snd h1)) = length (ps_jobs (snd h)) \<and>
      background h1 = background h \<and> ss_runtime (held h1) = ss_runtime (held h) \<and>
      rv_tx (fst h1) = tx)"

lemma steps_to_refl: "steps_to h (rv_tx (fst h)) h"
  by (simp add: steps_to_def)

lemma steps_to_trans: "steps_to h tx h1 \<Longrightarrow> steps_to h1 tx' h2 \<Longrightarrow> steps_to h tx' h2"
  by (simp add: steps_to_def)

lemma drop_rows_background:
  "filter is_statement (ss_spawned (drop_rows rw s)) = filter is_statement (ss_spawned s)"
  "ss_runtime (drop_rows rw s) = ss_runtime s"
  by (auto simp: drop_rows_def spawn_close_def spawn_best_effort_def close_request_def
      is_statement_def split: option.split prod.split)

lemma rows_ignored_step:
  assumes "m = tracked (job_execute_inner send sql ps opts) sql"
    and "rv_job (fst h) < length (ps_jobs (snd h))"
    and "rows_ignored m h = (r, h1)"
  shows "steps_to h (case r of Inr x \<Rightarrow> observe_sql (rv_tx (fst h)) sql | Inl e \<Rightarrow> rv_tx (fst h)) h1"
proof -
  obtain q rv st where run: "m h = (q, rv, st)" by (metis prod.exhaust)
  note step = tracked_step [OF run [unfolded assms(1)] assms(2)]
  have bg: "steps_to h (case q of Inr x \<Rightarrow> observe_sql (rv_tx (fst h)) sql | Inl e \<Rightarrow> rv_tx (fst h)) (rv, st)"
    using step(1-4) by (auto simp: steps_to_def background_def step(5) job_execute_inner_spawned)
  have range: "rv_job rv < length (ps_jobs st)" using step(1,3) assms(2) by simp
  show ?thesis
  proof (cases q)
    case (Inl e)
    with assms(3) run bg show ?thesis by (auto simp: rows_ignored_def)
  next
    case (Inr rw)
    with assms(3) run bg range show ?thesis
      by (auto simp: rows_ignored_def steps_to_def background_def held_def drop_rows_background)
  qed
qed

lemma observe_sql_work [simp]:
  "observe_sql tx insert_sql = tx" "observe_sql tx update_sql = tx"
  by (simp_all add: observe_sql_def insert_sql_def update_sql_def first_word_def skip_ws.simps
      ws_len_def ws_encodings_def eq_ignore_ascii_case_def ascii_lower_def Let_def)

lemma begin_step:
  assumes "rv_job (fst h) < length (ps_jobs (snd h))" "rows_ignored (reserved_begin send) h = (r, h1)"
  shows "steps_to h (case r of Inr x \<Rightarrow> Started | Inl e \<Rightarrow> rv_tx (fst h)) h1"
  using rows_ignored_step [OF _ assms, where send = send and sql = "''BEGIN''" and ps = None and opts = default_options]
  by (simp add: reserved_begin_def reserved_execute_def job_execute_def split: sum.splits)

lemma commit_step:
  assumes "rv_job (fst h) < length (ps_jobs (snd h))" "rows_ignored (commit send) h = (r, h1)"
  shows "steps_to h (case r of Inr x \<Rightarrow> TxClosed | Inl e \<Rightarrow> rv_tx (fst h)) h1"
  using rows_ignored_step [OF _ assms, where send = send and sql = "''COMMIT''" and ps = None and opts = default_options]
  by (simp add: commit_def reserved_execute_def job_execute_def split: sum.splits)

lemma work_step:
  assumes "rv_job (fst h) < length (ps_jobs (snd h))"
    "rows_ignored (reserved_execute_with send sql ps) h = (r, h1)"
    "\<And>tx. observe_sql tx sql = tx"
  shows "steps_to h (rv_tx (fst h)) h1"
  using rows_ignored_step [OF _ assms(1,2), where send = send and sql = sql and ps = "Some ps" and opts = default_options]
    assms(3)
  by (auto simp: reserved_execute_with_def job_execute_with_def split: sum.splits)

lemma steps_to_range:
  "steps_to h tx h1 \<Longrightarrow> rv_job (fst h) < length (ps_jobs (snd h)) \<Longrightarrow>
   rv_job (fst h1) < length (ps_jobs (snd h1))"
  by (simp add: steps_to_def)

lemma transaction_work_step:
  assumes "rv_job (fst h) < length (ps_jobs (snd h))" "in_turn (transaction_work send) h = (r, h1)"
  shows "steps_to h (case r of Inr x \<Rightarrow> TxClosed | Inl e \<Rightarrow> rv_tx (fst h)) h1"
proof -
  obtain r2 h2 where two: "rows_ignored (reserved_execute_with send insert_sql
      [JNumber (JInt 1), JString ''first'']) h = (r2, h2)" by (metis prod.exhaust)
  obtain r3 h3 where three: "rows_ignored (reserved_execute_with send update_sql
      [JString ''renamed'', JNumber (JInt 1)]) h2 = (r3, h3)" by (metis prod.exhaust)
  obtain r4 h4 where four: "rows_ignored (commit send) h3 = (r4, h4)" by (metis prod.exhaust)
  note s2 = work_step [OF assms(1) two observe_sql_work(1)]
  note s3 = work_step [OF steps_to_range [OF s2 assms(1)] three observe_sql_work(2)]
  note s4 = commit_step [OF steps_to_range [OF s3 steps_to_range [OF s2 assms(1)]] four]
  show ?thesis
    using assms(2) s2 s3 s4
    by (auto simp: transaction_work_def two three four steps_to_def split: sum.splits)
qed

text \<open>
  The transaction of the example. Whatever the daemon answers: dropping the handle puts one
  \<open>ROLLBACK\<close> in the background exactly if \<open>BEGIN\<close> succeeded and a later step failed; if all four
  steps succeed, or \<open>BEGIN\<close> itself fails, no statement goes out in the background, and closing
  the cursors of the steps' own result sets never counts as one. The job's counter is cleared.
\<close>

theorem transaction_example:
  assumes "in_turn (transaction_steps send) (rollback_on_drop rv, st) = (r, conn, st1)"
    and "rv_job rv < length (ps_jobs st)" "rv_tx rv = NotStarted" "ss_runtime (held (rv, st))"
  shows "background (conn, reserved_drop conn st1) = background (rv, st) @
      (case (fst (reserved_begin send (rollback_on_drop rv, st)), r) of
         (Inr rw, Inl e) \<Rightarrow> [Sql (peek_id (held (conn, st1))) ''ROLLBACK'' None None None]
       | _ \<Rightarrow> []) \<and>
    in_flight (reserved_drop conn st1) (rv_job rv) = 0"
proof -
  let ?h = "(rollback_on_drop rv, st)"
  obtain r1 h1 where one: "rows_ignored (reserved_begin send) ?h = (r1, h1)" by (metis prod.exhaust)
  obtain r2 h2 where rest: "in_turn (transaction_work send) h1 = (r2, h2)" by (metis prod.exhaust)
  have range: "rv_job (fst ?h) < length (ps_jobs (snd ?h))"
    using assms(2) by (simp add: rollback_on_drop_def)
  note s1 = begin_step [OF range one]
  note s2 = transaction_work_step [OF steps_to_range [OF s1 range] rest]
  have ok: "isl r1 \<longleftrightarrow> isl (fst (reserved_begin send ?h))"
    using one by (auto simp: rows_ignored_def split: sum.splits prod.splits)
  have run: "(r, conn, st1) = (case r1 of Inl e \<Rightarrow> (Inl e, h1) | Inr x \<Rightarrow> (r2, h2))"
    using assms(1) by (auto simp: transaction_steps_def one rest split: sum.split)
  have last: "steps_to ?h (if isl r1 then NotStarted else if isl r2 then Started else TxClosed) (conn, st1)"
    using run s1 s2 assms(3)
    by (auto simp: steps_to_def rollback_on_drop_def split: sum.splits)
  then have inside: "rv_job conn = rv_job rv" "rv_job conn < length (ps_jobs st1)"
    using assms(2) by (simp_all add: steps_to_def rollback_on_drop_def)
  have zero: "in_flight (reserved_drop conn st1) (rv_job conn) = 0"
    using inside(2) by (simp add: reserved_drop_def store_in_flight_def in_flight_def
        job_in_flight_def Let_def split: prod.split)
  have "background (conn, reserved_drop conn st1) = background (rv, st) @
      (if \<not> isl r1 \<and> isl r2 then [Sql (peek_id (held (conn, st1))) ''ROLLBACK'' None None None] else [])"
    using drop_spawns [OF inside(2)] last assms(4)
    by (auto simp: background_def steps_to_def rollback_on_drop_def held_def is_statement_def)
  with ok run zero inside(1) show ?thesis
    by (auto split: sum.splits)
qed

section \<open>A concrete instance\<close>

text \<open>A daemon that accepts plain statements and refuses those with parameters.\<close>

definition plain_only :: "(dispatcher \<times> unit) sender" where
  "plain_only r w =
     (case r of
        Sql i sql n t u \<Rightarrow> (Inr (QueryResult (page_result i [] True)), w)
      | _ \<Rightarrow> (Inr (ErrorResp (refusal (request_id r))), w))"

definition untouched :: reserved where
  "untouched = \<lparr>rv_job = 0, rv_rollback_on_drop = False, rv_tx = NotStarted\<rparr>"

lemma transaction_example_witness:
  "case in_turn (transaction_steps plain_only) (rollback_on_drop untouched, one_job) of
     (r, conn, st1) \<Rightarrow>
       background (conn, reserved_drop conn st1) = [Sql (peek_id (held (conn, st1))) ''ROLLBACK'' None None None]"
proof -
  obtain r conn st1 where run: "in_turn (transaction_steps plain_only) (rollback_on_drop untouched, one_job) =
      (r, conn, st1)" by (metis prod.exhaust)
  have opened: "fst (reserved_begin plain_only (rollback_on_drop untouched, one_job)) =
      Inr (rows_new (page_result (peek_id sample_session) [] True) 100)"
    by (simp add: reserved_begin_def reserved_execute_def tracked_def untracked_eq job_execute_def
        job_execute_inner_def call_eq sql_request_def rows_of_reply_def plain_only_def one_job_def
        untouched_def rollback_on_drop_def default_options_def resolved_rows_def page_result_def
        DEFAULT_ROWS_def)
  have "isl r"
    using run
    by (auto simp: transaction_steps_def transaction_work_def rows_ignored_def reserved_begin_def
        reserved_execute_with_def job_execute_with_def
        reserved_execute_def tracked_def untracked_eq job_execute_def
        job_execute_inner_def call_eq sql_request_def rows_of_reply_def plain_only_def one_job_def
        untouched_def rollback_on_drop_def default_options_def resolved_rows_def page_result_def
        DEFAULT_ROWS_def)
  with transaction_example [OF run] opened run show ?thesis
    by (auto simp: isl_def one_job_def untouched_def held_def background_def sample_session_def)
qed

end
