(* ===== verification/Fuzz.thy ===== *)
theory Fuzz
  imports Decode Errors
begin

text \<open>
  The fuzz targets (\<^verbatim>\<open>src/fuzz/fuzz_targets\<close>) on the model's readers and writers. serde_json's text
  parser and printer are arguments: \<open>parse\<close> turns bytes into a document, \<open>print\<close> a document
  into bytes. The targets ask that reading never panics, which holds of total functions, and
  that writing what was read gives the bytes it was read from.
\<close>

section \<open>Reading arbitrary bytes\<close>

type_synonym 'b parser = "'b \<Rightarrow> de_error + value"

definition fuzz_decode_response :: "'b parser \<Rightarrow> 'b \<Rightarrow> de_error + response" where
  "fuzz_decode_response parse bs = bindR (parse bs) de_response"

definition fuzz_decode_query_result :: "'b parser \<Rightarrow> 'b \<Rightarrow> de_error + query_result" where
  "fuzz_decode_query_result parse bs = bindR (parse bs) de_query_result"

definition bare_server_error :: "string option \<Rightarrow> server_error" where
  "bare_server_error st =
     \<lparr>se_message = [], se_sqlstate = st, se_sqlcode = None, se_job_name = None, se_diagnostics = []\<rparr>"

definition fuzz_decode_error_response ::
  "'b parser \<Rightarrow> 'b \<times> string option \<Rightarrow> (de_error + error_response) \<times> bool list" where
  "fuzz_decode_error_response parse inp =
     (let err = bare_server_error (snd inp)
      in (bindR (parse (fst inp)) de_error_response,
          [is_transient err, is_constraint_violation err, is_authorization err,
           is_object_not_found err, is_data_type_mismatch err]))"

section \<open>Writing what was read\<close>

record round_trip_input =
  ri_id :: string
  ri_success :: bool
  ri_has_results :: bool
  ri_update_count :: i64
  ri_cont_id :: "string option"
  ri_is_done :: bool
  ri_execution_time_bits :: u64
  ri_column_names :: "string list"
  ri_column_types :: "string list"

definition f64_is_nan :: "u64 \<Rightarrow> bool" where
  "f64_is_nan b = (\<not> f64_finite b \<and> unat b mod 2 ^ 52 \<noteq> 0)"

definition input_columns :: "round_trip_input \<Rightarrow> column list" where
  "input_columns inp =
     map (\<lambda>(n, t). \<lparr>col_name = n, col_label = Some n, col_type_name = Some t,
                    col_display_size = None, col_precision = None, col_scale = None\<rparr>)
       (zip (ri_column_names inp) (ri_column_types inp))"

definition input_result :: "round_trip_input \<Rightarrow> query_result" where
  "input_result inp =
     (let cols = input_columns inp
      in \<lparr>qr_id = ri_id inp, qr_success = ri_success inp, qr_has_results = ri_has_results inp,
          qr_update_count = ri_update_count inp, qr_cont_id = ri_cont_id inp,
          qr_is_done = ri_is_done inp,
          qr_metadata = \<lparr>md_column_count = (if length cols < 2 ^ 32 then of_nat (length cols) else u32_MAX),
             md_columns = cols, md_job = None, md_parameters = []\<rparr>,
          qr_data = [], qr_execution_time = ri_execution_time_bits inp, qr_error = None,
          qr_sqlcode = None, qr_sqlstate = None, qr_parameter_count = None,
          qr_output_parms = []\<rparr>)"

datatype verdict = Skipped | Stable | Unstable | Panicked

definition round_trip ::
  "(value \<Rightarrow> 'b option) \<Rightarrow> 'b parser \<Rightarrow> round_trip_input \<Rightarrow> verdict" where
  "round_trip print parse inp =
     (if f64_is_nan (ri_execution_time_bits inp) then Skipped else
      case print (ser_response (QueryResult (input_result inp))) of
        None \<Rightarrow> Skipped
      | Some serialized \<Rightarrow>
      case bindR (parse serialized) de_response of
        Inl e \<Rightarrow> Skipped
      | Inr back \<Rightarrow>
      case print (ser_response back) of
        None \<Rightarrow> Panicked
      | Some reserialized \<Rightarrow> if serialized = reserialized then Stable else Unstable)"

lemma input_result_wf: "wf_result (input_result inp) \<longleftrightarrow> f64_finite (ri_execution_time_bits inp)"
  by (simp add: wf_result_def input_result_def Let_def)

lemma query_result_back:
  "wf_result q \<Longrightarrow> de_response (ser_response (QueryResult q)) = Inr (QueryResult q)"
  using query_result_no_type [of q]
  by (simp add: de_response_def decode_ser_tagged decode_tag_def payload_def strip_type_tagged
      wire_simps del: strip_type.simps)

lemma query_result_lost:
  assumes "\<not> f64_finite (qr_execution_time q)"
  shows "isl (de_response (ser_response (QueryResult q)))"
proof -
  obtain e where e: "de_fields query_result_fields (JObject (query_result_object q)) = Inr e"
    "e ''execution_time'' = Inr JNull"
    using query_result_env [of q] assms by (auto simp: ser_f64_def)
  have "isl (dflt e ''execution_time'' 0 de_f64)"
    using e(2) by (simp add: dflt_def)
  then have "de_query_result_raw (JObject (query_result_object q)) \<noteq> Inr raw" for raw
    using e(1) by (auto simp: de_query_result_raw_def bindR_eq_Inr)
  then have "de_query_result (JObject (query_result_object q)) \<noteq> Inr q'" for q'
    by (auto simp: de_query_result_def bindR_eq_Inr)
  then have "isl (de_query_result (JObject (query_result_object q)))"
    by (cases "de_query_result (JObject (query_result_object q))") auto
  then show ?thesis
    using query_result_no_type [of q]
    by (auto simp: de_response_def decode_ser_tagged decode_tag_def payload_def strip_type_tagged
        isl_def simp del: strip_type.simps)
qed

text \<open>
  The round trip asked for by the fuzz target. With a parser that reads back what the
  printer wrote, writing and reading a query result built from any input, and writing it
  again, gives the same bytes or is skipped: never an assertion failure and never a panic. It
  is skipped only for an execution time that is not finite or where printing or parsing fails.
\<close>

theorem round_trip_is_stable:
  assumes "\<And>b v. print (ser_response (QueryResult (input_result inp))) = Some b \<Longrightarrow>
    parse b = Inr v \<Longrightarrow> de_response v = de_response (ser_response (QueryResult (input_result inp)))"
  shows "round_trip print parse inp =
    (case print (ser_response (QueryResult (input_result inp))) of
       None \<Rightarrow> Skipped
     | Some b \<Rightarrow> if f64_finite (ri_execution_time_bits inp) \<and> \<not> isl (parse b) then Stable else Skipped)"
proof (cases "print (ser_response (QueryResult (input_result inp)))")
  case (Some bs)
  let ?q = "input_result inp"
  show ?thesis
  proof (cases "parse bs")
    case (Inl e)
    with Some show ?thesis by (simp add: round_trip_def del: ser_response.simps)
  next
    case (Inr v)
    with assms Some have v: "de_response v = de_response (ser_response (QueryResult ?q))" by blast
    show ?thesis
    proof (cases "f64_finite (ri_execution_time_bits inp)")
      case True
      then have "de_response v = Inr (QueryResult ?q)"
        unfolding v by (intro query_result_back) (simp add: input_result_wf)
      with True Some Inr show ?thesis
        by (simp add: round_trip_def f64_is_nan_def del: ser_response.simps)
    next
      case False
      then have "isl (de_response v)"
        unfolding v by (intro query_result_lost) (simp add: input_result_def Let_def)
      with False Some Inr show ?thesis
        by (auto simp: round_trip_def isl_def simp del: ser_response.simps)
    qed
  qed
qed (simp add: round_trip_def del: ser_response.simps)

definition sample_input :: round_trip_input where
  "sample_input =
     \<lparr>ri_id = ''q'', ri_success = True, ri_has_results = True, ri_update_count = -1,
      ri_cont_id = None, ri_is_done = True, ri_execution_time_bits = 0,
      ri_column_names = [''N''], ri_column_types = [''CHAR'', ''INTEGER'']\<rparr>"

lemma round_trip_is_stable_witness: "round_trip Some Inr sample_input = Stable"
  using round_trip_is_stable [of Some sample_input Inr] by (simp add: sample_input_def)

end
