(* ===== verification/End_To_End.thy ===== *)
theory End_To_End
  imports Job
begin

text \<open>
  A whole query against a daemon that speaks the wire protocol: \<open>Job::execute\<close> sends its request
  through the dispatcher, the daemon parses the bytes, runs the statement and writes a page; the
  frame is parsed, decoded and routed back, and \<open>Rows::into_dynamic\<close> asks for the further pages
  in the same way.

  The daemon keeps the rows a cursor has still to deliver. What a statement evaluates to is an
  argument of it, and so are the text printer and parser; of these the theorem asks that
  parsing what was printed gives a document that reads the same.

  The locale \<open>pager\<close> is what the paging stream relies on: a page request for an open cursor is
  answered with the next rows of it, and says whether they are the last.
\<close>

section \<open>The paging interface\<close>

locale pager =
  fixes send :: "'w sender"
    and holds :: "string \<Rightarrow> json_object list \<Rightarrow> 'w \<Rightarrow> bool"
  assumes page: "holds c ms w \<Longrightarrow> ms \<noteq> [] \<Longrightarrow> 0 < n \<Longrightarrow>
      \<exists>q w'. send (SqlMore i c n) w = (Inr (QueryResult q), w') \<and> qr_id q = i \<and>
        qr_data q = take (unat n) ms \<and> qr_is_done q = (drop (unat n) ms = []) \<and>
        holds c (drop (unat n) ms) w'"
begin

lemma page_poll:
  assumes "holds c ms (ss_world s)" "st_rows st = []" "st_done st = (ms = [])" "ms \<noteq> []"
    and "st_cont_id st = Some c" "c \<noteq> []" "0 < st_page_size st"
  shows "\<exists>st' t. stream_next send st s = (Some (Inr (hd ms), st'), t) \<and>
    st_rows st' = tl (take (unat (st_page_size st)) ms) \<and>
    st_done st' = (drop (unat (st_page_size st)) ms = []) \<and> st_cont_id st' = Some c \<and>
    st_page_size st' = st_page_size st \<and>
    holds c (drop (unat (st_page_size st)) ms) (ss_world t) \<and> ss_spawned t = ss_spawned s"
proof -
  let ?n = "st_page_size st"
  obtain i ids where i: "next_id (st_ids st) = (i, ids)" by force
  have "take (unat ?n) ms \<noteq> []" using assms(4,7) by (simp add: word_greater_zero_iff unat_eq_zero)
  then obtain rest where rest: "take (unat ?n) ms = hd ms # rest"
    by (cases ms; cases "unat ?n") auto
  from page [OF assms(1,4,7), of i] obtain q w' where q:
    "send (SqlMore i c ?n) (ss_world s) = (Inr (QueryResult q), w')" "qr_id q = i"
    "qr_data q = take (unat ?n) ms" "qr_is_done q = (drop (unat ?n) ms = [])"
    "holds c (drop (unat ?n) ms) w'" by blast
  have "stream_next send st s =
      take_page q (st\<lparr>st_ids := ids\<rparr>) (paged send (SqlMore i c ?n) s)"
    using assms i q(1,2) by (simp add: stream_next_def non_empty_def send_request_paged Let_def)
  then show ?thesis
    using q assms(5) by (simp add: take_page_def rest)
qed

lemma collect_pages:
  assumes "holds c ms (ss_world s)" "st_done st = (ms = [])" "ms \<noteq> [] \<Longrightarrow> st_cont_id st = Some c"
    and "c \<noteq> []" "0 < st_page_size st" "length (st_rows st) + length ms < fuel"
  shows "\<exists>t. try_collect send Inr fuel out st s = Some (Inr (out @ st_rows st @ ms), t) \<and>
    holds c [] (ss_world t) \<and> ss_spawned t = ss_spawned s"
  using assms
proof (induction fuel arbitrary: out st s ms)
  case (Suc fuel)
  show ?case
  proof (cases "st_rows st")
    case (Cons m rest)
    then show ?thesis
      using Suc.IH [of ms s "st\<lparr>st_rows := rest\<rparr>" "out @ [m]"] Suc.prems
      by (simp add: stream_next_def)
  next
    case Nil
    show ?thesis
    proof (cases "ms = []")
      case True
      with Suc.prems Nil show ?thesis by (simp add: stream_next_def drop_stream_def)
    next
      case False
      let ?n = "unat (st_page_size st)"
      obtain st' t where st': "stream_next send st s = (Some (Inr (hd ms), st'), t)"
        "st_rows st' = tl (take ?n ms)" "st_done st' = (drop ?n ms = [])" "st_cont_id st' = Some c"
        "st_page_size st' = st_page_size st" "holds c (drop ?n ms) (ss_world t)"
        "ss_spawned t = ss_spawned s"
        using page_poll [of c ms s st] Suc.prems Nil False by blast
      have rows: "hd ms # tl (take ?n ms) @ drop ?n ms = ms"
        using False Suc.prems(5) by (cases ms; cases ?n) (simp_all add: unat_eq_zero)
      then have "Suc (length (tl (take ?n ms)) + length (drop ?n ms)) = length ms"
        by (metis length_Cons length_append)
      then have "\<exists>u. try_collect send Inr fuel (out @ [hd ms]) st' t =
          Some (Inr ((out @ [hd ms]) @ st_rows st' @ drop ?n ms), u) \<and>
          holds c [] (ss_world u) \<and> ss_spawned u = ss_spawned t"
        using st' Suc.prems Nil by (intro Suc.IH) simp_all
      with rows show ?thesis by (simp add: st' Nil)
    qed
  qed
qed simp

end

section \<open>A statement and all its rows\<close>

definition fetch_all ::
  "'w sender \<Rightarrow> string \<Rightarrow> value list option \<Rightarrow> execute_options \<Rightarrow> u32 option \<Rightarrow> u32 \<Rightarrow> nat \<Rightarrow>
     'w session \<Rightarrow> ((error + json_object list) \<times> 'w session) option" where
  "fetch_all send sql params opts subsec_nanos pid fuel s =
     (case job_execute_inner send sql params opts s of
        (Inl e, t) \<Rightarrow> Some (Inl e, t)
      | (Inr rw, t) \<Rightarrow> into_dynamic send subsec_nanos pid fuel rw t)"

abbreviation sent_sets :: "value list option \<Rightarrow> value list list option" where
  "sent_sets params \<equiv> map_option (\<lambda>p. [p]) params"

text \<open>
  A server of SQL: besides paging, a statement that has a result is answered with its first rows
  and opens a cursor on the others under the id of the request; one that fails is answered with
  the error. \<open>result\<close> is what statements evaluate to, \<open>ready i\<close> says that \<open>i\<close> can be opened,
  \<open>askable\<close> which statements get through.
\<close>

locale sql_server = pager send holds
  for send :: "'w sender"
    and holds :: "string \<Rightarrow> json_object list \<Rightarrow> 'w \<Rightarrow> bool" +
  fixes result :: "string \<Rightarrow> value list list option \<Rightarrow> error_response + json_object list"
    and ready :: "string \<Rightarrow> 'w \<Rightarrow> bool"
    and askable :: "string \<Rightarrow> value list option \<Rightarrow> bool"
  assumes opened: "ready i w \<Longrightarrow> askable sql params \<Longrightarrow> result sql (sent_sets params) = Inr ms \<Longrightarrow>
      \<exists>q w'. send (sql_request sql params n t i) w = (Inr (QueryResult q), w') \<and> qr_id q = i \<and>
        qr_data q = take (unat n) ms \<and> qr_is_done q = (drop (unat n) ms = []) \<and>
        holds i (drop (unat n) ms) w'"
    and refused: "ready i w \<Longrightarrow> askable sql params \<Longrightarrow> result sql (sent_sets params) = Inl e \<Longrightarrow>
      \<exists>w'. send (sql_request sql params n t i) w =
          (Inr (ErrorResp (e\<lparr>er_id := i, er_success := False\<rparr>)), w') \<and> holds i [] w'"
begin

lemma fetch_rows:
  assumes "ready (peek_id s) (ss_world s)" "askable sql params" "resolved_rows opts = Inr n"
    and "result sql (sent_sets params) = Inr ms" "length ms < fuel"
  shows "\<exists>t. fetch_all send sql params opts nanos pid fuel s = Some (Inr ms, t) \<and>
    holds (peek_id s) [] (ss_world t) \<and> ss_spawned t = ss_spawned s"
proof -
  let ?c = "peek_id s" and ?r = "sql_request sql params n (terse_on_wire opts) (peek_id s)"
  obtain q w' where q: "send ?r (ss_world s) = (Inr (QueryResult q), w')" "qr_id q = ?c"
    "qr_data q = take (unat n) ms" "qr_is_done q = (drop (unat n) ms = [])"
    "holds ?c (drop (unat n) ms) w'"
    using opened [OF assms(1,2,4)] by blast
  let ?st = "stream nanos pid (rows_new q n)" and ?t = "after_call send ?r s"
  have run: "job_execute_inner send sql params opts s = (Inr (rows_new q n), ?t)"
    by (simp add: job_execute_inner_def assms(3) call_eq rows_of_reply_def q(1,2))
  have n: "0 < n"
    using assms(3) by (auto simp: resolved_rows_def DEFAULT_ROWS_def word_greater_zero_iff
        split: option.splits if_splits)
  have st: "st_rows ?st = take (unat n) ms" "st_done ?st = (drop (unat n) ms = [])"
    "drop (unat n) ms \<noteq> [] \<Longrightarrow> st_cont_id ?st = Some ?c" "st_page_size ?st = n"
    by (simp_all add: stream_def rows_new_def cursor_handle_def q(2-4))
  have len: "length (take (unat n) ms) + length (drop (unat n) ms) = length ms"
    by (metis append_take_drop_id length_append)
  have "\<exists>u. try_collect send Inr fuel [] ?st ?t =
      Some (Inr ([] @ st_rows ?st @ drop (unat n) ms), u) \<and>
      holds ?c [] (ss_world u) \<and> ss_spawned u = ss_spawned ?t"
    using q(1,5) st n assms(5) len by (intro collect_pages) simp_all
  then show ?thesis by (auto simp: fetch_all_def run into_dynamic_def st)
qed

lemma fetch_refused:
  assumes "ready (peek_id s) (ss_world s)" "askable sql params" "resolved_rows opts = Inr n"
    and "result sql (sent_sets params) = Inl e"
  shows "\<exists>t. fetch_all send sql params opts nanos pid fuel s =
      Some (Inl (server_error_from (e\<lparr>er_id := peek_id s, er_success := False\<rparr>)), t) \<and>
    holds (peek_id s) [] (ss_world t) \<and> ss_spawned t = ss_spawned s"
proof -
  let ?r = "sql_request sql params n (terse_on_wire opts) (peek_id s)"
  obtain w' where "send ?r (ss_world s) =
      (Inr (ErrorResp (e\<lparr>er_id := peek_id s, er_success := False\<rparr>)), w')"
    "holds (peek_id s) [] w'"
    using refused [OF assms(1,2,4)] by blast
  then show ?thesis
    by (simp add: fetch_all_def job_execute_inner_def assms(3) call_eq rows_of_reply_def)
qed

lemma fetch_result:
  assumes "ready (peek_id s) (ss_world s)" "askable sql params" "eo_rows opts \<noteq> Some 0"
    and "length (case result sql (sent_sets params) of Inl e \<Rightarrow> [] | Inr ms \<Rightarrow> ms) < fuel"
  shows "\<exists>t. fetch_all send sql params opts nanos pid fuel s =
      Some (case result sql (sent_sets params) of
              Inl e \<Rightarrow> Inl (server_error_from (e\<lparr>er_id := peek_id s, er_success := False\<rparr>))
            | Inr ms \<Rightarrow> Inr ms, t) \<and>
    holds (peek_id s) [] (ss_world t) \<and> ss_spawned t = ss_spawned s"
proof -
  obtain n where n: "resolved_rows opts = Inr n"
    using assms(3) by (cases "eo_rows opts") (auto simp: resolved_rows_def)
  show ?thesis
    using fetch_rows [OF assms(1,2) n] fetch_refused [OF assms(1,2) n] assms(4)
    by (cases "result sql (sent_sets params)") simp_all
qed

end

section \<open>A daemon\<close>

text \<open>The cursors it has open, with the rows still to be delivered.\<close>

type_synonym cursors = "string \<rightharpoonup> json_object list"
type_synonym statements = "string \<Rightarrow> value list list option \<Rightarrow> error_response + json_object list"

definition give_page ::
  "string \<Rightarrow> string \<Rightarrow> u32 \<Rightarrow> json_object list \<Rightarrow> cursors \<Rightarrow> response \<times> cursors" where
  "give_page i c n ms cs =
     (let rest = drop (unat n) ms
      in (QueryResult (page_result i (take (unat n) ms) (rest = [])),
          cs(c := (if rest = [] then None else Some rest))))"

definition refuse :: "string \<Rightarrow> error_response \<Rightarrow> response" where
  "refuse i e = ErrorResp (e\<lparr>er_id := i, er_success := False\<rparr>)"

definition unsupported :: error_response where
  "unsupported =
     \<lparr>er_id = [], er_success = False, er_sqlstate = None, er_sqlcode = None,
      er_error = Some ''unsupported'', er_job = None\<rparr>"

definition run_statement ::
  "statements \<Rightarrow> string \<Rightarrow> string \<Rightarrow> value list list option \<Rightarrow> u32 option \<Rightarrow> cursors \<Rightarrow>
     response \<times> cursors" where
  "run_statement db i sql ps n cs =
     (case db sql ps of
        Inl e \<Rightarrow> (refuse i e, cs)
      | Inr ms \<Rightarrow> give_page i i (unwrap_or 100 n) ms cs)"

fun respond :: "statements \<Rightarrow> request \<Rightarrow> cursors \<Rightarrow> response \<times> cursors" where
  "respond db (Sql i sql n ps t) cs = run_statement db i sql (map_option (\<lambda>p. [p]) ps) n cs"
| "respond db (PrepareSqlExecute i sql ps n t) cs = run_statement db i sql ps n cs"
| "respond db (SqlMore i c n) cs =
     (case cs c of None \<Rightarrow> (refuse i unsupported, cs) | Some ms \<Rightarrow> give_page i c n ms cs)"
| "respond db (SqlClose i c) cs = (SqlClosed i True, cs(c := None))"
| "respond db (Ping i) cs = (Pong i, cs)"
| "respond db r cs = (refuse (request_id r) unsupported, cs)"

text \<open>On bytes: a request it cannot read makes it hang up.\<close>

definition db_daemon :: "foreign \<Rightarrow> statements \<Rightarrow> cursors daemon" where
  "db_daemon L db bytes cs =
     (case bindR (fo_from_slice L bytes) de_request of
        Inl e \<Rightarrow> (Inr [], cs)
      | Inr r \<Rightarrow>
          (let (p, cs') = respond db r cs in
           case fo_to_vec L (ser_response p) of
             Inl e \<Rightarrow> (Inr [], cs')
           | Inr frame \<Rightarrow> (Inr [frame], cs')))"

lemma respond_id: "response_id (fst (respond db r cs)) = request_id r"
  by (cases "(db, r, cs)" rule: respond.cases)
     (simp_all add: run_statement_def give_page_def refuse_def page_result_def Let_def
        split: sum.split option.split)

section \<open>Text\<close>

text \<open>
  The JSON documents a request carries; \<open>keeps_text L ok\<close>: what is printed is read back to the
  same effect, for requests and pages all of whose documents are \<open>ok\<close> (an object that came out
  of a map whose keys are in order, say), and for refusals.
\<close>

fun request_values :: "request \<Rightarrow> value list" where
  "request_values (Sql i s r ps t) = unwrap_or [] ps"
| "request_values (PrepareSqlExecute i s ps r t) = concat (unwrap_or [] ps)"
| "request_values (Execute i c ps r t) = unwrap_or [] ps"
| "request_values _ = []"

definition text_back :: "foreign \<Rightarrow> (value \<Rightarrow> 'a) \<Rightarrow> value \<Rightarrow> bool" where
  "text_back L f v = (\<exists>b w. fo_to_vec L v = Inr b \<and> fo_from_slice L b = Inr w \<and> f w = f v)"

definition keeps_text :: "foreign \<Rightarrow> (value \<Rightarrow> bool) \<Rightarrow> bool" where
  "keeps_text L ok =
     ((\<forall>r. list_all ok (request_values r) \<longrightarrow> text_back L de_request (ser_request r)) \<and>
      (\<forall>i ms fin. list_all (\<lambda>m. ok (JObject m)) ms \<longrightarrow>
         text_back L decode_value (ser_response (QueryResult (page_result i ms fin)))) \<and>
      (\<forall>e. text_back L decode_value (ser_response (ErrorResp e))))"

section \<open>One answered exchange\<close>

text \<open>A connection on which nothing is outstanding.\<close>

definition quiescent :: "foreign \<Rightarrow> dispatcher \<times> 'd \<Rightarrow> bool" where
  "quiescent L w = (idle L w \<and> dq_running (fst w) \<and> dq_pending (fst w) = [])"

lemma fresh_slot:
  assumes "dinv L d"
  shows "map_of (dq_delivered d) (length (dq_requests d)) = None"
proof -
  have "set (map fst (dq_delivered d)) \<subseteq> set_mset (slots d)"
    by (auto simp: slots_def)
  also have "\<dots> = {0..<length (dq_requests d)}"
    using assms by (simp add: dinv_def inv_slots_def)
  finally show ?thesis by (force simp: map_of_eq_None_iff)
qed

lemma exchange_answered:
  assumes "quiescent L (d, x)" "fo_to_vec L (ser_request r) = Inr b"
    and "daemon b x = (Inr [frame], y)" "fo_from_slice L frame = Inr v"
    and "decode_value v = Inr p" "response_id p = request_id r"
  shows "fst (exchange L daemon r (d, x)) = Inr (remap_response (request_kind r) p) \<and>
    quiescent L (snd (exchange L daemon r (d, x))) \<and> snd (snd (exchange L daemon r (d, x))) = y"
proof -
  from assms(1) have d: "dq_queue d = []" "dq_running d" "dq_pending d = []" "idle L (d, x)"
    by (auto simp: quiescent_def idle_def)
  from d(4) have "dinv L d" by (auto simp: idle_def dest: reachable_dinv)
  then have new: "map_of (dq_delivered d) (length (dq_requests d)) = None" by (rule fresh_slot)
  have "fst (exchange L daemon r (d, x)) = Inr (remap_response (request_kind r) p) \<and>
      dq_running (fst (snd (exchange L daemon r (d, x)))) \<and>
      dq_pending (fst (snd (exchange L daemon r (d, x)))) = [] \<and>
      snd (snd (exchange L daemon r (d, x))) = y"
    using d new assms(2-)
    by (simp add: exchange_def submit_def SEND_QUEUE_CAPACITY_def handle_outbound_def
        insert_pending_def handle_frame_def answer_def deliver_def finish_def received_def
        map_add_def Let_def)
  with d conn.send_good [OF d(4), of daemon r] show ?thesis by (simp add: quiescent_def)
qed

lemma text_backD:
  assumes "text_back L f v"
  obtains b w where "fo_to_vec L v = Inr b" "fo_from_slice L b = Inr w" "f w = f v"
  using assms by (auto simp: text_back_def)

lemma db_exchange:
  assumes "quiescent L (d, cs)" "text_back L de_request (ser_request r)"
    and "de_request (ser_request r) = Inr r" "respond db r cs = (p, cs')"
    and "text_back L decode_value (ser_response p)" "decode_value (ser_response p) = Inr p"
  shows "fst (exchange L (db_daemon L db) r (d, cs)) = Inr (remap_response (request_kind r) p) \<and>
    quiescent L (snd (exchange L (db_daemon L db) r (d, cs))) \<and>
    snd (snd (exchange L (db_daemon L db) r (d, cs))) = cs'"
proof -
  obtain b w where b: "fo_to_vec L (ser_request r) = Inr b" "fo_from_slice L b = Inr w"
    "de_request w = Inr r"
    using assms(2,3) by (auto elim: text_backD)
  obtain f v where f: "fo_to_vec L (ser_response p) = Inr f" "fo_from_slice L f = Inr v"
    "decode_value v = Inr p"
    using assms(5,6) by (auto elim: text_backD)
  have "db_daemon L db b cs = (Inr [f], cs')"
    by (simp add: db_daemon_def b f assms(4))
  moreover have "response_id p = request_id r"
    using respond_id [of db r cs] assms(4) by simp
  ultimately show ?thesis
    using exchange_answered [OF assms(1) b(1) _ f(2,3)] by simp
qed

lemma page_back: "decode_value (ser_response (QueryResult (page_result i ms fin))) =
    Inr (QueryResult (page_result i ms fin))"
proof -
  have "wf_result (page_result i ms fin)" by (simp add: wf_result_def page_result_def)
  then show ?thesis
    using query_result_no_type [of "page_result i ms fin"]
    by (simp add: decode_ser_tagged decode_tag_def payload_def strip_type_tagged wire_simps
        del: strip_type.simps)
qed

lemma refusal_back: "decode_value (ser_response (ErrorResp e)) = Inr (ErrorResp e)"
  using error_response_no_type [of e]
  by (simp add: decode_ser_tagged decode_tag_def payload_def strip_type_tagged wire_simps
      del: strip_type.simps)

text \<open>The daemon behind the dispatcher has the cursor open, and no other than those of \<open>base\<close>.\<close>

definition serving ::
  "foreign \<Rightarrow> (value \<Rightarrow> bool) \<Rightarrow> cursors \<Rightarrow> string \<Rightarrow> json_object list \<Rightarrow>
     dispatcher \<times> cursors \<Rightarrow> bool" where
  "serving L ok base c ms w =
     (keeps_text L ok \<and> quiescent L w \<and> list_all (\<lambda>m. ok (JObject m)) ms \<and>
      snd w = base(c := (if ms = [] then None else Some ms)))"

lemma list_all_take_drop:
  "list_all P xs \<Longrightarrow> list_all P (take n xs) \<and> list_all P (drop n xs)"
  by (auto simp: list_all_iff dest: in_set_takeD in_set_dropD)

lemma serving_page:
  assumes "serving L ok base c ms w" "ms \<noteq> []"
  shows "fst (exchange L (db_daemon L db) (SqlMore i c n) w) =
      Inr (QueryResult (page_result i (take (unat n) ms) (drop (unat n) ms = []))) \<and>
    serving L ok base c (drop (unat n) ms) (snd (exchange L (db_daemon L db) (SqlMore i c n) w))"
proof -
  obtain d cs where w: "w = (d, cs)" by force
  let ?p = "QueryResult (page_result i (take (unat n) ms) (drop (unat n) ms = []))"
  let ?cs = "base(c := (if drop (unat n) ms = [] then None else Some (drop (unat n) ms)))"
  have ok: "list_all (\<lambda>m. ok (JObject m)) (take (unat n) ms)"
    "list_all (\<lambda>m. ok (JObject m)) (drop (unat n) ms)"
    using assms(1) list_all_take_drop by (auto simp: serving_def)
  have resp: "respond db (SqlMore i c n) cs = (?p, ?cs)"
    using assms by (simp add: serving_def w give_page_def Let_def)
  have req: "text_back L de_request (ser_request (SqlMore i c n))"
    using assms(1) by (simp add: serving_def keeps_text_def del: ser_request.simps)
  have shown: "text_back L decode_value (ser_response ?p)"
    using assms(1) ok(1) by (simp add: serving_def keeps_text_def del: ser_response.simps)
  have "quiescent L (d, cs)" using assms(1) by (simp only: serving_def w)
  from db_exchange [OF this req de_ser_request_flat(1) resp shown page_back]
  show ?thesis using assms(1) ok(2) by (simp add: serving_def w)
qed

interpretation paged_db: pager "exchange L (db_daemon L db)" "serving L ok base"
  for L db ok base
proof (unfold_locales, goal_cases)
  case (1 c ms w n i)
  with serving_page [OF 1(1,2), of db i n] show ?case
    by (cases "exchange L (db_daemon L db) (SqlMore i c n) w") (simp add: page_result_def)
qed

section \<open>The daemon as such a server\<close>

lemma respond_sql:
  "respond db (sql_request sql params n t i) cs =
     run_statement db i sql (sent_sets params) (Some n) cs"
  by (simp add: sql_request_def split: option.split)

lemma sql_request_text:
  assumes "keeps_text L ok" "list_all ok (unwrap_or [] params)"
  shows "text_back L de_request (ser_request (sql_request sql params n t i))"
  using assms
  by (cases params) (simp_all add: keeps_text_def sql_request_def del: ser_request.simps)

lemma sql_request_back:
  assumes "\<not> ambiguous_sets (sent_sets params)"
  shows "de_request (ser_request (sql_request sql params n t i)) = Inr (sql_request sql params n t i)"
proof (cases params)
  case None
  then show ?thesis by (simp only: sql_request_def option.case de_ser_request)
next
  case (Some ps)
  with assms show ?thesis
    by (simp only: sql_request_def option.case option.map de_ser_request simp_thms)
qed

lemma sql_request_kind [simp]: "request_kind (sql_request sql params n t i) = KOther"
  by (simp add: sql_request_def split: option.split)

lemma remap_other [simp]: "remap_response KOther r = r"
  by (cases r) simp_all

definition reachable_statement ::
  "foreign \<Rightarrow> (value \<Rightarrow> bool) \<Rightarrow> statements \<Rightarrow> string \<Rightarrow> value list option \<Rightarrow> bool" where
  "reachable_statement L ok db sql params =
     (list_all ok (unwrap_or [] params) \<and> \<not> ambiguous_sets (sent_sets params) \<and>
      list_all (\<lambda>m. ok (JObject m))
        (case db sql (sent_sets params) of Inl e \<Rightarrow> [] | Inr ms \<Rightarrow> ms))"

definition unopened ::
  "foreign \<Rightarrow> (value \<Rightarrow> bool) \<Rightarrow> cursors \<Rightarrow> string \<Rightarrow> dispatcher \<times> cursors \<Rightarrow> bool" where
  "unopened L ok base i w = (keeps_text L ok \<and> quiescent L w \<and> snd w = base \<and> base i = None)"

lemma serving_first:
  assumes "unopened L ok base i w" "reachable_statement L ok db sql params"
    and "db sql (sent_sets params) = Inr ms"
  shows "fst (exchange L (db_daemon L db) (sql_request sql params n t i) w) =
      Inr (QueryResult (page_result i (take (unat n) ms) (drop (unat n) ms = []))) \<and>
    serving L ok base i (drop (unat n) ms)
      (snd (exchange L (db_daemon L db) (sql_request sql params n t i) w))"
proof -
  obtain d where w: "w = (d, base)" and L: "keeps_text L ok" "quiescent L (d, base)"
    using assms(1) by (cases w) (auto simp: unopened_def)
  have ps: "list_all ok (unwrap_or [] params)" "\<not> ambiguous_sets (sent_sets params)"
    and ok: "list_all (\<lambda>m. ok (JObject m)) (take (unat n) ms)"
      "list_all (\<lambda>m. ok (JObject m)) (drop (unat n) ms)"
    using assms(2,3) list_all_take_drop by (auto simp: reachable_statement_def)
  let ?q = "page_result i (take (unat n) ms) (drop (unat n) ms = [])"
  have resp: "respond db (sql_request sql params n t i) base =
      (QueryResult ?q, base(i := (if drop (unat n) ms = [] then None else Some (drop (unat n) ms))))"
    by (simp add: respond_sql run_statement_def assms(3) give_page_def Let_def)
  have shown: "text_back L decode_value (ser_response (QueryResult ?q))"
    using L(1) ok(1) by (simp add: keeps_text_def del: ser_response.simps)
  from db_exchange [OF L(2) sql_request_text [OF L(1) ps(1)] sql_request_back [OF ps(2)]
    resp shown page_back] L(1) ok(2)
  show ?thesis by (simp add: serving_def w)
qed

lemma serving_refusal:
  assumes "unopened L ok base i w" "reachable_statement L ok db sql params"
    and "db sql (sent_sets params) = Inl e"
  shows "fst (exchange L (db_daemon L db) (sql_request sql params n t i) w) =
      Inr (ErrorResp (e\<lparr>er_id := i, er_success := False\<rparr>)) \<and>
    serving L ok base i [] (snd (exchange L (db_daemon L db) (sql_request sql params n t i) w))"
proof -
  obtain d where w: "w = (d, base)" and L: "keeps_text L ok" "quiescent L (d, base)" "base i = None"
    using assms(1) by (cases w) (auto simp: unopened_def)
  have ps: "list_all ok (unwrap_or [] params)" "\<not> ambiguous_sets (sent_sets params)"
    using assms(2) by (auto simp: reachable_statement_def)
  let ?e = "e\<lparr>er_id := i, er_success := False\<rparr>"
  have resp: "respond db (sql_request sql params n t i) base = (ErrorResp ?e, base)"
    by (simp add: respond_sql run_statement_def assms(3) refuse_def)
  have shown: "text_back L decode_value (ser_response (ErrorResp ?e))"
    using L(1) by (simp add: keeps_text_def del: ser_response.simps)
  from db_exchange [OF L(2) sql_request_text [OF L(1) ps(1)] sql_request_back [OF ps(2)]
    resp shown refusal_back] L
  show ?thesis by (simp add: serving_def w fun_upd_idem)
qed

interpretation served_db: sql_server "exchange L (db_daemon L db)" "serving L ok base" db
  "unopened L ok base" "reachable_statement L ok db"
  for L db ok base
proof (unfold_locales, goal_cases)
  case (1 i w sql params ms n t)
  with serving_first [OF 1, of n t] show ?case
    by (cases "exchange L (db_daemon L db) (sql_request sql params n t i) w") (simp add: page_result_def)
next
  case (2 i w sql params e n t)
  with serving_refusal [OF 2, of n t] show ?case
    by (cases "exchange L (db_daemon L db) (sql_request sql params n t i) w") simp
qed

text \<open>
  A statement returns all its rows. Executing it on a connection with nothing outstanding,
  against the daemon, and collecting the result set gives exactly the rows the database
  computed, in order, whatever the page size; a refused statement gives its server error. The
  bytes go through the writer, the text, the dispatcher's table and the decoder on both sides.
  Afterwards the connection has nothing outstanding again, the daemon has the cursors open that
  it had before, and no close was spawned. Parameters must not all be arrays: those are
  written in the shape of a batch.
\<close>

theorem every_row_arrives:
  assumes "keeps_text L ok" "quiescent L (ss_world s)" "list_all ok (unwrap_or [] params)"
    and "\<not> ambiguous_sets (sent_sets params)" "eo_rows opts \<noteq> Some 0"
    and "list_all (\<lambda>m. ok (JObject m)) (case db sql (sent_sets params) of Inl e \<Rightarrow> [] | Inr ms \<Rightarrow> ms)"
    and "snd (ss_world s) (peek_id s) = None"
    and "length (case db sql (sent_sets params) of Inl e \<Rightarrow> [] | Inr ms \<Rightarrow> ms) < fuel"
  shows "\<exists>t. fetch_all (exchange L (db_daemon L db)) sql params opts nanos pid fuel s =
      Some (case db sql (sent_sets params) of
              Inl e \<Rightarrow> Inl (server_error_from (e\<lparr>er_id := peek_id s, er_success := False\<rparr>))
            | Inr ms \<Rightarrow> Inr ms, t) \<and>
    quiescent L (ss_world t) \<and> snd (ss_world t) = snd (ss_world s) \<and> ss_spawned t = ss_spawned s"
proof -
  have "unopened L ok (snd (ss_world s)) (peek_id s) (ss_world s)"
    using assms(1,2,7) by (simp add: unopened_def)
  moreover have "reachable_statement L ok db sql params"
    using assms(3,4,6) by (simp add: reachable_statement_def)
  ultimately have "\<exists>t. fetch_all (exchange L (db_daemon L db)) sql params opts nanos pid fuel s =
      Some (case db sql (sent_sets params) of
              Inl e \<Rightarrow> Inl (server_error_from (e\<lparr>er_id := peek_id s, er_success := False\<rparr>))
            | Inr ms \<Rightarrow> Inr ms, t) \<and>
    serving L ok (snd (ss_world s)) (peek_id s) [] (ss_world t) \<and> ss_spawned t = ss_spawned s"
    using assms(5,8) by (rule served_db.fetch_result)
  with assms(7) show ?thesis by (auto simp: serving_def fun_upd_idem)
qed

section \<open>A text format\<close>

text \<open>
  A prefix code for documents, with its parser: numbers in unary, strings and keys with their
  length in front. It shows that \<open>keeps_text\<close> can hold for all documents.
\<close>

definition put_nat :: "nat \<Rightarrow> string" where
  "put_nat n = replicate n CHR ''1'' @ ''0''"

definition put_str :: "string \<Rightarrow> string" where
  "put_str s = put_nat (length s) @ s"

fun put_json :: "value \<Rightarrow> string" where
  "put_json JNull = ''n''"
| "put_json (JBool b) = (if b then ''t'' else ''f'')"
| "put_json (JNumber (JInt i)) =
     (if i < 0 then ''-'' @ put_nat (nat (- i)) else ''+'' @ put_nat (nat i))"
| "put_json (JNumber (JFloat w)) = ''x'' @ put_nat (unat w)"
| "put_json (JString s) = ''s'' @ put_str s"
| "put_json (JArray vs) = ''a'' @ concat (map (\<lambda>v. CHR '':'' # put_json v) vs) @ ''.''"
| "put_json (JObject ob) =
     ''o'' @ concat (map (\<lambda>(k, v). CHR '':'' # put_str k @ put_json v) ob) @ ''.''"

fun get_nat :: "string \<Rightarrow> (nat \<times> string) option" where
  "get_nat [] = None"
| "get_nat (c # cs) =
     (if c = CHR ''0'' then Some (0, cs)
      else if c = CHR ''1'' then map_option (\<lambda>(n, r). (Suc n, r)) (get_nat cs)
      else None)"

definition get_str :: "string \<Rightarrow> (string \<times> string) option" where
  "get_str s =
     Option.bind (get_nat s) (\<lambda>(n, r). if length r < n then None else Some (take n r, drop n r))"

fun get_json :: "nat \<Rightarrow> string \<Rightarrow> (value \<times> string) option"
and get_items :: "nat \<Rightarrow> string \<Rightarrow> (value list \<times> string) option"
and get_members :: "nat \<Rightarrow> string \<Rightarrow> (json_object \<times> string) option" where
  "get_json 0 s = None"
| "get_json (Suc k) s =
     (case s of
        [] \<Rightarrow> None
      | c # r \<Rightarrow>
          if c = CHR ''n'' then Some (JNull, r)
          else if c = CHR ''t'' then Some (JBool True, r)
          else if c = CHR ''f'' then Some (JBool False, r)
          else if c = CHR ''-'' then map_option (map_prod (\<lambda>n. JNumber (JInt (- int n))) id) (get_nat r)
          else if c = CHR ''+'' then map_option (map_prod (\<lambda>n. JNumber (JInt (int n))) id) (get_nat r)
          else if c = CHR ''x'' then map_option (map_prod (\<lambda>n. JNumber (JFloat (of_nat n))) id) (get_nat r)
          else if c = CHR ''s'' then map_option (map_prod JString id) (get_str r)
          else if c = CHR ''a'' then map_option (map_prod JArray id) (get_items k r)
          else if c = CHR ''o'' then map_option (map_prod JObject id) (get_members k r)
          else None)"
| "get_items 0 s = None"
| "get_items (Suc k) s =
     (case s of
        [] \<Rightarrow> None
      | c # r \<Rightarrow>
          if c = CHR ''.'' then Some ([], r)
          else Option.bind (get_json k r) (\<lambda>(v, r1).
                 map_option (map_prod (\<lambda>vs. v # vs) id) (get_items k r1)))"
| "get_members 0 s = None"
| "get_members (Suc k) s =
     (case s of
        [] \<Rightarrow> None
      | c # r \<Rightarrow>
          if c = CHR ''.'' then Some ([], r)
          else Option.bind (get_str r) (\<lambda>(i, r0). Option.bind (get_json k r0) (\<lambda>(v, r1).
                 map_option (map_prod (\<lambda>ob. (i, v) # ob) id) (get_members k r1))))"

lemma get_put_nat [simp]: "get_nat (put_nat n @ r) = Some (n, r)"
  by (induction n) (simp_all add: put_nat_def)

lemma get_put_str [simp]: "get_str (put_str s @ r) = Some (s, r)"
  by (simp add: get_str_def put_str_def)

lemma get_put:
  "length (put_json v) \<le> k \<Longrightarrow> get_json k (put_json v @ r) = Some (v, r)"
  "length (concat (map (\<lambda>v. CHR '':'' # put_json v) vs)) < k \<Longrightarrow>
   get_items k (concat (map (\<lambda>v. CHR '':'' # put_json v) vs) @ CHR ''.'' # r) = Some (vs, r)"
  "length (concat (map (\<lambda>(i, v). CHR '':'' # put_str i @ put_json v) ob)) < k \<Longrightarrow>
   get_members k (concat (map (\<lambda>(i, v). CHR '':'' # put_str i @ put_json v) ob) @ CHR ''.'' # r) =
     Some (ob, r)"
proof (induction k arbitrary: v vs ob r)
  case 0
  { case 1 then show ?case by (cases v rule: put_json.cases) (auto split: if_splits) }
  { case 2 then show ?case by simp }
  { case 3 then show ?case by simp }
next
  case (Suc k)
  { case 1
    with Suc.IH(2,3) show ?case
      by (cases v rule: put_json.cases) auto }
  { case 2
    with Suc.IH(1,2) show ?case by (cases vs) auto }
  { case 3
    with Suc.IH(1,3) show ?case by (cases ob) (auto split: prod.splits) }
qed

definition prefix_text :: foreign where
  "prefix_text =
     \<lparr>fo_to_vec = (\<lambda>v. Inr (put_json v)),
      fo_from_slice = (\<lambda>s. case get_json (length s) s of
        Some (v, []) \<Rightarrow> Inr v | _ \<Rightarrow> Inl (JsonSyntax s)),
      fo_show_json = put_json, fo_render = (\<lambda>r. ''reason'')\<rparr>"

lemma prefix_text_back: "text_back prefix_text f v"
  using get_put(1) [of v "length (put_json v)" "[]"]
  by (simp add: text_back_def prefix_text_def)

lemma prefix_text_keeps: "keeps_text prefix_text ok"
  by (simp only: keeps_text_def prefix_text_back simp_thms)

definition three_rows :: "json_object list" where
  "three_rows = [[(''N'', JNumber (JInt 1))], [(''N'', JNumber (JInt 2))], [(''N'', JNull)]]"

definition sample_db :: statements where
  "sample_db sql ps =
     (if sql = ''VALUES 1, 2, NULL'' then Inr three_rows else Inl unsupported)"

definition db_session :: "(dispatcher \<times> cursors) session" where
  "db_session =
     \<lparr>ss_world = (spawn, \<lambda>c. None), ss_ids = new_allocator None 0, ss_runtime = True, ss_sent = [],
      ss_received = [], ss_spawned = []\<rparr>"

lemma every_row_arrives_witness:
  "\<exists>t. fetch_all (exchange prefix_text (db_daemon prefix_text sample_db)) ''VALUES 1, 2, NULL''
      None \<lparr>eo_rows = Some 2, eo_terse = False\<rparr> None 0 4 db_session = Some (Inr three_rows, t) \<and>
    snd (ss_world t) = (\<lambda>c. None)"
proof -
  have "quiescent prefix_text (ss_world db_session)"
    using idle_start by (simp add: quiescent_def db_session_def spawn_def)
  from every_row_arrives [OF prefix_text_keeps [of "\<lambda>v. True"] this, of None
      "\<lparr>eo_rows = Some 2, eo_terse = False\<rparr>" sample_db "''VALUES 1, 2, NULL''" 4 None 0]
  show ?thesis
    by (auto simp: db_session_def sample_db_def three_rows_def)
qed

end
