(* ===== verification/Concurrent_Calls.thy ===== *)
theory Concurrent_Calls
  imports Call_Board Job
begin

text \<open>
  Callers of one job at the same time. Every operation of a job takes an id from the job's
  allocator, hands a request to the dispatcher, waits on its reply slot and reads the answer
  (\<open>call\<close> of theory Session runs those steps without interruption). Here the steps of any number
  of callers, the task's own steps and the traffic of others on the same connection (streams,
  closing tasks) interleave in any order, and a caller may be dropped at any of its waits.

  The lemmas show that callers of one job never get each other's answers, that none of them is
  lost to a reused id, and that a caller that is dropped changes nothing for the others.
\<close>

section \<open>Callers\<close>

datatype 'a progress = Ready | Waiting slot | Finished "error + 'a" | Gone

record 'a caller =
  cl_id :: string
  cl_request :: request
  cl_read :: "response \<Rightarrow> error + 'a"
  cl_at :: "'a progress"

record 'a crowd =
  cw_task :: dispatcher
  cw_ids :: id_allocator
  cw_callers :: "'a caller list"

definition crowd_start :: "id_allocator \<Rightarrow> 'a crowd" where
  "crowd_start a = \<lparr>cw_task = spawn, cw_ids = a, cw_callers = []\<rparr>"

definition set_at :: "nat \<Rightarrow> 'a progress \<Rightarrow> 'a crowd \<Rightarrow> 'a crowd" where
  "set_at j x w =
     w\<lparr>cw_callers := (cw_callers w)[j := (cw_callers w ! j)\<lparr>cl_at := x\<rparr>]\<rparr>"

text \<open>An id with another prefix than the allocator's: of a stream's allocator, or of a close.\<close>

definition outside :: "id_allocator \<Rightarrow> string \<Rightarrow> bool" where
  "outside a i = (take (length (ia_prefix a)) i \<noteq> ia_prefix a)"

datatype crowd_event =
    Enters
  | Sends nat request
  | Refuses nat
  | Others request
  | Works event
  | Gets nat
  | Leaves nat

text \<open>
  \<open>Enters\<close> takes the next id. A full queue is no step: the caller waits for room. The task's own
  steps are all its events but submissions. \<open>Leaves\<close> drops a caller before or after it sent.
\<close>

inductive crowd_step ::
  "foreign \<Rightarrow> id_allocator \<Rightarrow> 'a crowd \<Rightarrow> crowd_event \<Rightarrow> 'a crowd \<Rightarrow> bool" for L a where
  Enters: "next_id (cw_ids w) = (i, ids) \<Longrightarrow> request_id r = i \<Longrightarrow>
    crowd_step L a w Enters
      (w\<lparr>cw_ids := ids, cw_callers := cw_callers w @
          [\<lparr>cl_id = i, cl_request = r, cl_read = k, cl_at = Ready\<rparr>]\<rparr>)"
| Sends: "j < length (cw_callers w) \<Longrightarrow> cl_at (cw_callers w ! j) = Ready \<Longrightarrow>
    r = cl_request (cw_callers w ! j) \<Longrightarrow> submit L r (cw_task w) = (Enqueued s, d) \<Longrightarrow>
    crowd_step L a w (Sends j r) (set_at j (Waiting s) (w\<lparr>cw_task := d\<rparr>))"
| Refuses: "j < length (cw_callers w) \<Longrightarrow> cl_at (cw_callers w ! j) = Ready \<Longrightarrow>
    submit L (cl_request (cw_callers w ! j)) (cw_task w) = (Refused e, d) \<Longrightarrow>
    crowd_step L a w (Refuses j) (set_at j (Finished (Inl e)) w)"
| Others: "outside a (request_id r) \<Longrightarrow>
    request_id r \<notin> set (map request_id (dq_requests (cw_task w))) \<Longrightarrow>
    submit L r (cw_task w) = (Enqueued s, d) \<Longrightarrow>
    crowd_step L a w (Others r) (w\<lparr>cw_task := d\<rparr>)"
| Works: "dstep L (cw_task w) e d \<Longrightarrow> dq_requests d = dq_requests (cw_task w) \<Longrightarrow>
    crowd_step L a w (Works e) (w\<lparr>cw_task := d\<rparr>)"
| Gets: "j < length (cw_callers w) \<Longrightarrow> cl_at (cw_callers w ! j) = Waiting s \<Longrightarrow>
    received s (cw_task w) = Some x \<Longrightarrow>
    crowd_step L a w (Gets j) (set_at j (Finished (bindR x (cl_read (cw_callers w ! j)))) w)"
| Leaves: "j < length (cw_callers w) \<Longrightarrow>
    cl_at (cw_callers w ! j) = Ready \<or> (\<exists>s. cl_at (cw_callers w ! j) = Waiting s) \<Longrightarrow>
    crowd_step L a w (Leaves j) (set_at j Gone w)"

inductive crowd_runs ::
  "foreign \<Rightarrow> id_allocator \<Rightarrow> 'a crowd \<Rightarrow> crowd_event list \<Rightarrow> 'a crowd \<Rightarrow> bool" for L a where
  Nil: "crowd_runs L a w [] w"
| Snoc: "crowd_runs L a w es w' \<Longrightarrow> crowd_step L a w' e w'' \<Longrightarrow> crowd_runs L a w (es @ [e]) w''"

text \<open>What the task sees of an event.\<close>

fun task_event :: "crowd_event \<Rightarrow> event list" where
  "task_event (Sends j r) = [Submit r]"
| "task_event (Others r) = [Submit r]"
| "task_event (Works e) = [e]"
| "task_event _ = []"

definition seen_by_task :: "crowd_event list \<Rightarrow> event list" where
  "seen_by_task es = concat (map task_event es)"

lemma seen_by_task_simps [simp]:
  "seen_by_task [] = []" "seen_by_task (es @ [e]) = seen_by_task es @ task_event e"
  by (simp_all add: seen_by_task_def)

section \<open>The invariant\<close>

definition caller_ok :: "foreign \<Rightarrow> crowd_event list \<Rightarrow> dispatcher \<Rightarrow> 'a caller \<Rightarrow> bool" where
  "caller_ok L es d c =
     (request_id (cl_request c) = cl_id c \<and>
      (case cl_at c of
         Ready \<Rightarrow> cl_id c \<notin> set (map request_id (dq_requests d))
       | Waiting s \<Rightarrow> s < length (dq_requests d) \<and> dq_requests d ! s = cl_request c
       | Finished x \<Rightarrow> (\<exists>e. wire_error e \<and> x = Inl e) \<or>
           (\<exists>b v p. Works (Frame b) \<in> set es \<and> fo_from_slice L b = Inr v \<and>
              decode_value v = Inr p \<and> response_id p = cl_id c \<and>
              x = cl_read c (remap_response (request_kind (cl_request c)) p))
       | Gone \<Rightarrow> True))"

definition crowd_ok ::
  "foreign \<Rightarrow> id_allocator \<Rightarrow> crowd_event list \<Rightarrow> 'a crowd \<Rightarrow> bool" where
  "crowd_ok L a es w =
     (druns L spawn (seen_by_task es) (cw_task w) \<and>
      map cl_id (cw_callers w) = fst (next_ids (length (cw_callers w)) a) \<and>
      cw_ids w = snd (next_ids (length (cw_callers w)) a) \<and>
      distinct (map request_id (dq_requests (cw_task w))) \<and>
      (\<forall>r \<in> set (dq_requests (cw_task w)).
         request_id r \<in> set (map cl_id (cw_callers w)) \<or> outside a (request_id r)) \<and>
      (\<forall>c \<in> set (cw_callers w). caller_ok L es (cw_task w) c))"

lemma crowd_okD:
  assumes "crowd_ok L a es w"
  shows "druns L spawn (seen_by_task es) (cw_task w)"
    and "map cl_id (cw_callers w) = fst (next_ids (length (cw_callers w)) a)"
    and "cw_ids w = snd (next_ids (length (cw_callers w)) a)"
    and "distinct (map request_id (dq_requests (cw_task w)))"
    and "r \<in> set (dq_requests (cw_task w)) \<Longrightarrow>
      request_id r \<in> set (map cl_id (cw_callers w)) \<or> outside a (request_id r)"
    and "c \<in> set (cw_callers w) \<Longrightarrow> caller_ok L es (cw_task w) c"
  using assms unfolding crowd_ok_def by blast+

lemma next_ids_snoc:
  "fst (next_ids (Suc n) a) = fst (next_ids n a) @ [fst (next_id (snd (next_ids n a)))]"
  "snd (next_ids (Suc n) a) = snd (next_id (snd (next_ids n a)))"
proof -
  have "fst (next_id (snd (next_ids n a))) = id_at a n"
    by (simp add: next_ids_counter next_id_def id_at_def)
  then show "fst (next_ids (Suc n) a) = fst (next_ids n a) @ [fst (next_id (snd (next_ids n a)))]"
    by (simp only: next_ids_nth) simp
  have "snd (next_id (snd (next_ids n a))) = a\<lparr>ia_counter := ia_counter a + of_nat (Suc n)\<rparr>"
    by (simp add: next_ids_counter next_id_def ac_simps)
  then show "snd (next_ids (Suc n) a) = snd (next_id (snd (next_ids n a)))"
    by (simp only: next_ids_counter)
qed

lemma distinct_ids: "n \<le> 2 ^ 64 \<Longrightarrow> distinct (fst (next_ids n a))"
  by (simp only: next_ids_nth distinct_map distinct_upt simp_thms)
     (intro inj_onI, simp add: id_at_inject of_nat_u64_eq_iff)

lemma not_outside: "i \<in> set (fst (next_ids n a)) \<Longrightarrow> \<not> outside a i"
  using next_ids_keep_length by (simp add: outside_def)

lemma caller_more: "caller_ok L es d c \<Longrightarrow> caller_ok L (es @ [e]) d c"
  by (auto simp: caller_ok_def split: progress.splits)

lemma caller_same_requests:
  "caller_ok L es d c \<Longrightarrow> dq_requests d' = dq_requests d \<Longrightarrow> caller_ok L es d' c"
  by (simp add: caller_ok_def split: progress.splits)

lemma caller_submitted:
  "caller_ok L es d c \<Longrightarrow> dq_requests d' = dq_requests d @ [r] \<Longrightarrow> cl_id c \<noteq> request_id r \<Longrightarrow>
   caller_ok L es d' c"
  by (auto simp: caller_ok_def nth_append split: progress.splits)

lemma set_at_simps [simp]:
  "cw_task (set_at j x w) = cw_task w" "cw_ids (set_at j x w) = cw_ids w"
  "length (cw_callers (set_at j x w)) = length (cw_callers w)"
  "map cl_id (cw_callers (set_at j x w)) = map cl_id (cw_callers w)"
proof -
  show "map cl_id (cw_callers (set_at j x w)) = map cl_id (cw_callers w)"
    by (cases "j < length (cw_callers w)")
       (auto intro!: nth_equalityI simp: set_at_def nth_list_update)
qed (simp_all add: set_at_def)

text \<open>A step that changes one caller and, perhaps, adds one request to the task.\<close>

lemma crowd_ok_set:
  assumes ok: "crowd_ok L a es w"
    and run: "druns L spawn (seen_by_task (es @ [e])) d"
    and dist: "distinct (map request_id (dq_requests d))"
    and reqs: "\<And>r. r \<in> set (dq_requests d) \<Longrightarrow>
      request_id r \<in> set (map cl_id (cw_callers w)) \<or> outside a (request_id r)"
    and me: "j < length (cw_callers w)"
      "caller_ok L (es @ [e]) d ((cw_callers w ! j)\<lparr>cl_at := x\<rparr>)"
    and others: "\<And>c. c \<in> set (cw_callers w) \<Longrightarrow> cl_id c \<noteq> cl_id (cw_callers w ! j) \<Longrightarrow>
      caller_ok L (es @ [e]) d c"
    and ids: "distinct (map cl_id (cw_callers w))"
  shows "crowd_ok L a (es @ [e]) (set_at j x (w\<lparr>cw_task := d\<rparr>))"
proof -
  have "caller_ok L (es @ [e]) d c"
    if c: "c \<in> set ((cw_callers w)[j := (cw_callers w ! j)\<lparr>cl_at := x\<rparr>])" for c
  proof -
    from c obtain k where k: "k < length (cw_callers w)"
      "c = (cw_callers w)[j := (cw_callers w ! j)\<lparr>cl_at := x\<rparr>] ! k"
      by (metis in_set_conv_nth length_list_update)
    show ?thesis
    proof (cases "k = j")
      case True
      with k me show ?thesis by simp
    next
      case False
      then have "cl_id (cw_callers w ! k) \<noteq> cl_id (cw_callers w ! j)"
        using ids k(1) me(1) by (metis distinct_conv_nth length_map nth_map)
      with False k others show ?thesis by simp
    qed
  qed
  with ok run dist reqs show ?thesis
    by (simp add: crowd_ok_def) (simp add: set_at_def)
qed

lemma crowd_ok_task:
  assumes "crowd_ok L a es w"
    and "druns L spawn (seen_by_task (es @ [e])) d"
    and "distinct (map request_id (dq_requests d))"
    and "\<And>r. r \<in> set (dq_requests d) \<Longrightarrow>
      request_id r \<in> set (map cl_id (cw_callers w)) \<or> outside a (request_id r)"
    and "\<And>c. c \<in> set (cw_callers w) \<Longrightarrow> caller_ok L (es @ [e]) d c"
  shows "crowd_ok L a (es @ [e]) (w\<lparr>cw_task := d\<rparr>)"
  using assms by (simp add: crowd_ok_def)

lemma frame_seen: "Frame b \<in> set (task_event e) \<longleftrightarrow> e = Works (Frame b)"
  by (cases e) auto

lemma received_answered:
  assumes "druns L spawn (seen_by_task es) d" "received s d = Some x"
  shows "(\<exists>e. x = Inl e \<and> wire_error e) \<or>
    (\<exists>b v p. Works (Frame b) \<in> set es \<and> fo_from_slice L b = Inr v \<and> decode_value v = Inr p \<and>
       response_id p = request_id (dq_requests d ! s) \<and>
       x = Inr (remap_response (request_kind (dq_requests d ! s)) p))"
proof (cases x)
  case (Inl e)
  with received_errors [OF assms(1)] assms(2) show ?thesis by blast
next
  case (Inr q)
  have seen: "Works (Frame b) \<in> set es" if "Frame b \<in> set (seen_by_task es)" for b
    using that by (auto simp: seen_by_task_def frame_seen)
  from run_delivered [OF assms(1) received_Inr] assms(2) Inr seen show ?thesis
    by (fastforce simp: slot_for_def)
qed

lemma crowd_ok_enters:
  assumes ok: "crowd_ok L a es w" and i: "next_id (cw_ids w) = (i, ids)" and r: "request_id r = i"
    and n: "Suc (length (cw_callers w)) \<le> 2 ^ 64"
  shows "crowd_ok L a (es @ [Enters]) (w\<lparr>cw_ids := ids, cw_callers := cw_callers w @
    [\<lparr>cl_id = i, cl_request = r, cl_read = k, cl_at = Ready\<rparr>]\<rparr>)"
proof -
  note w = crowd_okD [OF ok]
  have more: "fst (next_ids (Suc (length (cw_callers w))) a) = map cl_id (cw_callers w) @ [i]"
    "snd (next_ids (Suc (length (cw_callers w))) a) = ids"
    using i by (simp_all only: next_ids_snoc w(2) flip: w(3)) simp_all
  have "distinct (map cl_id (cw_callers w) @ [i])"
    using distinct_ids [OF n, of a] by (simp only: more)
  moreover have "\<not> outside a i"
    using not_outside [of i "Suc (length (cw_callers w))" a] by (simp only: more) simp
  ultimately have new: "i \<notin> set (map request_id (dq_requests (cw_task w)))"
    using w(5) by fastforce
  let ?c = "\<lparr>cl_id = i, cl_request = r, cl_read = k, cl_at = Ready\<rparr>"
  have "caller_ok L (es @ [Enters]) (cw_task w) ?c"
    using new r by (simp add: caller_ok_def)
  moreover have "caller_ok L (es @ [Enters]) (cw_task w) c" if "c \<in> set (cw_callers w)" for c
    using w(6) [OF that] by (rule caller_more)
  ultimately have "\<forall>c \<in> set (cw_callers w @ [?c]). caller_ok L (es @ [Enters]) (cw_task w) c"
    by auto
  with w more show ?thesis
    unfolding crowd_ok_def by (auto simp del: next_ids.simps)
qed

lemma submit_step:
  assumes "druns L spawn es d" "submit L r d = (Enqueued s, d')"
  shows "druns L spawn (es @ [Submit r]) d'" "dq_requests d' = dq_requests d @ [r]"
    "s = length (dq_requests d)"
proof -
  show "druns L spawn (es @ [Submit r]) d'"
    using assms by (intro druns.Snoc dstep.Submit)
qed (use assms(2) in \<open>auto elim!: submit_Enqueued\<close>)

lemma crowd_ok_sends:
  assumes ok: "crowd_ok L a es w" and n: "length (cw_callers w) \<le> 2 ^ 64"
    and j: "j < length (cw_callers w)" "cl_at (cw_callers w ! j) = Ready"
      "r = cl_request (cw_callers w ! j)" "submit L r (cw_task w) = (Enqueued s, d)"
  shows "crowd_ok L a (es @ [Sends j r]) (set_at j (Waiting s) (w\<lparr>cw_task := d\<rparr>))"
proof -
  note w = crowd_okD [OF ok]
  note sub = submit_step [OF w(1) j(4)]
  let ?c = "cw_callers w ! j"
  have c: "?c \<in> set (cw_callers w)" using j(1) by simp
  have id: "request_id r = cl_id ?c" "cl_id ?c \<notin> set (map request_id (dq_requests (cw_task w)))"
    using w(6) [OF c] j(2,3) by (auto simp: caller_ok_def)
  show ?thesis
  proof (rule crowd_ok_set [OF ok])
    show "druns L spawn (seen_by_task (es @ [Sends j r])) d" using sub(1) by simp
    show "distinct (map request_id (dq_requests d))" using w(4) id by (simp add: sub(2))
    show "request_id q \<in> set (map cl_id (cw_callers w)) \<or> outside a (request_id q)"
      if "q \<in> set (dq_requests d)" for q
      using that w(5) [of q] id c by (auto simp: sub(2))
    show "caller_ok L (es @ [Sends j r]) d (?c\<lparr>cl_at := Waiting s\<rparr>)"
      using j(3) id by (simp add: caller_ok_def sub(2,3))
    show "caller_ok L (es @ [Sends j r]) d c'"
      if "c' \<in> set (cw_callers w)" "cl_id c' \<noteq> cl_id ?c" for c'
      using caller_submitted [OF caller_more [OF w(6) [OF that(1)]] sub(2)] that(2) id(1) by simp
    show "distinct (map cl_id (cw_callers w))" using distinct_ids [OF n] by (simp only: w(2))
  qed (rule j(1))
qed

text \<open>A step after which the task is as before, and one caller is somewhere else.\<close>

lemma crowd_ok_moves:
  assumes ok: "crowd_ok L a es w" and n: "length (cw_callers w) \<le> 2 ^ 64"
    and j: "j < length (cw_callers w)" "task_event e = []"
      "caller_ok L (es @ [e]) (cw_task w) ((cw_callers w ! j)\<lparr>cl_at := x\<rparr>)"
  shows "crowd_ok L a (es @ [e]) (set_at j x w)"
proof -
  note w = crowd_okD [OF ok]
  have "crowd_ok L a (es @ [e]) (set_at j x (w\<lparr>cw_task := cw_task w\<rparr>))"
  proof (rule crowd_ok_set [OF ok _ w(4) w(5) j(1,3)])
    show "druns L spawn (seen_by_task (es @ [e])) (cw_task w)" using w(1) j(2) by simp
    show "distinct (map cl_id (cw_callers w))" using distinct_ids [OF n] by (simp only: w(2))
  qed (use caller_more w(6) in blast)+
  then show ?thesis by simp
qed

lemma caller_gets:
  assumes "crowd_ok L a es w" "c \<in> set (cw_callers w)" "cl_at c = Waiting s"
    and "received s (cw_task w) = Some x"
  shows "caller_ok L es (cw_task w) (c\<lparr>cl_at := Finished (bindR x (cl_read c))\<rparr>)"
proof -
  note w = crowd_okD [OF assms(1)]
  have c: "request_id (cl_request c) = cl_id c" "dq_requests (cw_task w) ! s = cl_request c"
    using w(6) [OF assms(2)] assms(3) by (auto simp: caller_ok_def)
  from received_answered [OF w(1) assms(4)] c show ?thesis
    by (fastforce simp: caller_ok_def)
qed

lemma submit_Refused: "submit L r d = (Refused e, d') \<Longrightarrow> wire_error e"
  by (auto simp: submit_def Let_def split: sum.splits if_splits)

lemma crowd_step_ok:
  assumes "crowd_step L a w e w'" "crowd_ok L a es w" "length (cw_callers w') \<le> 2 ^ 64"
  shows "crowd_ok L a (es @ [e]) w'"
  using assms
proof (induction rule: crowd_step.induct)
  case (Enters w i ids r k)
  then show ?case by (intro crowd_ok_enters) simp_all
next
  case (Sends j w r s d)
  then show ?case by (intro crowd_ok_sends) simp_all
next
  case (Refuses j w e d)
  note w = crowd_okD [OF Refuses.prems(1)]
  have "caller_ok L (es @ [Refuses j]) (cw_task w) ((cw_callers w ! j)\<lparr>cl_at := Finished (Inl e)\<rparr>)"
    using w(6) [of "cw_callers w ! j"] Refuses.hyps submit_Refused
    by (fastforce simp: caller_ok_def)
  with Refuses show ?case by (intro crowd_ok_moves) simp_all
next
  case (Others r w s d)
  note w = crowd_okD [OF Others.prems(1)]
  note sub = submit_step [OF w(1) Others.hyps(3)]
  have "cl_id c \<noteq> request_id r" if "c \<in> set (cw_callers w)" for c
    using Others.hyps(1) not_outside that w(2) by (metis image_eqI set_map)
  then have "caller_ok L (es @ [Others r]) d c" if "c \<in> set (cw_callers w)" for c
    using that caller_submitted [OF caller_more [OF w(6)] sub(2)] by blast
  with w sub Others.hyps(1,2) show ?case
    by (intro crowd_ok_task [OF Others.prems(1)]) auto
next
  case (Works w e d)
  note w = crowd_okD [OF Works.prems(1)]
  have "druns L spawn (seen_by_task (es @ [Works e])) d"
    using druns.Snoc [OF w(1) Works.hyps(1)] by simp
  moreover have "caller_ok L (es @ [Works e]) d c" if "c \<in> set (cw_callers w)" for c
    using that caller_same_requests [OF caller_more [OF w(6)] Works.hyps(2)] by blast
  ultimately show ?case
    using w(4,5) Works.hyps(2) by (intro crowd_ok_task [OF Works.prems(1)]) simp_all
next
  case (Gets j w s x)
  have "caller_ok L (es @ [Gets j]) (cw_task w)
      ((cw_callers w ! j)\<lparr>cl_at := Finished (bindR x (cl_read (cw_callers w ! j)))\<rparr>)"
    using Gets by (intro caller_more caller_gets) simp_all
  with Gets show ?case by (intro crowd_ok_moves) simp_all
next
  case (Leaves j w)
  have "caller_ok L (es @ [Leaves j]) (cw_task w) ((cw_callers w ! j)\<lparr>cl_at := Gone\<rparr>)"
    using crowd_okD(6) [OF Leaves.prems(1), of "cw_callers w ! j"] Leaves.hyps(1)
    by (simp add: caller_ok_def)
  with Leaves show ?case by (intro crowd_ok_moves) simp_all
qed

lemma crowd_start_ok: "crowd_ok L a [] (crowd_start a)"
  by (simp add: crowd_ok_def crowd_start_def spawn_def druns.Nil)

lemma crowd_step_grows:
  "crowd_step L a w e w' \<Longrightarrow> length (cw_callers w) \<le> length (cw_callers w')"
  by (induction rule: crowd_step.induct) simp_all

lemma crowd_runs_ok:
  "crowd_runs L a (crowd_start a) es w \<Longrightarrow> length (cw_callers w) \<le> 2 ^ 64 \<Longrightarrow> crowd_ok L a es w"
proof (induction "crowd_start a :: 'a crowd" es w rule: crowd_runs.induct)
  case Nil
  show ?case by (rule crowd_start_ok)
next
  case (Snoc es w e w')
  from crowd_step_grows [OF Snoc.hyps(3)] Snoc.prems have "length (cw_callers w) \<le> 2 ^ 64"
    by (rule order_trans)
  with Snoc show ?case by (intro crowd_step_ok) simp_all
qed

section \<open>Callers are kept apart\<close>

definition settled :: "foreign \<Rightarrow> crowd_event list \<Rightarrow> dispatcher \<Rightarrow> 'a caller \<Rightarrow> bool" where
  "settled L es d c =
     (case cl_at c of
        Waiting s \<Rightarrow> s < length (dq_requests d) \<and> dq_requests d ! s = cl_request c \<and>
          (dq_running d \<or> received s d \<noteq> None)
      | Finished x \<Rightarrow> (\<exists>e. wire_error e \<and> x = Inl e) \<or>
          (\<exists>b v p. Works (Frame b) \<in> set es \<and> fo_from_slice L b = Inr v \<and>
             decode_value v = Inr p \<and> response_id p = cl_id c \<and>
             x = cl_read c (remap_response (request_kind (cl_request c)) p))
      | _ \<Rightarrow> True)"


section \<open>Callers that are dropped\<close>

definition stays :: "crowd_event \<Rightarrow> bool" where
  "stays e = (case e of Leaves j \<Rightarrow> False | _ \<Rightarrow> True)"

definition as_if_stayed :: "'a crowd \<Rightarrow> 'a crowd \<Rightarrow> bool" where
  "as_if_stayed w v =
     (cw_task v = cw_task w \<and> cw_ids v = cw_ids w \<and>
      list_all2 (\<lambda>c c'. cl_at c = Gone \<or> c' = c) (cw_callers w) (cw_callers v))"

lemma as_if_stayed_nth:
  "as_if_stayed w v \<Longrightarrow> j < length (cw_callers w) \<Longrightarrow>
   cl_at (cw_callers w ! j) = Gone \<or> cw_callers v ! j = cw_callers w ! j"
  by (auto simp: as_if_stayed_def dest: list_all2_nthD)

lemma as_if_stayed_set:
  "as_if_stayed w v \<Longrightarrow> cw_callers v ! j = cw_callers w ! j \<Longrightarrow>
   as_if_stayed (set_at j x w) (set_at j x v)"
  unfolding as_if_stayed_def set_at_def by (auto intro: list_all2_update_cong)

lemma as_if_stayed_task:
  "as_if_stayed w v \<Longrightarrow> as_if_stayed (w\<lparr>cw_task := d\<rparr>) (v\<lparr>cw_task := d\<rparr>)"
  by (simp add: as_if_stayed_def)

lemma stayed_step:
  assumes "crowd_step L a w e w'" "as_if_stayed w v" "stays e"
  shows "\<exists>v'. crowd_step L a v e v' \<and> as_if_stayed w' v'"
proof -
  have v: "cw_task v = cw_task w" "cw_ids v = cw_ids w" "length (cw_callers v) = length (cw_callers w)"
    using assms(2) by (auto simp: as_if_stayed_def list_all2_lengthD)
  note same = as_if_stayed_nth [OF assms(2)]
  from assms(1) show ?thesis
  proof cases
    case (Enters i ids r k)
    have "crowd_step L a v Enters (v\<lparr>cw_ids := ids, cw_callers := cw_callers v @
        [\<lparr>cl_id = i, cl_request = r, cl_read = k, cl_at = Ready\<rparr>]\<rparr>)"
      using Enters v by (intro crowd_step.Enters) simp_all
    moreover have "as_if_stayed w' (v\<lparr>cw_ids := ids, cw_callers := cw_callers v @
        [\<lparr>cl_id = i, cl_request = r, cl_read = k, cl_at = Ready\<rparr>]\<rparr>)"
      using assms(2) Enters by (auto simp: as_if_stayed_def intro: list_all2_appendI)
    ultimately show ?thesis using Enters by blast
  next
    case (Sends j r s d)
    have j: "cw_callers v ! j = cw_callers w ! j" using same [OF Sends(3)] Sends(4) by simp
    have "crowd_step L a v (Sends j r) (set_at j (Waiting s) (v\<lparr>cw_task := d\<rparr>))"
      using Sends v j by (intro crowd_step.Sends) simp_all
    moreover have "as_if_stayed w' (set_at j (Waiting s) (v\<lparr>cw_task := d\<rparr>))"
      unfolding Sends(2)
      by (rule as_if_stayed_set [OF as_if_stayed_task [OF assms(2)]]) (simp add: j)
    ultimately show ?thesis using Sends(1) by blast
  next
    case (Refuses j e' d)
    have j: "cw_callers v ! j = cw_callers w ! j" using same [OF Refuses(3)] Refuses(4) by simp
    have "crowd_step L a v (Refuses j) (set_at j (Finished (Inl e')) v)"
      using Refuses v j by (intro crowd_step.Refuses) simp_all
    then show ?thesis using as_if_stayed_set [OF assms(2) j] Refuses(1,2) by blast
  next
    case (Others r s d)
    have "crowd_step L a v (Others r) (v\<lparr>cw_task := d\<rparr>)"
      using Others v by (intro crowd_step.Others) simp_all
    then show ?thesis using as_if_stayed_task [OF assms(2)] Others(1,2) by blast
  next
    case (Works e' d)
    have "crowd_step L a v (Works e') (v\<lparr>cw_task := d\<rparr>)"
      using Works v by (intro crowd_step.Works) simp_all
    then show ?thesis using as_if_stayed_task [OF assms(2)] Works(1,2) by blast
  next
    case (Gets j s x)
    have j: "cw_callers v ! j = cw_callers w ! j" using same [OF Gets(3)] Gets(4) by simp
    have "crowd_step L a v (Gets j)
        (set_at j (Finished (bindR x (cl_read (cw_callers v ! j)))) v)"
      using Gets v j by (intro crowd_step.Gets) simp_all
    then show ?thesis using as_if_stayed_set [OF assms(2) j] Gets(1,2) j by metis
  next
    case (Leaves j)
    with assms(3) show ?thesis by (simp add: stays_def)
  qed
qed

lemma leaving_stays:
  assumes "crowd_step L a w e w'" "as_if_stayed w v" "\<not> stays e"
  shows "as_if_stayed w' v"
  using assms
proof cases
  case (Leaves j)
  have "list_all2 (\<lambda>c c'. cl_at c = Gone \<or> c' = c) ((cw_callers w)[j := (cw_callers w ! j)\<lparr>cl_at := Gone\<rparr>])
      ((cw_callers v)[j := cw_callers v ! j])"
    using assms(2) by (intro list_all2_update_cong) (simp_all add: as_if_stayed_def)
  with assms(2) Leaves show ?thesis by (simp add: as_if_stayed_def set_at_def)
qed (simp_all add: stays_def)

lemma runs_as_if_stayed:
  "crowd_runs L a (crowd_start a) es w \<Longrightarrow>
   \<exists>v. crowd_runs L a (crowd_start a) (filter stays es) v \<and> as_if_stayed w v"
proof (induction "crowd_start a :: 'a crowd" es w rule: crowd_runs.induct)
  case Nil
  show ?case
    by (intro exI [of _ "crowd_start a"]) (simp add: crowd_runs.Nil as_if_stayed_def crowd_start_def)
next
  case (Snoc es w e w')
  obtain v where v: "crowd_runs L a (crowd_start a) (filter stays es) v" "as_if_stayed w v"
    using Snoc.hyps(2) by blast
  show ?case
  proof (cases "stays e")
    case True
    obtain v' where v': "crowd_step L a v e v'" "as_if_stayed w' v'"
      using stayed_step [OF Snoc.hyps(3) v(2) True] by blast
    show ?thesis
      using crowd_runs.Snoc [OF v(1) v'(1)] v'(2) True by auto
  next
    case False
    with leaving_stays [OF Snoc.hyps(3) v(2)] v(1) show ?thesis by auto
  qed
qed


section \<open>A concrete run\<close>

text \<open>Two callers; the first is dropped, the second pings and is answered.\<close>

definition pair_ids :: id_allocator where
  "pair_ids = new_allocator None 0"

definition pinger :: "string \<Rightarrow> string progress \<Rightarrow> string caller" where
  "pinger i x =
     \<lparr>cl_id = i, cl_request = Ping i, cl_read = (\<lambda>r. Inr (response_id r)), cl_at = x\<rparr>"

definition pair_crowd :: "dispatcher \<Rightarrow> string progress \<Rightarrow> string progress \<Rightarrow> string crowd" where
  "pair_crowd d x y =
     \<lparr>cw_task = d, cw_ids = snd (next_ids 2 pair_ids),
      cw_callers = [pinger (id_at pair_ids 0) x, pinger (id_at pair_ids 1) y]\<rparr>"

definition ping_ob :: outbound where
  "ping_ob =
     \<lparr>ob_id = id_at pair_ids 1, ob_bytes = ''ping'', ob_reply = 0, ob_kind = KPing\<rparr>"

definition ping_sent :: dispatcher where
  "ping_sent = spawn\<lparr>dq_queue := [ping_ob], dq_requests := [Ping (id_at pair_ids 1)]\<rparr>"

definition ping_written :: dispatcher where
  "ping_written = handle_outbound [] None ping_ob (ping_sent\<lparr>dq_queue := []\<rparr>)"

definition ping_answered :: dispatcher where
  "ping_answered =
     handle_frame rejecter (dq_pending ping_written) (id_at pair_ids 1) ping_written"

lemma ping_answered_simps:
  "dq_requests ping_written = [Ping (id_at pair_ids 1)]" "dq_running ping_written"
  "dq_requests ping_answered = [Ping (id_at pair_ids 1)]"
  "received 0 ping_answered = Some (Inr (ErrorResp (refusal (id_at pair_ids 1))))"
  by (simp_all add: ping_answered_def ping_written_def ping_sent_def ping_ob_def spawn_def
      handle_outbound_def insert_pending_def handle_frame_def rejecter_def refusal_decodes
      answer_def deliver_def received_def) (simp_all add: refusal_def)

lemma pair_entered:
  "crowd_runs rejecter pair_ids (crowd_start pair_ids) ([] @ [Enters] @ [Enters])
     (pair_crowd spawn Ready Ready)"
proof -
  let ?w0 = "crowd_start pair_ids :: string crowd"
  let ?w1 = "?w0\<lparr>cw_ids := snd (next_id pair_ids), cw_callers := [pinger (id_at pair_ids 0) Ready]\<rparr>"
  have "crowd_step rejecter pair_ids ?w0 Enters ?w1"
    using crowd_step.Enters [of ?w0 "id_at pair_ids 0" "snd (next_id pair_ids)"
        "Ping (id_at pair_ids 0)" rejecter pair_ids "\<lambda>r. Inr (response_id r)"]
    by (simp add: crowd_start_def pinger_def next_id_def id_at_def)
  moreover have "crowd_step rejecter pair_ids ?w1 Enters (pair_crowd spawn Ready Ready)"
    using crowd_step.Enters [of ?w1 "id_at pair_ids 1" "snd (next_ids 2 pair_ids)"
        "Ping (id_at pair_ids 1)" rejecter pair_ids "\<lambda>r. Inr (response_id r)"]
    by (simp add: crowd_start_def pinger_def pair_crowd_def next_id_def id_at_def numeral_2_eq_2)
  ultimately show ?thesis
    using crowd_runs.Snoc [OF crowd_runs.Snoc [OF crowd_runs.Nil]] by fastforce
qed

lemma pair_run:
  "crowd_runs rejecter pair_ids (crowd_start pair_ids)
     ((((([] @ [Enters] @ [Enters]) @ [Leaves 0]) @ [Sends 1 (Ping (id_at pair_ids 1))]) @
       [Works (Take None)]) @ [Works (Frame (id_at pair_ids 1))])
     (pair_crowd ping_answered Gone (Waiting 0))"
proof -
  have one: "crowd_step rejecter pair_ids (pair_crowd spawn Ready Ready) (Leaves 0)
      (pair_crowd spawn Gone Ready)"
    using crowd_step.Leaves [of 0 "pair_crowd spawn Ready Ready" rejecter pair_ids]
    by (simp add: pair_crowd_def pinger_def set_at_def)
  have two: "crowd_step rejecter pair_ids (pair_crowd spawn Gone Ready)
      (Sends 1 (Ping (id_at pair_ids 1))) (pair_crowd ping_sent Gone (Waiting 0))"
    using crowd_step.Sends [of 1 "pair_crowd spawn Gone Ready" "Ping (id_at pair_ids 1)" rejecter
        0 ping_sent pair_ids]
    by (simp add: pair_crowd_def pinger_def set_at_def submit_def rejecter_def sample_def
        ping_sent_def ping_ob_def spawn_def SEND_QUEUE_CAPACITY_def)
  have "dstep rejecter ping_sent (Take None) ping_written"
    by (rule dstep.Take [of _ ping_ob "[]" "[]"])
       (simp_all add: ping_written_def ping_sent_def spawn_def)
  then have three: "crowd_step rejecter pair_ids (pair_crowd ping_sent Gone (Waiting 0))
      (Works (Take None)) (pair_crowd ping_written Gone (Waiting 0))"
    using crowd_step.Works [of rejecter "pair_crowd ping_sent Gone (Waiting 0)" "Take None"
        ping_written pair_ids]
    by (simp add: pair_crowd_def ping_answered_simps) (simp add: ping_sent_def)
  have "dstep rejecter ping_written (Frame (id_at pair_ids 1)) ping_answered"
    by (auto simp: dstep_Frame ping_answered_def ping_answered_simps)
  then have four: "crowd_step rejecter pair_ids (pair_crowd ping_written Gone (Waiting 0))
      (Works (Frame (id_at pair_ids 1))) (pair_crowd ping_answered Gone (Waiting 0))"
    using crowd_step.Works [of rejecter "pair_crowd ping_written Gone (Waiting 0)"
        "Frame (id_at pair_ids 1)" ping_answered pair_ids]
    by (simp add: pair_crowd_def ping_answered_simps)
  show ?thesis
    by (intro crowd_runs.Snoc [OF _ four] crowd_runs.Snoc [OF _ three] crowd_runs.Snoc [OF _ two]
        crowd_runs.Snoc [OF _ one] pair_entered)
qed



end
