(* ===== verification/Live_Dialect.thy ===== *)
theory Live_Dialect
  imports Dispatcher
begin

text \<open>
  The dialect of the live daemon, as the repository writes it down in its mock server
  (\<^verbatim>\<open>src/tests/common/mock_server.rs\<close>): successful frames carry no \<open>type\<close> tag, a result set leaves
  out an empty \<open>cont_id\<close> and an \<open>is_done\<close> that is false, acknowledgements are all
  \<open>{id, success}\<close>, and a terse page has arrays for rows.

  The writer below is the mock server's. The theorem is about the client: what the decoder and
  the remapping by request kind make of such a frame is the answer the daemon meant.
\<close>

section \<open>The writer\<close>

definition array_row :: "string list \<Rightarrow> value \<Rightarrow> value" where
  "array_row names r =
     (case r of
        JObject m \<Rightarrow> JArray (map (\<lambda>n. unwrap_or JNull (obj_get m n)) names)
      | _ \<Rightarrow> r)"

definition encode_query_result_maybe_terse :: "query_result \<Rightarrow> bool option \<Rightarrow> value" where
  "encode_query_result_maybe_terse q terse =
     (let v = query_result_object q;
          names = map col_name (md_columns (qr_metadata q));
          v1 = (if terse = Some True
                then (case obj_get v ''data'' of
                        Some (JArray rows) \<Rightarrow>
                          obj_insert ''data'' (JArray (map (array_row names) rows)) v
                      | _ \<Rightarrow> v)
                else v);
          v2 = (case obj_get v1 ''cont_id'' of
                  Some JNull \<Rightarrow> obj_remove ''cont_id'' v1
                | Some (JString s) \<Rightarrow> if s = [] then obj_remove ''cont_id'' v1 else v1
                | _ \<Rightarrow> v1)
      in JObject (if obj_get v2 ''is_done'' = Some (JBool False)
                  then obj_remove ''is_done'' v2 else v2))"

definition ack :: "string \<Rightarrow> bool \<Rightarrow> json_object" where
  "ack i s = [(''id'', JString i), (''success'', JBool s)]"

fun encode_live_response :: "response \<Rightarrow> value" where
  "encode_live_response (Connected i v j) =
     JObject ([(''id'', JString i), (''job'', JString j), (''success'', JBool True),
        (''execution_time'', JNumber (JInt 0))] @
        (if v = [] then [] else [(''version'', JString v)]))"
| "encode_live_response (QueryResult q) = encode_query_result_maybe_terse q None"
| "encode_live_response (ErrorResp e) = JObject (error_response_object e)"
| "encode_live_response (Pong i) = JObject (ack i True)"
| "encode_live_response (Exited i) = JObject (ack i True)"
| "encode_live_response (PreparedStatement i s c t) =
     JObject (ack i s @ [(''cont_id'', JString c), (''execution_time'', ser_f64 t),
        (''is_done'', JBool True)])"
| "encode_live_response (DbJob i s j) = JObject (ack i s @ [(''job'', JString j)])"
| "encode_live_response (Version i s v) = JObject (ack i s @ [(''version'', JString v)])"
| "encode_live_response (SqlClosed i s) = JObject (ack i s)"
| "encode_live_response (ConfigSet i s) = JObject (ack i s)"
| "encode_live_response (TraceData i s t) = JObject (ack i s @ [(''tracedata'', JString t)])"
| "encode_live_response (DoveResult i s d m) =
     JObject (ack i s @ [(''vedata'', d)] @
        (case m of None \<Rightarrow> [] | Some x \<Rightarrow> [(''vemetadata'', x)]))"
| "encode_live_response (ClResult i s ms) = ser_response (ClResult i s ms)"

section \<open>Result sets\<close>

text \<open>What is left of a result set: an empty \<open>cont_id\<close> is none, and a page that does not say that it
  is the last one is the last one if it cannot have rows.\<close>

definition as_read :: "query_result \<Rightarrow> query_result" where
  "as_read q =
     q\<lparr>qr_cont_id := non_empty (qr_cont_id q),
       qr_is_done := qr_is_done q \<or> \<not> qr_has_results q \<and> qr_data q = []\<rparr>"

definition wire_rows :: "query_result \<Rightarrow> bool option \<Rightarrow> value list" where
  "wire_rows q terse =
     (if terse = Some True
      then map (array_row (map col_name (md_columns (qr_metadata q))) \<circ> JObject) (qr_data q)
      else map JObject (qr_data q))"

lemma encoded_object:
  "\<exists>ob. encode_query_result_maybe_terse q terse = JObject ob \<and>
     map_of ob = (map_of (query_result_object q))
       (''data'' \<mapsto> JArray (wire_rows q terse),
        ''cont_id'' := map_option JString (non_empty (qr_cont_id q)),
        ''is_done'' := (if qr_is_done q then Some (JBool True) else None))"
proof -
  have look: "map_of (query_result_object q) ''data'' = Some (JArray (map JObject (qr_data q)))"
    "map_of (query_result_object q) ''cont_id'' = Some (ser_option JString (qr_cont_id q))"
    "map_of (query_result_object q) ''is_done'' = Some (JBool (qr_is_done q))"
    by (simp_all add: query_result_object_def ser_vec_def)
  show ?thesis
    by (cases "qr_cont_id q"; cases "qr_is_done q")
      (auto simp: encode_query_result_maybe_terse_def Let_def obj_get_def look wire_rows_def
        ser_option_def non_empty_def fun_upd_twist fun_upd_idem_iff intro!: ext)
qed

abbreviation present_or_missing :: "string \<Rightarrow> value option \<Rightarrow> serde_reason + value" where
  "present_or_missing k x \<equiv> (case x of None \<Rightarrow> Inl (MissingField k) | Some v \<Rightarrow> Inr v)"

lemma encoded_env:
  assumes "map_of ob = (map_of (query_result_object q))
      (''data'' \<mapsto> JArray rows, ''cont_id'' := c, ''is_done'' := d)"
  shows "\<exists>e. de_fields query_result_fields (JObject ob) = Inr e \<and>
     e ''id'' = Inr (JString (qr_id q)) \<and> e ''success'' = Inr (JBool (qr_success q)) \<and>
     e ''has_results'' = Inr (JBool (qr_has_results q)) \<and>
     e ''update_count'' = Inr (ser_i64 (qr_update_count q)) \<and>
     e ''cont_id'' = present_or_missing ''cont_id'' c \<and>
     e ''is_done'' = present_or_missing ''is_done'' d \<and>
     e ''metadata'' = Inr (ser_metadata (qr_metadata q)) \<and> e ''data'' = Inr (JArray rows) \<and>
     e ''execution_time'' = Inr (ser_f64 (qr_execution_time q)) \<and>
     e ''error'' = present_or_missing ''error'' (map_option JString (qr_error q)) \<and>
     e ''sqlcode'' = present_or_missing ''sqlcode'' (map_option ser_i32 (qr_sqlcode q)) \<and>
     e ''sqlstate'' = present_or_missing ''sqlstate'' (map_option JString (qr_sqlstate q)) \<and>
     e ''parameter_count'' =
       present_or_missing ''parameter_count'' (map_option ser_u32 (qr_parameter_count q)) \<and>
     e ''output_parms'' = present_or_missing ''output_parms''
       (if qr_output_parms q = [] then None
        else Some (ser_vec ser_parameter_result (qr_output_parms q)))"
  unfolding de_fields.simps query_result_fields_def
  by (simp add: present_def assms query_result_object_def map_add_def map_of_fld_opt map_of_fld_vec
      split: option.split)

lemma decode_encoded:
  assumes "wf_result q"
  shows "de_query_result (encode_query_result_maybe_terse q terse) =
    bindR (named_rows_from_wire (qr_metadata q) (wire_rows q terse))
      (\<lambda>ms. Inr (as_read (q\<lparr>qr_data := ms\<rparr>)))"
proof -
  let ?c = "map_option JString (non_empty (qr_cont_id q))"
    and ?d = "if qr_is_done q then Some (JBool True) else None"
  from assms have parms: "\<And>p. p \<in> set (qr_output_parms q) \<Longrightarrow>
      de_parameter_result (ser_parameter_result p) = Inr p"
    and fin: "de_f64 (ser_f64 (qr_execution_time q)) = Inr (qr_execution_time q)"
    by (auto simp: wf_result_def list_all_iff wire_simps)
  obtain ob where ob: "encode_query_result_maybe_terse q terse = JObject ob"
    "map_of ob = (map_of (query_result_object q))
       (''data'' \<mapsto> JArray (wire_rows q terse), ''cont_id'' := ?c, ''is_done'' := ?d)"
    using encoded_object [of q terse] by blast
  obtain e where e: "de_fields query_result_fields (JObject ob) = Inr e"
    and plain: "e ''id'' = Inr (JString (qr_id q))" "e ''success'' = Inr (JBool (qr_success q))"
     "e ''has_results'' = Inr (JBool (qr_has_results q))"
     "e ''update_count'' = Inr (ser_i64 (qr_update_count q))"
     "e ''metadata'' = Inr (ser_metadata (qr_metadata q))"
     "e ''data'' = Inr (JArray (wire_rows q terse))"
     "e ''execution_time'' = Inr (ser_f64 (qr_execution_time q))"
    and opt: "e ''cont_id'' = present_or_missing ''cont_id'' ?c"
     "e ''is_done'' = present_or_missing ''is_done'' ?d"
     "e ''error'' = present_or_missing ''error'' (map_option JString (qr_error q))"
     "e ''sqlcode'' = present_or_missing ''sqlcode'' (map_option ser_i32 (qr_sqlcode q))"
     "e ''sqlstate'' = present_or_missing ''sqlstate'' (map_option JString (qr_sqlstate q))"
     "e ''parameter_count'' =
        present_or_missing ''parameter_count'' (map_option ser_u32 (qr_parameter_count q))"
     "e ''output_parms'' = present_or_missing ''output_parms''
        (if qr_output_parms q = [] then None
         else Some (ser_vec ser_parameter_result (qr_output_parms q)))"
    using encoded_env [OF ob(2)] by blast
  have string: "dflt e k None (de_option de_string) = Inr x"
    if "e k = present_or_missing k (map_option JString x)" for k x
    using that by (cases x) (simp_all add: dflt_def de_option_Some)
  have "dflt e ''is_done'' None (de_option de_bool) = Inr (if qr_is_done q then Some True else None)"
    by (simp add: dflt_def opt(2) de_option_Some)
  moreover have "dflt e ''sqlcode'' None (de_option de_i32) = Inr (qr_sqlcode q)"
    by (cases "qr_sqlcode q") (simp_all add: dflt_def opt(4) wire_simps)
  moreover have "dflt e ''parameter_count'' None (de_option de_u32) = Inr (qr_parameter_count q)"
    by (cases "qr_parameter_count q") (simp_all add: dflt_def opt(6) wire_simps)
  moreover have "dflt e ''output_parms'' [] (de_vec de_parameter_result) = Inr (qr_output_parms q)"
    by (simp add: dflt_def opt(7) de_ser_vec parms)
  moreover have rows: "mapR de_value xs = Inr xs" for xs by (induction xs) auto
  ultimately show ?thesis
    by (cases "named_rows_from_wire (qr_metadata q) (wire_rows q terse)")
      (simp_all add: ob(1) de_query_result_def de_query_result_raw_def e plain req_Inr dflt_Inr
        wire_simps fin rows as_read_def string [OF opt(1)] string [OF opt(3)] string [OF opt(5)])
qed

lemma decode_value_page:
  assumes "wf_result q"
  shows "decode_value (encode_query_result_maybe_terse q terse) =
    bindR (named_rows_from_wire (qr_metadata q) (wire_rows q terse))
      (\<lambda>ms. Inr (QueryResult (as_read (q\<lparr>qr_data := ms\<rparr>))))"
proof -
  obtain ob where ob: "encode_query_result_maybe_terse q terse = JObject ob"
    "map_of ob = (map_of (query_result_object q))
       (''data'' \<mapsto> JArray (wire_rows q terse),
        ''cont_id'' := map_option JString (non_empty (qr_cont_id q)),
        ''is_done'' := (if qr_is_done q then Some (JBool True) else None))"
    using encoded_object [of q terse] by blast
  have "map_of ob ''type'' = None" "map_of ob ''vedata'' = None" "map_of ob ''vemetadata'' = None"
    "map_of ob ''data'' \<noteq> None"
    by (simp_all add: ob(2) query_result_object_def map_add_def map_of_fld_opt map_of_fld_vec)
  then show ?thesis
    using decode_encoded [OF assms, of terse] ob(1)
    by (cases "named_rows_from_wire (qr_metadata q) (wire_rows q terse)")
      (simp_all add: decode_value_def contains_key_def decode_untagged_def Let_def)
qed

lemma decode_value_encoded:
  "wf_result q \<Longrightarrow> named_rows_from_wire (qr_metadata q) (wire_rows q terse) = Inr ms \<Longrightarrow>
   decode_value (encode_query_result_maybe_terse q terse) =
     Inr (QueryResult (as_read (q\<lparr>qr_data := ms\<rparr>)))"
  by (simp add: decode_value_page)

text \<open>Rows written as arrays: the cells of the columns, in their order.\<close>

definition by_column :: "string list \<Rightarrow> json_object \<Rightarrow> json_object" where
  "by_column names m = map (\<lambda>n. (n, unwrap_or JNull (map_of m n))) names"

lemma by_column_same:
  assumes "map fst m = names" "distinct names"
  shows "by_column names m = m"
proof -
  have "unwrap_or JNull (map_of m (fst x)) = snd x" if "x \<in> set m" for x
    using assms that by (cases x) (simp add: map_of_is_SomeI)
  then show ?thesis
    unfolding by_column_def assms(1) [symmetric] map_map by (intro map_idI) (simp add: prod_eq_iff)
qed

lemma update_absent: "k \<notin> fst ` set m \<Longrightarrow> AList.update k v m = m @ [(k, v)]"
  by (induction m) auto

lemma name_cells_distinct:
  assumes "distinct (map col_name cols)" "i + length cs \<le> length cols"
    and "fst ` set m \<subseteq> set (map col_name (take i cols))"
  shows "name_cells cols idx i cs m = Inr (m @ zip (map col_name (drop i cols)) cs)"
  using assms(2,3)
proof (induction cs arbitrary: i m)
  case (Cons c cs)
  then have i: "i < length cols" by simp
  have split: "drop i cols = cols ! i # drop (Suc i) cols"
    using i by (rule Cons_nth_drop_Suc [symmetric])
  have "distinct (map col_name (take i cols @ drop i cols))" using assms(1) by simp
  then have new: "col_name (cols ! i) \<notin> fst ` set m"
    using Cons.prems(2) unfolding split by auto
  have "fst ` set (obj_insert (col_name (cols ! i)) c m) \<subseteq> set (map col_name (take (Suc i) cols))"
    using Cons.prems(2) i
    by (auto simp: obj_insert_def update_absent [OF new] take_Suc_conv_app_nth)
  with Cons.IH [of "Suc i"] Cons.prems(1) i show ?case
    by (simp add: split obj_insert_def update_absent [OF new])
qed simp

lemma named_array_row:
  assumes "distinct (map col_name cols)" "cols \<noteq> []"
  shows "named_row cols idx (array_row (map col_name cols) (JObject m)) =
    Inr (by_column (map col_name cols) m)"
  using assms
  by (simp add: array_row_def name_cells_distinct obj_get_def by_column_def zip_map_map zip_same_conv_map
      o_def)

lemma named_wire_rows:
  assumes "terse = Some True \<Longrightarrow> distinct (map col_name (md_columns (qr_metadata q))) \<and>
      (md_columns (qr_metadata q) = [] \<longrightarrow> qr_data q = [])"
  shows "named_rows_from_wire (qr_metadata q) (wire_rows q terse) =
    Inr (if terse = Some True
         then map (by_column (map col_name (md_columns (qr_metadata q)))) (qr_data q)
         else qr_data q)"
proof (cases "terse = Some True")
  case True
  let ?cols = "md_columns (qr_metadata q)"
  have "named_rows ?cols idx (map (array_row (map col_name ?cols) \<circ> JObject) ms) =
      Inr (map (by_column (map col_name ?cols)) ms)" if "?cols \<noteq> [] \<or> ms = []" for idx ms
    using that
  proof (induction ms arbitrary: idx)
    case (Cons m ms)
    then show ?case using assms [OF True] by (simp add: named_array_row)
  qed simp
  with True assms show ?thesis by (auto simp: named_rows_from_wire_def wire_rows_def)
qed (simp add: named_rows_from_wire_def wire_rows_def named_rows_objects)

section \<open>Answers\<close>

text \<open>The terse flag of a request, and the frame with which the daemon answers it.\<close>

fun asked_terse :: "request \<Rightarrow> bool option" where
  "asked_terse (Sql i s n ps t) = t"
| "asked_terse (PrepareSqlExecute i s ps n t) = t"
| "asked_terse (Execute i c ps n t) = t"
| "asked_terse _ = None"

fun encode_answer :: "request \<Rightarrow> response \<Rightarrow> value" where
  "encode_answer r (QueryResult q) = encode_query_result_maybe_terse q (asked_terse r)"
| "encode_answer r p = encode_live_response p"

text \<open>
  The answers to a request: a failure, or a success of its kind. A terse result needs columns with
  different names to be a table at all.
\<close>

definition tabular :: "query_result \<Rightarrow> bool" where
  "tabular q =
     (let names = map col_name (md_columns (qr_metadata q))
      in distinct names \<and> (names = [] \<longrightarrow> qr_data q = []))"

definition wants_rows :: "request \<Rightarrow> bool" where
  "wants_rows r =
     (case r of
        Sql i s n ps t \<Rightarrow> True
      | PrepareSqlExecute i s ps n t \<Rightarrow> True
      | Execute i c ps n t \<Rightarrow> True
      | SqlMore i c n \<Rightarrow> True
      | Cl i c t \<Rightarrow> True
      | _ \<Rightarrow> False)"

definition explains :: "request \<Rightarrow> bool" where
  "explains r = (case r of Dove i s b n t \<Rightarrow> True | _ \<Rightarrow> False)"

fun answers :: "request \<Rightarrow> response \<Rightarrow> bool" where
  "answers r (ErrorResp e) = (\<not> er_success e)"
| "answers r (Connected i v j) = (request_kind r = KConnect)"
| "answers r (Pong i) = (request_kind r = KPing)"
| "answers r (Exited i) = (request_kind r = KExit)"
| "answers r (QueryResult q) = (wants_rows r \<and> (asked_terse r = Some True \<longrightarrow> tabular q))"
| "answers r (PreparedStatement i s c t) = (request_kind r = KPrepareSql \<and> s)"
| "answers r (SqlClosed i s) = (request_kind r = KSqlClose \<and> s)"
| "answers r (ClResult i s ms) = wants_rows r"
| "answers r (Version i s v) = (request_kind r = KGetVersion \<and> s)"
| "answers r (DbJob i s j) = (request_kind r = KGetDbJob \<and> s)"
| "answers r (ConfigSet i s) = (request_kind r = KSetConfig \<and> s)"
| "answers r (TraceData i s t) = (request_kind r = KGetTraceData \<and> s)"
| "answers r (DoveResult i s d m) = explains r"

fun as_understood :: "request \<Rightarrow> response \<Rightarrow> response" where
  "as_understood r (QueryResult q) =
     QueryResult (as_read (if asked_terse r = Some True
       then q\<lparr>qr_data := map (by_column (map col_name (md_columns (qr_metadata q)))) (qr_data q)\<rparr>
       else q))"
| "as_understood r p = p"

lemma encoded_answer:
  assumes "wf_result q" "asked_terse r = Some True \<Longrightarrow> tabular q"
  shows "decode_value (encode_answer r (QueryResult q)) = Inr (as_understood r (QueryResult q))"
  using decode_value_encoded [OF assms(1) named_wire_rows [of "asked_terse r" q]] assms(2)
  by (auto simp: tabular_def Let_def)

lemmas live_run = decode_value_def contains_key_def decode_untagged_def obj_get_def str_field_def
  ack_def Let_def

lemma live_error:
  "\<not> er_success e \<Longrightarrow> decode_value (JObject (error_response_object e)) = Inr (ErrorResp e)"
  using de_ser_error_response [of e] by (simp add: live_run error_response_object_def)

lemma live_prepared:
  "f64_finite t \<Longrightarrow>
   decode_value (encode_live_response (PreparedStatement i True c t)) =
     Inr (PreparedStatement i True c t)"
  by (simp add: live_run de_prepared_body_def prepared_response_def req_def dflt_def wire_simps)

lemma live_dove:
  "m \<noteq> Some JNull \<Longrightarrow>
   decode_value (encode_live_response (DoveResult i s d m)) = Inr (DoveResult i s d m)"
  by (cases m; cases "d = JNull")
    (auto simp: live_run decode_dove_def de_dove_body_def dove_from_body_def req_def dflt_def
      de_option_def wire_simps split: json.splits)

lemma decode_ser_cl: "decode_value (ser_response (ClResult i s ms)) = Inr (ClResult i s ms)"
  by (simp add: decode_ser_tagged decode_tag_def payload_def strip_type_tagged de_cl_result_body_def
      req_def wire_simps del: strip_type.simps)

lemma live_understood:
  assumes "answers r p" "wf_response p"
  shows "bindR (decode_value (encode_answer r p)) (\<lambda>q. Inr (remap_response (request_kind r) q)) =
    Inr (as_understood r p)"
proof (cases p)
  case (QueryResult q)
  with assms encoded_answer [of q r] show ?thesis by (cases "request_kind r") simp_all
next
  case (ErrorResp e)
  with assms live_error [of e] show ?thesis by (cases "request_kind r") simp_all
next
  case (PreparedStatement i s c t)
  with assms live_prepared [of t i c] show ?thesis by simp
next
  case (DoveResult i s d m)
  with assms live_dove [of m i s d] show ?thesis by (cases "request_kind r") simp_all
next
  case (ClResult i s ms)
  then have "decode_value (encode_answer r p) = Inr p"
    using decode_ser_cl by simp
  with ClResult show ?thesis by (cases "request_kind r") simp_all
qed (use assms in \<open>simp_all add: live_run\<close>)


definition two_columns :: "column list" where
  "two_columns =
     [\<lparr>col_name = ''ID'', col_label = None, col_type_name = Some ''INTEGER'',
       col_display_size = Some 11, col_precision = Some 10, col_scale = Some 0\<rparr>,
      \<lparr>col_name = ''NAME'', col_label = None, col_type_name = Some ''VARCHAR'',
       col_display_size = Some 20, col_precision = Some 20, col_scale = None\<rparr>]"

definition terse_page :: query_result where
  "terse_page =
     \<lparr>qr_id = ''q1'', qr_success = True, qr_has_results = True, qr_update_count = - 1,
      qr_cont_id = Some [], qr_is_done = False,
      qr_metadata = default_metadata\<lparr>md_column_count := 2, md_columns := two_columns\<rparr>,
      qr_data = [[(''ID'', JNumber (JInt 7)), (''NAME'', JString ''x'')],
        [(''ID'', JNull), (''NAME'', JNull)]],
      qr_execution_time = 0, qr_error = None, qr_sqlcode = None, qr_sqlstate = None,
      qr_parameter_count = None, qr_output_parms = []\<rparr>"


end
