(* ===== verification/Live_Daemon.thy ===== *)
theory Live_Daemon
  imports End_To_End Live_Dialect
begin

text \<open>
  A daemon that speaks the live dialect of theory Live_Dialect, with tables for results: columns
  with their types and, where the statement asked for it, rows as arrays. Further pages have their
  rows as objects, as the mock server's have. It is a \<open>sql_server\<close> in the sense of End_To_End.
\<close>

section \<open>Tables\<close>

record sql_table =
  tb_columns :: "column list"
  tb_rows :: "json_object list"

definition column_names :: "sql_table \<Rightarrow> string list" where
  "column_names t = map col_name (tb_columns t)"

definition wf_table :: "sql_table \<Rightarrow> bool" where
  "wf_table t =
     (distinct (column_names t) \<and> list_all (\<lambda>m. map fst m = column_names t) (tb_rows t) \<and>
      (tb_columns t = [] \<longrightarrow> tb_rows t = []))"

definition table_page :: "string \<Rightarrow> sql_table \<Rightarrow> bool \<Rightarrow> query_result" where
  "table_page i t fin =
     page_result i (tb_rows t) fin
       \<lparr>qr_update_count := - 1,
        qr_metadata := default_metadata
          \<lparr>md_column_count := of_nat (length (tb_columns t)), md_columns := tb_columns t\<rparr>\<rparr>"

definition rows_from :: "nat \<Rightarrow> sql_table \<Rightarrow> sql_table" where
  "rows_from n t = t\<lparr>tb_rows := drop n (tb_rows t)\<rparr>"

definition rows_to :: "nat \<Rightarrow> sql_table \<Rightarrow> sql_table" where
  "rows_to n t = t\<lparr>tb_rows := take n (tb_rows t)\<rparr>"

section \<open>The daemon\<close>

type_synonym open_tables = "string \<rightharpoonup> sql_table"
type_synonym table_statements = "string \<Rightarrow> value list list option \<Rightarrow> error_response + sql_table"

definition left_open :: "sql_table \<Rightarrow> sql_table option" where
  "left_open t = (if tb_rows t = [] then None else Some t)"

definition give_table ::
  "string \<Rightarrow> string \<Rightarrow> u32 \<Rightarrow> sql_table \<Rightarrow> open_tables \<Rightarrow> response \<times> open_tables" where
  "give_table i c n t ts =
     (let rest = rows_from (unat n) t
      in (QueryResult (table_page i (rows_to (unat n) t) (tb_rows rest = [])),
          ts(c := left_open rest)))"

definition run_table_statement ::
  "table_statements \<Rightarrow> string \<Rightarrow> string \<Rightarrow> value list list option \<Rightarrow> u32 option \<Rightarrow> open_tables \<Rightarrow>
     response \<times> open_tables" where
  "run_table_statement db i sql ps n ts =
     (case db sql ps of
        Inl e \<Rightarrow> (refuse i e, ts)
      | Inr t \<Rightarrow> give_table i i (unwrap_or 100 n) t ts)"

fun live_respond :: "table_statements \<Rightarrow> request \<Rightarrow> open_tables \<Rightarrow> response \<times> open_tables" where
  "live_respond db (Sql i sql n ps t) ts =
     run_table_statement db i sql (map_option (\<lambda>p. [p]) ps) n ts"
| "live_respond db (PrepareSqlExecute i sql ps n t) ts = run_table_statement db i sql ps n ts"
| "live_respond db (SqlMore i c n) ts =
     (case ts c of None \<Rightarrow> (refuse i unsupported, ts) | Some t \<Rightarrow> give_table i c n t ts)"
| "live_respond db (SqlClose i c) ts = (SqlClosed i True, ts(c := None))"
| "live_respond db (Ping i) ts = (Pong i, ts)"
| "live_respond db (Connect i t a ps) ts = (Connected i ''1'' ''JOB'', ts)"
| "live_respond db r ts = (refuse (request_id r) unsupported, ts)"

definition live_daemon :: "foreign \<Rightarrow> table_statements \<Rightarrow> open_tables daemon" where
  "live_daemon L db bytes ts =
     (case bindR (fo_from_slice L bytes) de_request of
        Inl e \<Rightarrow> (Inr [], ts)
      | Inr r \<Rightarrow>
          (let (p, ts') = live_respond db r ts in
           case fo_to_vec L (encode_answer r p) of
             Inl e \<Rightarrow> (Inr [], ts')
           | Inr frame \<Rightarrow> (Inr [frame], ts')))"

lemma live_respond_id: "response_id (fst (live_respond db r ts)) = request_id r"
  by (cases "(db, r, ts)" rule: live_respond.cases)
     (simp_all add: run_table_statement_def give_table_def refuse_def table_page_def page_result_def
        Let_def split: sum.split option.split)

section \<open>Text\<close>

text \<open>As \<open>keeps_text\<close>, for the frames of this daemon.\<close>

definition plain_rows :: "(value \<Rightarrow> bool) \<Rightarrow> response \<Rightarrow> bool" where
  "plain_rows ok p =
     (case p of QueryResult q \<Rightarrow> list_all (\<lambda>m. ok (JObject m)) (qr_data q) | _ \<Rightarrow> True)"

definition keeps_live_text :: "foreign \<Rightarrow> (value \<Rightarrow> bool) \<Rightarrow> bool" where
  "keeps_live_text L ok =
     ((\<forall>r. list_all ok (request_values r) \<longrightarrow> text_back L de_request (ser_request r)) \<and>
      (\<forall>r p. answers r p \<longrightarrow> wf_response p \<longrightarrow> plain_rows ok p \<longrightarrow>
         text_back L decode_value (encode_answer r p)))"

lemma live_exchange:
  assumes "quiescent L (d, ts)" "text_back L de_request (ser_request r)"
    and "de_request (ser_request r) = Inr r" "live_respond db r ts = (p, ts')"
    and "answers r p" "wf_response p" "text_back L decode_value (encode_answer r p)"
  shows "fst (exchange L (live_daemon L db) r (d, ts)) = Inr (as_understood r p) \<and>
    quiescent L (snd (exchange L (live_daemon L db) r (d, ts))) \<and>
    snd (snd (exchange L (live_daemon L db) r (d, ts))) = ts'"
proof -
  obtain b w where b: "fo_to_vec L (ser_request r) = Inr b" "fo_from_slice L b = Inr w"
    "de_request w = Inr r"
    using assms(2,3) by (auto elim: text_backD)
  obtain x where x: "decode_value (encode_answer r p) = Inr x"
    "remap_response (request_kind r) x = as_understood r p"
    using live_understood [OF assms(5,6)] by (auto simp: bindR_eq_Inr)
  obtain f v where f: "fo_to_vec L (encode_answer r p) = Inr f" "fo_from_slice L f = Inr v"
    "decode_value v = Inr x"
    using assms(7) x(1) by (auto elim: text_backD)
  have daemon: "live_daemon L db b ts = (Inr [f], ts')"
    by (simp add: live_daemon_def b f assms(4))
  have "response_id (as_understood r p) = request_id r"
    using live_respond_id [of db r ts] assms(4) by (cases p) (simp_all add: as_read_def)
  then have "response_id x = request_id r" using x(2) by (metis remap_response_id)
  with exchange_answered [where daemon = "live_daemon L db", OF assms(1) b(1) daemon f(2,3)] x(2) show ?thesis by simp
qed

section \<open>Pages\<close>

lemma table_page_simps [simp]:
  "qr_id (table_page i t fin) = i" "qr_data (table_page i t fin) = tb_rows t"
  "qr_is_done (table_page i t fin) = fin" "wf_result (table_page i t fin)"
  "md_columns (qr_metadata (table_page i t fin)) = tb_columns t"
  by (simp_all add: table_page_def page_result_def wf_result_def)

lemma wf_table_cut:
  assumes "wf_table t"
  shows "wf_table (rows_to n t)" "wf_table (rows_from n t)"
proof -
  let ?P = "\<lambda>m. map fst m = column_names t"
  from assms have "list_all ?P (take n (tb_rows t))" "list_all ?P (drop n (tb_rows t))"
    using list_all_take_drop [of ?P "tb_rows t" n] by (simp_all add: wf_table_def)
  with assms show "wf_table (rows_to n t)" "wf_table (rows_from n t)"
    by (auto simp: wf_table_def rows_to_def rows_from_def column_names_def)
qed

lemma page_as_understood:
  assumes "wf_table t"
  shows "as_understood r (QueryResult (table_page i t fin)) = QueryResult (table_page i t fin)"
proof -
  have "by_column (column_names t) m = m" if "m \<in> set (tb_rows t)" for m
    using assms that by (intro by_column_same) (auto simp: wf_table_def list_all_iff)
  then have "map (by_column (map col_name (tb_columns t))) (tb_rows t) = tb_rows t"
    by (intro map_idI) (simp add: column_names_def)
  then show ?thesis
    by (simp add: as_read_def table_page_def page_result_def non_empty_def)
qed

lemma page_tabular: "wf_table t \<Longrightarrow> tabular (table_page i t fin)"
  by (simp add: wf_table_def tabular_def column_names_def Let_def)

definition serving_table ::
  "foreign \<Rightarrow> (value \<Rightarrow> bool) \<Rightarrow> open_tables \<Rightarrow> string \<Rightarrow> json_object list \<Rightarrow>
     dispatcher \<times> open_tables \<Rightarrow> bool" where
  "serving_table L ok base c ms w =
     (keeps_live_text L ok \<and> quiescent L w \<and> list_all (\<lambda>m. ok (JObject m)) ms \<and>
      (\<exists>t. wf_table t \<and> tb_rows t = ms \<and> snd w = base(c := left_open t)))"

text \<open>One request that is answered with the next page of a table.\<close>

lemma table_answer:
  assumes "keeps_live_text L ok" "quiescent L (d, ts)" "list_all ok (request_values r)"
    and "de_request (ser_request r) = Inr r"
    and "live_respond db r ts = give_table i c n t base" "wants_rows r" "wf_table t"
    and "list_all (\<lambda>m. ok (JObject m)) (tb_rows t)"
  shows "fst (exchange L (live_daemon L db) r (d, ts)) =
      Inr (QueryResult (table_page i (rows_to (unat n) t) (drop (unat n) (tb_rows t) = []))) \<and>
    serving_table L ok base c (drop (unat n) (tb_rows t))
      (snd (exchange L (live_daemon L db) r (d, ts)))"
proof -
  let ?p = "QueryResult (table_page i (rows_to (unat n) t) (drop (unat n) (tb_rows t) = []))"
  have resp: "live_respond db r ts = (?p, base(c := left_open (rows_from (unat n) t)))"
    by (simp add: assms(5) give_table_def Let_def rows_from_def)
  note cut = wf_table_cut [OF assms(7), of "unat n"]
  have ok: "list_all (\<lambda>m. ok (JObject m)) (take (unat n) (tb_rows t))"
    "list_all (\<lambda>m. ok (JObject m)) (drop (unat n) (tb_rows t))"
    using list_all_take_drop [OF assms(8)] by auto
  have p: "answers r ?p" "wf_response ?p" "plain_rows ok ?p"
    using assms(6) page_tabular [OF cut(1)] ok(1) by (simp_all add: plain_rows_def rows_to_def)
  have "text_back L de_request (ser_request r)" "text_back L decode_value (encode_answer r ?p)"
    using assms(1,3) p by (auto simp only: keeps_live_text_def)
  from live_exchange [OF assms(2) this(1) assms(4) resp p(1,2) this(2)] show ?thesis
    using assms(1) ok(2) cut(2)
    by (auto simp: serving_table_def page_as_understood [OF cut(1)] rows_from_def
        simp del: as_understood.simps intro!: exI [of _ "rows_from (unat n) t"])
qed

lemma refused_answer:
  assumes "keeps_live_text L ok" "quiescent L (d, ts)" "list_all ok (request_values r)"
    and "de_request (ser_request r) = Inr r" "live_respond db r ts = (refuse i e, ts)"
  shows "fst (exchange L (live_daemon L db) r (d, ts)) = Inr (refuse i e) \<and>
    quiescent L (snd (exchange L (live_daemon L db) r (d, ts))) \<and>
    snd (snd (exchange L (live_daemon L db) r (d, ts))) = ts"
proof -
  have p: "answers r (refuse i e)" "wf_response (refuse i e)" "plain_rows ok (refuse i e)"
    "as_understood r (refuse i e) = refuse i e"
    by (simp_all add: refuse_def plain_rows_def)
  have "text_back L de_request (ser_request r)" "text_back L decode_value (encode_answer r (refuse i e))"
    using assms(1,3) p by (auto simp only: keeps_live_text_def)
  from live_exchange [OF assms(2) this(1) assms(4,5) p(1,2) this(2)] p(4) show ?thesis by simp
qed

section \<open>The daemon as a server of SQL\<close>

definition table_rows :: "table_statements \<Rightarrow> statements" where
  "table_rows db sql ps = map_sum id tb_rows (db sql ps)"

definition askable_statement ::
  "(value \<Rightarrow> bool) \<Rightarrow> table_statements \<Rightarrow> string \<Rightarrow> value list option \<Rightarrow> bool" where
  "askable_statement ok db sql params =
     (list_all ok (unwrap_or [] params) \<and> \<not> ambiguous_sets (sent_sets params) \<and>
      (case db sql (sent_sets params) of
         Inl e \<Rightarrow> True
       | Inr t \<Rightarrow> wf_table t \<and> list_all (\<lambda>m. ok (JObject m)) (tb_rows t)))"

definition no_table ::
  "foreign \<Rightarrow> (value \<Rightarrow> bool) \<Rightarrow> open_tables \<Rightarrow> string \<Rightarrow> dispatcher \<times> open_tables \<Rightarrow> bool" where
  "no_table L ok base i w = (keeps_live_text L ok \<and> quiescent L w \<and> snd w = base \<and> base i = None)"

lemma live_respond_sql:
  "live_respond db (sql_request sql params n t i) ts =
     run_table_statement db i sql (sent_sets params) (Some n) ts"
  by (simp add: sql_request_def split: option.split)

lemma sql_request_simps [simp]:
  "request_values (sql_request sql params n t i) = unwrap_or [] params"
  "wants_rows (sql_request sql params n t i)"
  by (simp_all add: sql_request_def wants_rows_def split: option.split)

interpretation table_server: sql_server "exchange L (live_daemon L db)" "serving_table L ok base"
  "table_rows db" "no_table L ok base" "askable_statement ok db"
  for L db ok base
proof (unfold_locales, goal_cases)
  case (1 c ms w n i)
  obtain d ts where w: "w = (d, ts)" by force
  obtain t where t: "wf_table t" "tb_rows t = ms" "ts = base(c := left_open t)"
    and L: "keeps_live_text L ok" "quiescent L (d, ts)" "list_all (\<lambda>m. ok (JObject m)) ms"
    using 1(1) by (auto simp: serving_table_def w)
  have resp: "live_respond db (SqlMore i c n) ts = give_table i c n t base"
    using 1(2) t(2) by (simp add: t(3) left_open_def give_table_def Let_def)
  have "list_all ok (request_values (SqlMore i c n))" "wants_rows (SqlMore i c n)"
    by (simp_all add: wants_rows_def)
  from table_answer [OF L(1,2) this(1) de_ser_request_flat(1) resp this(2) t(1)] L(3) t(2)
  show ?case
    by (cases "exchange L (live_daemon L db) (SqlMore i c n) w") (simp add: w rows_to_def)
next
  case (2 i w sql params ms n terse)
  let ?r = "sql_request sql params n terse i"
  obtain d where w: "w = (d, base)" and L: "keeps_live_text L ok" "quiescent L (d, base)"
    using 2(1) by (cases w) (auto simp: no_table_def)
  obtain t where t: "db sql (sent_sets params) = Inr t" "tb_rows t = ms"
    using 2(3) by (cases "db sql (sent_sets params)") (auto simp: table_rows_def)
  have a: "list_all ok (unwrap_or [] params)" "\<not> ambiguous_sets (sent_sets params)"
    "wf_table t" "list_all (\<lambda>m. ok (JObject m)) (tb_rows t)"
    using 2(2) t(1) by (simp_all add: askable_statement_def)
  have resp: "live_respond db ?r base = give_table i i n t base"
    by (simp add: live_respond_sql run_table_statement_def t(1))
  have "list_all ok (request_values ?r)" using a(1) by simp
  from table_answer [OF L this sql_request_back [OF a(2)] resp _ a(3,4)] t(2)
  show ?case by (cases "exchange L (live_daemon L db) ?r w") (simp add: w rows_to_def)
next
  case (3 i w sql params e n terse)
  let ?r = "sql_request sql params n terse i"
  obtain d where w: "w = (d, base)" and L: "keeps_live_text L ok" "quiescent L (d, base)" "base i = None"
    using 3(1) by (cases w) (auto simp: no_table_def)
  have db: "db sql (sent_sets params) = Inl e"
    using 3(3) by (cases "db sql (sent_sets params)") (auto simp: table_rows_def)
  have a: "list_all ok (unwrap_or [] params)" "\<not> ambiguous_sets (sent_sets params)"
    using 3(2) by (simp_all add: askable_statement_def)
  have resp: "live_respond db ?r base = (refuse i e, base)"
    by (simp add: live_respond_sql run_table_statement_def db)
  have "list_all ok (request_values ?r)" using a(1) by simp
  from refused_answer [OF L(1,2) this sql_request_back [OF a(2)] resp]
  have "fst (exchange L (live_daemon L db) ?r w) = Inr (refuse i e)"
    "serving_table L ok base i [] (snd (exchange L (live_daemon L db) ?r w))"
    using L by (auto simp: w serving_table_def left_open_def fun_upd_idem wf_table_def column_names_def
        intro!: exI [of _ "\<lparr>tb_columns = [], tb_rows = []\<rparr>"])
  then show ?case by (cases "exchange L (live_daemon L db) ?r w") (simp add: refuse_def)
qed


definition staff :: sql_table where
  "staff =
     \<lparr>tb_columns = two_columns,
      tb_rows = [[(''ID'', JNumber (JInt 1)), (''NAME'', JString ''Ann'')],
        [(''ID'', JNumber (JInt 2)), (''NAME'', JNull)],
        [(''ID'', JNumber (JInt 3)), (''NAME'', JString ''Cy'')]]\<rparr>"

definition staff_db :: table_statements where
  "staff_db sql ps = (if ps = Some [[JBool True]] then Inr staff else Inl unsupported)"

definition staff_session :: "(dispatcher \<times> open_tables) session" where
  "staff_session =
     \<lparr>ss_world = (spawn, \<lambda>c. None), ss_ids = new_allocator None 0, ss_runtime = True, ss_sent = [],
      ss_received = [], ss_spawned = []\<rparr>"


end
