(* ===== verification/Pool_Rows.thy ===== *)
theory Pool_Rows
  imports Pool_System Live_Daemon
begin

text \<open>
  Rows through a pool (\<^verbatim>\<open>src/src/pool/runtime.rs\<close> over all layers below it): statements that are
  routed over jobs connected to one database, each collected to its end over the job it was
  routed to. Every layer takes part: routing, checkout with connecting and recycling, execution,
  paging, the dispatcher, the frames and their texts.
\<close>

section \<open>Jobs of one database\<close>

text \<open>
  Nothing is outstanding on the connection, its counter is zero, and the daemon has no cursor open
  for it.
\<close>

definition rests_closed :: "foreign \<Rightarrow> dispatcher \<times> open_tables \<Rightarrow> bool" where
  "rests_closed L w =
     (quiescent L w \<and> at_rest L w \<and> dq_in_flight (fst w) = 0 \<and> snd w = (\<lambda>c. None))"

text \<open>Of the jobs nobody but deadpool holds a reference.\<close>

definition jobs_closed :: "foreign \<Rightarrow> open_tables pool_state \<Rightarrow> bool" where
  "jobs_closed L st =
     (list_all (\<lambda>s. rests_closed L (ss_world s)) (ps_jobs st) \<and>
      list_all (\<lambda>i. i < length (ps_jobs st)) (ps_weaks st) \<and>
      length (ps_strong st) = length (ps_jobs st) \<and> list_all (\<lambda>k. k \<le> 1) (ps_strong st))"

lemma jobs_closed_empty: "jobs_closed L empty_pool"
  by (simp add: jobs_closed_def empty_pool_def)

lemma jobs_closed_job: "jobs_closed L st \<Longrightarrow> i < length (ps_jobs st) \<Longrightarrow> rests_closed L (ss_world (ps_jobs st ! i))"
  by (simp add: jobs_closed_def list_all_length)

lemma jobs_closed_set:
  "jobs_closed L st \<Longrightarrow> rests_closed L (ss_world s) \<Longrightarrow> jobs_closed L (st\<lparr>ps_jobs := (ps_jobs st)[i := s]\<rparr>)"
  by (simp add: jobs_closed_def list_all_update)

lemma jobs_closed_retain: "jobs_closed L st \<Longrightarrow> jobs_closed L (retain_live st)"
  by (auto simp: jobs_closed_def retain_live_def list_all_iff)

text \<open>A registered job that nobody but deadpool refers to.\<close>

definition has_free_job :: "'d pool_state \<Rightarrow> bool" where
  "has_free_job st = list_ex (\<lambda>i. strong_count st i = 1) (ps_weaks st)"

lemma has_free_job_same:
  "ps_weaks st1 = ps_weaks st \<Longrightarrow> ps_strong st1 = ps_strong st \<Longrightarrow> has_free_job st1 = has_free_job st"
  by (simp add: has_free_job_def strong_count_def)

lemma has_free_job_retain [simp]: "has_free_job (retain_live st) = has_free_job st"
  by (auto simp: has_free_job_def retain_live_def strong_count_def list_ex_iff)

lemma chosen_live:
  "chosen n st = Some i \<Longrightarrow> i \<in> set (ps_weaks st) \<and> 0 < strong_count st i"
  by (auto simp: chosen_def Let_def retain_live_def split: option.splits if_splits
      dest!: find_in_set)

lemma free_job_chosen:
  assumes "jobs_closed L st" "has_free_job st"
  shows "chosen n st \<noteq> None"
proof -
  let ?W = "ps_weaks (retain_live st)"
  obtain i where i: "i \<in> set ?W" "strong_count st i = 1" "i < length (ps_jobs st)"
    using assms(2) assms(1)
    by (auto simp: has_free_job_def list_ex_iff retain_live_def jobs_closed_def list_all_iff)
  have "in_flight st i = 0"
    using jobs_closed_job [OF assms(1) i(3)] by (simp add: in_flight_def job_in_flight_def rests_closed_def)
  with i have "find (\<lambda>i. in_flight st i = 0 \<and> strong_count st i = 1) ?W \<noteq> None"
    by (auto simp: find_None_iff)
  then show ?thesis by (auto simp: chosen_def Let_def)
qed

text \<open>Whatever an exchange keeps, collecting keeps.\<close>

lemma stream_next_world:
  "snd (stream_next send st s) = s \<or> ss_world (snd (stream_next send st s)) = ss_world s \<or>
   (\<exists>r. ss_world (snd (stream_next send st s)) = snd (send r (ss_world s)))"
  by (auto simp: stream_next_def take_page_def send_request_def drop_stream_def case_prod_beta Let_def
      split: list.split option.split sum.split response.split)

lemma drop_stream_world [simp]: "ss_world (drop_stream st s) = ss_world s"
  by (simp add: drop_stream_def split: option.split)

lemma collect_keeps:
  assumes "\<And>r w. P w \<Longrightarrow> P (snd (send r w))"
  shows "P (ss_world s) \<Longrightarrow> try_collect send f n out st s = Some (x, t) \<Longrightarrow> P (ss_world t)"
proof (induction n arbitrary: out st s)
  case (Suc n)
  obtain y u where y: "stream_next send st s = (y, u)" by force
  have "P (ss_world u)"
    using stream_next_world [of send st s] Suc.prems(1) assms by (auto simp: y)
  with Suc show ?case by (auto simp: y split: option.splits prod.splits sum.splits)
qed simp

lemma fetch_keeps:
  assumes "\<And>r w. P w \<Longrightarrow> P (snd (send r w))"
    and "P (ss_world s)" "fetch_all send sql params opts nanos pid fuel s = Some (x, t)"
  shows "P (ss_world t)"
proof -
  obtain r u where u: "job_execute_inner send sql params opts s = (r, u)" by force
  have "P (ss_world u)"
    using u assms(1,2)
    by (cases "resolved_rows opts") (auto simp: job_execute_inner_def call_eq after_call_def liftS_def)
  with collect_keeps [where P = P, OF assms(1)] assms(3) show ?thesis
    by (auto simp: fetch_all_def u into_dynamic_def split: sum.splits)
qed

lemma rests_exchange:
  "at_rest L w \<and> dq_in_flight (fst w) = n \<Longrightarrow>
   at_rest L (snd (exchange L daemon r w)) \<and> dq_in_flight (fst (snd (exchange L daemon r w))) = n"
  using at_rest_exchange(1,4) [of L w daemon r] by simp

text \<open>The requests that open no cursor: connecting and recycling.\<close>

lemma simple_answer:
  assumes "keeps_live_text L ok" "rests_closed L w" "request_values r = []"
    and "de_request (ser_request r) = Inr r" "\<And>ts. live_respond db r ts = (p, ts)"
    and "answers r p" "wf_response p" "plain_rows ok p" "as_understood r p = p"
  shows "fst (exchange L (live_daemon L db) r w) = Inr p \<and>
    rests_closed L (snd (exchange L (live_daemon L db) r w))"
proof -
  obtain d ts where "w = (d, ts)" by force
  with assms(2) have w: "w = (d, \<lambda>c. None)" and "quiescent L w"
    by (auto simp: rests_closed_def)
  then have q: "quiescent L (d, (\<lambda>c. None) :: open_tables)" by simp
  have "list_all ok (request_values r)" using assms(3) by simp
  with assms(1,6-8) have "text_back L de_request (ser_request r)"
    "text_back L decode_value (encode_answer r p)"
    by (auto simp only: keeps_live_text_def)
  from live_exchange [OF q this(1) assms(4,5,6,7) this(2)] assms(2,9)
    rests_exchange [of L w 0 "live_daemon L db" r]
  show ?thesis by (simp add: w rests_closed_def)
qed

lemma live_ping:
  assumes "keeps_live_text L ok" "rests_closed L (ss_world s)"
  shows "\<exists>t. ping (exchange L (live_daemon L db)) el s = (Inr el, t) \<and> rests_closed L (ss_world t)"
proof -
  let ?r = "Ping (peek_id s)"
  have "fst (exchange L (live_daemon L db) ?r (ss_world s)) = Inr (Pong (peek_id s)) \<and>
      rests_closed L (snd (exchange L (live_daemon L db) ?r (ss_world s)))"
    by (rule simple_answer [OF assms _ de_ser_request_flat(6)]) (simp_all add: plain_rows_def)
  then show ?thesis by (simp add: ping_def call_eq after_call_def case_prod_beta)
qed

text \<open>Connecting to the database leaves such a job.\<close>

definition fresh_job :: "foreign \<Rightarrow> error + (dispatcher \<times> open_tables) job \<Rightarrow> bool" where
  "fresh_job L conn =
     (case conn of Inl e \<Rightarrow> True | Inr j \<Rightarrow> rests_closed L (ss_world (jb_session j)))"

lemma connect_fresh_job:
  assumes "keeps_live_text L ok"
  shows "fresh_job L (fst (job_connect B U (exchange L (live_daemon L db)) (spawn, \<lambda>c. None)
    subsec_nanos pid runtime s w))"
proof -
  obtain i ids where i: "next_id (new_allocator subsec_nanos pid) = (i, ids)" by force
  let ?r = "connect_request s i"
  have start: "rests_closed L (spawn, \<lambda>c. None)"
    using idle_start [of L "(\<lambda>c. None) :: open_tables"]
      at_rest_start [of L "(\<lambda>c. None) :: open_tables"]
    by (simp add: rests_closed_def quiescent_def) (simp add: spawn_def)
  have "rests_closed L (snd (exchange L (live_daemon L db) ?r (spawn, \<lambda>c. None)))"
    unfolding connect_request_def
    by (rule conjunct2, rule simple_answer [where p = "Connected i ''1'' ''JOB''",
        OF assms start _ de_ser_request_connect])
      (simp_all add: plain_rows_def)
  then show ?thesis
    by (auto simp: fresh_job_def job_connect_def handshake_def i Let_def bindR_eq_Inr
        split: sum.split prod.splits)
qed

section \<open>Checkout and routing\<close>

text \<open>
  deadpool as documented, connecting to the database. The jobs it offers are idle ones: no one else
  refers to them, and each was registered when it was created.
\<close>

definition deadpool_connects ::
  "foreign \<Rightarrow> table_statements \<Rightarrow> open_tables dead_get \<Rightarrow> bool" where
  "deadpool_connects L db get =
     (\<forall>st. \<exists>conn outcome. get st = documented_get (exchange L (live_daemon L db)) conn outcome st \<and>
        fresh_job L conn \<and>
        (case outcome of
           CheckoutFails e \<Rightarrow> True
         | Offers offered \<Rightarrow> set offered \<subseteq> {i \<in> set (ps_weaks st). strong_count st i = 1}))"

lemma create_closed:
  assumes "fresh_job L conn" "jobs_closed L st"
  shows "jobs_closed L (snd (manager_create conn st)) \<and>
    (fst (manager_create conn st) = Inr i \<longrightarrow>
       i < length (ps_jobs (snd (manager_create conn st))) \<and>
       has_free_job (snd (manager_create conn st)))"
proof (cases conn)
  case (Inr j)
  have new: "manager_create conn st = (Inr (length (ps_jobs st)),
      st\<lparr>ps_jobs := ps_jobs st @ [jb_session j], ps_strong := ps_strong st @ [1],
         ps_weaks := ps_weaks st @ [length (ps_jobs st)]\<rparr>)"
    by (simp add: Inr manager_create_def track_def Let_def)
  have "list_all (\<lambda>i. i < Suc (length (ps_jobs st))) (ps_weaks st)"
    using assms(2) by (auto simp: jobs_closed_def list_all_iff)
  moreover have "rests_closed L (ss_world (jb_session j))"
    using assms(1) by (simp add: fresh_job_def Inr)
  ultimately have "jobs_closed L (snd (manager_create conn st))"
    using assms(2) by (simp add: new jobs_closed_def)
  moreover have "(ps_strong st @ [1]) ! length (ps_jobs st) = 1"
    using assms(2) nth_append_length [of "ps_strong st" 1 "[]"] by (simp add: jobs_closed_def)
  then have "has_free_job (snd (manager_create conn st))"
    by (simp add: new has_free_job_def strong_count_def)
  ultimately show ?thesis by (auto simp: new)
qed (use assms in \<open>simp add: manager_create_def\<close>)

text \<open>Where no job is free, a checkout connects or fails.\<close>

lemma get_closed:
  assumes "deadpool_connects L db get" "jobs_closed L st" "\<not> has_free_job st"
    and "get_or_timeout get p st = (r, st1)"
  shows "jobs_closed L st1 \<and>
    (case r of Inl e \<Rightarrow> \<exists>x. e = checkout_error p x
     | Inr i \<Rightarrow> i < length (ps_jobs st1) \<and> has_free_job st1)"
proof -
  obtain conn outcome where get: "get st = documented_get (exchange L (live_daemon L db)) conn outcome st"
    and conn: "fresh_job L conn"
    and offers: "case outcome of CheckoutFails e \<Rightarrow> True
      | Offers offered \<Rightarrow> set offered \<subseteq> {i \<in> set (ps_weaks st). strong_count st i = 1}"
    using spec [OF assms(1) [unfolded deadpool_connects_def], of st] by blast
  have "jobs_closed L (snd (get st)) \<and>
      (case fst (get st) of Inl e \<Rightarrow> True
       | Inr i \<Rightarrow> i < length (ps_jobs (snd (get st))) \<and> has_free_job (snd (get st)))"
  proof (cases outcome)
    case (Offers offered)
    with offers have "\<forall>i\<in>set offered. i \<in> set (ps_weaks st) \<and> strong_count st i = 1" by auto
    with assms(3) have "offered = []"
      by (cases offered) (auto simp: has_free_job_def list_ex_iff)
    with create_closed [OF conn assms(2)] show ?thesis
      by (auto simp: get Offers case_prod_beta mapErr_eq_Inr split: sum.split)
  qed (simp add: get assms(2))
  with assms(4) show ?thesis
    by (cases "fst (get st)") (auto simp: get_or_timeout_def case_prod_beta)
qed

lemma route_closed:
  assumes "deadpool_connects L db (su_get E)" "jobs_closed L st" "route E p st = (r, st1)"
  shows "jobs_closed L st1 \<and>
    (case r of Inl e \<Rightarrow> (\<exists>x. e = checkout_error p x) \<and> \<not> has_free_job st
     | Inr i \<Rightarrow> i < length (ps_jobs st1) \<and> has_free_job st1)"
proof (cases "chosen (su_size E) st")
  case (Some i)
  then have i: "i \<in> set (ps_weaks st)" "0 < strong_count st i"
    using chosen_live [OF Some] by simp_all
  moreover from this(1) assms(2) have "i < length (ps_jobs st)" "strong_count st i \<le> 1"
    by (auto simp: jobs_closed_def list_all_iff strong_count_def)
  ultimately have "has_free_job st" by (force simp: has_free_job_def list_ex_iff)
  moreover have "ps_jobs (retain_live st) = ps_jobs st" by (simp add: retain_live_def)
  ultimately show ?thesis
    using assms(3) jobs_closed_retain [OF assms(2)] Some \<open>i < length (ps_jobs st)\<close>
    by (auto simp: route_eq)
next
  case None
  with free_job_chosen [OF assms(2)] have none: "\<not> has_free_job st" by blast
  have "get_or_timeout (su_get E) p (retain_live st) = (r, st1)"
    using None assms(3) by (simp add: route_eq)
  from get_closed [OF assms(1) jobs_closed_retain [OF assms(2)] _ this] none show ?thesis
    by (cases r) simp_all
qed

section \<open>Statements over the pool\<close>

text \<open>
  A statement and what is done with its rows: the options of the call, the clock and process that
  the stream's own id allocator reads, and the fuel of collecting.
\<close>

record pool_query =
  pq_sql :: string
  pq_params :: "value list option"
  pq_opts :: execute_options
  pq_nanos :: "u32 option"
  pq_pid :: u32
  pq_fuel :: nat

definition pool_run ::
  "'d surroundings \<Rightarrow> pool \<Rightarrow> pool_query \<Rightarrow> 'd pool_state \<Rightarrow> (error + rows) \<times> 'd pool_state" where
  "pool_run E p q =
     (case pq_params q of
        None \<Rightarrow> pool_execute_opts E p (pq_sql q) (pq_opts q)
      | Some ps \<Rightarrow> pool_execute_with_opts E p (pq_sql q) ps (pq_opts q))"

text \<open>The result set keeps the job that routing chose, and is collected over it.\<close>

definition pool_fetch ::
  "'d surroundings \<Rightarrow> pool \<Rightarrow> pool_query \<Rightarrow> 'd pool_state \<Rightarrow>
     ((error + json_object list) \<times> 'd pool_state) option" where
  "pool_fetch E p q st =
     (case (fst (route E p st), pool_run E p q st) of
        (Inr i, Inr rw, st1) \<Rightarrow>
          map_option (\<lambda>(x, s). (x, st1\<lparr>ps_jobs := (ps_jobs st1)[i := s]\<rparr>))
            (into_dynamic (su_send E) (pq_nanos q) (pq_pid q) (pq_fuel q) rw (ps_jobs st1 ! i))
      | (_, Inr rw, st1) \<Rightarrow> None
      | (_, Inl e, st1) \<Rightarrow> Some (Inl e, st1))"

fun pool_fetches ::
  "pool \<Rightarrow> ('d surroundings \<times> pool_query) list \<Rightarrow> 'd pool_state \<Rightarrow>
     ((error + json_object list) list \<times> 'd pool_state) option" where
  "pool_fetches p [] st = Some ([], st)"
| "pool_fetches p ((E, q) # calls) st =
     (case pool_fetch E p q st of
        None \<Rightarrow> None
      | Some (x, st1) \<Rightarrow> map_option (\<lambda>(xs, st2). (x # xs, st2)) (pool_fetches p calls st1))"

lemma pool_fetch_on_job:
  assumes "route E p st = (Inr i, st1)" "i < length (ps_jobs st1)"
  shows "pool_fetch E p q st =
    map_option (\<lambda>(x, s). (x, st1\<lparr>ps_jobs := (ps_jobs st1)[i := s]\<rparr>))
      (fetch_all (su_send E) (pq_sql q) (pq_params q) (pool_opts p (pq_opts q)) (pq_nanos q)
         (pq_pid q) (pq_fuel q) (ps_jobs st1 ! i))"
proof -
  let ?m = "job_execute_inner (su_send E) (pq_sql q) (pq_params q) (pool_opts p (pq_opts q))"
  have "pool_run E p q st = run_on i ?m st1"
    by (simp add: pool_run_def pool_execute_opts_def pool_execute_with_opts_def routed_def assms(1)
        job_execute_opts_def job_execute_with_opts_def split: option.split)
  moreover obtain r s where "?m (ps_jobs st1 ! i) = (r, s)" by force
  ultimately show ?thesis
    using assms by (cases r) (simp_all add: pool_fetch_def run_on_def fetch_all_def case_prod_beta
      option.map_comp o_def cong: option.map_cong)
qed

lemma pool_fetch_unrouted:
  "route E p st = (Inl e, st1) \<Longrightarrow> pool_fetch E p q st = Some (Inl e, st1)"
  by (simp add: pool_fetch_def pool_run_def pool_execute_opts_def pool_execute_with_opts_def
      routed_def split: option.split)

text \<open>What the database answers to a statement.\<close>

definition database_answer :: "table_statements \<Rightarrow> pool_query \<Rightarrow> error + json_object list" where
  "database_answer db q =
     (case db (pq_sql q) (sent_sets (pq_params q)) of
        Inl e \<Rightarrow> Inl (server_error_from e)
      | Inr t \<Rightarrow> Inr (tb_rows t))"

text \<open>A call that asks for no empty pages and brings fuel for the rows of its result.\<close>

definition proper_call ::
  "foreign \<Rightarrow> (value \<Rightarrow> bool) \<Rightarrow> table_statements \<Rightarrow>
     open_tables surroundings \<times> pool_query \<Rightarrow> bool" where
  "proper_call L ok db c =
     (case c of (E, q) \<Rightarrow>
        su_send E = exchange L (live_daemon L db) \<and> deadpool_connects L db (su_get E) \<and>
        askable_statement ok db (pq_sql q) (pq_params q) \<and> eo_rows (pq_opts q) \<noteq> Some 0 \<and>
        (case database_answer db q of Inl e \<Rightarrow> 0 | Inr ms \<Rightarrow> length ms) < pq_fuel q)"

definition refused_checkout :: "pool \<Rightarrow> error + json_object list \<Rightarrow> bool" where
  "refused_checkout p x = (\<exists>y. x = Inl (checkout_error p y))"

lemma answer_of_table:
  "(case table_rows db sql ps of
      Inl e \<Rightarrow> Inl (server_error_from (e\<lparr>er_id := i, er_success := b\<rparr>)) | Inr ms \<Rightarrow> Inr ms) =
   (case db sql ps of Inl e \<Rightarrow> Inl (server_error_from e) | Inr t \<Rightarrow> Inr (tb_rows t))"
  by (simp add: table_rows_def server_error_from_def split: sum.split)

lemma fetch_closed:
  assumes "keeps_live_text L ok" "rests_closed L (ss_world s)" "eo_rows opts \<noteq> Some 0"
    and "askable_statement ok db sql params"
    and "length (case db sql (sent_sets params) of Inl e \<Rightarrow> [] | Inr t \<Rightarrow> tb_rows t) < fuel"
  shows "\<exists>t. fetch_all (exchange L (live_daemon L db)) sql params opts nanos pid fuel s =
      Some (case db sql (sent_sets params) of
              Inl e \<Rightarrow> Inl (server_error_from e) | Inr t \<Rightarrow> Inr (tb_rows t), t) \<and>
    rests_closed L (ss_world t)"
proof -
  have "no_table L ok (\<lambda>c. None) (peek_id s) (ss_world s)"
    using assms(1,2) by (simp add: no_table_def rests_closed_def)
  moreover have "length (case table_rows db sql (sent_sets params) of Inl e \<Rightarrow> [] | Inr ms \<Rightarrow> ms) < fuel"
    using assms(5) by (cases "db sql (sent_sets params)") (simp_all add: table_rows_def)
  ultimately have "\<exists>t. fetch_all (exchange L (live_daemon L db)) sql params opts nanos pid fuel s =
      Some (case table_rows db sql (sent_sets params) of
              Inl e \<Rightarrow> Inl (server_error_from (e\<lparr>er_id := peek_id s, er_success := False\<rparr>))
            | Inr ms \<Rightarrow> Inr ms, t) \<and>
    serving_table L ok (\<lambda>c. None) (peek_id s) [] (ss_world t) \<and> ss_spawned t = ss_spawned s"
    using assms(3,4) by (intro table_server.fetch_result)
  moreover from assms(2) have "at_rest L (ss_world s) \<and> dq_in_flight (fst (ss_world s)) = 0"
    by (simp add: rests_closed_def)
  note fetch_keeps [where P = "\<lambda>w. at_rest L w \<and> dq_in_flight (fst w) = 0", OF rests_exchange this]
  ultimately show ?thesis
    by (fastforce simp: answer_of_table serving_table_def rests_closed_def left_open_def fun_upd_idem)
qed

lemma pool_fetch_answered:
  assumes "keeps_live_text L ok" "jobs_closed L st" "pl_default_page_size p \<noteq> 0"
    and "proper_call L ok db (E, q)"
  shows "\<exists>x st1. pool_fetch E p q st = Some (x, st1) \<and> jobs_closed L st1 \<and>
    (x = database_answer db q \<and> has_free_job st1 \<or> refused_checkout p x \<and> \<not> has_free_job st)"
proof -
  obtain r st1 where r: "route E p st = (r, st1)" by force
  have call: "su_send E = exchange L (live_daemon L db)" "deadpool_connects L db (su_get E)"
    "askable_statement ok db (pq_sql q) (pq_params q)" "eo_rows (pool_opts p (pq_opts q)) \<noteq> Some 0"
    "length (case db (pq_sql q) (sent_sets (pq_params q)) of Inl e \<Rightarrow> [] | Inr t \<Rightarrow> tb_rows t) < pq_fuel q"
    using assms(3,4)
    by (auto simp: proper_call_def database_answer_def pool_opts_def split: sum.splits)
  note routed = route_closed [OF call(2) assms(2) r]
  show ?thesis
  proof (cases r)
    case (Inl e)
    with routed pool_fetch_unrouted [of E p st e st1 q] r show ?thesis
      by (auto simp: refused_checkout_def)
  next
    case (Inr i)
    with routed have i: "i < length (ps_jobs st1)" and closed: "jobs_closed L st1"
      and free: "has_free_job st1" by simp_all
    obtain t where "fetch_all (su_send E) (pq_sql q) (pq_params q) (pool_opts p (pq_opts q))
        (pq_nanos q) (pq_pid q) (pq_fuel q) (ps_jobs st1 ! i) = Some (database_answer db q, t)"
      "rests_closed L (ss_world t)"
      using fetch_closed [OF assms(1) jobs_closed_job [OF closed i] call(4,3,5)]
      unfolding call(1) database_answer_def by blast
    moreover have "has_free_job (st1\<lparr>ps_jobs := (ps_jobs st1)[i := t]\<rparr>)"
      using free by (simp add: has_free_job_def strong_count_def)
    ultimately show ?thesis
      using jobs_closed_set [OF closed] pool_fetch_on_job [of E p st i st1 q] r Inr i by simp
  qed
qed

lemma pool_fetches_answered:
  assumes "keeps_live_text L ok" "jobs_closed L st" "pl_default_page_size p \<noteq> 0"
    and "list_all (proper_call L ok db) calls"
  shows "\<exists>k xs st1. pool_fetches p calls st = Some (xs, st1) \<and> jobs_closed L st1 \<and>
    (has_free_job st \<longrightarrow> k = 0) \<and> list_all (refused_checkout p) (take k xs) \<and>
    length xs = length calls \<and> drop k xs = map (\<lambda>c. database_answer db (snd c)) (drop k calls)"
  using assms(2,4)
proof (induction calls arbitrary: st)
  case (Cons c calls)
  obtain E q where c: "c = (E, q)" by force
  from Cons.prems(2) have call: "proper_call L ok db (E, q)" "list_all (proper_call L ok db) calls"
    by (simp_all add: c)
  from pool_fetch_answered [OF assms(1) Cons.prems(1) assms(3) call(1)] obtain x st1 where
    x: "pool_fetch E p q st = Some (x, st1)" "jobs_closed L st1"
    "x = database_answer db q \<and> has_free_job st1 \<or> refused_checkout p x \<and> \<not> has_free_job st"
    by blast
  from Cons.IH [OF x(2) call(2)] obtain k xs st2 where
    xs: "pool_fetches p calls st1 = Some (xs, st2)" "jobs_closed L st2" "has_free_job st1 \<longrightarrow> k = 0"
    "list_all (refused_checkout p) (take k xs)" "length xs = length calls"
    "drop k xs = map (\<lambda>c. database_answer db (snd c)) (drop k calls)" by blast
  from x(3) show ?case
  proof
    assume "x = database_answer db q \<and> has_free_job st1"
    with xs(3,5,6) x(1) xs(1,2) show ?case by (intro exI [of _ 0]) (simp add: c)
  next
    assume "refused_checkout p x \<and> \<not> has_free_job st"
    with x(1) xs show ?case by (intro exI [of _ "Suc k"]) (simp add: c)
  qed
qed simp


text \<open>Two statements over a pool with one job, of which the second is refused by the database.\<close>

definition staff_pool :: pool where
  "staff_pool =
     \<lparr>pl_acquire_timeout = None, pl_default_page_size = 2, pl_parameter_logging = LogNone\<rparr>"

definition staff_state :: "open_tables pool_state" where
  "staff_state = \<lparr>ps_jobs = [staff_session], ps_strong = [1], ps_weaks = [0]\<rparr>"

definition staff_surroundings :: "open_tables surroundings" where
  "staff_surroundings =
     \<lparr>su_send = exchange prefix_text (live_daemon prefix_text staff_db), su_size = 1,
      su_get = documented_get (exchange prefix_text (live_daemon prefix_text staff_db))
        (Inl Cancelled) (Offers [])\<rparr>"

definition staff_query :: "value list option \<Rightarrow> pool_query" where
  "staff_query ps =
     \<lparr>pq_sql = ''SELECT'', pq_params = ps, pq_opts = \<lparr>eo_rows = None, eo_terse = True\<rparr>,
      pq_nanos = None, pq_pid = 0, pq_fuel = 4\<rparr>"


end
