(* ===== verification/Mock_Server.thy ===== *)
theory Mock_Server
  imports Live_Daemon
begin

text \<open>
  The mock server of the integration tests (\<^verbatim>\<open>src/tests/common/mock_server.rs\<close>): what it answers to
  each request under each of its behaviours. One call of \<open>run_mock\<close> is one turn of its loop; a
  missed expectation (\<open>expect\<close>, \<open>panic!\<close>) ends the connection like its clean exits do.

  \<open>mock_sender\<close> is a client's view of it without a dispatcher in between. The lemma
  \<open>mock_over_connection\<close> says that an exchange over a connection is that view.
\<close>

section \<open>Behaviours\<close>

datatype behavior =
    AcceptAndConnect
  | AuthFail string
  | HttpForbidden
  | PongOnConnect
  | Pages "query_result list"
  | ReturnError error_response
  | HalfOpen
  | SwallowFirstPing
  | UnknownTypeThenPages "query_result list"
  | ClThen query_result
  | GetTraceAsPong
  | PrepareAndExecute string "query_result list"

datatype mock_phase = Awaiting | Looping | Over

record mock =
  mk_phase :: mock_phase
  mk_pages :: "query_result list"
  mk_fired :: bool

fun canned_pages :: "behavior \<Rightarrow> query_result list" where
  "canned_pages (Pages qs) = qs"
| "canned_pages (UnknownTypeThenPages qs) = qs"
| "canned_pages (PrepareAndExecute c qs) = qs"
| "canned_pages b = []"

definition mock_start :: "behavior \<Rightarrow> mock" where
  "mock_start b = \<lparr>mk_phase = Awaiting, mk_pages = canned_pages b, mk_fired = False\<rparr>"

definition MOCK_VERSION :: string where
  "MOCK_VERSION = ''0.0.0-mock''"

definition MOCK_JOB :: string where
  "MOCK_JOB = ''MOCK/QUSER/000001''"

definition live_ack :: "request \<Rightarrow> response" where
  "live_ack r =
     (case r of
        GetDbJob i \<Rightarrow> DbJob i True MOCK_JOB
      | GetVersion i \<Rightarrow> Version i True MOCK_VERSION
      | SetConfig i l d \<Rightarrow> ConfigSet i True
      | GetTraceData i \<Rightarrow> TraceData i True ''hello''
      | Dove i s b n t \<Rightarrow>
          DoveResult i True (JArray [JObject [(''op'', JString ''TBSCAN'')]])
            (Some (JObject [(''version'', JNumber (JInt 1))]))
      | other \<Rightarrow> Pong (request_id other))"

section \<open>The upgrade\<close>

text \<open>The gate in front of the WebSocket: the path, then the credentials.\<close>

definition uri_path :: "string \<Rightarrow> string" where
  "uri_path u = dropWhile (\<lambda>c. c \<noteq> CHR ''/'') (drop (length ''wss://'') u)"

definition http_error :: "nat \<Rightarrow> string \<Rightarrow> ws_error + unit" where
  "http_error code reason = Inl (WsHttp code reason)"

definition upgrade_callback :: "behavior \<Rightarrow> ws_request \<Rightarrow> ws_error + unit" where
  "upgrade_callback b r =
     (if uri_path (wr_uri r) \<noteq> ''/db/'' \<and> uri_path (wr_uri r) \<noteq> ''/db''
      then http_error 404 ''404 Not Found''
      else if b = HttpForbidden then http_error 403 ''403 Forbidden''
      else case map_of (wr_headers r) ''Authorization'' of
             None \<Rightarrow> http_error 403 ''403 Forbidden''
           | Some a \<Rightarrow>
               if starts_with a ''Basic '' then Inr () else http_error 403 ''403 Forbidden'')"

section \<open>One turn of the loop\<close>

text \<open>The frame it sends, if any, and its next state.\<close>

type_synonym turn = "value option \<times> mock"

definition over :: "mock \<Rightarrow> mock" where
  "over m = m\<lparr>mk_phase := Over\<rparr>"

definition reply_with :: "response \<Rightarrow> mock \<Rightarrow> turn" where
  "reply_with p m = (Some (encode_live_response p), m)"

definition next_page :: "string \<Rightarrow> bool option \<Rightarrow> mock \<Rightarrow> turn" where
  "next_page i terse m =
     (case mk_pages m of
        [] \<Rightarrow> (None, over m)
      | q # qs \<Rightarrow>
          (Some (encode_query_result_maybe_terse (q\<lparr>qr_id := i\<rparr>) terse), m\<lparr>mk_pages := qs\<rparr>))"

definition on_connect :: "behavior \<Rightarrow> string \<Rightarrow> mock \<Rightarrow> turn" where
  "on_connect b i m =
     (case b of
        AuthFail msg \<Rightarrow>
          reply_with (ErrorResp \<lparr>er_id = i, er_success = False, er_sqlstate = None, er_sqlcode = None,
            er_error = (if msg = [] then None else Some msg), er_job = None\<rparr>) (over m)
      | PongOnConnect \<Rightarrow> reply_with (Pong i) (over m)
      | HttpForbidden \<Rightarrow> (None, over m)
      | _ \<Rightarrow> reply_with (Connected i MOCK_VERSION MOCK_JOB) (m\<lparr>mk_phase := Looping\<rparr>))"

definition pages_turn :: "request \<Rightarrow> mock \<Rightarrow> turn" where
  "pages_turn r m =
     (case r of
        Sql i s n ps t \<Rightarrow> next_page i t m
      | PrepareSqlExecute i s ps n t \<Rightarrow> next_page i t m
      | Execute i c ps n t \<Rightarrow> next_page i t m
      | SqlMore i c n \<Rightarrow> next_page i None m
      | SqlClose i c \<Rightarrow> reply_with (SqlClosed i True) m
      | other \<Rightarrow> reply_with (live_ack other) m)"

definition unknown_frame :: "string \<Rightarrow> value" where
  "unknown_frame i =
     JObject [(''type'', JString ''not_a_real_type''), (''id'', JString i), (''success'', JBool True)]"

definition unknown_turn :: "request \<Rightarrow> mock \<Rightarrow> turn" where
  "unknown_turn r m =
     (if \<not> mk_fired m then (Some (unknown_frame (request_id r)), m\<lparr>mk_fired := True\<rparr>)
      else case r of
        Sql i s n ps t \<Rightarrow> next_page i None m
      | PrepareSqlExecute i s ps n t \<Rightarrow> next_page i None m
      | Execute i c ps n t \<Rightarrow> next_page i None m
      | SqlMore i c n \<Rightarrow> next_page i None m
      | SqlClose i c \<Rightarrow> reply_with (SqlClosed i True) m
      | other \<Rightarrow> reply_with (live_ack other) m)"

definition swallow_turn :: "request \<Rightarrow> mock \<Rightarrow> turn" where
  "swallow_turn r m =
     (case r of
        Ping i \<Rightarrow> if mk_fired m then reply_with (Pong i) m else (None, m\<lparr>mk_fired := True\<rparr>)
      | other \<Rightarrow> reply_with (Pong (request_id other)) m)"

definition cl_turn :: "query_result \<Rightarrow> request \<Rightarrow> mock \<Rightarrow> turn" where
  "cl_turn q r m =
     (case r of
        Cl i c t \<Rightarrow> reply_with (QueryResult (q\<lparr>qr_id := i\<rparr>)) m
      | other \<Rightarrow> reply_with (live_ack other) m)"

definition trace_turn :: "request \<Rightarrow> mock \<Rightarrow> turn" where
  "trace_turn r m =
     (case r of
        GetTraceData i \<Rightarrow> reply_with (Pong i) m
      | other \<Rightarrow> reply_with (live_ack other) m)"

definition prepare_turn :: "string \<Rightarrow> request \<Rightarrow> mock \<Rightarrow> turn" where
  "prepare_turn c r m =
     (case r of
        PrepareSql i s t \<Rightarrow> reply_with (PreparedStatement i True c 0) m
      | Execute i c' ps n t \<Rightarrow> next_page i None m
      | SqlClose i c' \<Rightarrow> reply_with (SqlClosed i True) m
      | other \<Rightarrow> reply_with (Pong (request_id other)) m)"

definition loop_turn :: "behavior \<Rightarrow> request \<Rightarrow> mock \<Rightarrow> turn" where
  "loop_turn b r m =
     (case b of
        Pages qs \<Rightarrow> pages_turn r m
      | UnknownTypeThenPages qs \<Rightarrow> unknown_turn r m
      | ReturnError e \<Rightarrow> reply_with (ErrorResp (e\<lparr>er_id := request_id r\<rparr>)) (over m)
      | SwallowFirstPing \<Rightarrow> swallow_turn r m
      | ClThen q \<Rightarrow> cl_turn q r m
      | GetTraceAsPong \<Rightarrow> trace_turn r m
      | PrepareAndExecute c qs \<Rightarrow> prepare_turn c r m
      | _ \<Rightarrow> reply_with (live_ack r) m)"

definition run_mock :: "behavior \<Rightarrow> request \<Rightarrow> mock \<Rightarrow> turn" where
  "run_mock b r m =
     (case mk_phase m of
        Over \<Rightarrow> (None, m)
      | Awaiting \<Rightarrow>
          (case r of Connect i t a ps \<Rightarrow> on_connect b i m | _ \<Rightarrow> (None, over m))
      | Looping \<Rightarrow>
          if b = HalfOpen then (None, m)
          else (case r of
                  Exit i \<Rightarrow> reply_with (Exited i) (over m)
                | _ \<Rightarrow> loop_turn b r m))"

section \<open>A client's view\<close>

definition mock_sender :: "foreign \<Rightarrow> behavior \<Rightarrow> mock sender" where
  "mock_sender L b r m =
     (case run_mock b r m of
        (None, m') \<Rightarrow> (Inl (error_from_transport Closed), m')
      | (Some v, m') \<Rightarrow>
          (case decode_value v of
             Inl e \<Rightarrow> (Inl (error_from_protocol (protocol_decode_error L e)), m')
           | Inr p \<Rightarrow> (Inr (remap_response (request_kind r) p), m')))"

definition mock_daemon :: "foreign \<Rightarrow> behavior \<Rightarrow> mock daemon" where
  "mock_daemon L b bytes m =
     (case bindR (fo_from_slice L bytes) de_request of
        Inl e \<Rightarrow> (Inr [], over m)
      | Inr r \<Rightarrow>
          (case run_mock b r m of
             (None, m') \<Rightarrow> (Inr [], m')
           | (Some v, m') \<Rightarrow>
               (case fo_to_vec L v of
                  Inl e \<Rightarrow> (Inr [], over m')
                | Inr frame \<Rightarrow> (Inr [frame], m'))))"

section \<open>The view is what a connection shows\<close>

definition carries_id :: "value \<Rightarrow> string \<Rightarrow> bool" where
  "carries_id v i = (\<exists>ob. v = JObject ob \<and> obj_get ob ''id'' = Some (JString i))"

lemma carries_id_answer: "carries_id v i \<Longrightarrow> decode_value v = Inr p \<Longrightarrow> response_id p = i"
  by (auto simp: carries_id_def str_field_def dest: decode_value_id)

lemma encoded_page_id: "carries_id (encode_query_result_maybe_terse q terse) (qr_id q)"
  using encoded_object [of q terse]
  by (auto simp: carries_id_def str_field_def obj_get_def query_result_object_def)

lemma encoded_response_id: "carries_id (encode_live_response p) (response_id p)"
proof (cases p)
  case (QueryResult q)
  then show ?thesis by (simp add: encoded_page_id)
qed (simp_all add: carries_id_def str_field_def obj_get_def ack_def error_response_object_def)

lemma reply_with_id: "reply_with p m = (Some v, m') \<Longrightarrow> response_id p = i \<Longrightarrow> carries_id v i"
  using encoded_response_id [of p] by (auto simp: reply_with_def)

lemma next_page_id: "next_page i terse m = (Some v, m') \<Longrightarrow> carries_id v i"
  using encoded_page_id [of "hd (mk_pages m)\<lparr>qr_id := i\<rparr>" terse]
  by (auto simp: next_page_def split: list.splits)

lemma live_ack_id [simp]: "response_id (live_ack r) = request_id r"
  by (simp add: live_ack_def split: request.split)

lemmas turn_ids = reply_with_id next_page_id

lemma loop_turn_id: "loop_turn b r m = (Some v, m') \<Longrightarrow> carries_id v (request_id r)"
  by (cases b; cases r)
    (auto simp: loop_turn_def pages_turn_def unknown_turn_def swallow_turn_def cl_turn_def
      trace_turn_def prepare_turn_def unknown_frame_def carries_id_def [of "JObject ob" for ob]
      str_field_def obj_get_def elim!: turn_ids split: if_splits)

text \<open>Every frame carries the id of the request it answers.\<close>

lemma run_mock_id:
  assumes "run_mock b r m = (Some v, m')"
  shows "carries_id v (request_id r)"
proof (cases "mk_phase m")
  case Awaiting
  with assms show ?thesis
    by (cases r; cases b) (auto simp: run_mock_def on_connect_def elim!: reply_with_id)
next
  case Looping
  with assms loop_turn_id [of b r m v m'] show ?thesis
    by (cases r) (auto simp: run_mock_def elim!: reply_with_id split: if_splits)
qed (use assms in \<open>simp add: run_mock_def\<close>)

lemma exchange_undecodable:
  assumes "quiescent L (d, x)" "fo_to_vec L (ser_request r) = Inr b"
    and "daemon b x = (Inr [frame], y)" "fo_from_slice L frame = Inr v"
    and "decode_value v = Inl e" "frame_id v = Some (request_id r)"
  shows "fst (exchange L daemon r (d, x)) = Inl (error_from_protocol (protocol_decode_error L e)) \<and>
    quiescent L (snd (exchange L daemon r (d, x))) \<and> snd (snd (exchange L daemon r (d, x))) = y"
proof -
  from assms(1) have d: "dq_queue d = []" "dq_running d" "dq_pending d = []" "idle L (d, x)"
    by (auto simp: quiescent_def idle_def)
  from d(4) have "dinv L d" by (auto simp: idle_def dest: reachable_dinv)
  then have new: "map_of (dq_delivered d) (length (dq_requests d)) = None" by (rule fresh_slot)
  have "fst (exchange L daemon r (d, x)) = Inl (error_from_protocol (protocol_decode_error L e)) \<and>
      dq_running (fst (snd (exchange L daemon r (d, x)))) \<and>
      dq_pending (fst (snd (exchange L daemon r (d, x)))) = [] \<and>
      snd (snd (exchange L daemon r (d, x))) = y"
    using d new assms(2-)
    by (simp add: exchange_def submit_def SEND_QUEUE_CAPACITY_def handle_outbound_def
        insert_pending_def handle_frame_def answer_def deliver_def finish_def received_def
        map_add_def Let_def)
  with d conn.send_good [OF d(4), of daemon r] show ?thesis by (simp add: quiescent_def)
qed

text \<open>
  One exchange over the dispatcher, with texts in between, is a turn of the mock server as its
  client sees it, whether the frame decodes or not.
\<close>

lemma mock_over_connection:
  assumes "quiescent L (d, m)" "text_back L de_request (ser_request r)"
    and "de_request (ser_request r) = Inr r" "run_mock b r m = (Some v, m')"
    and "text_back L (\<lambda>v. (decode_value v, frame_id v)) v"
  shows "fst (exchange L (mock_daemon L b) r (d, m)) = fst (mock_sender L b r m) \<and>
    snd (snd (exchange L (mock_daemon L b) r (d, m))) = snd (mock_sender L b r m) \<and>
    quiescent L (snd (exchange L (mock_daemon L b) r (d, m)))"
proof -
  obtain bytes w where b: "fo_to_vec L (ser_request r) = Inr bytes" "fo_from_slice L bytes = Inr w"
    "de_request w = Inr r"
    using assms(2,3) by (auto elim: text_backD)
  obtain f v' where f: "fo_to_vec L v = Inr f" "fo_from_slice L f = Inr v'"
    "decode_value v' = decode_value v" "frame_id v' = frame_id v"
    using assms(5) by (auto elim: text_backD)
  have daemon: "mock_daemon L b bytes m = (Inr [f], m')"
    by (simp add: mock_daemon_def b f(1) assms(4))
  note i = run_mock_id [OF assms(4)]
  show ?thesis
  proof (cases "decode_value v")
    case (Inl e)
    have "frame_id v' = Some (request_id r)"
      using i unfolding f(4) by (auto simp: carries_id_def frame_id_def)
    from exchange_undecodable [where daemon = "mock_daemon L b", OF assms(1) b(1) daemon f(2) _ this]
    show ?thesis by (simp add: mock_sender_def assms(4) Inl f(3))
  next
    case (Inr p)
    from exchange_answered [where daemon = "mock_daemon L b", OF assms(1) b(1) daemon f(2) _
        carries_id_answer [OF i Inr]]
    show ?thesis by (simp add: mock_sender_def assms(4) Inr f(3))
  qed
qed

end
