(* ===== verification/Decode_Tests.thy ===== *)
theory Decode_Tests
  imports Query
begin

text \<open>
  The unit tests of \<^verbatim>\<open>src/src/protocol/decode.rs\<close>, run on the model: every
     test of the module
  is a definition under its name, the assertions of the test on what the model's reader makes of
  the test's document, and is proved to hold. A text the tests parse appears as the document it
  denotes (numbers without a fraction as integers), a text that is not JSON as the parser's error.
\<close>

lemmas decode_run = de_response_def decode_value_def decode_tagged_def decode_tag_def
  decode_untagged_def contains_key_def obj_get_def obj_remove_def payload_def str_field_def
  de_id_body_def de_success_body_def de_connected_body_def de_prepared_body_def
     prepared_response_def
  de_cl_result_body_def de_named_body_def de_version_body_def de_db_job_body_def
  de_trace_data_body_def de_null_as_empty_def de_dove_body_def dove_from_body_def
  decode_dove_def de_error_response_def de_query_result_def de_query_result_raw_def
  query_result_fields_def de_metadata_def de_column_def named_rows_from_wire_def
  de_fields.simps present_def req_def dflt_def de_option_def default_metadata_def
  cursor_handle_def non_empty_def de_parameter_detail_def de_parameter_result_def

section \<open>Frames of a live daemon\<close>

definition test_decode_live_connect_without_type :: bool where
  "test_decode_live_connect_without_type =
     (case de_response (JObject [(''id'', JString ''abc''), (''job'', JString
        ''123456/QUSER/QZDASOINIT''), (''success'', JBool True), (''execution_time'', JNumber
        (JFloat 4623226492472524800))]) of
        Inr (Connected i version job) \<Rightarrow> i = ''abc'' \<and> job =
           ''123456/QUSER/QZDASOINIT'' \<and> version = []
      | _ \<Rightarrow> False)"

definition test_decode_live_query_result_omitted_is_done_and_cont_id :: bool where
  "test_decode_live_query_result_omitted_is_done_and_cont_id =
     (case de_response (JObject [(''id'', JString ''q1''), (''has_results'', JBool True),
        (''update_count'', JNumber (JInt (- 1))), (''metadata'', JObject [(''column_count'',
        JNumber (JInt 1)), (''columns'', JArray [JObject [(''name'', JString ''n'')]])]),
        (''data'', JArray [JObject [(''n'', JNumber (JInt 1))], JObject [(''n'', JNumber (JInt
        2))]]), (''success'', JBool True), (''execution_time'', JNumber (JInt 1))]) of
        Inr (QueryResult q) \<Rightarrow> \<not> qr_is_done q \<and> qr_cont_id q = None \<and>
          cursor_handle q = Some ''q1'' \<and> length (qr_data q) = 2
      | _ \<Rightarrow> False)"

definition test_decode_live_query_result_without_type :: bool where
  "test_decode_live_query_result_without_type =
     (case de_response (JObject [(''id'', JString ''query3''), (''has_results'', JBool True),
        (''update_count'', JNumber (JInt (- 1))), (''metadata'', JObject [(''column_count'',
        JNumber (JInt 1)), (''job'', JString ''123456/QUSER/QZDASOINIT''), (''columns'', JArray
        [JObject [(''name'', JString ''READY''), (''type'', JString ''INTEGER''),
        (''display_size'', JNumber (JInt 11)), (''label'', JString ''READY''), (''precision'',
        JNumber (JInt 10)), (''scale'', JNumber (JInt 0))]])]), (''data'', JArray [JObject
        [(''READY'', JNumber (JInt 1))]]), (''is_done'', JBool True), (''success'', JBool True),
        (''execution_time'', JNumber (JInt 215))]) of
        Inr (QueryResult q) \<Rightarrow> qr_success q \<and> qr_has_results q \<and> qr_is_done q
           \<and>
          obj_get (qr_data q ! 0) ''READY'' = Some (JNumber (JInt 1)) \<and>
          md_job (qr_metadata q) = Some ''123456/QUSER/QZDASOINIT''
      | _ \<Rightarrow> False)"

definition test_decode_live_error_sql_rc_alias :: bool where
  "test_decode_live_error_sql_rc_alias =
     (case de_response (JObject [(''id'', JString ''x''), (''success'', JBool False), (''error'',
        JString ''nope''), (''sql_rc'', JNumber (JInt (- 803))), (''sql_state'', JString
        ''23505'')]) of
        Inr (ErrorResp e) \<Rightarrow> er_sqlcode e = Some (- 803) \<and> er_sqlstate e = Some
           ''23505''
      | _ \<Rightarrow> False)"

definition test_decode_live_failed_cl_with_data_is_query_result :: bool where
  "test_decode_live_failed_cl_with_data_is_query_result =
     (case de_response (JObject [(''id'', JString ''cl1''), (''success'', JBool False),
        (''sql_rc'', JNumber (JInt (- 443))), (''sql_state'', JString ''38501''), (''error'',
        JString ''[CPF0006] Errors occurred in command.''), (''data'', JArray [JObject
        [(''MESSAGE_ID'', JString ''CPF0006''), (''SEVERITY'', JNumber (JInt 40)),
        (''MESSAGE_TEXT'', JString ''Errors occurred in command.'')]]), (''is_done'', JBool True)])
        of
        Inr (QueryResult q) \<Rightarrow> \<not> qr_success q \<and> qr_sqlcode q = Some (- 443)
           \<and>
          qr_sqlstate q = Some ''38501'' \<and>
          qr_error q = Some ''[CPF0006] Errors occurred in command.'' \<and>
          length (qr_data q) = 1 \<and> obj_get (qr_data q ! 0) ''MESSAGE_ID'' = Some (JString
             ''CPF0006'')
      | _ \<Rightarrow> False)"

definition test_decode_live_failed_with_has_results_is_query_result :: bool where
  "test_decode_live_failed_with_has_results_is_query_result =
     (case de_response (JObject [(''id'', JString ''cl2''), (''success'', JBool False),
        (''has_results'', JBool True), (''data'', JArray [])]) of
        Inr (QueryResult q) \<Rightarrow> \<not> qr_success q \<and> qr_has_results q \<and>
           qr_data q = []
      | _ \<Rightarrow> False)"

definition test_decode_live_failed_without_data_stays_error :: bool where
  "test_decode_live_failed_without_data_stays_error =
     (case de_response (JObject [(''id'', JString ''x''), (''success'', JBool False), (''error'',
        JString ''nope''), (''sql_rc'', JNumber (JInt (- 803))), (''sql_state'', JString
        ''23505'')]) of
        Inr (ErrorResp e) \<Rightarrow> True
      | _ \<Rightarrow> False)"

definition test_decode_tagged_connected_still_works :: bool where
  "test_decode_tagged_connected_still_works =
     (case de_response (JObject [(''type'', JString ''connected''), (''id'', JString ''2''),
        (''version'', JString ''2.3.5''), (''job'', JString ''QZDASOINIT/QUSER/123456'')]) of
        Inr (Connected i version job) \<Rightarrow> version = ''2.3.5''
      | _ \<Rightarrow> False)"

definition test_decode_live_setconfig_with_dest_is_pong :: bool where
  "test_decode_live_setconfig_with_dest_is_pong =
     (case de_response (JObject [(''id'', JString ''t1''), (''success'', JBool True),
        (''tracedest'', JString ''IN_MEM''), (''tracelevel'', JString ''OFF''),
        (''execution_time'', JNumber (JInt 1))]) of
        Inr (Pong i) \<Rightarrow> i = ''t1''
      | _ \<Rightarrow> False)"

definition test_decode_live_version_without_type :: bool where
  "test_decode_live_version_without_type =
     (case de_response (JObject [(''id'', JString ''v1''), (''success'', JBool True), (''version'',
        JString ''2.3.5'')]) of
        Inr (Version i success version) \<Rightarrow> i = ''v1'' \<and> success \<and> version =
           ''2.3.5''
      | _ \<Rightarrow> False)"

lemma live_frames:
  test_decode_live_connect_without_type test_decode_live_query_result_omitted_is_done_and_cont_id
  test_decode_live_query_result_without_type test_decode_live_error_sql_rc_alias
  test_decode_live_failed_cl_with_data_is_query_result
  test_decode_live_failed_with_has_results_is_query_result
  test_decode_live_failed_without_data_stays_error test_decode_tagged_connected_still_works
  test_decode_live_setconfig_with_dest_is_pong test_decode_live_version_without_type
  unfolding test_decode_live_connect_without_type_def
    test_decode_live_query_result_omitted_is_done_and_cont_id_def
    test_decode_live_query_result_without_type_def test_decode_live_error_sql_rc_alias_def
    test_decode_live_failed_cl_with_data_is_query_result_def
    test_decode_live_failed_with_has_results_is_query_result_def
    test_decode_live_failed_without_data_stays_error_def
    test_decode_tagged_connected_still_works_def test_decode_live_setconfig_with_dest_is_pong_def
    test_decode_live_version_without_type_def
  by (simp_all add: decode_run)

definition test_decode_unknown_type_is_error :: bool where
  "test_decode_unknown_type_is_error =
     (case de_response (JObject [(''type'', JString ''not_a_real_type''), (''id'', JString ''1''),
        (''job'', JString ''x''), (''success'', JBool True)]) of
        Inl e \<Rightarrow> contains (de_message (\<lambda>v. []) (\<lambda>r. []) e)
           ''unknown response type''
      | Inr r \<Rightarrow> False)"

definition test_decode_garbage_does_not_panic :: bool where
  "test_decode_garbage_does_not_panic =
     list_all (\<lambda>parsed. isl (bindR parsed de_response))
       [Inl (JsonSyntax []), Inr JNull, Inr (JArray []), Inr (JString ''x''), Inr (JNumber (JInt
          1)), Inl (JsonSyntax ''{''),
        Inr (JObject []), Inr (JObject [(''type'', JNumber (JInt 1))])]"

definition test_decode_tagged_fallback_covers_all_current_variants :: bool where
  "test_decode_tagged_fallback_covers_all_current_variants =
     list_all (\<lambda>v. \<not> isl (de_response v))
       [(JObject [(''type'', JString ''connected''), (''id'', JString ''1''), (''version'', JString
          ''v''), (''job'', JString ''j'')]),
        (JObject [(''type'', JString ''pong''), (''id'', JString ''1'')]),
        (JObject [(''type'', JString ''exited''), (''id'', JString ''1'')]),
        (JObject [(''type'', JString ''query_result''), (''id'', JString ''1''), (''success'',
           JBool True), (''has_results'', JBool False)]),
        (JObject [(''type'', JString ''prepared_statement''), (''id'', JString ''1''),
           (''success'', JBool True), (''cont_id'', JString ''c''), (''execution_time'', JNumber
           (JFloat 4607182418800017408))]),
        (JObject [(''type'', JString ''sql_closed''), (''id'', JString ''1''), (''success'', JBool
           True)]),
        (JObject [(''type'', JString ''cl_result''), (''id'', JString ''1''), (''success'', JBool
           True), (''messages'', JArray [])]),
        (JObject [(''type'', JString ''version''), (''id'', JString ''1''), (''success'', JBool
           True), (''version'', JString ''2.3.5'')]),
        (JObject [(''type'', JString ''db_job''), (''id'', JString ''1''), (''success'', JBool
           True), (''job'', JString ''j'')]),
        (JObject [(''type'', JString ''config_set''), (''id'', JString ''1''), (''success'', JBool
           True)]),
        (JObject [(''type'', JString ''trace_data''), (''id'', JString ''1''), (''success'', JBool
           True), (''tracedata'', JString ''t'')]),
        (JObject [(''type'', JString ''dove_result''), (''id'', JString ''1''), (''success'', JBool
           True), (''result'', JObject [])]),
        (JObject [(''type'', JString ''dove_result''), (''id'', JString ''1''), (''success'', JBool
           True), (''vedata'', JArray [])]),
        (JObject [(''type'', JString ''error''), (''id'', JString ''1''), (''success'', JBool
           False), (''error'', JString ''nope'')])]"

definition test_decode_tagged_payload_error :: bool where
  "test_decode_tagged_payload_error = isl (de_response (JObject [(''type'', JString ''connected''),
     (''id'', JString ''1'')]))"

definition test_decode_untagged_error_missing_id :: bool where
  "test_decode_untagged_error_missing_id = isl (de_response (JObject [(''success'', JBool False),
     (''error'', JString ''x'')]))"

definition test_decode_untagged_result_malformed_data :: bool where
  "test_decode_untagged_result_malformed_data =
     isl (de_response (JObject [(''has_results'', JBool True), (''data'', JString
        ''not-an-array'')]))"

lemma failures_and_tags:
  test_decode_unknown_type_is_error test_decode_garbage_does_not_panic
  test_decode_tagged_fallback_covers_all_current_variants test_decode_tagged_payload_error
  test_decode_untagged_error_missing_id test_decode_untagged_result_malformed_data
  unfolding test_decode_unknown_type_is_error_def test_decode_garbage_does_not_panic_def
    test_decode_tagged_fallback_covers_all_current_variants_def
    test_decode_tagged_payload_error_def test_decode_untagged_error_missing_id_def
    test_decode_untagged_result_malformed_data_def
  by (simp_all add: decode_run isl_def contains_def)

definition test_decode_live_pong_id_success_only :: bool where
  "test_decode_live_pong_id_success_only =
     (case de_response (JObject [(''id'', JString ''p1''), (''success'', JBool True)]) of Inr (Pong
        i) \<Rightarrow> i = ''p1'' | _ \<Rightarrow> False)"

definition test_decode_live_dove_vedata_without_data :: bool where
  "test_decode_live_dove_vedata_without_data =
     (case de_response (JObject [(''id'', JString ''d1''), (''success'', JBool True),
        (''vemetadata'', JObject [(''v'', JNumber (JInt 1))]), (''vedata'', JArray [JObject
        [(''op'', JString ''TBSCAN'')]])]) of
        Inr (DoveResult i success vedata vemetadata) \<Rightarrow> i = ''d1'' \<and> success \<and>
          vedata = (JArray [JObject [(''op'', JString ''TBSCAN'')]]) \<and> vemetadata = Some
             (JObject [(''v'', JNumber (JInt 1))])
      | _ \<Rightarrow> False)"

definition test_decode_live_dove_with_data_is_not_query_result :: bool where
  "test_decode_live_dove_with_data_is_not_query_result =
     (case de_response (JObject [(''id'', JString ''d1''), (''success'', JBool True), (''is_done'',
        JBool True), (''vemetadata'', JObject [(''v'', JNumber (JInt 1))]), (''vedata'', JArray
        [JObject [(''op'', JString ''TBSCAN'')]]), (''data'', JArray [JObject [(''X'', JNumber
        (JInt 1))]])]) of
        Inr (DoveResult i success vedata vemetadata) \<Rightarrow> vedata = (JArray [JObject
           [(''op'', JString ''TBSCAN'')]])
      | _ \<Rightarrow> False)"

definition test_decode_dove_42505_without_vedata_is_error :: bool where
  "test_decode_dove_42505_without_vedata_is_error =
     (case de_response (JObject [(''id'', JString ''d1''), (''success'', JBool False), (''error'',
        JString ''not authorized''), (''sql_state'', JString ''42505'')]) of
        Inr (ErrorResp e) \<Rightarrow> er_sqlstate e = Some ''42505''
      | _ \<Rightarrow> False)"

definition test_decode_tagged_dove_result_still_accepts_result :: bool where
  "test_decode_tagged_dove_result_still_accepts_result =
     (case de_response (JObject [(''type'', JString ''dove_result''), (''id'', JString ''1''),
        (''success'', JBool True), (''result'', JObject [(''operator'', JString ''scan'')])]) of
        Inr (DoveResult i success vedata vemetadata) \<Rightarrow> vedata = (JObject
           [(''operator'', JString ''scan'')])
      | _ \<Rightarrow> False)"

definition test_decode_live_gettracedata_keeps_tracedata :: bool where
  "test_decode_live_gettracedata_keeps_tracedata =
     (case de_response (JObject [(''id'', JString ''t1''), (''success'', JBool True),
        (''tracedata'', JString ''hello''), (''execution_time'', JNumber (JInt 0))]) of
        Inr (TraceData i success tracedata) \<Rightarrow> i = ''t1'' \<and> success \<and>
           tracedata = ''hello''
      | _ \<Rightarrow> False)"

definition test_decode_live_gettracedata_empty_or_null_tracedata :: bool where
  "test_decode_live_gettracedata_empty_or_null_tracedata =
     ((case de_response (JObject [(''id'', JString ''t1''), (''success'', JBool True),
        (''tracedata'', JString '''')]) of
         Inr (TraceData i success tracedata) \<Rightarrow> tracedata = []
       | _ \<Rightarrow> False) \<and>
      (case de_response (JObject [(''id'', JString ''t1''), (''success'', JBool True),
         (''tracedata'', JNull)]) of
         Inr (TraceData i success tracedata) \<Rightarrow> tracedata = []
       | _ \<Rightarrow> False))"

definition test_decode_live_gettracedata_jtopentracedata_does_not_fail :: bool where
  "test_decode_live_gettracedata_jtopentracedata_does_not_fail =
     ((case de_response (JObject [(''id'', JString ''t1''), (''success'', JBool True),
        (''tracedata'', JString ''buf''), (''jtopentracedata'', JString ''jt'')]) of
         Inr (TraceData i success tracedata) \<Rightarrow> tracedata = ''buf''
       | _ \<Rightarrow> False) \<and>
      (case de_response (JObject [(''id'', JString ''t1''), (''success'', JBool True),
         (''jtopentracedata'', JString '''')]) of
         Inr (TraceData i success tracedata) \<Rightarrow> i = ''t1'' \<and> tracedata = []
       | _ \<Rightarrow> False) \<and>
      (case de_response (JObject [(''id'', JString ''t1''), (''success'', JBool True),
         (''jtopentracedata'', JNull)]) of
         Inr (TraceData i success tracedata) \<Rightarrow> True
       | _ \<Rightarrow> False))"

definition test_decode_live_prepare_without_has_results :: bool where
  "test_decode_live_prepare_without_has_results =
     (case de_response (JObject [(''id'', JString ''pr1''), (''success'', JBool True),
        (''cont_id'', JString ''stmt-7''), (''execution_time'', JNumber (JFloat
        4609434218613702656)), (''is_done'', JBool True)]) of
        Inr (PreparedStatement i success cont_id execution_time) \<Rightarrow>
          i = ''pr1'' \<and> cont_id = ''stmt-7'' \<and> success
      | _ \<Rightarrow> False)"

lemma other_live_frames:
  test_decode_live_pong_id_success_only test_decode_live_dove_vedata_without_data
  test_decode_live_dove_with_data_is_not_query_result
  test_decode_dove_42505_without_vedata_is_error
  test_decode_tagged_dove_result_still_accepts_result
  test_decode_live_gettracedata_keeps_tracedata
  test_decode_live_gettracedata_empty_or_null_tracedata
  test_decode_live_gettracedata_jtopentracedata_does_not_fail
  test_decode_live_prepare_without_has_results
  unfolding test_decode_live_pong_id_success_only_def
    test_decode_live_dove_vedata_without_data_def
    test_decode_live_dove_with_data_is_not_query_result_def
    test_decode_dove_42505_without_vedata_is_error_def
    test_decode_tagged_dove_result_still_accepts_result_def
    test_decode_live_gettracedata_keeps_tracedata_def
    test_decode_live_gettracedata_empty_or_null_tracedata_def
    test_decode_live_gettracedata_jtopentracedata_does_not_fail_def
    test_decode_live_prepare_without_has_results_def
  by (simp_all add: decode_run)

section \<open>Rows and lenient fields\<close>

definition test_decode_query_result_without_has_results_when_data_present :: bool where
  "test_decode_query_result_without_has_results_when_data_present =
     (case de_response (JObject [(''id'', JString ''q''), (''success'', JBool True), (''data'',
        JArray [JObject [(''X'', JNumber (JInt 1))]]), (''is_done'', JBool True)]) of
        Inr (QueryResult q) \<Rightarrow> \<not> qr_has_results q \<and> obj_get (qr_data q ! 0)
           ''X'' = Some (JNumber (JInt 1))
      | _ \<Rightarrow> False)"

definition test_decode_live_connect_coerces_non_string_id_job :: bool where
  "test_decode_live_connect_coerces_non_string_id_job =
     (case de_response (JObject [(''job'', JNull), (''id'', JNull), (''success'', JBool True)]) of
        Inr (Connected i version job) \<Rightarrow> i = [] \<and> job = [] \<and> version = []
      | _ \<Rightarrow> False)"

definition test_decode_terse_array_rows_named_from_columns :: bool where
  "test_decode_terse_array_rows_named_from_columns =
     (case de_response (JObject [(''id'', JString ''q1''), (''success'', JBool True),
        (''has_results'', JBool True), (''is_done'', JBool True), (''metadata'', JObject
        [(''column_count'', JNumber (JInt 1)), (''columns'', JArray [JObject [(''name'', JString
        ''1''), (''type'', JString ''INTEGER'')]])]), (''data'', JArray [JArray [JNumber (JInt
        7)]])]) of
        Inr (QueryResult q) \<Rightarrow> length (qr_data q) = 1 \<and>
          obj_get (qr_data q ! 0) ''1'' = Some (JNumber (JInt 7)) \<and>
          row_get de_i64 (qr_data q ! 0) ''1'' = Inr 7
      | _ \<Rightarrow> False)"

definition test_decode_object_rows_still_named :: bool where
  "test_decode_object_rows_still_named =
     (case de_response (JObject [(''id'', JString ''q1''), (''success'', JBool True),
        (''has_results'', JBool True), (''is_done'', JBool True), (''metadata'', JObject
        [(''column_count'', JNumber (JInt 1)), (''columns'', JArray [JObject [(''name'', JString
        ''READY'')]])]), (''data'', JArray [JObject [(''READY'', JNumber (JInt 1))]])]) of
        Inr (QueryResult q) \<Rightarrow> obj_get (qr_data q ! 0) ''READY'' = Some (JNumber (JInt
           1))
      | _ \<Rightarrow> False)"

definition test_decode_terse_without_columns_is_protocol_error :: bool where
  "test_decode_terse_without_columns_is_protocol_error =
     (case de_response (JObject [(''id'', JString ''q1''), (''success'', JBool True),
        (''has_results'', JBool True), (''data'', JArray [JArray [JNumber (JInt 7)]])]) of
        Inl e \<Rightarrow> contains (de_message (\<lambda>v. []) (\<lambda>r. []) e)
                  ''terse row data requires metadata.columns''
      | Inr r \<Rightarrow> False)"

definition test_decode_live_version_missing_success_defaults_true :: bool where
  "test_decode_live_version_missing_success_defaults_true =
     (case de_response (JObject [(''id'', JString ''v1''), (''version'', JString ''2.3.5'')]) of
        Inr (Version i success version) \<Rightarrow> i = ''v1'' \<and> success \<and> version =
           ''2.3.5''
      | _ \<Rightarrow> False)"

definition test_decode_live_pong_missing_id_is_empty :: bool where
  "test_decode_live_pong_missing_id_is_empty =
     (case de_response (JObject [(''success'', JBool True)]) of Inr (Pong i) \<Rightarrow> i = [] |
        _ \<Rightarrow> False)"

definition test_decode_live_version_non_string_fields_coerce_empty :: bool where
  "test_decode_live_version_non_string_fields_coerce_empty =
     (case de_response (JObject [(''id'', JNumber (JInt 1)), (''version'', JNumber (JInt 2))]) of
        Inr (Version i success version) \<Rightarrow> i = [] \<and> success \<and> version = []
      | _ \<Rightarrow> False)"

lemma rows_and_lenient_fields:
  test_decode_query_result_without_has_results_when_data_present
  test_decode_live_connect_coerces_non_string_id_job
  test_decode_terse_array_rows_named_from_columns test_decode_object_rows_still_named
  test_decode_terse_without_columns_is_protocol_error
  test_decode_live_version_missing_success_defaults_true test_decode_live_pong_missing_id_is_empty
  test_decode_live_version_non_string_fields_coerce_empty
  unfolding test_decode_query_result_without_has_results_when_data_present_def
    test_decode_live_connect_coerces_non_string_id_job_def
    test_decode_terse_array_rows_named_from_columns_def test_decode_object_rows_still_named_def
    test_decode_terse_without_columns_is_protocol_error_def
    test_decode_live_version_missing_success_defaults_true_def
    test_decode_live_pong_missing_id_is_empty_def
    test_decode_live_version_non_string_fields_coerce_empty_def
  by (simp_all add: decode_run contains_def terse_phrase_def row_get_def)

section \<open>The module's tests\<close>

definition decode_tests :: "bool list" where
  "decode_tests =
     [test_decode_live_connect_without_type,
      test_decode_live_query_result_omitted_is_done_and_cont_id,
      test_decode_live_query_result_without_type, test_decode_live_error_sql_rc_alias,
      test_decode_live_failed_cl_with_data_is_query_result,
      test_decode_live_failed_with_has_results_is_query_result,
      test_decode_live_failed_without_data_stays_error, test_decode_tagged_connected_still_works,
      test_decode_live_setconfig_with_dest_is_pong, test_decode_live_version_without_type,
      test_decode_unknown_type_is_error, test_decode_garbage_does_not_panic,
      test_decode_tagged_fallback_covers_all_current_variants, test_decode_tagged_payload_error,
      test_decode_untagged_error_missing_id, test_decode_untagged_result_malformed_data,
      test_decode_live_pong_id_success_only, test_decode_live_dove_vedata_without_data,
      test_decode_live_dove_with_data_is_not_query_result,
      test_decode_dove_42505_without_vedata_is_error,
      test_decode_tagged_dove_result_still_accepts_result,
      test_decode_live_gettracedata_keeps_tracedata,
      test_decode_live_gettracedata_empty_or_null_tracedata,
      test_decode_live_gettracedata_jtopentracedata_does_not_fail,
      test_decode_live_prepare_without_has_results,
      test_decode_query_result_without_has_results_when_data_present,
      test_decode_live_connect_coerces_non_string_id_job,
      test_decode_terse_array_rows_named_from_columns, test_decode_object_rows_still_named,
      test_decode_terse_without_columns_is_protocol_error,
      test_decode_live_version_missing_success_defaults_true,
      test_decode_live_pong_missing_id_is_empty,
      test_decode_live_version_non_string_fields_coerce_empty]"

lemma decode_tests_pass: "list_all id decode_tests"
  unfolding decode_tests_def
  by (simp add: live_frames failures_and_tags other_live_frames rows_and_lenient_fields)

end
