(* ===== verification/Response_Tests.thy ===== *)
theory Response_Tests
  imports Decode_Tests
begin

text \<open>
  The unit tests of \<^verbatim>\<open>src/src/protocol/response.rs\<close>, run on the model as in
     theory Decode_Tests. A
  text a test compares the writer's output with appears as the document it denotes, with its keys
  in the order of the text; a round trip reads the written document.
\<close>

section \<open>Round trips\<close>

definition pong_round_trips :: bool where
  "pong_round_trips = (ser_response (Pong ''1'') = (JObject [(''type'', JString ''pong''), (''id'',
     JString ''1'')]))"

definition connected_round_trips :: bool where
  "connected_round_trips =
     (let r = Connected ''2'' ''2.3.5'' ''QZDASOINIT/QUSER/123456'' in
      ser_response r = (JObject [(''type'', JString ''connected''), (''id'', JString ''2''),
         (''version'', JString ''2.3.5''), (''job'', JString ''QZDASOINIT/QUSER/123456'')]) \<and>
      \<not> isl (de_response (ser_response r)))"

definition exited_round_trips :: bool where
  "exited_round_trips = (ser_response (Exited ''3'') = (JObject [(''type'', JString ''exited''),
     (''id'', JString ''3'')]))"

definition query_result_select_round_trips :: bool where
  "query_result_select_round_trips =
     (let q = \<lparr>qr_id = ''10'', qr_success = True, qr_has_results = True, qr_update_count = -
        1,
               qr_cont_id = Some ''cur-1'', qr_is_done = False,
               qr_metadata = \<lparr>md_column_count = 1,
                 md_columns = [\<lparr>col_name = ''ID'', col_label = None,
                   col_type_name = Some ''INTEGER'', col_display_size = Some 11,
                   col_precision = Some 10, col_scale = Some 0\<rparr>],
                 md_job = None, md_parameters = []\<rparr>,
               qr_data = [obj_insert ''ID'' (JNumber (JInt 42)) []], qr_execution_time =
                  4608218246714312622,
               qr_error = None, qr_sqlcode = None, qr_sqlstate = None,
               qr_parameter_count = None, qr_output_parms = []\<rparr>
      in case de_response (ser_response (QueryResult q)) of
           Inr (QueryResult q2) \<Rightarrow> qr_has_results q2 \<and> \<not> qr_is_done q2 \<and>
              length (qr_data q2) = 1
         | _ \<Rightarrow> False)"

definition query_result_dml_round_trips :: bool where
  "query_result_dml_round_trips =
     (let q = \<lparr>qr_id = ''11'', qr_success = True, qr_has_results = False, qr_update_count =
        3,
               qr_cont_id = None, qr_is_done = True, qr_metadata = default_metadata,
               qr_data = [], qr_execution_time = 4602678819172646912,
               qr_error = None, qr_sqlcode = None, qr_sqlstate = None,
               qr_parameter_count = None, qr_output_parms = []\<rparr>
      in case de_response (ser_response (QueryResult q)) of
           Inr (QueryResult q2) \<Rightarrow> \<not> qr_has_results q2 \<and> qr_update_count q2 = 3
         | _ \<Rightarrow> False)"

definition prepared_statement_round_trips :: bool where
  "prepared_statement_round_trips =
     (\<not> isl (de_response (ser_response (PreparedStatement ''20'' True ''stmt-7''
        4599075939470750515))))"

definition cl_result_round_trips :: bool where
  "cl_result_round_trips =
     (\<not> isl (de_response (ser_response (ClResult ''30'' True
        [\<lparr>cm_id = Some ''CPF1234'', cm_kind = Some ''INFO'', cm_text = Some
           ''Job started''\<rparr>]))))"

definition error_response_round_trips :: bool where
  "error_response_round_trips =
     (let r = ErrorResp \<lparr>er_id = ''40'', er_success = False, er_sqlstate = Some ''23505'',
                er_sqlcode = Some (- 803), er_error = Some ''duplicate key'',
                er_job = Some ''QZDASOINIT/QUSER/123456''\<rparr>
      in case de_response (ser_response r) of
           Inr (ErrorResp e) \<Rightarrow> er_sqlstate e = Some ''23505'' \<and> er_sqlcode e =
              Some (- 803)
         | _ \<Rightarrow> False)"

lemmas response_written = f64_finite_def query_result_object_def ser_metadata_def ser_column_def
  ser_vec_def ser_option_def ser_u32_def ser_i32_def ser_i64_def ser_f64_def fld_opt_def fld_vec_def
  obj_insert_def ser_cl_message_def de_cl_message_def error_response_object_def

lemma response_round_trips:
  pong_round_trips connected_round_trips exited_round_trips query_result_select_round_trips
  query_result_dml_round_trips prepared_statement_round_trips cl_result_round_trips
  error_response_round_trips
  unfolding pong_round_trips_def connected_round_trips_def exited_round_trips_def
    query_result_select_round_trips_def query_result_dml_round_trips_def
    prepared_statement_round_trips_def cl_result_round_trips_def error_response_round_trips_def
  by (simp_all add: decode_run response_written Let_def)

section \<open>Aliases and defaults\<close>

definition test_error_response_sql_state_and_sql_rc_aliases :: bool where
  "test_error_response_sql_state_and_sql_rc_aliases =
     (case de_error_response (JObject [(''id'', JString ''x''), (''success'', JBool False),
        (''error'', JString ''nope''), (''sql_rc'', JNumber (JInt (- 803))), (''sql_state'',
        JString ''23505'')]) of
        Inr e \<Rightarrow> er_sqlcode e = Some (- 803) \<and> er_sqlstate e = Some ''23505''
      | _ \<Rightarrow> False)"

definition test_query_metadata_omits_absent_job_on_serialize :: bool where
  "test_query_metadata_omits_absent_job_on_serialize =
     (let json = ser_metadata default_metadata in
      (case as_object json of
         Some ob \<Rightarrow> obj_get ob ''job'' = None \<and> obj_get ob ''parameters'' = None
       | None \<Rightarrow> False) \<and>
      (case de_metadata json of
         Inr m \<Rightarrow> md_job m = None \<and> md_parameters m = [] | _ \<Rightarrow> False))"

definition test_query_result_sql_rc_and_sql_state_aliases :: bool where
  "test_query_result_sql_rc_and_sql_state_aliases =
     (case de_query_result (JObject [(''id'', JString ''cl1''), (''success'', JBool False),
        (''data'', JArray []), (''sql_rc'', JNumber (JInt (- 443))), (''sql_state'', JString
        ''38501''), (''error'', JString ''CPF0006'')]) of
        Inr q \<Rightarrow> \<not> qr_success q \<and> qr_sqlcode q = Some (- 443) \<and>
           qr_sqlstate q = Some ''38501'' \<and>
          qr_error q = Some ''CPF0006''
      | _ \<Rightarrow> False)"

definition test_job_log_entry_severity_number_or_string :: bool where
  "test_job_log_entry_severity_number_or_string =
     ((case de_job_log_entry (\<lambda>b. []) (JObject [(''MESSAGE_ID'', JString ''CPF0006''),
        (''SEVERITY'', JNumber (JInt 40))]) of
         Inr x \<Rightarrow> jl_message_id x = Some ''CPF0006'' \<and> jl_severity x = Some ''40''
       | _ \<Rightarrow> False) \<and>
      (case de_job_log_entry (\<lambda>b. []) (JObject [(''MESSAGE_ID'', JString ''CPC2102''),
         (''SEVERITY'', JString ''0'')]) of
         Inr x \<Rightarrow> jl_severity x = Some ''0''
       | _ \<Rightarrow> False))"

definition test_connected_version_defaults_when_absent :: bool where
  "test_connected_version_defaults_when_absent =
     (case de_response (JObject [(''type'', JString ''connected''), (''id'', JString ''2''),
        (''job'', JString ''QZDASOINIT/QUSER/123456'')]) of
        Inr (Connected i version job) \<Rightarrow> version = []
      | _ \<Rightarrow> False)"

lemma digit_chars:
  "char_of (48 :: nat) = CHR ''0''"
  "char_of (49 :: nat) = CHR ''1''"
  "char_of (50 :: nat) = CHR ''2''"
  "char_of (51 :: nat) = CHR ''3''"
  "char_of (52 :: nat) = CHR ''4''"
  "char_of (53 :: nat) = CHR ''5''"
  "char_of (54 :: nat) = CHR ''6''"
  "char_of (55 :: nat) = CHR ''7''"
  "char_of (56 :: nat) = CHR ''8''"
  "char_of (57 :: nat) = CHR ''9''"
  by (simp_all add: char_of_def bit_0)

lemmas response_read = de_job_log_entry_def show_int_def show_nat.simps digit_chars

lemma response_aliases:
  test_error_response_sql_state_and_sql_rc_aliases
  test_query_metadata_omits_absent_job_on_serialize test_query_result_sql_rc_and_sql_state_aliases
  test_job_log_entry_severity_number_or_string test_connected_version_defaults_when_absent
  unfolding test_error_response_sql_state_and_sql_rc_aliases_def
    test_query_metadata_omits_absent_job_on_serialize_def
    test_query_result_sql_rc_and_sql_state_aliases_def
    test_job_log_entry_severity_number_or_string_def
    test_connected_version_defaults_when_absent_def
  by (simp_all add: decode_run response_written response_read Let_def)

section \<open>Query results\<close>

definition test_query_result_omitted_is_done_with_data_is_not_done :: bool where
  "test_query_result_omitted_is_done_with_data_is_not_done =
     (case de_query_result (JObject [(''id'', JString ''q1''), (''success'', JBool True),
        (''has_results'', JBool True), (''metadata'', JObject [(''column_count'', JNumber (JInt
        1)), (''columns'', JArray [JObject [(''name'', JString ''n'')]])]), (''data'', JArray
        [JObject [(''n'', JNumber (JInt 1))]])]) of
        Inr q \<Rightarrow> \<not> qr_is_done q \<and> cursor_handle q = Some ''q1'' \<and>
           qr_cont_id q = None
      | _ \<Rightarrow> False)"

definition test_query_result_omitted_is_done_dml_is_done :: bool where
  "test_query_result_omitted_is_done_dml_is_done =
     (case de_query_result (JObject [(''id'', JString ''u1''), (''success'', JBool True),
        (''has_results'', JBool False), (''update_count'', JNumber (JInt 3)), (''data'', JArray
        [])]) of
        Inr q \<Rightarrow> qr_is_done q \<and> qr_data q = []
      | _ \<Rightarrow> False)"

definition test_query_result_explicit_is_done_false :: bool where
  "test_query_result_explicit_is_done_false =
     (case de_query_result (JObject [(''id'', JString ''q1''), (''success'', JBool True),
        (''has_results'', JBool True), (''is_done'', JBool False), (''data'', JArray [JObject
        [(''n'', JNumber (JInt 1))]])]) of
        Inr q \<Rightarrow> \<not> qr_is_done q \<and> cursor_handle q = Some ''q1''
      | _ \<Rightarrow> False)"

definition test_query_result_decodes_terse_arrays_via_column_names :: bool where
  "test_query_result_decodes_terse_arrays_via_column_names =
     (case de_query_result (JObject [(''id'', JString ''q1''), (''success'', JBool True),
        (''has_results'', JBool True), (''metadata'', JObject [(''column_count'', JNumber (JInt
        1)), (''columns'', JArray [JObject [(''name'', JString ''1'')]])]), (''data'', JArray
        [JArray [JNumber (JInt 7)]])]) of
        Inr q \<Rightarrow> length (qr_data q) = 1 \<and> obj_get (qr_data q ! 0) ''1'' = Some
           (JNumber (JInt 7))
      | _ \<Rightarrow> False)"

definition fails_with :: "de_error + 'a \<Rightarrow> string \<Rightarrow> bool" where
  "fails_with r phrase =
     (case r of Inl e \<Rightarrow> contains (de_message (\<lambda>v. []) (\<lambda>x. []) e)
        phrase | Inr y \<Rightarrow> False)"

definition test_query_result_terse_without_columns_errors :: bool where
  "test_query_result_terse_without_columns_errors =
     fails_with (de_query_result (JObject [(''id'', JString ''q1''), (''success'', JBool True),
        (''data'', JArray [JArray [JNumber (JInt 7)]])]))
       ''terse row data requires metadata.columns''"

definition CALL_OUT_JSON :: "value" where
  "CALL_OUT_JSON =
     (JObject [(''id'', JString ''call1''), (''success'', JBool True), (''has_results'', JBool
        False), (''update_count'', JNumber (JInt 0)), (''is_done'', JBool True),
        (''parameter_count'', JNumber (JInt 3)), (''metadata'', JObject [(''column_count'', JNumber
        (JInt 0)), (''columns'', JArray []), (''parameters'', JArray [JObject [(''type'', JString
        ''INTEGER''), (''mode'', JString ''IN''), (''precision'', JNumber (JInt 10)), (''scale'',
        JNumber (JInt 0)), (''name'', JString ''P1'')], JObject [(''type'', JString ''INTEGER''),
        (''mode'', JString ''INOUT''), (''precision'', JNumber (JInt 10)), (''scale'', JNumber
        (JInt 0)), (''name'', JString ''P2'')], JObject [(''type'', JString ''INTEGER''),
        (''mode'', JString ''OUT''), (''precision'', JNumber (JInt 10)), (''scale'', JNumber (JInt
        0)), (''name'', JString ''P3'')]])]), (''data'', JArray []), (''output_parms'', JArray
        [JObject [(''index'', JNumber (JInt 1)), (''type'', JString ''INTEGER''), (''precision'',
        JNumber (JInt 10)), (''scale'', JNumber (JInt 0)), (''name'', JString ''P1'')], JObject
        [(''index'', JNumber (JInt 2)), (''type'', JString ''INTEGER''), (''precision'', JNumber
        (JInt 10)), (''scale'', JNumber (JInt 0)), (''name'', JString ''P2''), (''value'', JNumber
        (JInt 0))], JObject [(''index'', JNumber (JInt 3)), (''type'', JString ''INTEGER''),
        (''precision'', JNumber (JInt 10)), (''scale'', JNumber (JInt 0)), (''name'', JString
        ''P3''), (''value'', JNumber (JInt 10))]]), (''execution_time'', JNumber (JInt 5))])"

definition test_query_result_decodes_call_output_parms :: bool where
  "test_query_result_decodes_call_output_parms =
     (case de_query_result CALL_OUT_JSON of
        Inr q \<Rightarrow> \<not> qr_has_results q \<and> qr_update_count q = 0 \<and> qr_data q =
           [] \<and>
          qr_parameter_count q = Some 3 \<and>
          map (\<lambda>p. (pd_name p, pd_mode p, pd_type_name p)) (md_parameters (qr_metadata q)) =
            [(''P1'', ''IN'', ''INTEGER''), (''P2'', ''INOUT'', ''INTEGER''),
             (''P3'', ''OUT'', ''INTEGER'')] \<and>
          length (qr_output_parms q) = 3 \<and> pr_value (qr_output_parms q ! 0) = None \<and>
          pr_value (qr_output_parms q ! 1) = Some (JNumber (JInt 0)) \<and>
          pr_value (qr_output_parms q ! 2) = Some (JNumber (JInt 10)) \<and>
          pr_index (qr_output_parms q ! 0) = 1 \<and> pr_name (qr_output_parms q ! 2) = ''P3''
      | _ \<Rightarrow> False)"

definition test_response_decodes_untagged_call_as_query_result :: bool where
  "test_response_decodes_untagged_call_as_query_result =
     (case de_response CALL_OUT_JSON of
        Inr (QueryResult q) \<Rightarrow> qr_parameter_count q = Some 3 \<and>
          pr_value (qr_output_parms q ! 0) = None \<and>
          pr_value (qr_output_parms q ! 1) = Some (JNumber (JInt 0)) \<and>
          pr_value (qr_output_parms q ! 2) = Some (JNumber (JInt 10))
      | _ \<Rightarrow> False)"

definition test_query_result_omits_empty_output_parms_on_serialize :: bool where
  "test_query_result_omits_empty_output_parms_on_serialize =
     (let q = \<lparr>qr_id = ''q1'', qr_success = True, qr_has_results = False, qr_update_count =
        0,
               qr_cont_id = None, qr_is_done = True, qr_metadata = default_metadata,
               qr_data = [], qr_execution_time = 0,
               qr_error = None, qr_sqlcode = None, qr_sqlstate = None,
               qr_parameter_count = None, qr_output_parms = []\<rparr>
      in obj_get (query_result_object q) ''output_parms'' = None \<and>
         obj_get (query_result_object q) ''parameter_count'' = None)"

lemma query_result_tests:
  test_query_result_omitted_is_done_with_data_is_not_done
  test_query_result_omitted_is_done_dml_is_done test_query_result_explicit_is_done_false
  test_query_result_decodes_terse_arrays_via_column_names
  test_query_result_terse_without_columns_errors test_query_result_decodes_call_output_parms
  test_response_decodes_untagged_call_as_query_result
  test_query_result_omits_empty_output_parms_on_serialize
  unfolding test_query_result_omitted_is_done_with_data_is_not_done_def
    test_query_result_omitted_is_done_dml_is_done_def test_query_result_explicit_is_done_false_def
    test_query_result_decodes_terse_arrays_via_column_names_def
    test_query_result_terse_without_columns_errors_def
    test_query_result_decodes_call_output_parms_def
    test_response_decodes_untagged_call_as_query_result_def
    test_query_result_omits_empty_output_parms_on_serialize_def
  by (simp_all add: decode_run response_written fails_with_def contains_def terse_phrase_def
     CALL_OUT_JSON_def)

definition test_query_result_terse_row_longer_than_columns_errors :: bool where
  "test_query_result_terse_row_longer_than_columns_errors =
     fails_with (de_query_result (JObject [(''id'', JString ''q1''), (''success'', JBool True),
        (''metadata'', JObject [(''columns'', JArray [JObject [(''name'', JString ''A'')]])]),
        (''data'', JArray [JArray [JNumber (JInt 1), JNumber (JInt 2)]])]))
        ''terse row 0 has 2 values but metadata.columns has 1''"

definition test_query_result_rejects_non_object_or_array_row :: bool where
  "test_query_result_rejects_non_object_or_array_row =
     fails_with (de_query_result (JObject [(''id'', JString ''q1''), (''success'', JBool True),
        (''data'', JArray [JString ''not-a-row''])]))
       ''query row 0 must be a JSON object or array''"

definition test_query_result_terse_partial_row_uses_leading_names :: bool where
  "test_query_result_terse_partial_row_uses_leading_names =
     (case de_query_result (JObject [(''id'', JString ''q1''), (''success'', JBool True),
        (''metadata'', JObject [(''column_count'', JNumber (JInt 2)), (''columns'', JArray [JObject
        [(''name'', JString ''A'')], JObject [(''name'', JString ''B'')]])]), (''data'', JArray
        [JArray [JNumber (JInt 7)]])]) of
        Inr q \<Rightarrow> length (qr_data q) = 1 \<and> obj_get (qr_data q ! 0) ''A'' = Some
           (JNumber (JInt 7)) \<and>
          \<not> contains_key (qr_data q ! 0) ''B''
      | _ \<Rightarrow> False)"

definition test_job_log_entry_severity_null_float_u64_and_invalid :: bool where
  "test_job_log_entry_severity_null_float_u64_and_invalid =
     (let show_num = (\<lambda>b. if b = 4630896685587890176 then ''40.5'' else []);
          severity = (\<lambda>v. map_sum id jl_severity (de_job_log_entry show_num v))
      in severity (JObject [(''SEVERITY'', JNull)]) = Inr None \<and> severity (JObject []) = Inr
         None \<and>
         severity (JObject [(''SEVERITY'', JNumber (JFloat 4630896685587890176))]) = Inr (Some
            ''40.5'') \<and>
         severity (JObject [(''SEVERITY'', JNumber (JInt 9223372036854775808))]) = Inr (Some
            ''9223372036854775808'') \<and>
         fails_with (severity (JObject [(''SEVERITY'', JBool True)]))
            ''SEVERITY must be a string or number'')"

definition test_parameter_result_defaults_null_value_and_ccsid :: bool where
  "test_parameter_result_defaults_null_value_and_ccsid =
     ((case de_parameter_result (JObject [(''name'', JString ''P1'')]) of
         Inr p \<Rightarrow> pr_index p = 0 \<and> pr_type_name p = [] \<and> pr_precision p = 0
            \<and> pr_scale p = None \<and>
           pr_ccsid p = None \<and> pr_value p = None
       | _ \<Rightarrow> False) \<and>
      (case de_parameter_result (JObject [(''index'', JNumber (JInt 1)), (''name'', JString
         ''P1''), (''value'', JNull)]) of
         Inr p \<Rightarrow> pr_value p = None
       | _ \<Rightarrow> False) \<and>
      (case de_parameter_result (JObject [(''name'', JString ''P1''), (''ccsid'', JNumber (JInt
         37)), (''value'', JString ''x'')]) of
         Inr p \<Rightarrow> pr_ccsid p = Some 37 \<and> pr_value p = Some (JString ''x'')
       | _ \<Rightarrow> False))"

definition test_parameter_detail_defaults :: bool where
  "test_parameter_detail_defaults =
     (case de_parameter_detail (JObject []) of
        Inr p \<Rightarrow> pd_type_name p = [] \<and> pd_mode p = [] \<and> pd_precision p = 0
           \<and> pd_scale p = None \<and>
          pd_name p = []
      | _ \<Rightarrow> False)"

lemma row_and_parameter_tests:
  test_query_result_terse_row_longer_than_columns_errors
  test_query_result_rejects_non_object_or_array_row
  test_query_result_terse_partial_row_uses_leading_names
  test_job_log_entry_severity_null_float_u64_and_invalid
  test_parameter_result_defaults_null_value_and_ccsid test_parameter_detail_defaults
  unfolding test_query_result_terse_row_longer_than_columns_errors_def
    test_query_result_rejects_non_object_or_array_row_def
    test_query_result_terse_partial_row_uses_leading_names_def
    test_job_log_entry_severity_null_float_u64_and_invalid_def
    test_parameter_result_defaults_null_value_and_ccsid_def test_parameter_detail_defaults_def
  by (simp_all add: decode_run response_written response_read fails_with_def contains_def Let_def)

section \<open>The module's tests\<close>

definition response_tests :: "bool list" where
  "response_tests =
     [pong_round_trips, connected_round_trips, exited_round_trips,
      query_result_select_round_trips, query_result_dml_round_trips,
      prepared_statement_round_trips, cl_result_round_trips, error_response_round_trips,
      test_error_response_sql_state_and_sql_rc_aliases,
      test_query_metadata_omits_absent_job_on_serialize,
      test_query_result_sql_rc_and_sql_state_aliases,
      test_job_log_entry_severity_number_or_string, test_connected_version_defaults_when_absent,
      test_query_result_omitted_is_done_with_data_is_not_done,
      test_query_result_omitted_is_done_dml_is_done, test_query_result_explicit_is_done_false,
      test_query_result_decodes_terse_arrays_via_column_names,
      test_query_result_terse_without_columns_errors, test_query_result_decodes_call_output_parms,
      test_response_decodes_untagged_call_as_query_result,
      test_query_result_omits_empty_output_parms_on_serialize,
      test_query_result_terse_row_longer_than_columns_errors,
      test_query_result_rejects_non_object_or_array_row,
      test_query_result_terse_partial_row_uses_leading_names,
      test_job_log_entry_severity_null_float_u64_and_invalid,
      test_parameter_result_defaults_null_value_and_ccsid, test_parameter_detail_defaults]"

lemma response_tests_pass: "list_all id response_tests"
  unfolding response_tests_def
  by (simp add: response_round_trips response_aliases query_result_tests row_and_parameter_tests)

end
