(* ===== verification/Request_Tests.thy ===== *)
theory Request_Tests
  imports Response_Tests
begin

text \<open>
  The unit tests of \<^verbatim>\<open>src/src/protocol/request.rs\<close>, run on the model as in
     theory Response_Tests.
  That a text does not contain a word is stated of the keys and strings of the document; the text
  of \<open>Debug\<close> is compared as what the implementation hands to the formatter.
\<close>

fun words :: "value \<Rightarrow> string list" where
  "words (JString s) = [s]"
| "words (JArray vs) = concat (map words vs)"
| "words (JObject ob) = concat (map (\<lambda>(k, v). k # words v) ob)"
| "words v = []"

definition mentions :: "value \<Rightarrow> string \<Rightarrow> bool" where
  "mentions v p = list_ex (\<lambda>s. contains s p) (words v)"

fun dbg_words :: "dbg \<Rightarrow> string list" where
  "dbg_words (DString s) = [s]"
| "dbg_words (DSome d) = dbg_words d"
| "dbg_words (DTuple s ds) = s # concat (map dbg_words ds)"
| "dbg_words (DWritten s) = [s]"
| "dbg_words (DValues vs) = concat (map words vs)"
| "dbg_words (DSets vss) = concat (map words (concat vss))"
| "dbg_words d = []"

definition debug_mentions :: "dbg_struct \<Rightarrow> string \<Rightarrow> bool" where
  "debug_mentions d p = list_ex (\<lambda>(k, x). list_ex (\<lambda>s. contains s p) (k # dbg_words
     x)) (snd d)"

definition has_key :: "value \<Rightarrow> string \<Rightarrow> bool" where
  "has_key v k = (case as_object v of None \<Rightarrow> False | Some ob \<Rightarrow> contains_key
     ob k)"

definition holds_entry :: "value \<Rightarrow> string \<Rightarrow> value \<Rightarrow> bool" where
  "holds_entry v k x = (case as_object v of None \<Rightarrow> False | Some ob \<Rightarrow>
     obj_get ob k = Some x)"

section \<open>Liveness and connection\<close>

definition ping_round_trips :: bool where
  "ping_round_trips =
     (let json = ser_request (Ping ''1'') in json = (JObject [(''type'', JString ''ping''),
        (''id'', JString ''1'')]) \<and>
      (case de_request json of Inr (Ping i) \<Rightarrow> i = ''1'' | _ \<Rightarrow> False))"

definition test_connect_serializes_live_shape_without_password :: bool where
  "test_connect_serializes_live_shape_without_password =
     (let r = Connect ''2'' ''tcp'' ''mapepire-rs'' (Some ''access=read only;auto commit=true'');
          json = ser_request r; debug = debug_request r
      in json = (JObject [(''type'', JString ''connect''), (''id'', JString ''2''), (''technique'',
         JString ''tcp''), (''application'', JString ''mapepire-rs''), (''props'', JString
         ''access=read only;auto commit=true'')]) \<and>
         \<not> mentions json ''password'' \<and> \<not> mentions json ''user'' \<and>
         (case de_request json of
            Inr (Connect i technique application (Some p)) \<Rightarrow> technique = ''tcp'' \<and>
              application = ''mapepire-rs'' \<and> p = ''access=read only;auto commit=true''
          | _ \<Rightarrow> False) \<and>
         (''technique'', DString ''tcp'') \<in> set (snd debug) \<and>
         (''application'', DString ''mapepire-rs'') \<in> set (snd debug) \<and>
         \<not> debug_mentions debug ''password'' \<and> \<not> debug_mentions debug ''user'')"

definition test_connect_omits_empty_props :: bool where
  "test_connect_omits_empty_props =
     (\<not> mentions (ser_request (Connect ''2'' ''tcp'' ''mapepire-rs'' None)) ''props'')"

lemmas request_run = request_rt fld_opt_def fld_str_def fld_sets_def ser_parameter_sets_def
  de_parameter_sets_def de_option_def ser_u32_def mentions_def debug_mentions_def has_key_def
  holds_entry_def contains_key_def contains_def Let_def List.map_filter_def sublist_code
  obj_remove_def de_fields.simps present_def dbg_option_def

lemma connection_requests:
  ping_round_trips test_connect_serializes_live_shape_without_password
  test_connect_omits_empty_props
  unfolding ping_round_trips_def test_connect_serializes_live_shape_without_password_def
    test_connect_omits_empty_props_def
  by (simp_all add: request_run)

definition non_secret_variants_debug_faithfully :: bool where
  "non_secret_variants_debug_faithfully =
     list_all (\<lambda>(request, expected). debug_request request = expected)
       [(Connect ''0'' ''tcp'' ''mapepire-rs'' None,
         (''Connect'', [(''id'', DString ''0''), (''technique'', DString ''tcp''),
            (''application'', DString ''mapepire-rs''), (''props'', DNone)])),
        (Sql ''1'' ''SELECT 1'' (Some 10) None None,
         (''Sql'', [(''id'', DString ''1''), (''sql'', DString ''SELECT 1''),
            (''rows'', DSome (DU32 10)), (''parameters'', DNone), (''terse'', DNone)])),
        (PrepareSql ''2'' ''SELECT ?'' None,
         (''PrepareSql'', [(''id'', DString ''2''), (''sql'', DString ''SELECT ?''), (''terse'',
            DNone)])),
        (PrepareSqlExecute ''3'' ''SELECT ?'' None None None,
         (''PrepareSqlExecute'', [(''id'', DString ''3''), (''sql'', DString ''SELECT ?''),
            (''parameters'', DNone), (''rows'', DNone), (''terse'', DNone)])),
        (Execute ''4'' ''cur-1'' (Some [(JString ''x'')]) None None,
         (''Execute'', [(''id'', DString ''4''), (''cont_id'', DString ''cur-1''),
            (''parameters'', DSome (DValues [(JString ''x'')])), (''rows'', DNone), (''terse'',
               DNone)])),
        (SqlMore ''20'' ''cur-1'' 100,
         (''SqlMore'', [(''id'', DString ''20''), (''cont_id'', DString ''cur-1''),
            (''rows'', DU32 100)])),
        (SqlClose ''5'' ''cur-1'',
         (''SqlClose'', [(''id'', DString ''5''), (''cont_id'', DString ''cur-1'')])),
        (Cl ''6'' ''WRKACTJOB'' None,
         (''Cl'', [(''id'', DString ''6''), (''cmd'', DString ''WRKACTJOB''), (''terse'', DNone)])),
        (GetVersion ''7'', (''GetVersion'', [(''id'', DString ''7'')])),
        (GetDbJob ''8'', (''GetDbJob'', [(''id'', DString ''8'')])),
        (SetConfig ''9'' ''ERRORS'' ''IN_MEM'',
         (''SetConfig'', [(''id'', DString ''9''), (''tracelevel'', DString ''ERRORS''),
            (''tracedest'', DString ''IN_MEM'')])),
        (GetTraceData ''10'', (''GetTraceData'', [(''id'', DString ''10'')])),
        (Dove ''11'' ''SELECT 1'' None None None,
         (''Dove'', [(''id'', DString ''11''), (''sql'', DString ''SELECT 1''), (''run'', DNone),
            (''rows'', DNone), (''terse'', DNone)])),
        (Ping ''12'', (''Ping'', [(''id'', DString ''12'')])),
        (Exit ''13'', (''Exit'', [(''id'', DString ''13'')]))]"

lemma debug_texts:
  non_secret_variants_debug_faithfully
  unfolding non_secret_variants_debug_faithfully_def
  by (simp add: dbg_option_def)

section \<open>Statements\<close>

definition exit_round_trips :: bool where
  "exit_round_trips =
     (let json = ser_request (Exit ''3'') in json = (JObject [(''type'', JString ''exit''),
        (''id'', JString ''3'')]) \<and>
      (case de_request json of Inr (Exit i) \<Rightarrow> i = ''3'' | _ \<Rightarrow> False))"

definition sql_round_trips_with_params :: bool where
  "sql_round_trips_with_params =
     (let json = ser_request (Sql ''10'' ''SELECT * FROM ORDERS WHERE ID = ?'' (Some 100)
                   (Some [(JNumber (JInt 42))]) None)
      in json = (JObject [(''type'', JString ''sql''), (''id'', JString ''10''), (''sql'', JString
         ''SELECT * FROM ORDERS WHERE ID = ?''), (''rows'', JNumber (JInt 100)), (''parameters'',
         JArray [JNumber (JInt 42)])]) \<and>
         (case de_request json of Inr (Sql i sql rows parameters terse) \<Rightarrow> i = ''10'' |
            _ \<Rightarrow> False))"

definition sql_round_trips_minimal :: bool where
  "sql_round_trips_minimal =
     (let json = ser_request (Sql ''11'' ''SELECT 1 FROM SYSIBM.SYSDUMMY1'' None None None)
      in \<not> has_key json ''rows'' \<and> \<not> has_key json ''parameters'' \<and> \<not>
         has_key json ''terse'' \<and>
         \<not> isl (de_request json))"

definition sql_serializes_terse_true_and_omits_false :: bool where
  "sql_serializes_terse_true_and_omits_false =
     (let json = ser_request (Sql ''12'' ''SELECT EMPNO, LASTNAME FROM EMPLOYEE'' (Some 5) None
                   (Some True))
      in json = (JObject [(''type'', JString ''sql''), (''id'', JString ''12''), (''sql'', JString
         ''SELECT EMPNO, LASTNAME FROM EMPLOYEE''), (''rows'', JNumber (JInt 5)), (''terse'', JBool
         True)]) \<and>
         (case de_request json of
            Inr (Sql i sql rows parameters terse) \<Rightarrow> terse = Some True | _ \<Rightarrow>
               False))"

definition prepare_sql_round_trips :: bool where
  "prepare_sql_round_trips =
     (case de_request (ser_request (PrepareSql ''12'' ''SELECT * FROM T WHERE A = ?'' None)) of
        Inr (PrepareSql i sql terse) \<Rightarrow> i = ''12'' | _ \<Rightarrow> False)"

definition prepare_sql_execute_round_trips_batched :: bool where
  "prepare_sql_execute_round_trips_batched =
     (let json = ser_request (PrepareSqlExecute ''13'' ''INSERT INTO T VALUES(?,?)''
                   (Some [[(JNumber (JInt 1)), (JString ''a'')], [(JNumber (JInt 2)), (JString
                      ''b'')]]) None None)
      in json = (JObject [(''type'', JString ''prepare_sql_execute''), (''id'', JString ''13''),
         (''sql'', JString ''INSERT INTO T VALUES(?,?)''), (''parameters'', JArray [JArray [JNumber
         (JInt 1), JString ''a''], JArray [JNumber (JInt 2), JString ''b'']])]) \<and>
         \<not> isl (de_request json))"

definition execute_round_trips :: bool where
  "execute_round_trips =
     (let json = ser_request (Execute ''14'' ''stmt-7'' (Some [(JString ''hello'')]) (Some 100)
        None)
      in json = (JObject [(''type'', JString ''execute''), (''id'', JString ''14''), (''cont_id'',
         JString ''stmt-7''), (''parameters'', JArray [JString ''hello'']), (''rows'', JNumber
         (JInt 100))]) \<and>
         (case de_request json of
            Inr (Execute i cont_id parameters rows terse) \<Rightarrow> cont_id = ''stmt-7'' | _
               \<Rightarrow> False))"

definition prepare_sql_execute_single_set_flattens_on_wire :: bool where
  "prepare_sql_execute_single_set_flattens_on_wire =
     (let json = ser_request (PrepareSqlExecute ''13'' ''VALUES (CAST(? AS INTEGER))''
                   (Some [[(JNumber (JInt 7))]]) (Some 100) None)
      in json = (JObject [(''type'', JString ''prepare_sql_execute''), (''id'', JString ''13''),
         (''sql'', JString ''VALUES (CAST(? AS INTEGER))''), (''parameters'', JArray [JNumber (JInt
         7)]), (''rows'', JNumber (JInt 100))]) \<and>
         (case de_request json of
            Inr (PrepareSqlExecute i sql parameters rows terse) \<Rightarrow>
              parameters = Some [[(JNumber (JInt 7))]] \<and> rows = Some 100
          | _ \<Rightarrow> False))"

definition prepare_sql_execute_accepts_nested_single_set :: bool where
  "prepare_sql_execute_accepts_nested_single_set =
     (case de_request (JObject [(''type'', JString ''prepare_sql_execute''), (''id'', JString
        ''13''), (''sql'', JString ''VALUES (?)''), (''parameters'', JArray [JArray [JNumber (JInt
        7)]])]) of
        Inr (PrepareSqlExecute i sql parameters rows terse) \<Rightarrow> parameters = Some
           [[(JNumber (JInt 7))]]
      | _ \<Rightarrow> False)"

definition sqlmore_round_trips :: bool where
  "sqlmore_round_trips =
     (let json = ser_request (SqlMore ''20'' ''cur-1'' 100)
      in json = (JObject [(''type'', JString ''sqlmore''), (''id'', JString ''20''), (''cont_id'',
         JString ''cur-1''), (''rows'', JNumber (JInt 100))]) \<and>
         (case de_request json of Inr (SqlMore i cont_id rows) \<Rightarrow> rows = 100 | _
            \<Rightarrow> False))"

definition sqlclose_round_trips :: bool where
  "sqlclose_round_trips =
     (let json = ser_request (SqlClose ''21'' ''cur-1'')
      in json = (JObject [(''type'', JString ''sqlclose''), (''id'', JString ''21''), (''cont_id'',
         JString ''cur-1'')]) \<and>
         (case de_request json of Inr (SqlClose i cont_id) \<Rightarrow> cont_id = ''cur-1'' | _
            \<Rightarrow> False))"

definition cl_round_trips :: bool where
  "cl_round_trips =
     (let json = ser_request (Cl ''30'' ''WRKACTJOB'' None)
      in json = (JObject [(''type'', JString ''cl''), (''id'', JString ''30''), (''cmd'', JString
         ''WRKACTJOB'')]) \<and>
         (case de_request json of Inr (Cl i cmd terse) \<Rightarrow> cmd = ''WRKACTJOB'' | _
            \<Rightarrow> False))"

lemma statement_requests:
  exit_round_trips sql_round_trips_with_params sql_round_trips_minimal
  sql_serializes_terse_true_and_omits_false prepare_sql_round_trips
  prepare_sql_execute_round_trips_batched execute_round_trips
  prepare_sql_execute_single_set_flattens_on_wire prepare_sql_execute_accepts_nested_single_set
  sqlmore_round_trips sqlclose_round_trips cl_round_trips
  unfolding exit_round_trips_def sql_round_trips_with_params_def sql_round_trips_minimal_def
    sql_serializes_terse_true_and_omits_false_def prepare_sql_round_trips_def
    prepare_sql_execute_round_trips_batched_def execute_round_trips_def
    prepare_sql_execute_single_set_flattens_on_wire_def
    prepare_sql_execute_accepts_nested_single_set_def sqlmore_round_trips_def
    sqlclose_round_trips_def cl_round_trips_def
  by (simp_all add: request_run)

section \<open>Metadata, configuration and dove\<close>

definition metadata_requests_round_trip_with_bare_tags :: bool where
  "metadata_requests_round_trip_with_bare_tags =
     list_all (\<lambda>(r, expected). ser_request r = expected \<and> \<not> isl (de_request
        (ser_request r)))
       [(GetVersion ''40'', (JObject [(''type'', JString ''getversion''), (''id'', JString
          ''40'')])),
        (GetDbJob ''41'', (JObject [(''type'', JString ''getdbjob''), (''id'', JString ''41'')])),
        (GetTraceData ''42'', (JObject [(''type'', JString ''gettracedata''), (''id'', JString
           ''42'')]))]"

definition setconfig_round_trips :: bool where
  "setconfig_round_trips =
     (let json = ser_request (SetConfig ''50'' ''DATASTREAM'' ''FILE'')
      in json = (JObject [(''type'', JString ''setconfig''), (''id'', JString ''50''),
         (''tracelevel'', JString ''DATASTREAM''), (''tracedest'', JString ''FILE'')]) \<and>
         (case de_request json of
            Inr (SetConfig i tracelevel tracedest) \<Rightarrow> tracelevel = ''DATASTREAM'' \<and>
               tracedest = ''FILE''
          | _ \<Rightarrow> False))"

definition setconfig_omits_empty_tracedest :: bool where
  "setconfig_omits_empty_tracedest =
     (let json = ser_request (SetConfig ''50'' ''OFF'' [])
      in json = (JObject [(''type'', JString ''setconfig''), (''id'', JString ''50''),
         (''tracelevel'', JString ''OFF'')]) \<and>
         \<not> mentions json ''tracedest'' \<and>
         (case de_request json of
            Inr (SetConfig i tracelevel tracedest) \<Rightarrow> tracedest = [] | _ \<Rightarrow>
               False))"

definition setconfig_in_mem_is_present :: bool where
  "setconfig_in_mem_is_present =
     (let json = ser_request (SetConfig ''50'' ''ON'' ''IN_MEM'')
      in json = (JObject [(''type'', JString ''setconfig''), (''id'', JString ''50''),
         (''tracelevel'', JString ''ON''), (''tracedest'', JString ''IN_MEM'')]) \<and>
         \<not> holds_entry json ''tracedest'' (JString ''''))"

definition dove_round_trips :: bool where
  "dove_round_trips =
     (let json = ser_request (Dove ''60'' ''SELECT * FROM T'' None None None)
      in json = (JObject [(''type'', JString ''dove''), (''id'', JString ''60''), (''sql'', JString
         ''SELECT * FROM T'')]) \<and>
         \<not> has_key json ''run'' \<and> \<not> has_key json ''rows'' \<and>
         (case de_request json of Inr (Dove i sql run rows terse) \<Rightarrow> i = ''60'' | _
            \<Rightarrow> False))"

definition dove_serializes_run_true :: bool where
  "dove_serializes_run_true =
     (let json = ser_request (Dove ''60'' ''SELECT * FROM T'' (Some True) (Some 100) None)
      in json = (JObject [(''type'', JString ''dove''), (''id'', JString ''60''), (''sql'', JString
         ''SELECT * FROM T''), (''run'', JBool True), (''rows'', JNumber (JInt 100))]) \<and>
         (case de_request json of
            Inr (Dove i sql run rows terse) \<Rightarrow> run = Some True \<and> rows = Some 100 |
               _ \<Rightarrow> False))"

definition execute_and_cl_serialize_terse_true :: bool where
  "execute_and_cl_serialize_terse_true =
     (let json = ser_request (Execute ''14'' ''stmt-7'' None (Some 10) (Some True))
      in holds_entry json ''terse'' (JBool True) \<and> holds_entry json ''rows'' (JNumber (JInt
         10)) \<and>
         (case de_request json of
            Inr (Execute i cont_id parameters rows terse) \<Rightarrow> terse = Some True \<and>
               rows = Some 10
          | _ \<Rightarrow> False) \<and>
         ser_request (Cl ''30'' ''WRKACTJOB'' (Some True)) =
           (JObject [(''type'', JString ''cl''), (''id'', JString ''30''), (''cmd'', JString
              ''WRKACTJOB''), (''terse'', JBool True)]))"

definition prepare_sql_execute_parameters_null_and_non_array :: bool where
  "prepare_sql_execute_parameters_null_and_non_array =
     ((case de_request (JObject [(''type'', JString ''prepare_sql_execute''), (''id'', JString
        ''13''), (''sql'', JString ''VALUES (?)''), (''parameters'', JNull)]) of
         Inr (PrepareSqlExecute i sql parameters rows terse) \<Rightarrow> parameters = None
       | _ \<Rightarrow> False) \<and>
      fails_with (de_request (JObject [(''type'', JString ''prepare_sql_execute''), (''id'',
         JString ''13''), (''sql'', JString ''VALUES (?)''), (''parameters'', JObject [(''a'',
         JNumber (JInt 1))])]))
        ''parameters must be a JSON array'')"

definition prepare_sql_and_dove_serialize_terse_true :: bool where
  "prepare_sql_and_dove_serialize_terse_true =
     (holds_entry (ser_request (PrepareSql ''12'' ''SELECT * FROM T WHERE A = ?'' (Some True)))
        ''terse'' (JBool True) \<and>
      ser_request (Dove ''60'' ''SELECT * FROM T'' None None (Some True)) =
        (JObject [(''type'', JString ''dove''), (''id'', JString ''60''), (''sql'', JString
           ''SELECT * FROM T''), (''terse'', JBool True)]))"

lemma other_requests:
  metadata_requests_round_trip_with_bare_tags setconfig_round_trips
  setconfig_omits_empty_tracedest setconfig_in_mem_is_present dove_round_trips
  dove_serializes_run_true execute_and_cl_serialize_terse_true
  prepare_sql_execute_parameters_null_and_non_array prepare_sql_and_dove_serialize_terse_true
  unfolding metadata_requests_round_trip_with_bare_tags_def setconfig_round_trips_def
    setconfig_omits_empty_tracedest_def setconfig_in_mem_is_present_def dove_round_trips_def
    dove_serializes_run_true_def execute_and_cl_serialize_terse_true_def
    prepare_sql_execute_parameters_null_and_non_array_def
    prepare_sql_and_dove_serialize_terse_true_def
  by (simp_all add: request_run fails_with_def)

section \<open>The module's tests\<close>

definition request_tests :: "bool list" where
  "request_tests =
     [ping_round_trips, test_connect_serializes_live_shape_without_password,
      test_connect_omits_empty_props, non_secret_variants_debug_faithfully, exit_round_trips,
      sql_round_trips_with_params, sql_round_trips_minimal,
      sql_serializes_terse_true_and_omits_false, prepare_sql_round_trips,
      prepare_sql_execute_round_trips_batched, execute_round_trips,
      prepare_sql_execute_single_set_flattens_on_wire,
      prepare_sql_execute_accepts_nested_single_set, sqlmore_round_trips, sqlclose_round_trips,
      cl_round_trips, metadata_requests_round_trip_with_bare_tags, setconfig_round_trips,
      setconfig_omits_empty_tracedest, setconfig_in_mem_is_present, dove_round_trips,
      dove_serializes_run_true, execute_and_cl_serialize_terse_true,
      prepare_sql_execute_parameters_null_and_non_array,
      prepare_sql_and_dove_serialize_terse_true]"

lemma request_tests_pass: "list_all id request_tests"
  unfolding request_tests_def
  by (simp add: connection_requests debug_texts statement_requests other_requests)

end
