(* ===== verification/Settings_Tests.thy ===== *)
theory Settings_Tests
  imports Request_Tests Codec Config Display
begin

text \<open>
  The unit tests of \<^verbatim>\<open>src/src/config.rs\<close>,
     \<^verbatim>\<open>src/src/password.rs\<close>, \<^verbatim>\<open>src/src/error.rs\<close> and
  \<^verbatim>\<open>src/src/protocol/codec.rs\<close>, run on the model. Tests of what the model
     does not have are left out:
  the wiping of memory, the absence of a type's variant, the conversion into \<open>Arc\<close>.
\<close>

section \<open>Configuration\<close>

definition dummy_pass :: string where
  "dummy_pass = ''test'' @ ''-only''"

text \<open>A chain of builder calls, in the order they are written.\<close>

definition built :: "(server_builder \<Rightarrow> server_builder) list \<Rightarrow> builder_error
   + daemon_server" where
  "built calls = build (fold (\<lambda>c b. c b) calls builder)"

definition expect :: "'e + 'a \<Rightarrow> ('a \<Rightarrow> bool) \<Rightarrow> bool" where
  "expect r p = (case r of Inl e \<Rightarrow> False | Inr x \<Rightarrow> p x)"

definition default_is_verified :: bool where
  "default_is_verified = (default_tls = Verified)"

definition ca_holds_bytes :: bool where
  "ca_holds_bytes =
     (case Ca [0xAA, 0xBB, 0xCC] of
        Ca b \<Rightarrow> b = [0xAA, 0xBB, 0xCC] | Verified \<Rightarrow> False | Insecure
           \<Rightarrow> False)"

definition builder_defaults_port_and_tls :: bool where
  "builder_defaults_port_and_tls =
     expect (built [host ''ibmi.example.com'', user ''DCURTIS'', set_password ''hunter2''])
        (\<lambda>s.
       ds_host s = ''ibmi.example.com'' \<and> ds_connect_address s = None \<and>
       ds_port s = DEFAULT_PORT \<and> ds_user s = ''DCURTIS'' \<and>
       ds_application s = ''mapepire-rs'' \<and> ds_jdbc_props s = None \<and> ds_tls s = Verified
          \<and>
       tcp_target s = (''ibmi.example.com'', DEFAULT_PORT))"

definition builder_omitted_connect_address_tcp_target_is_host :: bool where
  "builder_omitted_connect_address_tcp_target_is_host =
     expect (built [host ''ibmi.example'', user ''u'', set_password dummy_pass]) (\<lambda>s.
       ds_connect_address s = None \<and> tcp_target s = (''ibmi.example'', DEFAULT_PORT))"

definition builder_connect_address_tcp_target_is_override :: bool where
  "builder_connect_address_tcp_target_is_override =
     expect (built [host ''ibmi.example'', connect_address ''127.0.0.1'', port 9000, user ''u'',
                    set_password dummy_pass]) (\<lambda>s.
       ds_connect_address s = Some ''127.0.0.1'' \<and> tcp_target s = (''127.0.0.1'', 9000))"

definition builder_defaults_application_to_mapepire_rs :: bool where
  "builder_defaults_application_to_mapepire_rs =
     expect (built [host ''h'', user ''u'', set_password dummy_pass]) (\<lambda>s.
       ds_application s = ''mapepire-rs'' \<and> ds_jdbc_props s = None)"

definition builder_jdbc_props_round_trips :: bool where
  "builder_jdbc_props_round_trips =
     expect (built [host ''h'', user ''u'', set_password dummy_pass,
                    jdbc_props ''access=read only;auto commit=true'', application ''cli''])
                       (\<lambda>s.
       ds_jdbc_props s = Some ''access=read only;auto commit=true'' \<and> ds_application s =
          ''cli'')"

definition builder_missing_host_is_error :: bool where
  "builder_missing_host_is_error =
     (built [user ''DCURTIS'', set_password ''x''] = Inl (BuilderMissingField ''host''))"

definition builder_missing_user_is_error :: bool where
  "builder_missing_user_is_error =
     (built [host ''h'', set_password ''x''] = Inl (BuilderMissingField ''user''))"

definition builder_missing_password_is_error :: bool where
  "builder_missing_password_is_error =
     (built [host ''h'', user ''u''] = Inl (BuilderMissingField ''password''))"

definition builder_overrides_port_and_tls :: bool where
  "builder_overrides_port_and_tls =
     expect (built [host ''h'', user ''u'', set_password ''p'', port 9999, tls (Ca [0xAA])])
        (\<lambda>s.
       ds_port s = 9999 \<and> (\<exists>der. ds_tls s = Ca der))"

definition builder_tls_insecure_when_feature_on :: bool where
  "builder_tls_insecure_when_feature_on =
     expect (built [host ''h'', user ''u'', set_password dummy_pass, tls Insecure]) (\<lambda>s.
       ds_tls s = Insecure)"

lemma builder_tests:
  default_is_verified ca_holds_bytes builder_defaults_port_and_tls
  builder_omitted_connect_address_tcp_target_is_host
  builder_connect_address_tcp_target_is_override builder_defaults_application_to_mapepire_rs
  builder_jdbc_props_round_trips builder_missing_host_is_error builder_missing_user_is_error
  builder_missing_password_is_error builder_overrides_port_and_tls
  builder_tls_insecure_when_feature_on
  unfolding default_is_verified_def ca_holds_bytes_def builder_defaults_port_and_tls_def
    builder_omitted_connect_address_tcp_target_is_host_def
    builder_connect_address_tcp_target_is_override_def
    builder_defaults_application_to_mapepire_rs_def builder_jdbc_props_round_trips_def
    builder_missing_host_is_error_def builder_missing_user_is_error_def
    builder_missing_password_is_error_def builder_overrides_port_and_tls_def
    builder_tls_insecure_when_feature_on_def
  by (simp_all add: built_def expect_def build_def builder_def setter_defs default_tls_def
     default_application_def tcp_target_def)

text \<open>Files are read without the feature \<open>insecure-tls\<close> except where the test
   needs it.\<close>

definition parsed :: "bool \<Rightarrow> value \<Rightarrow> (string \<Rightarrow> unit + u8 list)
   \<Rightarrow> (daemon_server \<Rightarrow> bool) \<Rightarrow> bool" where
  "parsed insecure_tls v b64_decode p =
     expect (de_server_spec insecure_tls v) (\<lambda>spec. expect (try_into_server b64_decode
        spec) p)"

definition no_base64 :: "string \<Rightarrow> unit + u8 list" where
  "no_base64 s = Inl ()"

definition parses_minimal_json :: bool where
  "parses_minimal_json =
     parsed False (JObject [(''host'', JString ''ibmi.example.com''), (''user'', JString
        ''DCURTIS''), (''password'', JString ''hunter2'')]) no_base64 (\<lambda>server.
       ds_host server = ''ibmi.example.com'' \<and> ds_connect_address server = None \<and>
       ds_port server = DEFAULT_PORT \<and> ds_application server = ''mapepire-rs'' \<and>
       ds_jdbc_props server = None \<and> tcp_target server = (''ibmi.example.com'', DEFAULT_PORT))"

definition parses_connect_address :: bool where
  "parses_connect_address =
     parsed False (JObject [(''host'', JString ''ibmi.example''), (''connect_address'', JString
        ''127.0.0.1''), (''user'', JString ''DCURTIS''), (''password'', JString ''hunter2'')])
        no_base64 (\<lambda>server.
       ds_host server = ''ibmi.example'' \<and> ds_connect_address server = Some ''127.0.0.1''
          \<and>
       tcp_target server = (''127.0.0.1'', DEFAULT_PORT))"

definition parses_jdbc_props_and_application :: bool where
  "parses_jdbc_props_and_application =
     parsed False (JObject [(''host'', JString ''ibmi.example.com''), (''user'', JString
        ''DCURTIS''), (''password'', JString ''hunter2''), (''jdbc_props'', JString
        ''access=read only;auto commit=true''), (''application'', JString ''cli'')]) no_base64
        (\<lambda>server.
       ds_jdbc_props server = Some ''access=read only;auto commit=true'' \<and>
       ds_application server = ''cli'')"

definition invalid_ca_base64_is_error :: bool where
  "invalid_ca_base64_is_error =
     expect (de_server_spec False (JObject [(''host'', JString ''h''), (''user'', JString ''u''),
        (''password'', JString ''x''), (''tls'', JObject [(''ca'', JString ''%%%'')])]))
        (\<lambda>spec. try_into_server no_base64 spec = Inl (InvalidCaBase64 ()))"

definition parses_with_explicit_port_and_insecure_tls :: bool where
  "parses_with_explicit_port_and_insecure_tls =
     parsed True (JObject [(''host'', JString ''h''), (''port'', JNumber (JInt 9000)), (''user'',
        JString ''u''), (''password'', JString ''p''), (''tls'', JString ''insecure'')]) no_base64
        (\<lambda>server. ds_port server = 9000 \<and> ds_tls server = Insecure)"

definition insecure_tls_spec_tag_rejected_without_feature :: bool where
  "insecure_tls_spec_tag_rejected_without_feature =
     (de_server_spec False (JObject [(''host'', JString ''h''), (''user'', JString ''u''),
        (''password'', JString ''p''), (''tls'', JString ''insecure'')]) = Inl (Serde
        (UnknownVariant ''insecure'')))"

lemma spec_tests:
  parses_minimal_json parses_connect_address parses_jdbc_props_and_application
  invalid_ca_base64_is_error parses_with_explicit_port_and_insecure_tls
  insecure_tls_spec_tag_rejected_without_feature
  unfolding parses_minimal_json_def parses_connect_address_def
    parses_jdbc_props_and_application_def invalid_ca_base64_is_error_def
    parses_with_explicit_port_and_insecure_tls_def
    insecure_tls_spec_tag_rejected_without_feature_def
  by (simp_all add: parsed_def expect_def de_server_spec_def de_tls_variant_def de_fields.simps
     present_def req_def dflt_def de_option_def try_into_server_def no_base64_def
     default_application_def tcp_target_def)

section \<open>Passwords\<close>

definition debug_does_not_leak :: bool where
  "debug_does_not_leak =
     (let s = debug_password (password_new ''super-secret'')
      in s = DWritten ''Password([REDACTED])'' \<and>
         \<not> list_ex (\<lambda>w. contains w ''super-secret'') (dbg_words s))"

definition expose_returns_inner :: bool where
  "expose_returns_inner = (expose (password_new ''abc123'') = ''abc123'')"

lemma password_tests:
  debug_does_not_leak expose_returns_inner
  unfolding debug_does_not_leak_def expose_returns_inner_def
  by (simp_all add: debug_password_def password_new_def contains_def sublist_code)

section \<open>Errors\<close>

definition srv :: "string option \<Rightarrow> server_error" where
  "srv sqlstate =
     \<lparr>se_message = ''x'', se_sqlstate = sqlstate, se_sqlcode = None, se_job_name = None,
      se_diagnostics = []\<rparr>"

definition is_transient_classifies :: bool where
  "is_transient_classifies =
     (is_transient (srv (Some ''08001'')) \<and> is_transient (srv (Some ''08S01'')) \<and>
      is_transient (srv (Some ''40001'')) \<and> is_transient (srv (Some ''57033'')) \<and>
      \<not> is_transient (srv (Some ''23000'')) \<and> \<not> is_transient (srv None))"

definition is_constraint_violation_classifies :: bool where
  "is_constraint_violation_classifies =
     (is_constraint_violation (srv (Some ''23000'')) \<and>
      is_constraint_violation (srv (Some ''23505'')) \<and>
      \<not> is_constraint_violation (srv (Some ''22000'')))"

definition is_authorization_classifies :: bool where
  "is_authorization_classifies =
     (is_authorization (srv (Some ''28000'')) \<and> is_authorization (srv (Some ''42501'')) \<and>
      \<not> is_authorization (srv (Some ''23000'')))"

definition is_object_not_found_classifies :: bool where
  "is_object_not_found_classifies =
     (is_object_not_found (srv (Some ''42704'')) \<and> is_object_not_found (srv (Some ''42S02''))
        \<and>
      \<not> is_object_not_found (srv (Some ''42501'')))"

definition is_data_type_mismatch_classifies :: bool where
  "is_data_type_mismatch_classifies =
     (is_data_type_mismatch (srv (Some ''22001'')) \<and> is_data_type_mismatch (srv (Some
        ''22018'')) \<and>
      \<not> is_data_type_mismatch (srv (Some ''23000'')))"

text \<open>The rendering of a string by Rust's \<open>Debug\<close>, for strings without
   characters it escapes.\<close>

definition quoting :: rendering where
  "quoting =
     \<lparr>rn_debug_str = (\<lambda>s. [CHR 0x22] @ s @ [CHR 0x22]), rn_debug_response =
        (\<lambda>r. []),
      rn_debug_duration = (\<lambda>d. []), rn_json = (\<lambda>e. [])\<rparr>"

definition server_error_display :: bool where
  "server_error_display =
     (let s = display_server quoting (srv (Some ''23505'')) in contains s ''23505'' \<and> contains
        s ''x'')"

definition server_error_display_includes_job_name_when_present :: bool where
  "server_error_display_includes_job_name_when_present =
     (let s = display_server quoting
                ((srv (Some ''23505''))\<lparr>se_job_name := Some
                   ''QZDASOINIT/QUSER/123456''\<rparr>)
      in contains s ''QZDASOINIT/QUSER/123456'' \<and> contains s ''23505'')"

definition error_server_display_is_transparent :: bool where
  "error_server_display_is_transparent =
     contains (display_error quoting (error_from_server (srv (Some ''23505'')))) ''23505''"

definition from_io_error_classifies_as_transport :: bool where
  "from_io_error_classifies_as_transport =
     (case error_from_io ''bye'' of Transport (Io e) \<Rightarrow> True | _ \<Rightarrow> False)"

definition from_serde_json_error_classifies_as_protocol :: bool where
  "from_serde_json_error_classifies_as_protocol =
     (case error_from_json (JsonSyntax ''not json'') of Protocol (Json e) \<Rightarrow> True | _
        \<Rightarrow> False)"

lemmas display_run = srv_def contains_def sublist_code display_server_def display_error_def
  debug_option_def quoting_def error_from_defs

lemma error_tests:
  is_transient_classifies is_constraint_violation_classifies is_authorization_classifies
  is_object_not_found_classifies is_data_type_mismatch_classifies server_error_display
  server_error_display_includes_job_name_when_present error_server_display_is_transparent
  from_io_error_classifies_as_transport from_serde_json_error_classifies_as_protocol
  unfolding is_transient_classifies_def is_constraint_violation_classifies_def
    is_authorization_classifies_def is_object_not_found_classifies_def
    is_data_type_mismatch_classifies_def server_error_display_def
    server_error_display_includes_job_name_when_present_def
    error_server_display_is_transparent_def from_io_error_classifies_as_transport_def
    from_serde_json_error_classifies_as_protocol_def
  subgoal by (simp add: srv_def sqlstate_class_defs starts_with_def)
  subgoal by (simp add: srv_def sqlstate_class_defs starts_with_def)
  subgoal by (simp add: srv_def sqlstate_class_defs starts_with_def)
  subgoal by (simp add: srv_def sqlstate_class_defs starts_with_def)
  subgoal by (simp add: srv_def sqlstate_class_defs starts_with_def)
  subgoal by (simp add: display_run)
  subgoal by (simp add: display_run)
  subgoal by (simp add: display_run)
  subgoal by (simp add: error_from_defs)
  subgoal by (simp add: error_from_defs)
  done

definition settings_tests :: "bool list" where
  "settings_tests =
     [default_is_verified, ca_holds_bytes, builder_defaults_port_and_tls,
      builder_omitted_connect_address_tcp_target_is_host,
      builder_connect_address_tcp_target_is_override, builder_defaults_application_to_mapepire_rs,
      builder_jdbc_props_round_trips, builder_missing_host_is_error,
      builder_missing_user_is_error, builder_missing_password_is_error,
      builder_overrides_port_and_tls, builder_tls_insecure_when_feature_on, parses_minimal_json,
      parses_connect_address, parses_jdbc_props_and_application, invalid_ca_base64_is_error,
      parses_with_explicit_port_and_insecure_tls, insecure_tls_spec_tag_rejected_without_feature,
      debug_does_not_leak, expose_returns_inner, is_transient_classifies,
      is_constraint_violation_classifies, is_authorization_classifies,
      is_object_not_found_classifies, is_data_type_mismatch_classifies, server_error_display,
      server_error_display_includes_job_name_when_present, error_server_display_is_transparent,
      from_io_error_classifies_as_transport, from_serde_json_error_classifies_as_protocol]"

lemma settings_tests_pass: "list_all id settings_tests"
  unfolding settings_tests_def
  by (simp add: builder_tests spec_tests password_tests error_tests)

section \<open>Correlation ids\<close>

text \<open>These tests run on a fresh allocator, whatever the clock reads and the process id
   is.\<close>

definition ids_are_unique_within_one_allocator :: "u32 option \<Rightarrow> u32 \<Rightarrow> bool"
   where
  "ids_are_unique_within_one_allocator now pid = distinct (fst (next_ids 10000 (new_allocator now
     pid)))"

definition split_once :: "char \<Rightarrow> string \<Rightarrow> string \<times> string" where
  "split_once c s = (takeWhile (\<lambda>x. x \<noteq> c) s, tl (dropWhile (\<lambda>x. x \<noteq>
     c) s))"

definition parse_nat :: "string \<Rightarrow> nat" where
  "parse_nat s = fold (\<lambda>c n. 10 * n + (of_char c - 48)) s 0"

definition two_allocators_have_distinct_prefixes ::
  "u32 option \<Rightarrow> u32 option \<Rightarrow> u32 \<Rightarrow> bool" where
  "two_allocators_have_distinct_prefixes now later pid =
     (fst (split_once CHR ''-'' (fst (next_id (new_allocator now pid)))) \<noteq>
      fst (split_once CHR ''-'' (fst (next_id (new_allocator later pid)))))"

definition next_increments :: "u32 option \<Rightarrow> u32 \<Rightarrow> bool" where
  "next_increments now pid =
     (let (a, alloc) = next_id (new_allocator now pid); (b, alloc) = next_id alloc
      in parse_nat (snd (split_once CHR ''-'' b)) = parse_nat (snd (split_once CHR ''-'' a)) + 1)"

lemma hex_no_dash: "n < 16 \<Longrightarrow> hex_digit n \<noteq> CHR ''-''"
proof -
  assume "n < 16"
  moreover have "CHR ''-'' = char_of (45 :: nat)" by (simp add: char_of_def bit_0)
  ultimately show ?thesis by (auto simp: hex_digit_def char_nat_eq_iff)
qed

lemma hex2_no_dash: "CHR ''-'' \<notin> set (hex2 b)"
proof -
  have "unat b div 16 < 16" using unat_u8_less [of b] by simp
  then show ?thesis using hex_no_dash by (auto simp: hex2_def eq_commute [of "CHR ''-''"])
qed

lemma prefix_no_dash: "c \<in> set (ia_prefix (new_allocator now pid)) \<Longrightarrow> c \<noteq>
   CHR ''-''"
  using hex2_no_dash by (auto simp: new_allocator_def)

lemma split_id:
  "split_once CHR ''-'' (fst (next_id ((new_allocator now pid)\<lparr>ia_counter := n\<rparr>))) =
     (ia_prefix (new_allocator now pid), show_nat (unat n))"
proof -
  let ?p = "ia_prefix (new_allocator now pid)"
  have "takeWhile (\<lambda>x. x \<noteq> CHR ''-'') (?p @ CHR ''-'' # r) = ?p" for r
    using prefix_no_dash by (subst takeWhile_append2) auto
  moreover have "dropWhile (\<lambda>x. x \<noteq> CHR ''-'') (?p @ CHR ''-'' # r) = CHR ''-'' # r"
     for r
    using prefix_no_dash by (subst dropWhile_append2) auto
  ultimately show ?thesis by (simp add: split_once_def next_id_def)
qed

lemma codec_tests_pass:
  "ids_are_unique_within_one_allocator now pid"
  "unwrap_or 0 now \<noteq> unwrap_or 0 later \<Longrightarrow>
     two_allocators_have_distinct_prefixes now later pid"
  "next_increments now pid"
proof -
  have zero: "(new_allocator t p)\<lparr>ia_counter := 0\<rparr> = new_allocator t p" for t p
    by (simp add: new_allocator_def)
  show "ids_are_unique_within_one_allocator now pid"
    unfolding ids_are_unique_within_one_allocator_def next_ids_nth distinct_map
    by (simp add: inj_on_def id_at_inject of_nat_u64_eq_iff del: upt_Suc)
  have pre: "ia_prefix (new_allocator s p) = ia_prefix (new_allocator t p) \<longleftrightarrow>
      new_allocator s p = new_allocator t p" for s t p
    by (simp add: new_allocator_def)
  show "unwrap_or 0 now \<noteq> unwrap_or 0 later \<Longrightarrow>
     two_allocators_have_distinct_prefixes now later pid"
    using split_id [where n = 0 and now = now and pid = pid] split_id [where n = 0 and now = later
       and pid = pid]
    by (simp add: two_allocators_have_distinct_prefixes_def zero pre new_allocator_inject)
  have "snd (next_id (new_allocator now pid)) = (new_allocator now pid)\<lparr>ia_counter :=
     1\<rparr>"
    by (simp add: next_id_def new_allocator_def)
  then show "next_increments now pid"
    using split_id [where n = 0 and now = now and pid = pid] split_id [where n = 1 and now = now
       and pid = pid]
    by (simp add: next_increments_def zero case_prod_beta Let_def show_nat_digit digit_chars
       parse_nat_def)
qed

end
