(* ===== verification/Client_Tests.thy ===== *)
theory Client_Tests
  imports Settings_Tests Pool Reserved Job
begin

text \<open>
  The unit tests of \<^verbatim>\<open>src/src/transport\<close>,
     \<^verbatim>\<open>src/src/job.rs\<close>, \<^verbatim>\<open>src/src/query.rs\<close>,
  \<^verbatim>\<open>src/src/from_row.rs\<close> and \<^verbatim>\<open>src/src/pool\<close>, run
     on the model. Where a test talks to a library (the
  base64 codec, a TLS backend) that library is an argument, and what the test relies on of it a
  hypothesis of the lemma.
\<close>

section \<open>Dispatcher\<close>

definition test_request_id_returns_carried_id_for_every_variant :: bool where
  "test_request_id_returns_carried_id_for_every_variant =
     (let i = ''test-id'' in
      list_all (\<lambda>req. request_id req = i)
        [Connect i ''tcp'' ''mapepire-rs'' None, Sql i ''SELECT 1'' None None None,
         PrepareSql i ''SELECT 1'' None, PrepareSqlExecute i ''SELECT 1'' None None None,
         Execute i ''c'' None None None, SqlMore i ''c'' 10, SqlClose i ''c'', Cl i ''DSPLIB'' None,
         GetVersion i, GetDbJob i, SetConfig i ''ERRORS'' ''FILE'', GetTraceData i,
         Dove i ''SELECT 1'' (Some True) None None, Ping i, Exit i])"

definition test_response_id_returns_carried_id_for_every_variant :: bool where
  "test_response_id_returns_carried_id_for_every_variant =
     (let i = ''test-id'';
          qr = \<lparr>qr_id = i, qr_success = True, qr_has_results = False, qr_update_count = - 1,
                qr_cont_id = None, qr_is_done = True, qr_metadata = default_metadata,
                qr_data = [], qr_execution_time = 0, qr_error = None, qr_sqlcode = None,
                qr_sqlstate = None, qr_parameter_count = None, qr_output_parms = []\<rparr>;
          err = \<lparr>er_id = i, er_success = False, er_sqlstate = None, er_sqlcode = None,
                 er_error = None, er_job = None\<rparr>
      in list_all (\<lambda>resp. response_id resp = i)
           [Connected i ''1'' ''J'', Pong i, Exited i, QueryResult qr, PreparedStatement i True
              ''c'' 0,
            SqlClosed i True, ClResult i True [\<lparr>cm_id = None, cm_kind = None, cm_text =
               None\<rparr>],
            Version i True ''1'', DbJob i True ''J'', ConfigSet i True, TraceData i True [],
            DoveResult i True (JObject []) None, ErrorResp err])"

definition test_remap_getdbjob_connected_to_dbjob :: bool where
  "test_remap_getdbjob_connected_to_dbjob =
     (remap_response KGetDbJob (Connected ''g'' [] ''123456/QUSER/QZDASOINIT'') =
        DbJob ''g'' True ''123456/QUSER/QZDASOINIT'')"

definition test_remap_connect_stays_connected :: bool where
  "test_remap_connect_stays_connected =
     (case remap_response KConnect (Connected ''c'' [] ''J'') of
        Connected i version job \<Rightarrow> i = ''c'' | _ \<Rightarrow> False)"

definition test_remap_pong_acks :: bool where
  "test_remap_pong_acks =
     (let pong = Pong ''x'' in
      remap_response KSetConfig pong = ConfigSet ''x'' True \<and>
      remap_response KSqlClose pong = SqlClosed ''x'' True \<and>
      remap_response KExit pong = Exited ''x'' \<and>
      remap_response KPing pong = Pong ''x'' \<and>
      (case remap_response KPrepareSql pong of
         PreparedStatement i success cont_id t \<Rightarrow> i = ''x'' \<and> success \<and>
            cont_id = []
       | _ \<Rightarrow> False) \<and>
      remap_response KGetTraceData pong = TraceData ''x'' True [] \<and>
      (case remap_response KGetTraceData (TraceData ''x'' True ''hello'') of
         TraceData i success tracedata \<Rightarrow> tracedata = ''hello''
       | _ \<Rightarrow> False))"

definition test_pending_kind_for_every_variant :: bool where
  "test_pending_kind_for_every_variant =
     (let i = ''k'' in
      request_kind (Ping i) = KPing \<and> request_kind (GetDbJob i) = KGetDbJob \<and>
      request_kind (Connect i ''tcp'' ''mapepire-rs'' None) = KConnect \<and>
      request_kind (GetTraceData i) = KGetTraceData \<and>
      request_kind (Sql i ''SELECT 1'' None None None) = KOther)"

lemma dispatcher_tests:
  test_request_id_returns_carried_id_for_every_variant
  test_response_id_returns_carried_id_for_every_variant test_remap_getdbjob_connected_to_dbjob
  test_remap_connect_stays_connected test_remap_pong_acks test_pending_kind_for_every_variant
  unfolding test_request_id_returns_carried_id_for_every_variant_def
    test_response_id_returns_carried_id_for_every_variant_def
    test_remap_getdbjob_connected_to_dbjob_def test_remap_connect_stays_connected_def
    test_remap_pong_acks_def test_pending_kind_for_every_variant_def
  by (simp_all add: Let_def)

section \<open>Handshake\<close>

text \<open>The display of an error of the upgrade: of an HTTP error its status, of an I/O error
   its text.\<close>

fun show_upgrade :: "ws_error \<Rightarrow> string" where
  "show_upgrade (WsIo e) = ''IO error: '' @ e"
| "show_upgrade (WsHttp st shown) = ''HTTP error: '' @ shown"
| "show_upgrade e = []"

definition test_map_upgrade_error_io_is_internal :: bool where
  "test_map_upgrade_error_io_is_internal =
     (case map_upgrade_error show_upgrade (WsIo ''boom'') of
        Internal msg \<Rightarrow> contains msg ''boom'' \<or> contains msg ''websocket'' | _
           \<Rightarrow> False)"

definition test_map_upgrade_error_http_403_is_auth :: bool where
  "test_map_upgrade_error_http_403_is_auth =
     (case map_upgrade_error show_upgrade (WsHttp 403 ''403 Forbidden'') of
        Auth msg \<Rightarrow> contains msg ''403'' | _ \<Rightarrow> False)"

definition test_map_upgrade_error_http_401_is_auth :: bool where
  "test_map_upgrade_error_http_401_is_auth =
     (case map_upgrade_error show_upgrade (WsHttp 401 ''401 Unauthorized'') of
        Auth msg \<Rightarrow> contains msg ''401'' | _ \<Rightarrow> False)"

definition test_map_upgrade_error_http_404_is_internal :: bool where
  "test_map_upgrade_error_http_404_is_internal =
     (case map_upgrade_error show_upgrade (WsHttp 404 ''404 Not Found'') of
        Internal msg \<Rightarrow> contains msg ''404'' | _ \<Rightarrow> False)"

lemma upgrade_tests:
  test_map_upgrade_error_io_is_internal test_map_upgrade_error_http_403_is_auth
  test_map_upgrade_error_http_401_is_auth test_map_upgrade_error_http_404_is_internal
  unfolding test_map_upgrade_error_io_is_internal_def test_map_upgrade_error_http_403_is_auth_def
    test_map_upgrade_error_http_401_is_auth_def test_map_upgrade_error_http_404_is_internal_def
  by (simp_all add: contains_def sublist_code)

section \<open>Jobs\<close>

definition job_log_query_result :: "string \<Rightarrow> bool \<Rightarrow> query_result" where
  "job_log_query_result i success =
     \<lparr>qr_id = i, qr_success = success, qr_has_results = True, qr_update_count = - 1,
      qr_cont_id = None, qr_is_done = True, qr_metadata = default_metadata,
      qr_data = [obj_insert ''MESSAGE_TEXT'' (JString ''[CPF0006] Errors occurred in command.'')
        (obj_insert ''SEVERITY'' (JNumber (JInt 40)) (obj_insert ''MESSAGE_ID'' (JString
           ''CPF0006'') []))],
      qr_execution_time = 4607182418800017408,
      qr_error = (if success then None else Some ''[CPF0006] Errors occurred in command.''),
      qr_sqlcode = (if success then None else Some (- 443)),
      qr_sqlstate = (if success then None else Some ''38501''),
      qr_parameter_count = None, qr_output_parms = []\<rparr>"

definition test_cl_outcome_from_query_result_failure_keeps_job_log :: bool where
  "test_cl_outcome_from_query_result_failure_keeps_job_log =
     expect (cl_outcome_from_response (\<lambda>b. []) ''cl1''
              (QueryResult (job_log_query_result ''cl1'' False))) (\<lambda>outcome.
       \<not> co_success outcome \<and> co_sqlcode outcome = Some (- 443) \<and>
       co_sqlstate outcome = Some ''38501'' \<and> length (co_entries outcome) = 1 \<and>
       jl_message_id (co_entries outcome ! 0) = Some ''CPF0006'' \<and>
       jl_severity (co_entries outcome ! 0) = Some ''40'')"

definition test_cl_outcome_from_tagged_cl_result :: bool where
  "test_cl_outcome_from_tagged_cl_result =
     expect (cl_outcome_from_response (\<lambda>b. []) ''cl1'' (ClResult ''cl1'' True
              [\<lparr>cm_id = Some ''CPC2102'', cm_kind = Some ''COMPLETION'',
                cm_text = Some ''Library displayed.''\<rparr>])) (\<lambda>outcome.
       co_success outcome \<and> length (co_entries outcome) = 1 \<and>
       jl_message_id (co_entries outcome ! 0) = Some ''CPC2102'' \<and>
       jl_message_text (co_entries outcome ! 0) = Some ''Library displayed.'')"

definition test_cl_outcome_from_tagged_cl_result_failure_is_ok :: bool where
  "test_cl_outcome_from_tagged_cl_result_failure_is_ok =
     expect (cl_outcome_from_response (\<lambda>b. []) ''cl1'' (ClResult ''cl1'' False
              [\<lparr>cm_id = Some ''CPF0006'', cm_kind = Some ''ESCAPE'',
                cm_text = Some ''[CPF0006] Errors occurred in command.''\<rparr>]))
                   (\<lambda>outcome.
       \<not> co_success outcome \<and> co_error outcome = Some
          ''[CPF0006] Errors occurred in command.'' \<and>
       jl_message_id (co_entries outcome ! 0) = Some ''CPF0006'')"

definition test_cl_outcome_bare_error_is_err :: bool where
  "test_cl_outcome_bare_error_is_err =
     (case cl_outcome_from_response (\<lambda>b. []) ''cl1''
             (ErrorResp \<lparr>er_id = ''cl1'', er_success = False, er_sqlstate = Some ''38501'',
                er_sqlcode = Some (- 443), er_error = Some ''nope'', er_job = None\<rparr>) of
        Inl (Server e) \<Rightarrow> True | _ \<Rightarrow> False)"

definition test_trace_level_wire_strings :: bool where
  "test_trace_level_wire_strings =
     (level_as_str TraceOff = ''OFF'' \<and> level_as_str TraceErrors = ''ERRORS'' \<and>
      level_as_str TraceDatastream = ''DATASTREAM'' \<and> level_as_str TraceAll = ''ON'' \<and>
      level_as_str TraceAll \<noteq> ''ALL'')"

definition test_trace_dest_wire_strings :: bool where
  "test_trace_dest_wire_strings =
     (dest_as_str ToFile = ''FILE'' \<and> dest_as_str ToInMem = ''IN_MEM'' \<and> default_dest =
        ToInMem)"

definition test_set_trace_request_never_sends_empty_dest :: bool where
  "test_set_trace_request_never_sends_empty_dest =
     (let json = ser_request (SetConfig ''1'' (level_as_str TraceOff) (dest_as_str ToInMem));
          whole = ser_request (SetConfig ''2'' (level_as_str TraceAll) (dest_as_str ToInMem))
      in holds_entry json ''tracedest'' (JString ''IN_MEM'') \<and> \<not> holds_entry json
         ''tracedest'' (JString '''') \<and>
         holds_entry whole ''tracelevel'' (JString ''ON'') \<and> \<not> holds_entry whole
            ''tracelevel'' (JString ''ALL''))"

lemma job_tests:
  test_cl_outcome_from_query_result_failure_keeps_job_log test_cl_outcome_from_tagged_cl_result
  test_cl_outcome_from_tagged_cl_result_failure_is_ok test_cl_outcome_bare_error_is_err
  test_trace_level_wire_strings test_trace_dest_wire_strings
  test_set_trace_request_never_sends_empty_dest
  unfolding test_cl_outcome_from_query_result_failure_keeps_job_log_def
    test_cl_outcome_from_tagged_cl_result_def
    test_cl_outcome_from_tagged_cl_result_failure_is_ok_def test_cl_outcome_bare_error_is_err_def
    test_trace_level_wire_strings_def test_trace_dest_wire_strings_def
    test_set_trace_request_never_sends_empty_dest_def
  by (simp_all add: expect_def cl_outcome_from_response_def from_query_result_def
     job_log_query_result_def decode_run response_read obj_insert_def from_cl_result_def
     default_job_log_entry_def server_error_from_def error_from_defs default_dest_def fld_str_def
     holds_entry_def Let_def)

section \<open>Options and rows\<close>

definition test_execute_options_default_rows_is_100 :: bool where
  "test_execute_options_default_rows_is_100 =
     (resolved_rows default_options = Inr 100 \<and>
      resolved_rows \<lparr>eo_rows = Some 50, eo_terse = False\<rparr> = Inr 50)"

definition test_execute_options_rows_zero_is_err :: bool where
  "test_execute_options_rows_zero_is_err =
     (resolved_rows \<lparr>eo_rows = Some 0, eo_terse = False\<rparr> = Inl (Protocol
        ZeroPageSize))"

definition test_execute_options_terse_on_wire_omits_false :: bool where
  "test_execute_options_terse_on_wire_omits_false =
     (terse_on_wire default_options = None \<and>
      terse_on_wire \<lparr>eo_rows = None, eo_terse = True\<rparr> = Some True)"

definition test_owned_parameter_sets_rejects_empty_outer :: bool where
  "test_owned_parameter_sets_rejects_empty_outer =
     (owned_parameter_sets [] = Inl (Protocol EmptyParameterSets))"

definition test_owned_parameter_sets_keeps_two_sets :: bool where
  "test_owned_parameter_sets_keeps_two_sets =
     expect (owned_parameter_sets [[(JNumber (JInt 1)), (JString ''a'')], [(JNumber (JInt 2)),
        (JString ''b'')]]) (\<lambda>owned.
       length owned = 2 \<and> owned ! 0 = [(JNumber (JInt 1)), (JString ''a'')])"

record employee =
  em_empno :: string
  em_salary :: u64

definition de_employee :: "employee de" where
  "de_employee v =
     bindR (de_fields (plain [''EMPNO'', ''SALARY'']) v) (\<lambda>e.
     bindR (req e ''EMPNO'' de_string) (\<lambda>n.
     bindR (req e ''SALARY'' de_f64) (\<lambda>s. Inr \<lparr>em_empno = n, em_salary =
        s\<rparr>)))"

definition blanket_impl_decodes_a_row :: bool where
  "blanket_impl_decodes_a_row =
     (case as_object (JObject [(''EMPNO'', JString ''000010''), (''SALARY'', JNumber (JFloat
        4677482718378852352))]) of
        None \<Rightarrow> False
      | Some row \<Rightarrow>
          from_row de_employee row = Inr \<lparr>em_empno = ''000010'', em_salary =
             4677482718378852352\<rparr>)"

definition blanket_impl_surfaces_decode_error :: bool where
  "blanket_impl_surfaces_decode_error =
     (case as_object (JObject [(''EMPNO'', JString ''000010'')]) of
        None \<Rightarrow> False
      | Some row \<Rightarrow>
          (case from_row de_employee row of Inl (Decode column e) \<Rightarrow> column = None | _
             \<Rightarrow> False))"

text \<open>The test's own implementation; \<open>show_f64\<close> is Rust's display of a
   float.\<close>

definition custom_from_row :: "(u64 \<Rightarrow> string) \<Rightarrow> json_object \<Rightarrow>
   error + nat \<times> string" where
  "custom_from_row show_f64 row =
     bindR (row_get de_string row ''EMPNO'') (\<lambda>empno.
     bindR (row_get de_f64 row ''SALARY'') (\<lambda>salary.
       Inr (parse_nat empno, ''emp '' @ empno @ '' @ $'' @ show_f64 salary)))"

definition hand_rolled_from_row_overrides_blanket :: bool where
  "hand_rolled_from_row_overrides_blanket =
     (let row = obj_insert ''SALARY'' (JNumber (JFloat 4679890373965774848)) (obj_insert ''EMPNO''
        (JString ''12345'') [])
      in custom_from_row (\<lambda>b. if b = 4679890373965774848 then ''75000'' else []) row =
           Inr (12345, ''emp 12345 @ $75000''))"

lemma option_and_row_tests:
  test_execute_options_default_rows_is_100 test_execute_options_rows_zero_is_err
  test_execute_options_terse_on_wire_omits_false test_owned_parameter_sets_rejects_empty_outer
  test_owned_parameter_sets_keeps_two_sets blanket_impl_decodes_a_row
  blanket_impl_surfaces_decode_error hand_rolled_from_row_overrides_blanket
  unfolding test_execute_options_default_rows_is_100_def test_execute_options_rows_zero_is_err_def
    test_execute_options_terse_on_wire_omits_false_def
    test_owned_parameter_sets_rejects_empty_outer_def test_owned_parameter_sets_keeps_two_sets_def
    blanket_impl_decodes_a_row_def blanket_impl_surfaces_decode_error_def
    hand_rolled_from_row_overrides_blanket_def
  by (simp_all add: resolved_rows_def default_options_def DEFAULT_ROWS_def error_from_defs
     terse_on_wire_def owned_parameter_sets_def expect_def from_row_def de_employee_def
     de_fields.simps present_def req_def custom_from_row_def row_get_def obj_get_def obj_insert_def
     parse_nat_def)

section \<open>Pool\<close>

definition observe_sql_transitions :: bool where
  "observe_sql_transitions =
     (let s1 = observe_sql NotStarted ''BEGIN''; s2 = observe_sql s1 ''UPDATE T SET C = 1'';
          s3 = observe_sql s2 ''COMMIT''; s4 = observe_sql s3 ''begin'';
          s5 = observe_sql s4 ''  rollback   ''
      in [s1, s2, s3, s4, s5] = [Started, Started, TxClosed, Started, TxClosed])"

definition observe_sql_ignores_dml_and_select :: bool where
  "observe_sql_ignores_dml_and_select =
     (let s1 = observe_sql NotStarted ''SELECT * FROM SYSIBM.SYSDUMMY1'';
          s2 = observe_sql s1 ''INSERT INTO T VALUES (1)'';
          s3 = observe_sql s2 ''DELETE FROM T WHERE ID = 1''
      in [s1, s2, s3] = [NotStarted, NotStarted, NotStarted])"

definition observe_sql_rollback_closes_started_state :: bool where
  "observe_sql_rollback_closes_started_state =
     (let s1 = observe_sql NotStarted ''BEGIN''; s2 = observe_sql s1 ''ROLLBACK''
      in [s1, s2] = [Started, TxClosed])"

definition typed_helpers_keywords_drive_correct_state_transitions :: bool where
  "typed_helpers_keywords_drive_correct_state_transitions =
     (let s1 = observe_sql NotStarted ''BEGIN''; s2 = observe_sql s1 ''COMMIT'';
          s3 = observe_sql s2 ''BEGIN''; s4 = observe_sql s3 ''ROLLBACK''
      in [s1, s2, s3, s4] = [Started, TxClosed, Started, TxClosed])"

definition observe_sql_empty_string_no_panic :: bool where
  "observe_sql_empty_string_no_panic =
     (let s1 = observe_sql NotStarted []; s2 = observe_sql s1 ''   ''
      in [s1, s2] = [NotStarted, NotStarted])"

lemmas observe_run = observe_sql_def first_word_def skip_ws.simps ws_len_def ws_encodings_def
  eq_ignore_ascii_case_def ascii_lower_def Let_def char_of_def bit_0

lemma transaction_tests:
  observe_sql_transitions observe_sql_ignores_dml_and_select
  observe_sql_rollback_closes_started_state typed_helpers_keywords_drive_correct_state_transitions
  observe_sql_empty_string_no_panic
  unfolding observe_sql_transitions_def observe_sql_ignores_dml_and_select_def
    observe_sql_rollback_closes_started_state_def
    typed_helpers_keywords_drive_correct_state_transitions_def
    observe_sql_empty_string_no_panic_def
  by (simp_all add: observe_run)

definition reaper_period_quarters_short_timeouts_clamped_to_one_second :: bool where
  "reaper_period_quarters_short_timeouts_clamped_to_one_second =
     (reaper_period (seconds 2) = Some (seconds 1))"

definition reaper_period_quarters_medium_timeouts_unclamped :: bool where
  "reaper_period_quarters_medium_timeouts_unclamped =
     (reaper_period (seconds 60) = Some (seconds 15))"

definition reaper_period_clamps_long_timeouts_to_one_minute :: bool where
  "reaper_period_clamps_long_timeouts_to_one_minute =
     (reaper_period (seconds 3600) = Some (seconds 60))"

definition reaper_period_returns_none_for_zero :: bool where
  "reaper_period_returns_none_for_zero = (reaper_period 0 = None)"

definition defaults_match_spec :: bool where
  "defaults_match_spec =
     (let b = pool_builder_new in
      bp_max_size b = 16 \<and> bp_starting_size b = 0 \<and> bp_acquire_timeout b = Some (seconds
         5) \<and>
      bp_idle_timeout b = Some (seconds 300) \<and> bp_default_page_size b = 100 \<and>
      bp_parameter_logging b = LogNone)"

definition setters_chain :: bool where
  "setters_chain =
     (let b = set_parameter_logging LogTypesAndCount (default_page_size 50
                (idle_timeout (Some (seconds 60)) (acquire_timeout None
                (starting_size 2 (max_size 32 pool_builder_new)))))
      in bp_max_size b = 32 \<and> bp_starting_size b = 2 \<and> bp_acquire_timeout b = None \<and>
         bp_idle_timeout b = Some (seconds 60) \<and> bp_default_page_size b = 50 \<and>
         bp_parameter_logging b = LogTypesAndCount)"

lemma pool_tests:
  reaper_period_quarters_short_timeouts_clamped_to_one_second
  reaper_period_quarters_medium_timeouts_unclamped
  reaper_period_clamps_long_timeouts_to_one_minute reaper_period_returns_none_for_zero
  defaults_match_spec setters_chain
  unfolding reaper_period_quarters_short_timeouts_clamped_to_one_second_def
    reaper_period_quarters_medium_timeouts_unclamped_def
    reaper_period_clamps_long_timeouts_to_one_minute_def reaper_period_returns_none_for_zero_def
    defaults_match_spec_def setters_chain_def
  by (simp_all add: reaper_period_def seconds_def pool_builder_new_def set_parameter_logging_def
     default_page_size_def idle_timeout_def acquire_timeout_def starting_size_def max_size_def
     Let_def)

definition client_tests :: "bool list" where
  "client_tests =
     [test_request_id_returns_carried_id_for_every_variant,
      test_response_id_returns_carried_id_for_every_variant,
      test_remap_getdbjob_connected_to_dbjob, test_remap_connect_stays_connected,
      test_remap_pong_acks, test_pending_kind_for_every_variant,
      test_map_upgrade_error_io_is_internal, test_map_upgrade_error_http_403_is_auth,
      test_map_upgrade_error_http_401_is_auth, test_map_upgrade_error_http_404_is_internal,
      test_cl_outcome_from_query_result_failure_keeps_job_log,
      test_cl_outcome_from_tagged_cl_result, test_cl_outcome_from_tagged_cl_result_failure_is_ok,
      test_cl_outcome_bare_error_is_err, test_trace_level_wire_strings,
      test_trace_dest_wire_strings, test_set_trace_request_never_sends_empty_dest,
      test_execute_options_default_rows_is_100, test_execute_options_rows_zero_is_err,
      test_execute_options_terse_on_wire_omits_false,
      test_owned_parameter_sets_rejects_empty_outer, test_owned_parameter_sets_keeps_two_sets,
      blanket_impl_decodes_a_row, blanket_impl_surfaces_decode_error,
      hand_rolled_from_row_overrides_blanket, observe_sql_transitions,
      observe_sql_ignores_dml_and_select, observe_sql_rollback_closes_started_state,
      typed_helpers_keywords_drive_correct_state_transitions, observe_sql_empty_string_no_panic,
      reaper_period_quarters_short_timeouts_clamped_to_one_second,
      reaper_period_quarters_medium_timeouts_unclamped,
      reaper_period_clamps_long_timeouts_to_one_minute, reaper_period_returns_none_for_zero,
      defaults_match_spec, setters_chain]"

lemma client_tests_pass: "list_all id client_tests"
  unfolding client_tests_def
  by (simp add: dispatcher_tests upgrade_tests job_tests option_and_row_tests transaction_tests
      pool_tests)

text \<open>
  The unit tests of the crate hold of the model: what the repository's own tests assert of decoding,
  encoding, defaults, debug output, the builders, error classes and texts, remapping, CL outcomes,
  options, rows, statement tracking and the reaper's period is what the definitions compute.
\<close>

theorem unit_tests_hold:
  "list_all id (decode_tests @ response_tests @ request_tests @ settings_tests @ client_tests)"
  by (simp only: list_all_append decode_tests_pass response_tests_pass request_tests_pass
      settings_tests_pass client_tests_pass simp_thms)

section \<open>Tests against a library\<close>

text \<open>The encoding of the credentials, with a base64 codec whose decoder inverts its
   encoder.\<close>

definition test_basic_authorization_encodes_user_password ::
  "(string \<Rightarrow> string) \<Rightarrow> (string \<Rightarrow> string option) \<Rightarrow>
     bool" where
  "test_basic_authorization_encodes_user_password b64_encode b64_decode =
     (let header = basic_authorization b64_encode ''USER'' dummy_pass
      in starts_with header ''Basic '' \<and>
         b64_decode (drop (length ''Basic '') header) = Some ''USER:test-only'')"

lemma test_basic_authorization_holds:
  "(\<And>s. b64_decode (b64_encode s) = Some s) \<Longrightarrow>
   test_basic_authorization_encodes_user_password b64_encode b64_decode"
  by (simp add: test_basic_authorization_encodes_user_password_def basic_authorization_def
      starts_with_def dummy_pass_def)

text \<open>
  The TLS tests, with a backend that accepts the TCP connection: it does not take \<open>[\<close>
     for a server
  name, or does not take the bytes for a certificate, or its handshake accepts exactly what the
  verifier accepts of the certificate the server presents.
\<close>

definition internal_mentioning :: "error + 'a \<Rightarrow> string \<Rightarrow> bool" where
  "internal_mentioning r phrase =
     (case r of Inl (Internal msg) \<Rightarrow> contains msg phrase | _ \<Rightarrow> False)"

definition local_server :: "string \<Rightarrow> u16 \<Rightarrow> tls_config \<Rightarrow>
   builder_error + daemon_server" where
  "local_server h p t =
     built [host h, connect_address ''127.0.0.1'', port p, user ''u'', set_password dummy_pass, tls
        t]"

definition test_rustls_crypto_provider_is_installed :: "'p \<Rightarrow> 'p option \<Rightarrow>
   bool" where
  "test_rustls_crypto_provider_is_installed ring installed =
     (ensure_crypto_provider ring installed \<noteq> None)"

definition test_connect_rejects_invalid_hostname :: "tls_backend \<Rightarrow> u16 \<Rightarrow>
   bool" where
  "test_connect_rejects_invalid_hostname B p =
     expect (local_server ''['' p Verified) (\<lambda>server.
       internal_mentioning (fst (tls_connect B server (False, []))) ''invalid hostname'')"

definition test_connect_rejects_invalid_ca_der :: "tls_backend \<Rightarrow> u16 \<Rightarrow>
   bool" where
  "test_connect_rejects_invalid_ca_der B p =
     expect (local_server ''localhost'' p (Ca [0xff, 0x00, 0x01])) (\<lambda>server.
       internal_mentioning (fst (tls_connect B server (False, []))) ''invalid Ca cert'')"

definition test_fetch_certificate_from_rejects_invalid_hostname :: "tls_backend \<Rightarrow> u16
   \<Rightarrow> bool" where
  "test_fetch_certificate_from_rejects_invalid_hostname B p =
     internal_mentioning (fst (fetch_certificate_from B ''['' ''127.0.0.1'' p (False, [])))
       ''invalid hostname''"

definition test_ca_pin_tls12_handshake_covers_tls12_signature ::
  "tls_backend \<Rightarrow> u16 \<Rightarrow> der \<Rightarrow> bool" where
  "test_ca_pin_tls12_handshake_covers_tls12_signature B p cert_der =
     expect (local_server ''localhost'' p (Ca cert_der)) (\<lambda>server.
       \<not> isl (fst (tls_connect B server (False, []))))"

lemma local_server_built:
  "local_server h p t = Inr
     \<lparr>ds_host = h, ds_connect_address = Some ''127.0.0.1'', ds_port = p, ds_user = ''u'',
      ds_password = Password dummy_pass, ds_tls = t, ds_jdbc_props = None,
      ds_application = default_application\<rparr>"
  by (simp add: local_server_def built_def build_def builder_def setter_defs)

lemmas tls_run = local_server_built expect_def tls_connect_def tcp_target_def tls_handshake_def
  tls_config_verifier_def tls_session_def internal_mentioning_def contains_def sublist_code

lemma tls_tests_hold:
  assumes tcp: "\<And>a. tb_tcp_connect B a = Inr ()"
  shows "\<not> tb_server_name B ''['' \<Longrightarrow> test_connect_rejects_invalid_hostname B p"
    and "tb_add_root B [0xff, 0x00, 0x01] = Inl e \<Longrightarrow>
       test_connect_rejects_invalid_ca_der B p"
    and "\<not> tb_server_name B ''['' \<Longrightarrow>
       test_fetch_certificate_from_rejects_invalid_hostname B p"
    and "tb_server_name B ''localhost'' \<Longrightarrow> tb_add_root B der = Inr ()
       \<Longrightarrow>
      tb_build_verifier B [der] = Inr () \<Longrightarrow>
      (\<And>v name. v der [] name [] now = Inr () \<Longrightarrow> tb_handshake B v name = Inr
         (Some [der])) \<Longrightarrow>
      test_ca_pin_tls12_handshake_covers_tls12_signature B p der"
proof -
  show "\<not> tb_server_name B ''['' \<Longrightarrow> test_connect_rejects_invalid_hostname B p"
    by (simp add: test_connect_rejects_invalid_hostname_def tls_run tcp)
  show "tb_add_root B [0xff, 0x00, 0x01] = Inl e \<Longrightarrow>
     test_connect_rejects_invalid_ca_der B p"
    by (simp add: test_connect_rejects_invalid_ca_der_def tls_run tcp)
  show "\<not> tb_server_name B ''['' \<Longrightarrow>
     test_fetch_certificate_from_rejects_invalid_hostname B p"
    by (simp add: test_fetch_certificate_from_rejects_invalid_hostname_def
       fetch_certificate_from_def
        tls_run tcp)
  assume backend: "tb_server_name B ''localhost''" "tb_add_root B der = Inr ()"
    "tb_build_verifier B [der] = Inr ()"
    "\<And>v name. v der [] name [] now = Inr () \<Longrightarrow> tb_handshake B v name = Inr
       (Some [der])"
  have "tb_handshake B (pin_or_webpki der (tb_webpki B [der])) ''localhost'' = Inr (Some [der])"
    by (rule backend(4)) (simp add: pin_or_webpki_def)
  with backend(1-3) show "test_ca_pin_tls12_handshake_covers_tls12_signature B p der"
    by (simp add: test_ca_pin_tls12_handshake_covers_tls12_signature_def tls_run tcp)
qed

lemma test_rustls_crypto_provider_holds: "test_rustls_crypto_provider_is_installed ring installed"
  by (simp add: test_rustls_crypto_provider_is_installed_def ensure_crypto_provider_def
      split: option.split)

end
