(* ===== verification/Snapshot_Tests.thy ===== *)
theory Snapshot_Tests
  imports Client_Tests
begin

text \<open>
  The wire snapshots (\<^verbatim>\<open>src/tests/wire_snapshots.rs\<close>, with the texts
  recorded in \<^verbatim>\<open>src/tests/snapshots\<close>): for every kind of request and of
     answer the
  document the writer makes, keys in their recorded order, and for the frames captured from a
  live daemon the value the decoder makes. As in the sources a document that is built in memory has
     its keys sorted.
\<close>

section \<open>Requests\<close>

definition snapshot_request_connect :: bool where
  "snapshot_request_connect =
     (ser_request (Connect ''test'' ''tcp'' ''mapepire-rs'' None) = (JObject [(''type'', JString
        ''connect''), (''id'', JString ''test''), (''technique'', JString ''tcp''),
        (''application'', JString ''mapepire-rs'')]))"

definition snapshot_request_sql_minimal :: bool where
  "snapshot_request_sql_minimal =
     (ser_request (Sql ''test'' ''SELECT 1 FROM SYSIBM.SYSDUMMY1'' None None None) = (JObject
        [(''type'', JString ''sql''), (''id'', JString ''test''), (''sql'', JString
        ''SELECT 1 FROM SYSIBM.SYSDUMMY1'')]))"

definition snapshot_request_sql_with_params_and_rows :: bool where
  "snapshot_request_sql_with_params_and_rows =
     (ser_request (Sql ''test'' ''SELECT * FROM T WHERE ID=?'' (Some 50) (Some [(JNumber (JInt
        42))]) None) = (JObject [(''type'', JString ''sql''), (''id'', JString ''test''), (''sql'',
        JString ''SELECT * FROM T WHERE ID=?''), (''rows'', JNumber (JInt 50)), (''parameters'',
        JArray [JNumber (JInt 42)])]))"

definition snapshot_request_sql_terse :: bool where
  "snapshot_request_sql_terse =
     (ser_request (Sql ''test'' ''SELECT EMPNO, LASTNAME FROM EMPLOYEE'' (Some 5) None (Some True))
        = (JObject [(''type'', JString ''sql''), (''id'', JString ''test''), (''sql'', JString
        ''SELECT EMPNO, LASTNAME FROM EMPLOYEE''), (''rows'', JNumber (JInt 5)), (''terse'', JBool
        True)]))"

definition snapshot_request_prepare_sql :: bool where
  "snapshot_request_prepare_sql =
     (ser_request (PrepareSql ''test'' ''SELECT * FROM T WHERE ID=?'' None) = (JObject [(''type'',
        JString ''prepare_sql''), (''id'', JString ''test''), (''sql'', JString
        ''SELECT * FROM T WHERE ID=?'')]))"

definition snapshot_request_prepare_sql_execute_batched :: bool where
  "snapshot_request_prepare_sql_execute_batched =
     (ser_request (PrepareSqlExecute ''test'' ''INSERT INTO T VALUES(?,?)'' (Some [[(JNumber (JInt
        1)), (JString ''a'')], [(JNumber (JInt 2)), (JString ''b'')]]) None None) = (JObject
        [(''type'', JString ''prepare_sql_execute''), (''id'', JString ''test''), (''sql'', JString
        ''INSERT INTO T VALUES(?,?)''), (''parameters'', JArray [JArray [JNumber (JInt 1), JString
        ''a''], JArray [JNumber (JInt 2), JString ''b'']])]))"

definition snapshot_request_execute :: bool where
  "snapshot_request_execute =
     (ser_request (Execute ''test'' ''stmt-7'' (Some [(JString ''hello'')]) None None) = (JObject
        [(''type'', JString ''execute''), (''id'', JString ''test''), (''cont_id'', JString
        ''stmt-7''), (''parameters'', JArray [JString ''hello''])]))"

definition snapshot_request_prepare_sql_execute_single :: bool where
  "snapshot_request_prepare_sql_execute_single =
     (ser_request (PrepareSqlExecute ''test'' ''VALUES (CAST(? AS INTEGER))'' (Some [[(JNumber
        (JInt 7))]]) (Some 100) None) = (JObject [(''type'', JString ''prepare_sql_execute''),
        (''id'', JString ''test''), (''sql'', JString ''VALUES (CAST(? AS INTEGER))''),
        (''parameters'', JArray [JNumber (JInt 7)]), (''rows'', JNumber (JInt 100))]))"

definition snapshot_request_sqlmore_sqlclose :: bool where
  "snapshot_request_sqlmore_sqlclose =
     (ser_request (SqlMore ''test'' ''cur-1'' 100) = (JObject [(''type'', JString ''sqlmore''),
        (''id'', JString ''test''), (''cont_id'', JString ''cur-1''), (''rows'', JNumber (JInt
        100))]) \<and>
      ser_request (SqlClose ''test'' ''cur-1'') = (JObject [(''type'', JString ''sqlclose''),
         (''id'', JString ''test''), (''cont_id'', JString ''cur-1'')]))"

definition snapshot_request_cl :: bool where
  "snapshot_request_cl =
     (ser_request (Cl ''test'' ''WRKACTJOB'' None) = (JObject [(''type'', JString ''cl''), (''id'',
        JString ''test''), (''cmd'', JString ''WRKACTJOB'')]))"

definition snapshot_request_metadata_and_diagnostics :: bool where
  "snapshot_request_metadata_and_diagnostics =
     (ser_request (Ping ''test'') = (JObject [(''type'', JString ''ping''), (''id'', JString
        ''test'')]) \<and>
      ser_request (Exit ''test'') = (JObject [(''type'', JString ''exit''), (''id'', JString
         ''test'')]) \<and>
      ser_request (GetVersion ''test'') = (JObject [(''type'', JString ''getversion''), (''id'',
         JString ''test'')]) \<and>
      ser_request (GetDbJob ''test'') = (JObject [(''type'', JString ''getdbjob''), (''id'',
         JString ''test'')]) \<and>
      ser_request (GetTraceData ''test'') = (JObject [(''type'', JString ''gettracedata''),
         (''id'', JString ''test'')]) \<and>
      ser_request (SetConfig ''test'' ''DATASTREAM'' ''FILE'') = (JObject [(''type'', JString
         ''setconfig''), (''id'', JString ''test''), (''tracelevel'', JString ''DATASTREAM''),
         (''tracedest'', JString ''FILE'')]) \<and>
      ser_request (Dove ''test'' ''SELECT 1 FROM SYSIBM.SYSDUMMY1'' None None None) = (JObject
         [(''type'', JString ''dove''), (''id'', JString ''test''), (''sql'', JString
         ''SELECT 1 FROM SYSIBM.SYSDUMMY1'')]))"

definition snapshot_request_dove_run :: bool where
  "snapshot_request_dove_run =
     (ser_request (Dove ''test'' ''SELECT 1 FROM SYSIBM.SYSDUMMY1'' (Some True) None None) =
        (JObject [(''type'', JString ''dove''), (''id'', JString ''test''), (''sql'', JString
        ''SELECT 1 FROM SYSIBM.SYSDUMMY1''), (''run'', JBool True)]))"

definition set_config_trace_off :: bool where
  "set_config_trace_off =
     (ser_request (SetConfig ''1'' ''OFF'' ''IN_MEM'') = (JObject [(''type'', JString
        ''setconfig''), (''id'', JString ''1''), (''tracelevel'', JString ''OFF''), (''tracedest'',
        JString ''IN_MEM'')]))"

lemmas requests_written = ser_u32_def ser_option_def fld_opt_def fld_vec_def ser_vec_def
  ser_parameter_sets_def fld_sets_def fld_str_def

lemma request_snapshots:
  snapshot_request_connect snapshot_request_sql_minimal snapshot_request_sql_with_params_and_rows
  snapshot_request_sql_terse snapshot_request_prepare_sql
  snapshot_request_prepare_sql_execute_batched snapshot_request_execute
  snapshot_request_prepare_sql_execute_single snapshot_request_sqlmore_sqlclose
  snapshot_request_cl snapshot_request_metadata_and_diagnostics snapshot_request_dove_run
  set_config_trace_off
  unfolding snapshot_request_connect_def snapshot_request_sql_minimal_def
    snapshot_request_sql_with_params_and_rows_def snapshot_request_sql_terse_def
    snapshot_request_prepare_sql_def snapshot_request_prepare_sql_execute_batched_def
    snapshot_request_execute_def snapshot_request_prepare_sql_execute_single_def
    snapshot_request_sqlmore_sqlclose_def snapshot_request_cl_def
    snapshot_request_metadata_and_diagnostics_def snapshot_request_dove_run_def
    set_config_trace_off_def
  by (simp_all add: requests_written)

section \<open>Answers\<close>

definition snapshot_response_query_result_select :: bool where
  "snapshot_response_query_result_select =
     (ser_response (QueryResult \<lparr>qr_id = ''test'', qr_success = True, qr_has_results = True,
        qr_update_count = - 1, qr_cont_id = Some ''cur-1'', qr_is_done = False, qr_metadata =
        \<lparr>md_column_count = 1, md_columns = [\<lparr>col_name = ''ID'', col_label = None,
        col_type_name = Some ''INTEGER'', col_display_size = Some 11, col_precision = Some 10,
        col_scale = Some 0\<rparr>], md_job = None, md_parameters = []\<rparr>, qr_data =
        [[(''ID'', JNumber (JInt 42))]], qr_execution_time = 4608218246714312622, qr_error = None,
        qr_sqlcode = None, qr_sqlstate = None, qr_parameter_count = None, qr_output_parms =
        []\<rparr>) = (JObject [(''type'', JString ''query_result''), (''id'', JString ''test''),
        (''success'', JBool True), (''has_results'', JBool True), (''update_count'', JNumber (JInt
        (- 1))), (''cont_id'', JString ''cur-1''), (''is_done'', JBool False), (''metadata'',
        JObject [(''column_count'', JNumber (JInt 1)), (''columns'', JArray [JObject [(''name'',
        JString ''ID''), (''label'', JNull), (''type'', JString ''INTEGER''), (''display_size'',
        JNumber (JInt 11)), (''precision'', JNumber (JInt 10)), (''scale'', JNumber (JInt 0))]])]),
        (''data'', JArray [JObject [(''ID'', JNumber (JInt 42))]]), (''execution_time'', JNumber
        (JFloat 4608218246714312622))]))"

definition snapshot_response_query_result_dml :: bool where
  "snapshot_response_query_result_dml =
     (ser_response (QueryResult \<lparr>qr_id = ''test'', qr_success = True, qr_has_results =
        False, qr_update_count = 3, qr_cont_id = None, qr_is_done = True, qr_metadata =
        \<lparr>md_column_count = 0, md_columns = [], md_job = None, md_parameters = []\<rparr>,
        qr_data = [], qr_execution_time = 4602678819172646912, qr_error = None, qr_sqlcode = None,
        qr_sqlstate = None, qr_parameter_count = None, qr_output_parms = []\<rparr>) = (JObject
        [(''type'', JString ''query_result''), (''id'', JString ''test''), (''success'', JBool
        True), (''has_results'', JBool False), (''update_count'', JNumber (JInt 3)), (''cont_id'',
        JNull), (''is_done'', JBool True), (''metadata'', JObject [(''column_count'', JNumber (JInt
        0)), (''columns'', JArray [])]), (''data'', JArray []), (''execution_time'', JNumber
        (JFloat 4602678819172646912))]))"

definition snapshot_response_query_result_call_out :: bool where
  "snapshot_response_query_result_call_out =
     (ser_response (QueryResult \<lparr>qr_id = ''call1'', qr_success = True, qr_has_results =
        False, qr_update_count = 0, qr_cont_id = None, qr_is_done = True, qr_metadata =
        \<lparr>md_column_count = 0, md_columns = [], md_job = None, md_parameters =
        [\<lparr>pd_type_name = ''INTEGER'', pd_mode = ''IN'', pd_precision = 10, pd_scale = Some
        0, pd_name = ''P1''\<rparr>, \<lparr>pd_type_name = ''INTEGER'', pd_mode = ''INOUT'',
        pd_precision = 10, pd_scale = Some 0, pd_name = ''P2''\<rparr>, \<lparr>pd_type_name =
        ''INTEGER'', pd_mode = ''OUT'', pd_precision = 10, pd_scale = Some 0, pd_name =
        ''P3''\<rparr>]\<rparr>, qr_data = [], qr_execution_time = 4617315517961601024, qr_error =
        None, qr_sqlcode = None, qr_sqlstate = None, qr_parameter_count = Some 3, qr_output_parms =
        [\<lparr>pr_index = 1, pr_type_name = ''INTEGER'', pr_precision = 10, pr_scale = Some 0,
        pr_name = ''P1'', pr_ccsid = None, pr_value = None\<rparr>, \<lparr>pr_index = 2,
        pr_type_name = ''INTEGER'', pr_precision = 10, pr_scale = Some 0, pr_name = ''P2'',
        pr_ccsid = None, pr_value = Some (JNumber (JInt 0))\<rparr>, \<lparr>pr_index = 3,
        pr_type_name = ''INTEGER'', pr_precision = 10, pr_scale = Some 0, pr_name = ''P3'',
        pr_ccsid = None, pr_value = Some (JNumber (JInt 10))\<rparr>]\<rparr>) = (JObject
        [(''type'', JString ''query_result''), (''id'', JString ''call1''), (''success'', JBool
        True), (''has_results'', JBool False), (''update_count'', JNumber (JInt 0)), (''cont_id'',
        JNull), (''is_done'', JBool True), (''metadata'', JObject [(''column_count'', JNumber (JInt
        0)), (''columns'', JArray []), (''parameters'', JArray [JObject [(''type'', JString
        ''INTEGER''), (''mode'', JString ''IN''), (''precision'', JNumber (JInt 10)), (''scale'',
        JNumber (JInt 0)), (''name'', JString ''P1'')], JObject [(''type'', JString ''INTEGER''),
        (''mode'', JString ''INOUT''), (''precision'', JNumber (JInt 10)), (''scale'', JNumber
        (JInt 0)), (''name'', JString ''P2'')], JObject [(''type'', JString ''INTEGER''),
        (''mode'', JString ''OUT''), (''precision'', JNumber (JInt 10)), (''scale'', JNumber (JInt
        0)), (''name'', JString ''P3'')]])]), (''data'', JArray []), (''execution_time'', JNumber
        (JFloat 4617315517961601024)), (''parameter_count'', JNumber (JInt 3)), (''output_parms'',
        JArray [JObject [(''index'', JNumber (JInt 1)), (''type'', JString ''INTEGER''),
        (''precision'', JNumber (JInt 10)), (''scale'', JNumber (JInt 0)), (''name'', JString
        ''P1'')], JObject [(''index'', JNumber (JInt 2)), (''type'', JString ''INTEGER''),
        (''precision'', JNumber (JInt 10)), (''scale'', JNumber (JInt 0)), (''name'', JString
        ''P2''), (''value'', JNumber (JInt 0))], JObject [(''index'', JNumber (JInt 3)), (''type'',
        JString ''INTEGER''), (''precision'', JNumber (JInt 10)), (''scale'', JNumber (JInt 0)),
        (''name'', JString ''P3''), (''value'', JNumber (JInt 10))]])]))"

definition snapshot_response_error :: bool where
  "snapshot_response_error =
     (ser_response (ErrorResp \<lparr>er_id = ''test'', er_success = False, er_sqlstate = Some
        ''23505'', er_sqlcode = Some (- 803), er_error = Some ''duplicate key'', er_job = Some
        ''QZDASOINIT/QUSER/123456''\<rparr>) = (JObject [(''type'', JString ''error''), (''id'',
        JString ''test''), (''success'', JBool False), (''sqlstate'', JString ''23505''),
        (''sqlcode'', JNumber (JInt (- 803))), (''error'', JString ''duplicate key''), (''job'',
        JString ''QZDASOINIT/QUSER/123456'')]))"

definition snapshot_response_cl_result :: bool where
  "snapshot_response_cl_result =
     (ser_response (ClResult ''test'' True [\<lparr>cm_id = Some ''CPF1234'', cm_kind = Some
        ''INFO'', cm_text = Some ''ok''\<rparr>]) = (JObject [(''type'', JString ''cl_result''),
        (''id'', JString ''test''), (''success'', JBool True), (''messages'', JArray [JObject
        [(''id'', JString ''CPF1234''), (''type'', JString ''INFO''), (''text'', JString
        ''ok'')]])]))"

definition snapshot_response_connected :: bool where
  "snapshot_response_connected =
     (ser_response (Connected ''test'' ''2.3.5'' ''QZDASOINIT/QUSER/123456'') = (JObject
        [(''type'', JString ''connected''), (''id'', JString ''test''), (''version'', JString
        ''2.3.5''), (''job'', JString ''QZDASOINIT/QUSER/123456'')]))"

definition snapshot_response_pong_exited :: bool where
  "snapshot_response_pong_exited =
     (ser_response (Pong ''test'') = (JObject [(''type'', JString ''pong''), (''id'', JString
        ''test'')]) \<and>
      ser_response (Exited ''test'') = (JObject [(''type'', JString ''exited''), (''id'', JString
         ''test'')]))"

definition snapshot_response_prepared_statement :: bool where
  "snapshot_response_prepared_statement =
     (ser_response (PreparedStatement ''test'' True ''stmt-7'' 4599075939470750515) = (JObject
        [(''type'', JString ''prepared_statement''), (''id'', JString ''test''), (''success'',
        JBool True), (''cont_id'', JString ''stmt-7''), (''execution_time'', JNumber (JFloat
        4599075939470750515))]))"

definition snapshot_response_sql_closed :: bool where
  "snapshot_response_sql_closed =
     (ser_response (SqlClosed ''test'' True) = (JObject [(''type'', JString ''sql_closed''),
        (''id'', JString ''test''), (''success'', JBool True)]))"

definition snapshot_response_version :: bool where
  "snapshot_response_version =
     (ser_response (Version ''test'' True ''2.3.5'') = (JObject [(''type'', JString ''version''),
        (''id'', JString ''test''), (''success'', JBool True), (''version'', JString ''2.3.5'')]))"

definition snapshot_response_db_job :: bool where
  "snapshot_response_db_job =
     (ser_response (DbJob ''test'' True ''QZDASOINIT/QUSER/123456'') = (JObject [(''type'', JString
        ''db_job''), (''id'', JString ''test''), (''success'', JBool True), (''job'', JString
        ''QZDASOINIT/QUSER/123456'')]))"

definition snapshot_response_config_set :: bool where
  "snapshot_response_config_set =
     (ser_response (ConfigSet ''test'' True) = (JObject [(''type'', JString ''config_set''),
        (''id'', JString ''test''), (''success'', JBool True)]))"

definition snapshot_response_trace_data :: bool where
  "snapshot_response_trace_data =
     (ser_response (TraceData ''test'' True (''+++ trace start +++'' @ [CHR 0x0A] @ ''row 1'' @
        [CHR 0x0A] @ ''row 2'')) = JObject [(''type'', JString ''trace_data''), (''id'', JString
        ''test''), (''success'', JBool True), (''tracedata'', JString (''+++ trace start +++'' @
        [CHR 0x0A] @ ''row 1'' @ [CHR 0x0A] @ ''row 2''))])"

definition snapshot_response_dove_result :: bool where
  "snapshot_response_dove_result =
     (ser_response (DoveResult ''test'' True (JObject [(''estimated_rows'', JNumber (JInt 1000)),
        (''operator'', JString ''TableScan''), (''table'', JString ''ORDERS'')]) None) = (JObject
        [(''type'', JString ''dove_result''), (''id'', JString ''test''), (''success'', JBool
        True), (''vedata'', JObject [(''estimated_rows'', JNumber (JInt 1000)), (''operator'',
        JString ''TableScan''), (''table'', JString ''ORDERS'')])]))"

lemma answer_snapshots:
  snapshot_response_query_result_select snapshot_response_query_result_dml
  snapshot_response_query_result_call_out snapshot_response_error snapshot_response_cl_result
  snapshot_response_connected snapshot_response_pong_exited snapshot_response_prepared_statement
  snapshot_response_sql_closed snapshot_response_version snapshot_response_db_job
  snapshot_response_config_set snapshot_response_trace_data snapshot_response_dove_result
  unfolding snapshot_response_query_result_select_def snapshot_response_query_result_dml_def
    snapshot_response_query_result_call_out_def snapshot_response_error_def
    snapshot_response_cl_result_def snapshot_response_connected_def
    snapshot_response_pong_exited_def snapshot_response_prepared_statement_def
    snapshot_response_sql_closed_def snapshot_response_version_def snapshot_response_db_job_def
    snapshot_response_config_set_def snapshot_response_trace_data_def
    snapshot_response_dove_result_def
  by (simp_all add: response_written ser_parameter_detail_def ser_parameter_result_def
     default_metadata_def)

section \<open>Frames of a live daemon\<close>

definition snapshot_decode_live_connect :: bool where
  "snapshot_decode_live_connect =
     (decode_value (JObject [(''execution_time'', JNumber (JFloat 4607182418800017408)), (''id'',
        JString ''test''), (''job'', JString ''nnnnnn/QUSER/QZDASOINIT''), (''success'', JBool
        True)]) =
       Inr (Connected ''test'' '''' ''nnnnnn/QUSER/QZDASOINIT''))"

definition snapshot_decode_live_terse_query_result :: bool where
  "snapshot_decode_live_terse_query_result =
     (decode_value (JObject [(''data'', JArray [JArray [JNumber (JInt 7)]]), (''execution_time'',
        JNumber (JInt 1)), (''has_results'', JBool True), (''id'', JString ''q1''), (''is_done'',
        JBool True), (''metadata'', JObject [(''column_count'', JNumber (JInt 1)), (''columns'',
        JArray [JObject [(''display_size'', JNumber (JInt 11)), (''label'', JString ''1''),
        (''name'', JString ''1''), (''precision'', JNumber (JInt 10)), (''scale'', JNumber (JInt
        0)), (''type'', JString ''INTEGER'')]])]), (''success'', JBool True), (''update_count'',
        JNumber (JInt (- 1)))]) =
       Inr (QueryResult \<lparr>qr_id = ''q1'', qr_success = True, qr_has_results = True,
          qr_update_count = - 1, qr_cont_id = None, qr_is_done = True, qr_metadata =
          \<lparr>md_column_count = 1, md_columns = [\<lparr>col_name = ''1'', col_label = Some
          ''1'', col_type_name = Some ''INTEGER'', col_display_size = Some 11, col_precision = Some
          10, col_scale = Some 0\<rparr>], md_job = None, md_parameters = []\<rparr>, qr_data =
          [[(''1'', JNumber (JInt 7))]], qr_execution_time = 4607182418800017408, qr_error = None,
          qr_sqlcode = None, qr_sqlstate = None, qr_parameter_count = None, qr_output_parms =
          []\<rparr>))"

definition snapshot_decode_live_query_result :: bool where
  "snapshot_decode_live_query_result =
     (decode_value (JObject [(''data'', JArray [JObject [(''READY'', JNumber (JInt 1))]]),
        (''execution_time'', JNumber (JInt 215)), (''has_results'', JBool True), (''id'', JString
        ''query3''), (''is_done'', JBool True), (''metadata'', JObject [(''column_count'', JNumber
        (JInt 1)), (''columns'', JArray [JObject [(''display_size'', JNumber (JInt 11)),
        (''label'', JString ''READY''), (''name'', JString ''READY''), (''precision'', JNumber
        (JInt 10)), (''scale'', JNumber (JInt 0)), (''type'', JString ''INTEGER'')]]), (''job'',
        JString ''123456/QUSER/QZDASOINIT'')]), (''success'', JBool True), (''update_count'',
        JNumber (JInt (- 1)))]) =
       Inr (QueryResult \<lparr>qr_id = ''query3'', qr_success = True, qr_has_results = True,
          qr_update_count = - 1, qr_cont_id = None, qr_is_done = True, qr_metadata =
          \<lparr>md_column_count = 1, md_columns = [\<lparr>col_name = ''READY'', col_label = Some
          ''READY'', col_type_name = Some ''INTEGER'', col_display_size = Some 11, col_precision =
          Some 10, col_scale = Some 0\<rparr>], md_job = Some ''123456/QUSER/QZDASOINIT'',
          md_parameters = []\<rparr>, qr_data = [[(''READY'', JNumber (JInt 1))]],
          qr_execution_time = 4641768656563339264, qr_error = None, qr_sqlcode = None, qr_sqlstate
          = None, qr_parameter_count = None, qr_output_parms = []\<rparr>))"

definition snapshot_decode_live_call_output_parms :: bool where
  "snapshot_decode_live_call_output_parms =
     (decode_value (JObject [(''data'', JArray []), (''execution_time'', JNumber (JInt 5)),
        (''has_results'', JBool False), (''id'', JString ''call1''), (''is_done'', JBool True),
        (''metadata'', JObject [(''column_count'', JNumber (JInt 0)), (''columns'', JArray []),
        (''parameters'', JArray [JObject [(''mode'', JString ''IN''), (''name'', JString ''P1''),
        (''precision'', JNumber (JInt 10)), (''scale'', JNumber (JInt 0)), (''type'', JString
        ''INTEGER'')], JObject [(''mode'', JString ''INOUT''), (''name'', JString ''P2''),
        (''precision'', JNumber (JInt 10)), (''scale'', JNumber (JInt 0)), (''type'', JString
        ''INTEGER'')], JObject [(''mode'', JString ''OUT''), (''name'', JString ''P3''),
        (''precision'', JNumber (JInt 10)), (''scale'', JNumber (JInt 0)), (''type'', JString
        ''INTEGER'')]])]), (''output_parms'', JArray [JObject [(''index'', JNumber (JInt 1)),
        (''name'', JString ''P1''), (''precision'', JNumber (JInt 10)), (''scale'', JNumber (JInt
        0)), (''type'', JString ''INTEGER'')], JObject [(''index'', JNumber (JInt 2)), (''name'',
        JString ''P2''), (''precision'', JNumber (JInt 10)), (''scale'', JNumber (JInt 0)),
        (''type'', JString ''INTEGER''), (''value'', JNumber (JInt 0))], JObject [(''index'',
        JNumber (JInt 3)), (''name'', JString ''P3''), (''precision'', JNumber (JInt 10)),
        (''scale'', JNumber (JInt 0)), (''type'', JString ''INTEGER''), (''value'', JNumber (JInt
        10))]]), (''parameter_count'', JNumber (JInt 3)), (''success'', JBool True),
        (''update_count'', JNumber (JInt 0))]) =
       Inr (QueryResult \<lparr>qr_id = ''call1'', qr_success = True, qr_has_results = False,
          qr_update_count = 0, qr_cont_id = None, qr_is_done = True, qr_metadata =
          \<lparr>md_column_count = 0, md_columns = [], md_job = None, md_parameters =
          [\<lparr>pd_type_name = ''INTEGER'', pd_mode = ''IN'', pd_precision = 10, pd_scale = Some
          0, pd_name = ''P1''\<rparr>, \<lparr>pd_type_name = ''INTEGER'', pd_mode = ''INOUT'',
          pd_precision = 10, pd_scale = Some 0, pd_name = ''P2''\<rparr>, \<lparr>pd_type_name =
          ''INTEGER'', pd_mode = ''OUT'', pd_precision = 10, pd_scale = Some 0, pd_name =
          ''P3''\<rparr>]\<rparr>, qr_data = [], qr_execution_time = 4617315517961601024, qr_error
          = None, qr_sqlcode = None, qr_sqlstate = None, qr_parameter_count = Some 3,
          qr_output_parms = [\<lparr>pr_index = 1, pr_type_name = ''INTEGER'', pr_precision = 10,
          pr_scale = Some 0, pr_name = ''P1'', pr_ccsid = None, pr_value = None\<rparr>,
          \<lparr>pr_index = 2, pr_type_name = ''INTEGER'', pr_precision = 10, pr_scale = Some 0,
          pr_name = ''P2'', pr_ccsid = None, pr_value = Some (JNumber (JInt 0))\<rparr>,
          \<lparr>pr_index = 3, pr_type_name = ''INTEGER'', pr_precision = 10, pr_scale = Some 0,
          pr_name = ''P3'', pr_ccsid = None, pr_value = Some (JNumber (JInt 10))\<rparr>]\<rparr>))"

definition snapshot_decode_live_pong :: bool where
  "snapshot_decode_live_pong =
     (decode_value (JObject [(''id'', JString ''p1''), (''success'', JBool True)]) =
       Inr (Pong ''p1''))"

definition snapshot_decode_live_gettracedata :: bool where
  "snapshot_decode_live_gettracedata =
     (decode_value (JObject [(''execution_time'', JNumber (JInt 0)), (''id'', JString ''t1''),
        (''jtopentracedata'', JString ''''), (''success'', JBool True), (''tracedata'', JString
        ''+++ trace start +++'')]) =
       Inr (TraceData ''t1'' True ''+++ trace start +++''))"

definition snapshot_decode_live_dove :: bool where
  "snapshot_decode_live_dove =
     (decode_value (JObject [(''execution_time'', JNumber (JInt 1)), (''id'', JString ''d1''),
        (''success'', JBool True), (''vedata'', JArray [JObject [(''op'', JString ''TBSCAN'')]]),
        (''vemetadata'', JObject [(''version'', JNumber (JInt 1))])]) =
       Inr (DoveResult ''d1'' True (JArray [JObject [(''op'', JString ''TBSCAN'')]]) (Some (JObject
          [(''version'', JNumber (JInt 1))]))))"

definition snapshot_decode_live_dove_with_data :: bool where
  "snapshot_decode_live_dove_with_data =
     (decode_value (JObject [(''data'', JArray [JObject [(''X'', JNumber (JInt 1))]]),
        (''execution_time'', JNumber (JInt 1)), (''id'', JString ''d1''), (''is_done'', JBool
        True), (''success'', JBool True), (''vedata'', JArray [JObject [(''op'', JString
        ''TBSCAN'')]]), (''vemetadata'', JObject [(''version'', JNumber (JInt 1))])]) =
       Inr (DoveResult ''d1'' True (JArray [JObject [(''op'', JString ''TBSCAN'')]]) (Some (JObject
          [(''version'', JNumber (JInt 1))]))))"

definition snapshot_decode_live_setconfig :: bool where
  "snapshot_decode_live_setconfig =
     (decode_value (JObject [(''execution_time'', JNumber (JInt 1)), (''id'', JString ''t1''),
        (''success'', JBool True), (''tracedest'', JString ''IN_MEM''), (''tracelevel'', JString
        ''OFF'')]) =
       Inr (Pong ''t1''))"

definition snapshot_decode_live_prepare :: bool where
  "snapshot_decode_live_prepare =
     (decode_value (JObject [(''cont_id'', JString ''stmt-7''), (''execution_time'', JNumber
        (JFloat 4609434218613702656)), (''id'', JString ''pr1''), (''is_done'', JBool True),
        (''success'', JBool True)]) =
       Inr (PreparedStatement ''pr1'' True ''stmt-7'' 4609434218613702656))"

definition snapshot_decode_live_error :: bool where
  "snapshot_decode_live_error =
     (decode_value (JObject [(''error'', JString ''nope''), (''id'', JString ''x''), (''sql_rc'',
        JNumber (JInt (- 803))), (''sql_state'', JString ''23505''), (''success'', JBool False)]) =
       Inr (ErrorResp \<lparr>er_id = ''x'', er_success = False, er_sqlstate = Some ''23505'',
          er_sqlcode = Some (- 803), er_error = Some ''nope'', er_job = None\<rparr>))"

definition snapshot_decode_live_cl_success :: bool where
  "snapshot_decode_live_cl_success =
     (decode_value (JObject [(''data'', JArray [JObject [(''FROM_LIBRARY'', JString ''QSYS''),
        (''FROM_PROGRAM'', JString ''QCAEXEC''), (''MESSAGE_ID'', JString ''CPC2102''),
        (''MESSAGE_SECOND_LEVEL_TEXT'', JString ''''), (''MESSAGE_TEXT'', JString
        ''Library QGPL displayed.''), (''MESSAGE_TIMESTAMP'', JString
        ''2026-08-27-12.00.00.000000''), (''MESSAGE_TYPE'', JString ''COMPLETION''), (''SEVERITY'',
        JString ''0'')]]), (''has_results'', JBool True), (''id'', JString ''cl1''), (''is_done'',
        JBool True), (''success'', JBool True)]) =
       Inr (QueryResult \<lparr>qr_id = ''cl1'', qr_success = True, qr_has_results = True,
          qr_update_count = 0, qr_cont_id = None, qr_is_done = True, qr_metadata =
          \<lparr>md_column_count = 0, md_columns = [], md_job = None, md_parameters = []\<rparr>,
          qr_data = [[(''FROM_LIBRARY'', JString ''QSYS''), (''FROM_PROGRAM'', JString
          ''QCAEXEC''), (''MESSAGE_ID'', JString ''CPC2102''), (''MESSAGE_SECOND_LEVEL_TEXT'',
          JString ''''), (''MESSAGE_TEXT'', JString ''Library QGPL displayed.''),
          (''MESSAGE_TIMESTAMP'', JString ''2026-08-27-12.00.00.000000''), (''MESSAGE_TYPE'',
          JString ''COMPLETION''), (''SEVERITY'', JString ''0'')]], qr_execution_time = 0, qr_error
          = None, qr_sqlcode = None, qr_sqlstate = None, qr_parameter_count = None, qr_output_parms
          = []\<rparr>))"

definition snapshot_decode_live_cl_failure :: bool where
  "snapshot_decode_live_cl_failure =
     (decode_value (JObject [(''data'', JArray [JObject [(''FROM_LIBRARY'', JString ''QSYS''),
        (''FROM_PROGRAM'', JString ''QCAEXEC''), (''MESSAGE_ID'', JString ''CPF0006''),
        (''MESSAGE_SECOND_LEVEL_TEXT'', JString ''Cause . . . . :   Errors occurred.''),
        (''MESSAGE_TEXT'', JString ''[CPF0006] Errors occurred in command.''),
        (''MESSAGE_TIMESTAMP'', JString ''2026-08-27-12.00.00.000000''), (''MESSAGE_TYPE'', JString
        ''ESCAPE''), (''SEVERITY'', JNumber (JInt 40))]]), (''error'', JString
        ''[CPF0006] Errors occurred in command.''), (''id'', JString ''cl2''), (''is_done'', JBool
        True), (''sql_rc'', JNumber (JInt (- 443))), (''sql_state'', JString ''38501''),
        (''success'', JBool False)]) =
       Inr (QueryResult \<lparr>qr_id = ''cl2'', qr_success = False, qr_has_results = False,
          qr_update_count = 0, qr_cont_id = None, qr_is_done = True, qr_metadata =
          \<lparr>md_column_count = 0, md_columns = [], md_job = None, md_parameters = []\<rparr>,
          qr_data = [[(''FROM_LIBRARY'', JString ''QSYS''), (''FROM_PROGRAM'', JString
          ''QCAEXEC''), (''MESSAGE_ID'', JString ''CPF0006''), (''MESSAGE_SECOND_LEVEL_TEXT'',
          JString ''Cause . . . . :   Errors occurred.''), (''MESSAGE_TEXT'', JString
          ''[CPF0006] Errors occurred in command.''), (''MESSAGE_TIMESTAMP'', JString
          ''2026-08-27-12.00.00.000000''), (''MESSAGE_TYPE'', JString ''ESCAPE''), (''SEVERITY'',
          JNumber (JInt 40))]], qr_execution_time = 0, qr_error = Some
          ''[CPF0006] Errors occurred in command.'', qr_sqlcode = Some (- 443), qr_sqlstate = Some
          ''38501'', qr_parameter_count = None, qr_output_parms = []\<rparr>))"

lemma live_snapshots:
  snapshot_decode_live_connect snapshot_decode_live_terse_query_result
  snapshot_decode_live_query_result snapshot_decode_live_call_output_parms
  snapshot_decode_live_pong snapshot_decode_live_gettracedata snapshot_decode_live_dove
  snapshot_decode_live_dove_with_data snapshot_decode_live_setconfig snapshot_decode_live_prepare
  snapshot_decode_live_error snapshot_decode_live_cl_success snapshot_decode_live_cl_failure
  unfolding snapshot_decode_live_connect_def snapshot_decode_live_terse_query_result_def
    snapshot_decode_live_query_result_def snapshot_decode_live_call_output_parms_def
    snapshot_decode_live_pong_def snapshot_decode_live_gettracedata_def
    snapshot_decode_live_dove_def snapshot_decode_live_dove_with_data_def
    snapshot_decode_live_setconfig_def snapshot_decode_live_prepare_def
    snapshot_decode_live_error_def snapshot_decode_live_cl_success_def
    snapshot_decode_live_cl_failure_def
  by (simp_all add: decode_run obj_insert_def f64_of_int_def f64_of_nat_def Let_def log2_nat.simps)

definition snapshot_tests :: "bool list" where
  "snapshot_tests =
     [snapshot_request_connect, snapshot_request_sql_minimal,
      snapshot_request_sql_with_params_and_rows, snapshot_request_sql_terse,
      snapshot_request_prepare_sql, snapshot_request_prepare_sql_execute_batched,
      snapshot_request_execute, snapshot_request_prepare_sql_execute_single,
      snapshot_request_sqlmore_sqlclose, snapshot_request_cl,
      snapshot_request_metadata_and_diagnostics, snapshot_request_dove_run, set_config_trace_off,
      snapshot_response_query_result_select, snapshot_response_query_result_dml,
      snapshot_response_query_result_call_out, snapshot_response_error,
      snapshot_response_cl_result, snapshot_response_connected, snapshot_response_pong_exited,
      snapshot_response_prepared_statement, snapshot_response_sql_closed,
      snapshot_response_version, snapshot_response_db_job, snapshot_response_config_set,
      snapshot_response_trace_data, snapshot_response_dove_result, snapshot_decode_live_connect,
      snapshot_decode_live_terse_query_result, snapshot_decode_live_query_result,
      snapshot_decode_live_call_output_parms, snapshot_decode_live_pong,
      snapshot_decode_live_gettracedata, snapshot_decode_live_dove,
      snapshot_decode_live_dove_with_data, snapshot_decode_live_setconfig,
      snapshot_decode_live_prepare, snapshot_decode_live_error, snapshot_decode_live_cl_success,
      snapshot_decode_live_cl_failure]"

lemma snapshot_tests_pass: "list_all id snapshot_tests"
  unfolding snapshot_tests_def by (simp add: request_snapshots answer_snapshots live_snapshots)

end
