(* ===== verification/Integration_Tests.thy ===== *)
theory Integration_Tests
  imports Mock_Server Executor Snapshot_Tests
begin

text \<open>
  The integration tests of \<^verbatim>\<open>src/tests\<close> that drive one connection, run against the
  mock server of theory Mock_Server. A test is a definition: the mock's behaviour, the calls of the
  test in their order, and its assertions. What the mock's recorder saw are the requests of the
  session and, for closes sent by dropped values, the spawned ones. An assertion about the text of
  a request is one about the object that is written.

  The tests that run a pool, overlap calls or look at spans and metrics are in theory Pool_Tests.
\<close>

section \<open>Running a test\<close>

text \<open>The session that \<open>Job::connect\<close> gives against a mock that accepts; see \<open>connects\<close> below.\<close>

definition first_ids :: id_allocator where
  "first_ids = new_allocator None 0"

definition connected_to :: "behavior \<Rightarrow> mock session" where
  "connected_to b =
     \<lparr>ss_world = (mock_start b)\<lparr>mk_phase := Looping\<rparr>, ss_ids = snd (next_id first_ids),
      ss_runtime = True, ss_sent = [], ss_received = [], ss_spawned = []\<rparr>"

abbreviation against :: "behavior \<Rightarrow> mock sender" where
  "against b \<equiv> mock_sender sample b"

definition expect_ok :: "(error + 'a) \<times> 's \<Rightarrow> ('a \<Rightarrow> 's \<Rightarrow> bool) \<Rightarrow> bool" where
  "expect_ok r k = (case r of (Inl e, t) \<Rightarrow> False | (Inr x, t) \<Rightarrow> k x t)"

definition expect_err :: "(error + 'a) \<times> 's \<Rightarrow> (error \<Rightarrow> 's \<Rightarrow> bool) \<Rightarrow> bool" where
  "expect_err r k = (case r of (Inl e, t) \<Rightarrow> k e t | (Inr x, t) \<Rightarrow> False)"

lemma expect_simps [simp]:
  "expect_ok (Inr x, t) k = k x t" "expect_ok (Inl e, t) k = False"
  "expect_err (Inl e, t) k' = k' e t" "expect_err (Inr x, t) k' = False"
  by (simp_all add: expect_ok_def expect_err_def)

text \<open>The calls that follow are not looked at before the first has its result.\<close>

lemma expect_cong [cong]:
  "r = r' \<Longrightarrow> expect_ok r k = expect_ok r' k" "r = r' \<Longrightarrow> expect_err r k' = expect_err r' k'"
  by simp_all

text \<open>\<open>into_dynamic\<close>; no test has more than 300 rows.\<close>

definition collect ::
  "behavior \<Rightarrow> rows \<Rightarrow> mock session \<Rightarrow> (error + json_object list) \<times> mock session" where
  "collect b rw t =
     unwrap_or (Inl Cancelled, t) (into_dynamic (against b) None 0 300 rw t)"

definition sent_sql :: "mock session \<Rightarrow> request list" where
  "sent_sql t = filter (\<lambda>r. case r of Sql i s n ps x \<Rightarrow> True | _ \<Rightarrow> False) (ss_sent t)"

definition sent_bound :: "mock session \<Rightarrow> request list" where
  "sent_bound t =
     filter (\<lambda>r. case r of PrepareSqlExecute i s ps n x \<Rightarrow> True | _ \<Rightarrow> False) (ss_sent t)"

definition sent_more :: "mock session \<Rightarrow> request list" where
  "sent_more t = filter (\<lambda>r. case r of SqlMore i c n \<Rightarrow> True | _ \<Rightarrow> False) (ss_sent t)"

definition sent_execute :: "mock session \<Rightarrow> request list" where
  "sent_execute t = filter (\<lambda>r. case r of Execute i c ps n x \<Rightarrow> True | _ \<Rightarrow> False) (ss_sent t)"

definition closes :: "mock session \<Rightarrow> string list" where
  "closes t = List.map_filter (\<lambda>r. case r of SqlClose i c \<Rightarrow> Some c | _ \<Rightarrow> None)
     (ss_sent t @ ss_spawned t)"

definition request_rows :: "request \<Rightarrow> u32 option" where
  "request_rows r =
     (case r of
        Sql i s n ps x \<Rightarrow> n
      | PrepareSqlExecute i s ps n x \<Rightarrow> n
      | Execute i c ps n x \<Rightarrow> n
      | SqlMore i c n \<Rightarrow> Some n
      | _ \<Rightarrow> None)"

definition bound_sets :: "request \<Rightarrow> value list list option" where
  "bound_sets r = (case r of PrepareSqlExecute i s ps n x \<Rightarrow> ps | _ \<Rightarrow> None)"

definition result_of :: "bool \<Rightarrow> i64 \<Rightarrow> column list \<Rightarrow> json_object list \<Rightarrow> bool \<Rightarrow> query_result" where
  "result_of rs n cols rows fin =
     \<lparr>qr_id = ''placeholder'', qr_success = True, qr_has_results = rs, qr_update_count = n,
      qr_cont_id = None, qr_is_done = fin,
      qr_metadata = default_metadata
        \<lparr>md_column_count := of_nat (length cols), md_columns := cols\<rparr>,
      qr_data = rows, qr_execution_time = 4607182418800017408, qr_error = None, qr_sqlcode = None,
      qr_sqlstate = None, qr_parameter_count = None, qr_output_parms = []\<rparr>"

definition dml_qr :: "i64 \<Rightarrow> query_result" where
  "dml_qr n = result_of False n [] [] True"

definition integer_column :: "string \<Rightarrow> i32 \<Rightarrow> column" where
  "integer_column n k =
     \<lparr>col_name = n, col_label = Some n, col_type_name = Some ''INTEGER'',
      col_display_size = Some k, col_precision = Some 10, col_scale = Some 0\<rparr>"

definition int_row :: "int \<Rightarrow> query_result" where
  "int_row v =
     result_of True (- 1) [integer_column ''1'' 11] [[(''1'', JNumber (JInt v))]] True"

section \<open>Plain statements\<close>

definition select_query_result :: query_result where
  "select_query_result =
     result_of True (- 1)
       [(integer_column ''name'' 50)\<lparr>col_type_name := Some ''VARCHAR'', col_precision := Some 50\<rparr>,
        integer_column ''age'' 10]
       [[(''age'', (JNumber (JInt 30))), (''name'', (JString ''Alice''))]] True"

definition test_select_returns_rows_with_data :: bool where
  "test_select_returns_rows_with_data =
     (let b = Pages [select_query_result] in
      expect_ok (job_execute (against b) ''SELECT name, age FROM USERS'' (connected_to b)) (\<lambda>rw t.
        has_results rw \<and> update_count rw = None \<and>
        expect_ok (collect b rw t) (\<lambda>ms u. length ms = 1 \<and>
          row_get de_string (hd ms) ''name'' = Inr ''Alice'' \<and>
          row_get de_i64 (hd ms) ''age'' = Inr 30)))"

definition test_dml_returns_update_count :: bool where
  "test_dml_returns_update_count =
     (let b = Pages [dml_qr 3] in
      expect_ok (job_execute (against b) ''INSERT INTO USERS VALUES (Bob, 25)'' (connected_to b))
        (\<lambda>rw t. \<not> has_results rw \<and> update_count rw = Some 3))"

definition server_error_response :: "string \<Rightarrow> string \<Rightarrow> error_response" where
  "server_error_response state message =
     \<lparr>er_id = ''placeholder'', er_success = False, er_sqlstate = Some state,
      er_sqlcode = Some (- 803), er_error = Some message, er_job = Some ''DAEMON/QUSER/000001''\<rparr>"

definition assert_execute_returns_classified_error ::
  "string \<Rightarrow> (server_error \<Rightarrow> bool) \<Rightarrow> bool" where
  "assert_execute_returns_classified_error state classify =
     (let b = ReturnError (server_error_response state ''test error message'') in
      expect_err (job_execute (against b) ''INSERT INTO T VALUES (1)'' (connected_to b)) (\<lambda>e t.
        case e of Server s \<Rightarrow> se_sqlstate s = Some state \<and> classify s | _ \<Rightarrow> False))"

definition test_constraint_violation_classified :: bool where
  "test_constraint_violation_classified =
     assert_execute_returns_classified_error ''23505'' is_constraint_violation"

definition test_authorization_classified :: bool where
  "test_authorization_classified =
     assert_execute_returns_classified_error ''42501'' is_authorization"

definition test_transient_classified :: bool where
  "test_transient_classified =
     assert_execute_returns_classified_error ''08001'' is_transient"

lemma page_decodes:
  "wf_result q \<Longrightarrow>
   decode_value (encode_query_result_maybe_terse q None) = Inr (QueryResult (as_read q))"
  using decode_value_encoded [of q None "qr_data q"] named_wire_rows [of None q] by simp

lemma terse_page_decodes:
  assumes "wf_result q" "distinct (map col_name (md_columns (qr_metadata q)))"
    and "md_columns (qr_metadata q) = [] \<Longrightarrow> qr_data q = []"
  shows "decode_value (encode_query_result_maybe_terse q (Some True)) =
    Inr (QueryResult (as_read
      (q\<lparr>qr_data := map (by_column (map col_name (md_columns (qr_metadata q)))) (qr_data q)\<rparr>)))"
  using decode_value_encoded [of q "Some True"] named_wire_rows [of "Some True" q] assms by auto

lemma try_collect_numeral:
  "try_collect send f (numeral k) out st s =
     (case stream_next send st s of
        (None, t) \<Rightarrow> Some (Inr out, t)
      | (Some (item, st1), t) \<Rightarrow>
          (case bindR item f of
             Inl e \<Rightarrow> Some (Inl e, drop_stream st1 t)
           | Inr x \<Rightarrow> try_collect send f (pred_numeral k) (out @ [x]) st1 t))"
  by (simp add: numeral_eq_Suc)

lemma call_once:
  "call send mk k s =
     (let i = fst (next_id (ss_ids s)) in
      case send (mk i) (ss_world s) of
        (x, w) \<Rightarrow> (bindR x (k i),
          s\<lparr>ss_ids := snd (next_id (ss_ids s)), ss_world := w, ss_sent := ss_sent s @ [mk i],
            ss_received := ss_received s @ [x]\<rparr>))"
  by (simp add: call_eq after_call_def peek_id_def Let_def split: prod.split)

lemma next_id_nonempty: "fst (next_id a) \<noteq> []"
  by (simp add: next_id_def)

lemmas mock_run = connected_to_def mock_start_def call_once next_id_nonempty
  mock_sender_def run_mock_def loop_turn_def pages_turn_def next_page_def reply_with_def over_def
  page_decodes result_of_def wf_result_def f64_finite_def as_read_def non_empty_def
  default_metadata_def live_error

lemmas job_run = job_execute_def job_execute_opts_def job_execute_with_def
  job_execute_with_opts_def job_execute_sets_def job_execute_inner_def resolved_rows_def
  default_options_def DEFAULT_ROWS_def sql_request_def rows_of_reply_def rows_new_def
  terse_on_wire_def has_results_def update_count_def rows_is_done_def first_page_len_def

lemmas collect_run = collect_def into_dynamic_def stream_def try_collect_numeral stream_next_def
  drop_stream_def row_get_def obj_get_def

lemma plain_statements:
  test_select_returns_rows_with_data test_dml_returns_update_count
  test_constraint_violation_classified test_authorization_classified test_transient_classified
  unfolding test_select_returns_rows_with_data_def test_dml_returns_update_count_def
    test_constraint_violation_classified_def test_authorization_classified_def
    test_transient_classified_def
  by (simp_all add: mock_run job_run collect_run select_query_result_def dml_qr_def
     integer_column_def assert_execute_returns_classified_error_def server_error_response_def
     server_error_from_def error_from_server_def is_constraint_violation_def is_authorization_def
     is_transient_def starts_with_def Let_def)

section \<open>Paging\<close>

definition number_row :: "int \<Rightarrow> json_object" where
  "number_row i = [(''n'', JNumber (JInt i))]"

definition page :: "nat \<Rightarrow> nat \<Rightarrow> string option \<Rightarrow> bool \<Rightarrow> query_result" where
  "page start n cont_id fin =
     (result_of True (- 1) [integer_column ''n'' 10]
        (map (number_row \<circ> int) [start..<start + n]) fin)\<lparr>qr_cont_id := cont_id\<rparr>"

definition rows_option :: "u32 \<Rightarrow> execute_options" where
  "rows_option n = \<lparr>eo_rows = Some n, eo_terse = False\<rparr>"

definition numbers :: "json_object list \<Rightarrow> (error + i64) list" where
  "numbers ms = map (\<lambda>m. row_get de_i64 m ''n'') ms"

definition numbers_upto :: "nat \<Rightarrow> json_object list \<Rightarrow> bool" where
  "numbers_upto k ms = (ms = map (number_row \<circ> int) [0..<k])"

definition test_paging_across_two_pages :: bool where
  "test_paging_across_two_pages =
     (let b = Pages [page 0 50 (Some ''cur-1'') False, page 50 50 None True] in
      expect_ok (job_execute (against b) ''SELECT n FROM SCHEMA.NUMBERS'' (connected_to b)) (\<lambda>rw t.
        has_results rw \<and> expect_ok (collect b rw t) (\<lambda>ms u.
          length ms = 100 \<and> numbers_upto 100 ms)))"

definition test_sqlmore_uses_opening_page_size :: bool where
  "test_sqlmore_uses_opening_page_size =
     (let b = Pages [page 0 10 (Some ''cur-1'') False, page 10 10 None True] in
      expect_ok (job_execute_opts (against b) ''SELECT n FROM SCHEMA.NUMBERS'' (rows_option 10)
         (connected_to b))
        (\<lambda>rw t. expect_ok (collect b rw t) (\<lambda>ms u.
          length ms = 20 \<and> map request_rows (sent_sql u) = [Some 10] \<and>
          map request_rows (sent_more u) = [Some 10])))"

definition opening_sql_id :: "mock session \<Rightarrow> string option" where
  "opening_sql_id t = find_map (\<lambda>r. case r of
       Sql i s n ps x \<Rightarrow> Some i
     | PrepareSqlExecute i s ps n x \<Rightarrow> Some i
     | Execute i c ps n x \<Rightarrow> Some i
     | _ \<Rightarrow> None) (ss_sent t)"

definition cursor_of :: "request \<Rightarrow> string option" where
  "cursor_of r = (case r of SqlMore i c n \<Rightarrow> Some c | _ \<Rightarrow> None)"

definition test_stream_sqlmore_without_cont_id_uses_request_id :: bool where
  "test_stream_sqlmore_without_cont_id_uses_request_id =
     (let b = Pages [page 0 100 None False, page 100 1 None True] in
      expect_ok (job_execute_opts (against b) ''SELECT n FROM SCHEMA.NUMBERS'' (rows_option 100)
         (connected_to b))
        (\<lambda>rw t. \<not> rows_is_done rw \<and> first_page_len rw = 100 \<and>
          expect_ok (collect b rw t) (\<lambda>ms u. length ms = 101 \<and>
            map cursor_of (sent_more u) = [opening_sql_id u] \<and>
            map request_rows (sent_more u) = [Some 100])))"

definition test_stream_two_pages_without_cont_id_collects_200 :: bool where
  "test_stream_two_pages_without_cont_id_collects_200 =
     (let b = Pages [page 0 100 None False, page 100 100 None True] in
      expect_ok (job_execute_opts (against b) ''SELECT n FROM SCHEMA.NUMBERS'' (rows_option 100)
         (connected_to b))
        (\<lambda>rw t. expect_ok (collect b rw t) (\<lambda>ms u.
          length ms = 200 \<and> numbers_upto 200 ms \<and>
          map cursor_of (sent_more u) = [opening_sql_id u])))"

definition test_stream_skips_sqlmore_when_is_done_after_one_row :: bool where
  "test_stream_skips_sqlmore_when_is_done_after_one_row =
     (let b = Pages [page 0 1 None True] in
      expect_ok (job_execute (against b) ''SELECT 1 FROM SYSIBM.SYSDUMMY1'' (connected_to b)) (\<lambda>rw
         t.
        rows_is_done rw \<and> first_page_len rw = 1 \<and>
        expect_ok (collect b rw t) (\<lambda>ms u. length ms = 1 \<and> sent_more u = [] \<and> closes u = [])))"

definition test_stream_skips_sqlmore_when_is_done_after_full_small_page :: bool where
  "test_stream_skips_sqlmore_when_is_done_after_full_small_page =
     (let b = Pages [page 0 3 None True] in
      expect_ok (job_execute_opts (against b)
         ''SELECT n FROM SCHEMA.NUMBERS FETCH NEXT 3 ROWS ONLY''
          (rows_option 100) (connected_to b)) (\<lambda>rw t.
        expect_ok (collect b rw t) (\<lambda>ms u. length ms = 3 \<and> sent_more u = [])))"

definition test_stream_empty_page_without_is_done_is_internal :: bool where
  "test_stream_empty_page_without_is_done_is_internal =
     (let b = Pages [page 0 1 None False, page 0 0 None False] in
      expect_ok (job_execute (against b) ''SELECT n FROM SCHEMA.NUMBERS'' (connected_to b)) (\<lambda>rw t.
        expect_err (collect b rw t) (\<lambda>e u.
          case e of Internal msg \<Rightarrow> contains msg ''empty page without is_done'' | _ \<Rightarrow> False)))"

text \<open>Rows that are there are collected without a request.\<close>

lemma collect_buffered:
  "st_rows st \<noteq> [] \<Longrightarrow> length (st_rows st) \<le> fuel \<Longrightarrow>
   try_collect send Inr fuel out st s =
     try_collect send Inr (fuel - length (st_rows st)) (out @ st_rows st) (st\<lparr>st_rows := []\<rparr>) s"
proof (induction "st_rows st" arbitrary: st fuel out)
  case (Cons m ms)
  then obtain f where f: "fuel = Suc f" by (cases fuel) auto
  let ?st = "st\<lparr>st_rows := ms\<rparr>"
  have "try_collect send Inr fuel out st s = try_collect send Inr f (out @ [m]) ?st s"
    using Cons.hyps(2) [symmetric] by (simp add: f stream_next_def)
  also have "\<dots> = try_collect send Inr (f - length ms) (out @ m # ms) (st\<lparr>st_rows := []\<rparr>) s"
    using Cons.hyps(1) [of ?st f "out @ [m]"] Cons.prems(2) Cons.hyps(2) [symmetric]
    by (cases "ms = []") (simp_all add: f)
  finally show ?case using Cons.hyps(2) [symmetric] by (simp add: f)
qed simp

lemma try_collect_empty:
  "st_rows st = [] \<Longrightarrow> try_collect send f (numeral k) out st s =
     (case stream_next send st s of
        (None, t) \<Rightarrow> Some (Inr out, t)
      | (Some (item, st1), t) \<Rightarrow>
          (case bindR item f of
             Inl e \<Rightarrow> Some (Inl e, drop_stream st1 t)
           | Inr x \<Rightarrow> try_collect send f (pred_numeral k) (out @ [x]) st1 t))"
  by (simp add: try_collect_numeral)

lemma ranges_join:
  assumes "i \<le> j" "j < l" "k = Suc j" "z = int j"
  shows "map (number_row \<circ> int) [i..<j] @ number_row z # map (number_row \<circ> int) [k..<l] =
    map (number_row \<circ> int) [i..<l]"
proof -
  have "[i..<l] = [i..<j] @ j # [k..<l]"
    using assms(1-3) by (metis less_imp_le_nat upt_add_eq_append upt_conv_Cons le_Suc_ex)
  with assms(4) show ?thesis by simp
qed

lemma second_pages:
  "[10..<20] = 10 # [11..<20::nat]" "[50..<100] = 50 # [51..<100::nat]"
  "[100..<101] = [100::nat]" "[100..<200] = 100 # [101..<200::nat]"
  by (simp_all add: upt_rec)

lemmas paging_run = collect_def into_dynamic_def stream_def stream_next_def drop_stream_def
  collect_buffered try_collect_empty page_def rows_option_def integer_column_def
  send_request_def take_page_def cursor_handle_def sent_more_def sent_sql_def request_rows_def
  cursor_of_def opening_sql_id_def closes_def numbers_upto_def second_pages ranges_join next_id_def
     contains_def sublist_code
  empty_page_error_def spawn_close_def find_map.simps

lemma paging:
  test_paging_across_two_pages test_sqlmore_uses_opening_page_size
  test_stream_sqlmore_without_cont_id_uses_request_id
  test_stream_two_pages_without_cont_id_collects_200
  test_stream_skips_sqlmore_when_is_done_after_one_row
  test_stream_skips_sqlmore_when_is_done_after_full_small_page
  test_stream_empty_page_without_is_done_is_internal
  unfolding test_paging_across_two_pages_def test_sqlmore_uses_opening_page_size_def
    test_stream_sqlmore_without_cont_id_uses_request_id_def
    test_stream_two_pages_without_cont_id_collects_200_def
    test_stream_skips_sqlmore_when_is_done_after_one_row_def
    test_stream_skips_sqlmore_when_is_done_after_full_small_page_def
    test_stream_empty_page_without_is_done_is_internal_def
  by (simp_all add: mock_run job_run paging_run Let_def del: upt_rec_numeral)

section \<open>Dropped cursors\<close>

definition test_drop_rows_without_streaming_releases_cursor :: bool where
  "test_drop_rows_without_streaming_releases_cursor =
     (let b = Pages [page 1 1 None False] in
      expect_ok (job_execute (against b) ''SELECT n FROM T'' (connected_to b)) (\<lambda>rw t.
        map Some (closes (drop_rows rw t)) = [opening_sql_id t]))"

definition test_drop_stream_mid_iteration_releases_cursor :: bool where
  "test_drop_stream_mid_iteration_releases_cursor =
     (let b = Pages [page 1 1 None False] in
      expect_ok (job_execute (against b) ''SELECT n FROM T'' (connected_to b)) (\<lambda>rw t.
        case stream_next (against b) (stream None 0 rw) t of
          (Some (Inr m, st), u) \<Rightarrow> row_get de_i64 m ''n'' = Inr 1 \<and>
            map Some (closes (drop_stream st u)) = [opening_sql_id u]
        | _ \<Rightarrow> False))"

definition test_drop_rows_done_does_not_send_close :: bool where
  "test_drop_rows_done_does_not_send_close =
     (let b = Pages [page 1 1 None True] in
      expect_ok (job_execute (against b) ''SELECT n FROM T'' (connected_to b)) (\<lambda>rw t.
        closes (drop_rows rw t) = []))"

lemmas drop_run = drop_rows_def drop_stream_def stream_def stream_next_def closes_def page_def
  opening_sql_id_def spawn_close_def spawn_best_effort_def close_request_def cursor_handle_def
  integer_column_def number_row_def row_get_def obj_get_def next_id_def find_map.simps
  List.map_filter_def

lemma dropped_cursors:
  test_drop_rows_without_streaming_releases_cursor test_drop_stream_mid_iteration_releases_cursor
  test_drop_rows_done_does_not_send_close
  unfolding test_drop_rows_without_streaming_releases_cursor_def
    test_drop_stream_mid_iteration_releases_cursor_def test_drop_rows_done_does_not_send_close_def
  by (simp_all add: mock_run job_run drop_run Let_def)

section \<open>Prepared statements\<close>

definition insert_one :: "value list" where
  "insert_one = [(JNumber (JInt 1)), (JString ''a'')]"

definition insert_two :: "value list" where
  "insert_two = [(JNumber (JInt 2)), (JString ''b'')]"

definition test_prepare_then_execute :: bool where
  "test_prepare_then_execute =
     (let b = PrepareAndExecute ''stmt-1'' [dml_qr 1] in
      expect_ok (prepare (against b) ''INSERT INTO T VALUES(?,?)'' (connected_to b)) (\<lambda>q t.
      expect_ok (query_execute_with (against b) q insert_one t) (\<lambda>rw u.
        update_count rw = Some 1 \<and> \<not> has_results rw)))"

definition test_execute_batch :: bool where
  "test_execute_batch =
     (let b = PrepareAndExecute ''stmt-batch'' [dml_qr 1, dml_qr 1] in
      expect_ok (prepare (against b) ''INSERT INTO T VALUES(?,?)'' (connected_to b)) (\<lambda>q t.
      expect_ok (query_execute_batch (against b) q [insert_one, insert_two] t) (\<lambda>rws u.
        length rws = 2 \<and> list_all (\<lambda>rw. update_count rw = Some 1 \<and> \<not> has_results rw) rws)))"

definition test_query_execute_opts_with_cont_id :: bool where
  "test_query_execute_opts_with_cont_id =
     (let b = PrepareAndExecute ''stmt-opts'' [dml_qr 1, dml_qr 2, dml_qr 3] in
      expect_ok (prepare (against b) ''INSERT INTO T VALUES(?,?)'' (connected_to b)) (\<lambda>q t.
      expect_err (query_execute_opts (against b) q (rows_option 0) t) (\<lambda>e t1.
        e = Protocol ZeroPageSize \<and>
      expect_ok (query_execute (against b) q t1) (\<lambda>rw t2. update_count rw = Some 1 \<and>
      expect_ok (query_execute_opts (against b) q (rows_option 10) t2) (\<lambda>rw t3.
        update_count rw = Some 2 \<and>
      expect_ok (query_execute_with_opts (against b) q insert_one (rows_option 25) t3) (\<lambda>rw t4.
        update_count rw = Some 3))))))"

definition test_query_execute_unexpected_is_protocol :: bool where
  "test_query_execute_unexpected_is_protocol =
     (let b = AcceptAndConnect in
      expect_ok (prepare (against b) ''SELECT 1 FROM SYSIBM.SYSDUMMY1'' (connected_to b)) (\<lambda>q t.
      expect_err (query_execute (against b) q t) (\<lambda>e u.
        case e of Protocol p \<Rightarrow> True | _ \<Rightarrow> False)))"

lemma live_acks:
  "decode_value (encode_live_response (Pong i)) = Inr (Pong i)"
  "decode_value (encode_live_response (Exited i)) = Inr (Pong i)"
  "decode_value (encode_live_response (SqlClosed i True)) = Inr (Pong i)"
  "decode_value (encode_live_response (ConfigSet i True)) = Inr (Pong i)"
  "decode_value (encode_live_response (DbJob i True j)) = Inr (Connected i [] j)"
  "decode_value (encode_live_response (Version i True v)) = Inr (Version i True v)"
  "decode_value (encode_live_response (TraceData i True t)) = Inr (TraceData i True t)"
  by (simp_all add: live_run)

lemmas prepare_run = prepare_def query_of_reply_def query_new_def query_execute_def
  query_execute_opts_def query_execute_with_def query_execute_with_opts_def
  query_execute_sets_def query_execute_inner_def query_request_def server_handle_def
  query_execute_batch_def prepare_turn_def live_prepared live_acks live_ack_def insert_one_def
  insert_two_def rows_option_def dml_qr_def unexpected_def error_from_protocol_def liftS_def

lemma prepared_statements:
  test_prepare_then_execute test_execute_batch test_query_execute_opts_with_cont_id
  test_query_execute_unexpected_is_protocol
  unfolding test_prepare_then_execute_def test_execute_batch_def
    test_query_execute_opts_with_cont_id_def test_query_execute_unexpected_is_protocol_def
  by (simp_all add: mock_run job_run prepare_run Let_def del: encode_live_response.simps)

section \<open>Many parameter sets\<close>

definition test_execute_sets_one_prepare_sql_execute_nested :: bool where
  "test_execute_sets_one_prepare_sql_execute_nested =
     (let b = Pages [dml_qr 2] in
      expect_ok (job_execute_sets (against b) ''INSERT INTO T VALUES(?,?)'' [insert_one, insert_two]
          default_options (connected_to b)) (\<lambda>rw t.
        update_count rw = Some 2 \<and>
        map bound_sets (sent_bound t) = [Some [insert_one, insert_two]] \<and>
        map request_rows (sent_bound t) = [Some 100] \<and>
        list_all (\<lambda>r. holds_entry (ser_request r) ''parameters'' (JArray [JArray [JNumber (JInt 1),
           JString ''a''], JArray [JNumber (JInt 2), JString ''b'']])) (sent_bound t)))"

definition test_execute_sets_one_set_still_flattens :: bool where
  "test_execute_sets_one_set_still_flattens =
     (let b = Pages [dml_qr 1] in
      expect_ok (job_execute_sets (against b) ''VALUES (CAST(? AS INTEGER))'' [[(JNumber (JInt 7))]]
          default_options (connected_to b)) (\<lambda>rw t.
        update_count rw = Some 1 \<and> length (sent_bound t) = 1 \<and>
        list_all (\<lambda>r. holds_entry (ser_request r) ''parameters'' (JArray [JNumber (JInt 7)]))
           (sent_bound t)))"

definition test_execute_sets_empty_outer_is_protocol_error :: bool where
  "test_execute_sets_empty_outer_is_protocol_error =
     (let b = AcceptAndConnect in
      expect_err (job_execute_sets (against b) ''INSERT INTO T VALUES(?)'' [] default_options
          (connected_to b)) (\<lambda>e t. e = Protocol EmptyParameterSets))"

definition test_query_execute_sets_one_shot :: bool where
  "test_query_execute_sets_one_shot =
     (let b = Pages [dml_qr 2] in
      expect_ok (prepare (against b) ''INSERT INTO T VALUES(?,?)'' (connected_to b)) (\<lambda>q t.
      expect_ok (query_execute_sets (against b) q [insert_one, insert_two] default_options t) (\<lambda>rw
         u.
        update_count rw = Some 2 \<and> length (sent_bound u) = 1 \<and>
        list_all (\<lambda>r. holds_entry (ser_request r) ''parameters'' (JArray [JArray [JNumber (JInt 1),
           JString ''a''], JArray [JNumber (JInt 2), JString ''b'']])) (sent_bound u))))"

definition test_query_execute_sets_unexpected_is_protocol :: bool where
  "test_query_execute_sets_unexpected_is_protocol =
     (let b = AcceptAndConnect in
      expect_ok (prepare (against b) ''INSERT INTO T VALUES(?)'' (connected_to b)) (\<lambda>q t.
      expect_err (query_execute_sets (against b) q [[(JNumber (JInt 1))]] default_options t) (\<lambda>e u.
        case e of Protocol p \<Rightarrow> True | _ \<Rightarrow> False)))"

lemmas sets_run = prepare_run owned_parameter_sets_def sets_request_def bound_sets_def
  sent_bound_def request_rows_def holds_entry_def contains_key_def obj_get_def fld_sets_def
  ser_parameter_sets_def fld_opt_def ser_u32_def

lemma parameter_sets:
  test_execute_sets_one_prepare_sql_execute_nested test_execute_sets_one_set_still_flattens
  test_execute_sets_empty_outer_is_protocol_error test_query_execute_sets_one_shot
  test_query_execute_sets_unexpected_is_protocol
  unfolding test_execute_sets_one_prepare_sql_execute_nested_def
    test_execute_sets_one_set_still_flattens_def
    test_execute_sets_empty_outer_is_protocol_error_def test_query_execute_sets_one_shot_def
    test_query_execute_sets_unexpected_is_protocol_def
  by (simp_all add: mock_run job_run sets_run Let_def del: encode_live_response.simps)

section \<open>CL commands\<close>

definition job_log_row :: "string \<Rightarrow> value \<Rightarrow> string \<Rightarrow> string \<Rightarrow> json_object" where
  "job_log_row message_id severity message_type log_text =
     [(''FROM_LIBRARY'', JString ''QSYS''), (''FROM_PROGRAM'', JString ''QCAEXEC''),
      (''MESSAGE_ID'', JString message_id),
      (''MESSAGE_SECOND_LEVEL_TEXT'', JString ''Cause . . . .''),
      (''MESSAGE_TEXT'', JString log_text),
      (''MESSAGE_TIMESTAMP'', JString ''2026-08-27-12.00.00.000000''),
      (''MESSAGE_TYPE'', JString message_type), (''SEVERITY'', severity)]"

definition cl_success_result :: query_result where
  "cl_success_result =
     result_of True (- 1) []
       [job_log_row ''CPC2102'' (JString ''0'') ''COMPLETION'' ''Library QGPL displayed.''] True"

definition cl_failure_result :: query_result where
  "cl_failure_result =
     (result_of True (- 1) []
       [job_log_row ''CPF0006'' (JNumber (JInt 40)) ''ESCAPE''
          ''[CPF0006] Errors occurred in command.''] True)
       \<lparr>qr_success := False, qr_error := Some ''[CPF0006] Errors occurred in command.'',
        qr_sqlcode := Some (- 443), qr_sqlstate := Some ''38501''\<rparr>"

definition no_float :: "u64 \<Rightarrow> string" where
  "no_float w = []"

definition test_cl_untagged_success_returns_job_log_entries :: bool where
  "test_cl_untagged_success_returns_job_log_entries =
     (let b = ClThen cl_success_result in
      expect_ok (cl (against b) no_float ''DSPLIB QGPL'' (connected_to b)) (\<lambda>out t.
        co_success out \<and> co_error out = None \<and>
        map jl_message_id (co_entries out) = [Some ''CPC2102''] \<and>
        map jl_severity (co_entries out) = [Some ''0''] \<and>
        map jl_message_text (co_entries out) = [Some ''Library QGPL displayed.'']))"

definition test_cl_untagged_cpf0006_is_ok_with_job_log :: bool where
  "test_cl_untagged_cpf0006_is_ok_with_job_log =
     (let b = ClThen cl_failure_result in
      expect_ok (cl (against b) no_float ''INVALIDCOMMAND'' (connected_to b)) (\<lambda>out t.
        \<not> co_success out \<and> co_error out = Some ''[CPF0006] Errors occurred in command.'' \<and>
        co_sqlcode out = Some (- 443) \<and> co_sqlstate out = Some ''38501'' \<and>
        map jl_message_id (co_entries out) = [Some ''CPF0006''] \<and>
        map jl_severity (co_entries out) = [Some ''40''] \<and>
        expect_ok (ping (against b) 0 t) (\<lambda>d u. True)))"

lemmas cl_run = cl_def cl_outcome_from_response_def from_query_result_def cl_turn_def
  de_job_log_entry_def de_fields.simps present_def dflt_def de_option_def job_log_row_def
  cl_success_result_def cl_failure_result_def ping_def live_ack_def live_acks show_int_def
     show_nat.simps digit_chars

lemma live_result_decodes:
  "wf_result q \<Longrightarrow>
   decode_value (encode_live_response (QueryResult q)) = Inr (QueryResult (as_read q))"
  by (simp add: page_decodes)

lemma cl_commands:
  test_cl_untagged_success_returns_job_log_entries test_cl_untagged_cpf0006_is_ok_with_job_log
  unfolding test_cl_untagged_success_returns_job_log_entries_def
    test_cl_untagged_cpf0006_is_ok_with_job_log_def
  by (simp_all add: mock_run job_run cl_run live_result_decodes Let_def del:
     encode_live_response.simps)


section \<open>Binding, preparing and page options\<close>

definition sent_sql_text :: "request \<Rightarrow> string" where
  "sent_sql_text r =
     (case r of Sql i s n ps x \<Rightarrow> s | PrepareSqlExecute i s ps n x \<Rightarrow> s | Dove i s b n x \<Rightarrow> s | _ \<Rightarrow>
        [])"

definition request_terse :: "request \<Rightarrow> bool option" where
  "request_terse r =
     (case r of Sql i s n ps x \<Rightarrow> x | PrepareSqlExecute i s ps n x \<Rightarrow> x | _ \<Rightarrow> None)"

definition terse_option :: execute_options where
  "terse_option = \<lparr>eo_rows = None, eo_terse = True\<rparr>"

definition one_value :: "behavior \<Rightarrow> int \<Rightarrow> rows \<Rightarrow> mock session \<Rightarrow> bool" where
  "one_value b v rw t =
     expect_ok (collect b rw t) (\<lambda>ms u. length ms = 1 \<and> row_get de_i64 (hd ms) ''1'' = Inr
        (word_of_int v))"

definition test_execute_with_sends_prepare_sql_execute :: bool where
  "test_execute_with_sends_prepare_sql_execute =
     (let b = Pages [int_row 7] in
      expect_ok (job_execute_with (against b) ''VALUES (CAST(? AS INTEGER))'' [(JNumber (JInt 7))]
         (connected_to b)) (\<lambda>rw t.
        one_value b 7 rw t \<and> length (sent_bound t) = 1 \<and>
        list_all (\<lambda>r. CHR ''?'' \<in> set (sent_sql_text r) \<and> bound_sets r = Some [[(JNumber (JInt
           7))]] \<and>
          request_rows r = Some 100 \<and>
          holds_entry (ser_request r) ''parameters'' (JArray [JNumber (JInt 7)]) \<and>
          holds_entry (ser_request r) ''rows'' (JNumber (JInt 100))) (sent_bound t)))"

definition test_prepare_then_execute_twice :: bool where
  "test_prepare_then_execute_twice =
     (let b = PrepareAndExecute ''stmt-live'' [int_row 7, int_row 11] in
      expect_ok (prepare (against b) ''VALUES (CAST(? AS INTEGER))'' (connected_to b)) (\<lambda>q t.
      expect_ok (query_execute_with (against b) q [(JNumber (JInt 7))] t) (\<lambda>rw1 t1.
      expect_ok (query_execute_with (against b) q [(JNumber (JInt 11))] t1) (\<lambda>rw2 t2.
        one_value b 7 rw1 t2 \<and> one_value b 11 rw2 t2))))"

definition test_ping_then_sql_on_same_job :: bool where
  "test_ping_then_sql_on_same_job =
     (let b = Pages [int_row 1] in
      expect_ok (ping (against b) 0 (connected_to b)) (\<lambda>d t.
      expect_ok (job_execute (against b) ''SELECT 1 FROM SYSIBM.SYSDUMMY1'' t) (\<lambda>rw u. True)))"

definition test_getdbjob_and_getversion_after_ping :: bool where
  "test_getdbjob_and_getversion_after_ping =
     (let b = AcceptAndConnect in
      expect_ok (ping (against b) 0 (connected_to b)) (\<lambda>d t.
      expect_ok (server_version (against b) t) (\<lambda>v t1.
      expect_ok (db_job_name (against b) t1) (\<lambda>j t2.
        v = ''0.0.0-mock'' \<and> j = ''MOCK/QUSER/000001''))))"

definition shown :: rendering where
  "shown = \<lparr>rn_debug_str = id, rn_debug_response = (\<lambda>r. ''response''),
     rn_debug_duration = (\<lambda>d. ''duration''), rn_json = de_message (fo_show_json sample) (fo_render
        sample)\<rparr>"

definition test_unknown_frame_does_not_kill_dispatcher :: bool where
  "test_unknown_frame_does_not_kill_dispatcher =
     (let b = UnknownTypeThenPages [int_row 1] in
      expect_err (ping (against b) 0 (connected_to b)) (\<lambda>e t.
        (contains (display_error shown e) ''unknown response type'' \<or>
         contains (display_error shown e) ''protocol'') \<and>
        expect_ok (job_execute (against b) ''SELECT 1 FROM SYSIBM.SYSDUMMY1'' t) (\<lambda>rw u. True)))"

definition test_execute_sends_rows_100 :: bool where
  "test_execute_sends_rows_100 =
     (let b = Pages [int_row 1] in
      expect_ok (job_execute (against b) ''SELECT 1 FROM SYSIBM.SYSDUMMY1'' (connected_to b)) (\<lambda>rw
         t.
        length (sent_sql t) = 1 \<and>
        list_all (\<lambda>r. request_rows r = Some 100 \<and> request_terse r = None \<and>
          \<not> has_key (ser_request r) ''terse'') (sent_sql t)))"

definition test_execute_opts_terse_decodes_array_rows :: bool where
  "test_execute_opts_terse_decodes_array_rows =
     (let b = Pages [int_row 7] in
      expect_ok (job_execute_opts (against b) ''SELECT 1 FROM SYSIBM.SYSDUMMY1'' terse_option
         (connected_to b)) (\<lambda>rw t.
        one_value b 7 rw t \<and> length (sent_sql t) = 1 \<and>
        list_all (\<lambda>r. request_terse r = Some True \<and> request_rows r = Some 100 \<and>
          holds_entry (ser_request r) ''terse'' (JBool True)) (sent_sql t)))"

definition nameless_row :: query_result where
  "nameless_row = result_of True (- 1) [] [[(''1'', (JNumber (JInt 7)))]] True"

definition test_execute_opts_terse_missing_columns_is_protocol_error :: bool where
  "test_execute_opts_terse_missing_columns_is_protocol_error =
     (let b = Pages [nameless_row] in
      expect_err (job_execute_opts (against b) ''SELECT 1 FROM SYSIBM.SYSDUMMY1'' terse_option
         (connected_to b))
        (\<lambda>e t. e = Protocol TerseRowsWithoutColumns))"

definition test_execute_opts_rows_zero_rejected :: bool where
  "test_execute_opts_rows_zero_rejected =
     (let b = AcceptAndConnect in
      expect_err (job_execute_opts (against b) ''SELECT 1 FROM SYSIBM.SYSDUMMY1'' (rows_option 0)
         (connected_to b))
        (\<lambda>e t. e = Protocol ZeroPageSize))"

definition test_execute_with_opts_rows_zero_rejected :: bool where
  "test_execute_with_opts_rows_zero_rejected =
     (let b = AcceptAndConnect in
      expect_err (job_execute_with_opts (against b) ''VALUES (CAST(? AS INTEGER))'' [(JNumber (JInt
         7))] (rows_option 0)
          (connected_to b)) (\<lambda>e t. e = Protocol ZeroPageSize))"

definition test_prepare_without_cont_id_then_two_execute_with :: bool where
  "test_prepare_without_cont_id_then_two_execute_with =
     (let b = Pages [int_row 7, int_row 11] in
      expect_ok (prepare (against b) ''VALUES (CAST(? AS INTEGER))'' (connected_to b)) (\<lambda>q t.
      expect_ok (query_execute_with (against b) q [(JNumber (JInt 7))] t) (\<lambda>rw1 t1.
      expect_ok (query_execute_with (against b) q [(JNumber (JInt 11))] t1) (\<lambda>rw2 t2.
        one_value b 7 rw1 t2 \<and> one_value b 11 rw2 t2 \<and>
        (let u = drop_query q t2 in
         list_ex (\<lambda>r. request_kind r = KPrepareSql) (ss_sent u) \<and>
         map request_rows (sent_bound u) = [Some 100, Some 100] \<and>
         list_all (\<lambda>r. bound_sets r \<noteq> None) (sent_bound u) \<and>
         sent_execute u = [] \<and> closes u = [])))))"

definition test_prepare_without_cont_id_execute_opts_sends_rows :: bool where
  "test_prepare_without_cont_id_execute_opts_sends_rows =
     (let b = Pages [int_row 7, int_row 11] in
      expect_ok (prepare (against b) ''VALUES (CAST(? AS INTEGER))'' (connected_to b)) (\<lambda>q t.
      expect_ok (query_execute_opts (against b) q (rows_option 10) t) (\<lambda>rw1 t1.
      expect_ok (collect b rw1 t1) (\<lambda>ms1 t2.
      expect_ok (query_execute_with_opts (against b) q [(JNumber (JInt 11))] (rows_option 25) t2)
         (\<lambda>rw2 t3.
      expect_ok (collect b rw2 t3) (\<lambda>ms2 t4.
        (let u = drop_query q t4 in
         map request_rows (sent_bound u) = [Some 10, Some 25] \<and>
         map bound_sets (sent_bound u) = [None, Some [[(JNumber (JInt 11))]]] \<and>
         request_terse (hd (sent_bound u)) = None \<and>
         sent_execute u = [] \<and> closes u = [])))))))"

lemma unknown_decodes:
  "decode_value (unknown_frame i) = Inl (UnknownResponseTag ''not_a_real_type'')"
  by (simp add: unknown_frame_def decode_run)

lemma shown_tag:
  "display_error shown (Protocol (Json (UnknownResponseTag t))) =
     ''protocol: malformed JSON: unknown response type: '' @ t"
  by (simp add: shown_def display_error_def display_protocol_def)

lemma nameless_decodes:
  "decode_value (encode_query_result_maybe_terse (nameless_row\<lparr>qr_id := i\<rparr>) (Some True)) =
     Inl TerseRowsNoColumns"
  by (subst decode_value_page)
    (simp_all add: nameless_row_def result_of_def default_metadata_def wf_result_def f64_finite_def
      named_rows_from_wire_def wire_rows_def array_row_def)

lemma columns_missing:
  "protocol_decode_error L TerseRowsNoColumns = TerseRowsWithoutColumns"
  "protocol_decode_error sample (UnknownResponseTag ''not_a_real_type'') =
     Json (UnknownResponseTag ''not_a_real_type'')"
  by (simp_all add: protocol_decode_error_def terse_phrase_def contains_def sublist_code)

lemma terse_int_row:
  "decode_value (encode_query_result_maybe_terse (int_row v\<lparr>qr_id := i\<rparr>) (Some True)) =
     Inr (QueryResult (int_row v\<lparr>qr_id := i\<rparr>))"
  by (subst terse_page_decodes)
    (simp_all add: wf_result_def f64_finite_def int_row_def result_of_def default_metadata_def
      integer_column_def as_read_def non_empty_def by_column_def)

lemmas terse_seven =
  terse_int_row [where v = 7, unfolded int_row_def result_of_def integer_column_def
     default_metadata_def,
    simplified]

lemmas option_run = sets_run one_value_def int_row_def integer_column_def sent_sql_text_def
  request_terse_def terse_option_def sent_sql_def sent_execute_def closes_def has_key_def
  ping_def server_version_def db_job_name_def drop_query_def unknown_turn_def unknown_decodes
  shown_tag nameless_decodes columns_missing error_from_protocol_def by_column_def
  terse_seven spawn_close_def close_request_def MOCK_VERSION_def MOCK_JOB_def
  contains_def sublist_code

lemma binding_and_options:
  test_execute_with_sends_prepare_sql_execute test_prepare_then_execute_twice
  test_ping_then_sql_on_same_job test_getdbjob_and_getversion_after_ping
  test_unknown_frame_does_not_kill_dispatcher test_execute_sends_rows_100
  test_execute_opts_terse_decodes_array_rows
  test_execute_opts_terse_missing_columns_is_protocol_error test_execute_opts_rows_zero_rejected
  test_execute_with_opts_rows_zero_rejected test_prepare_without_cont_id_then_two_execute_with
  test_prepare_without_cont_id_execute_opts_sends_rows
  unfolding test_execute_with_sends_prepare_sql_execute_def test_prepare_then_execute_twice_def
    test_ping_then_sql_on_same_job_def test_getdbjob_and_getversion_after_ping_def
    test_unknown_frame_does_not_kill_dispatcher_def test_execute_sends_rows_100_def
    test_execute_opts_terse_decodes_array_rows_def
    test_execute_opts_terse_missing_columns_is_protocol_error_def
    test_execute_opts_rows_zero_rejected_def test_execute_with_opts_rows_zero_rejected_def
    test_prepare_without_cont_id_then_two_execute_with_def
    test_prepare_without_cont_id_execute_opts_sends_rows_def
  by (simp_all add: mock_run job_run collect_run option_run Let_def del: encode_live_response.simps)

section \<open>Procedures\<close>

definition integer_detail :: "string \<Rightarrow> string \<Rightarrow> parameter_detail" where
  "integer_detail n mode =
     \<lparr>pd_type_name = ''INTEGER'', pd_mode = mode, pd_precision = 10, pd_scale = Some 0, pd_name =
        n\<rparr>"

definition integer_result :: "u32 \<Rightarrow> string \<Rightarrow> value option \<Rightarrow> parameter_result" where
  "integer_result i n v =
     \<lparr>pr_index = i, pr_type_name = ''INTEGER'', pr_precision = 10, pr_scale = Some 0, pr_name = n,
      pr_ccsid = None, pr_value = v\<rparr>"

definition call_query_result :: query_result where
  "call_query_result =
     (result_of False 0 [] [] True)
       \<lparr>qr_metadata := default_metadata
          \<lparr>md_parameters := [integer_detail ''P1'' ''IN'', integer_detail ''P2'' ''INOUT'',
             integer_detail ''P3'' ''OUT'']\<rparr>,
        qr_execution_time := 4617315517961601024, qr_parameter_count := Some 3,
        qr_output_parms := [integer_result 1 ''P1'' None, integer_result 2 ''P2'' (Some (JNumber
           (JInt 0))),
          integer_result 3 ''P3'' (Some (JNumber (JInt 10)))]\<rparr>"

definition test_execute_with_call_returns_output_parms :: bool where
  "test_execute_with_call_returns_output_parms =
     (let b = Pages [call_query_result] in
      expect_ok (job_execute_with (against b) ''CALL SCHEMA.PROCEDURE_TEST(?, ?, ?)'' [(JNumber
         (JInt 6)), (JNumber (JInt 4)), (JNumber (JInt 0))]
          (connected_to b)) (\<lambda>rw t.
        \<not> has_results rw \<and> update_count rw = Some 0 \<and> parameter_count rw = Some 3 \<and>
        map (\<lambda>p. (pd_name p, pd_mode p)) (parameter_metadata rw) =
          [(''P1'', ''IN''), (''P2'', ''INOUT''), (''P3'', ''OUT'')] \<and>
        map pr_value (output_parms rw) = [None, Some (JNumber (JInt 0)), Some (JNumber (JInt 10))] \<and>
        length (sent_bound t) = 1 \<and>
        list_all (\<lambda>r. contains (sent_sql_text r) ''CALL'' \<and>
          bound_sets r = Some [[(JNumber (JInt 6)), (JNumber (JInt 4)), (JNumber (JInt 0))]] \<and>
          holds_entry (ser_request r) ''parameters'' (JArray [JNumber (JInt 6), JNumber (JInt 4),
             JNumber (JInt 0)])) (sent_bound t)))"

lemmas procedure_run = call_query_result_def integer_detail_def integer_result_def
  parameter_count_def parameter_metadata_def output_parms_def

lemma procedures:
  test_execute_with_call_returns_output_parms
  unfolding test_execute_with_call_returns_output_parms_def
  by (simp_all add: mock_run job_run option_run procedure_run Let_def del:
     encode_live_response.simps)

section \<open>Visual explain\<close>

definition sent_kind :: "pending_kind \<Rightarrow> mock session \<Rightarrow> request list" where
  "sent_kind k t = filter (\<lambda>r. request_kind r = k) (ss_sent t)"

definition test_visual_explain_untagged_vedata :: bool where
  "test_visual_explain_untagged_vedata =
     (let b = Pages [] in
      expect_ok (visual_explain (against b) ''SELECT 1 FROM SYSIBM.SYSDUMMY1'' (connected_to b))
         (\<lambda>v t.
        v = (JArray [JObject [(''op'', JString ''TBSCAN'')]]) \<and>
        (case ss_sent t of
           [Dove i sql run n terse] \<Rightarrow> run = Some True \<and> n = None \<and> contains sql ''SELECT'' \<and>
             holds_entry (ser_request (Dove i sql run n terse)) ''run'' (JBool True) \<and>
             holds_entry (ser_request (Dove i sql run n terse)) ''type'' (JString ''dove'')
         | _ \<Rightarrow> False)))"

definition test_visual_explain_42505_is_server :: bool where
  "test_visual_explain_42505_is_server =
     (let b = ReturnError
        \<lparr>er_id = ''placeholder'', er_success = False, er_sqlstate = Some ''42505'', er_sqlcode =
           None,
         er_error = Some ''not authorized to visual explain'', er_job = None\<rparr> in
      expect_err (visual_explain (against b) ''SELECT 1 FROM SYSIBM.SYSDUMMY1'' (connected_to b))
         (\<lambda>e t.
        case e of
          Server s \<Rightarrow> se_sqlstate s = Some ''42505'' \<and> contains (se_message s) ''not authorized''
        | _ \<Rightarrow> False))"

section \<open>Tracing\<close>

definition last_setconfig :: "mock session \<Rightarrow> request option" where
  "last_setconfig t =
     (case filter (\<lambda>r. case r of SetConfig i l d \<Rightarrow> True | _ \<Rightarrow> False) (ss_sent t) of
        [r] \<Rightarrow> Some r
      | _ \<Rightarrow> None)"

definition assert_setconfig :: "string \<Rightarrow> string \<Rightarrow> mock session \<Rightarrow> bool" where
  "assert_setconfig level dest t =
     (case last_setconfig t of
        Some (SetConfig i l d) \<Rightarrow> l = level \<and> d = dest \<and>
          holds_entry (ser_request (SetConfig i l d)) ''tracelevel'' (JString level) \<and>
          holds_entry (ser_request (SetConfig i l d)) ''tracedest'' (JString dest) \<and>
          \<not> holds_entry (ser_request (SetConfig i l d)) ''tracedest'' (JString []) \<and>
          \<not> holds_entry (ser_request (SetConfig i l d)) ''tracelevel'' (JString ''ALL'')
      | _ \<Rightarrow> False)"

definition test_set_trace_sends_in_mem_never_empty_dest :: bool where
  "test_set_trace_sends_in_mem_never_empty_dest =
     (let b = Pages [] in
      expect_ok (set_trace (against b) TraceOff (connected_to b)) (\<lambda>x t. assert_setconfig ''OFF''
         ''IN_MEM'' t))"

definition test_set_trace_all_sends_on_not_all :: bool where
  "test_set_trace_all_sends_on_not_all =
     (let b = Pages [] in
      expect_ok (set_trace (against b) TraceAll (connected_to b)) (\<lambda>x t. assert_setconfig ''ON''
         ''IN_MEM'' t))"

definition test_set_trace_config_file :: bool where
  "test_set_trace_config_file =
     (let b = Pages [] in
      expect_ok (set_trace_config (against b) ToFile TraceErrors (connected_to b)) (\<lambda>x t.
        assert_setconfig ''ERRORS'' ''FILE'' t))"

definition test_fetch_trace_untagged_tracedata_hello :: bool where
  "test_fetch_trace_untagged_tracedata_hello =
     (let b = AcceptAndConnect in
      expect_ok (fetch_trace (against b) (connected_to b)) (\<lambda>x t. x = ''hello''))"

definition test_fetch_trace_omitted_tracedata_remaps_empty :: bool where
  "test_fetch_trace_omitted_tracedata_remaps_empty =
     (let b = GetTraceAsPong in
      expect_ok (fetch_trace (against b) (connected_to b)) (\<lambda>x t. x = []))"

definition test_ping_untagged_without_tracedata_stays_pong :: bool where
  "test_ping_untagged_without_tracedata_stays_pong =
     (let b = AcceptAndConnect in
      expect_ok (ping (against b) 0 (connected_to b)) (\<lambda>d t.
      expect_ok (fetch_trace (against b) t) (\<lambda>x u. x = ''hello'')))"

lemma error_decodes:
  "\<not> er_success e \<Longrightarrow> decode_value (encode_live_response (ErrorResp e)) = Inr (ErrorResp e)"
  by (simp add: live_error)

lemmas explain_run = fld_str_def error_decodes visual_explain_def live_dove set_trace_def
   set_trace_config_def apply_trace_def
  fetch_trace_def trace_turn_def last_setconfig_def assert_setconfig_def server_error_from_def
  error_from_server_def

lemma explain_and_trace:
  test_visual_explain_untagged_vedata test_visual_explain_42505_is_server
  test_set_trace_sends_in_mem_never_empty_dest test_set_trace_all_sends_on_not_all
  test_set_trace_config_file test_fetch_trace_untagged_tracedata_hello
  test_fetch_trace_omitted_tracedata_remaps_empty test_ping_untagged_without_tracedata_stays_pong
  unfolding test_visual_explain_untagged_vedata_def test_visual_explain_42505_is_server_def
    test_set_trace_sends_in_mem_never_empty_dest_def test_set_trace_all_sends_on_not_all_def
    test_set_trace_config_file_def test_fetch_trace_untagged_tracedata_hello_def
    test_fetch_trace_omitted_tracedata_remaps_empty_def
    test_ping_untagged_without_tracedata_stays_pong_def
  by (simp_all add: mock_run job_run option_run explain_run Let_def del: encode_live_response.simps)

section \<open>The executor trait\<close>

definition test_job_executor_opts_and_execute_with_opts :: bool where
  "test_job_executor_opts_and_execute_with_opts =
     (let b = Pages [int_row 1, int_row 1] in
      expect_ok (ex_job_execute_opts (against b) ''SELECT 1 FROM SYSIBM.SYSDUMMY1'' (rows_option
         10) (connected_to b)) (\<lambda>rw1 t1.
      expect_ok (ex_job_execute_with_opts (against b) ''VALUES (CAST(? AS INTEGER))'' [(JNumber
         (JInt 7))] (rows_option 10)
          (drop_rows rw1 t1)) (\<lambda>rw2 t2.
        (let u = drop_rows rw2 t2 in
         map request_rows (sent_sql u) = [Some 10] \<and> map request_terse (sent_sql u) = [None] \<and>
         map request_rows (sent_bound u) = [Some 10] \<and>
         map bound_sets (sent_bound u) = [Some [[(JNumber (JInt 7))]]]))))"

lemmas trait_run = ex_job_execute_opts_def ex_job_execute_with_opts_def drop_rows_def

lemma executor_trait:
  test_job_executor_opts_and_execute_with_opts
  unfolding test_job_executor_opts_and_execute_with_opts_def
  by (simp_all add: mock_run job_run option_run trait_run Let_def del: encode_live_response.simps)

section \<open>Connecting\<close>

text \<open>
  The certificate the mock presents is pinned (\<open>TlsConfig::Ca\<close>), and the name is the loopback
  address. Base64 is the identity here, the nonce a letter.
\<close>

definition mock_tls :: tls_backend where
  "mock_tls = sample_tls\<lparr>tb_webpki := (\<lambda>roots leaf inters name ocsp now. Inl ''unknown issuer'')\<rparr>"

definition mock_upgrader :: "behavior \<Rightarrow> upgrader" where
  "mock_upgrader b =
     \<lparr>up_b64_encode = id, up_generate_key = ''k'', up_build = (\<lambda>r. Inr ()),
      up_client_async = upgrade_callback b, up_show_ws = (\<lambda>e. ''upgrade'')\<rparr>"

definition mock_target :: daemon_server where
  "mock_target =
     \<lparr>ds_host = ''127.0.0.1'', ds_connect_address = None, ds_port = 8076, ds_user = ''USER'',
      ds_password = Password ''test-only'', ds_tls = Ca [1], ds_jdbc_props = None,
      ds_application = ''mapepire-rs''\<rparr>"

definition connect_as :: "daemon_server \<Rightarrow> behavior \<Rightarrow> error + mock job" where
  "connect_as s b =
     fst (job_connect mock_tls (mock_upgrader b) (against b) (mock_start b) None 0 True s (False,
        []))"

definition connect_to_mock :: "behavior \<Rightarrow> error + mock job" where
  "connect_to_mock b = connect_as mock_target b"

definition test_connect_returns_version_and_job :: bool where
  "test_connect_returns_version_and_job =
     (case connect_to_mock AcceptAndConnect of
        Inr j \<Rightarrow> job_version j = ''0.0.0-mock'' \<and> job_initial_job j = ''MOCK/QUSER/000001''
      | Inl e \<Rightarrow> False)"

text \<open>What the probe of the mock sees.\<close>

definition test_connect_upgrade_request_target_is_db_slash :: bool where
  "test_connect_upgrade_request_target_is_db_slash =
     (uri_path (wr_uri (upgrade_request id ''k'' mock_target)) = ''/db/'')"

definition test_connect_sends_http_basic :: bool where
  "test_connect_sends_http_basic =
     (map_of (wr_headers (upgrade_request id ''k'' mock_target)) ''Authorization'' =
        Some (''Basic '' @ ''USER:test-only''))"

definition test_connect_address_splits_tcp_from_sni :: bool where
  "test_connect_address_splits_tcp_from_sni =
     (let s = mock_target\<lparr>ds_host := ''ibmi.example'', ds_connect_address := Some ''127.0.0.1''\<rparr> in
      uri_path (wr_uri (upgrade_request id ''k'' s)) = ''/db/'' \<and>
      map_of (wr_headers (upgrade_request id ''k'' s)) ''Host'' = Some ''ibmi.example'' \<and>
      fst (tcp_target s) = ''127.0.0.1'')"

definition rejected_with :: "behavior \<Rightarrow> (error \<Rightarrow> bool) \<Rightarrow> bool" where
  "rejected_with b f = (case connect_to_mock b of Inl e \<Rightarrow> f e | Inr j \<Rightarrow> False)"

definition test_connect_with_bad_password_returns_auth_error :: bool where
  "test_connect_with_bad_password_returns_auth_error =
     rejected_with (AuthFail ''invalid credentials for USER@MAPEPIRE'')
       (\<lambda>e. e = Auth ''invalid credentials for USER@MAPEPIRE'')"

definition test_connect_without_reaching_json_auth_returns_http_403 :: bool where
  "test_connect_without_reaching_json_auth_returns_http_403 =
     rejected_with HttpForbidden (\<lambda>e. case e of
         Auth msg \<Rightarrow> contains msg ''403'' \<or> contains msg ''Authorization''
       | _ \<Rightarrow> False)"

definition test_connect_json_auth_without_error_text :: bool where
  "test_connect_json_auth_without_error_text =
     rejected_with (AuthFail []) (\<lambda>e. e = Auth ''connect rejected'')"

definition test_connect_unexpected_response_is_protocol_error :: bool where
  "test_connect_unexpected_response_is_protocol_error =
     rejected_with PongOnConnect (\<lambda>e. case e of Protocol p \<Rightarrow> True | _ \<Rightarrow> False)"

lemma mock_port: "show_u16 8076 = ''8076''"
  by (simp add: show_u16_def show_nat.simps digit_chars)

lemma mock_tls_connects: "fst (tls_connect mock_tls mock_target (False, [])) = Inr (Some [[1]])"
  by (simp add: tls_connect_def tcp_target_def tls_handshake_def tls_config_verifier_def
      tls_session_def mock_tls_def sample_tls_def mock_target_def pin_or_webpki_def)

lemma connected_decodes:
  "decode_value (encode_live_response (Connected i v j)) = Inr (Connected i v j)"
  by (simp add: live_run)

lemmas connect_run = connect_as_def connect_to_mock_def job_connect_def handshake_def
   mock_upgrader_def
  upgrade_request_def upgrade_callback_def http_error_def uri_path_def WS_PATH_def
  basic_authorization_def mock_port starts_with_def connect_request_def on_connect_def
  connected_of_reply_def rejected_with_def job_version_def job_initial_job_def
  connected_decodes tcp_target_def

text \<open>\<open>connected_to\<close> is what \<open>Job::connect\<close> leaves.\<close>

lemma connects:
  assumes "b \<noteq> HttpForbidden" "b \<noteq> PongOnConnect" "\<nexists>msg. b = AuthFail msg"
  shows "connect_to_mock b =
    Inr \<lparr>jb_session = connected_to b, jb_version = MOCK_VERSION, jb_initial_job = MOCK_JOB\<rparr>"
  using assms mock_tls_connects
  by (cases b) (simp_all add: mock_run connect_run mock_target_def first_ids_def
      case_prod_beta Let_def del: encode_live_response.simps)

lemma connecting:
  test_connect_returns_version_and_job test_connect_upgrade_request_target_is_db_slash
  test_connect_sends_http_basic test_connect_address_splits_tcp_from_sni
  test_connect_with_bad_password_returns_auth_error
  test_connect_without_reaching_json_auth_returns_http_403
  test_connect_json_auth_without_error_text test_connect_unexpected_response_is_protocol_error
  unfolding test_connect_returns_version_and_job_def
    test_connect_upgrade_request_target_is_db_slash_def test_connect_sends_http_basic_def
    test_connect_address_splits_tcp_from_sni_def
    test_connect_with_bad_password_returns_auth_error_def
    test_connect_without_reaching_json_auth_returns_http_403_def
    test_connect_json_auth_without_error_text_def
    test_connect_unexpected_response_is_protocol_error_def
  using mock_tls_connects by (simp_all add: mock_run connect_run option_run explain_run
     mock_target_def case_prod_beta Let_def del: encode_live_response.simps)

section \<open>Certificates\<close>

text \<open>The leaf that the mock presents is \<open>[1]\<close>; the certificate library knows no issuer of it.\<close>

definition test_fetch_certificate_returns_mock_cert_bytes :: bool where
  "test_fetch_certificate_returns_mock_cert_bytes =
     (fst (server_fetch_certificate mock_tls ''127.0.0.1'' 8076 (False, [])) = Inr [1])"

definition test_fetch_certificate_from_splits_sni_from_tcp :: bool where
  "test_fetch_certificate_from_splits_sni_from_tcp =
     (fst (server_fetch_certificate_from mock_tls ''ibmi.example'' ''127.0.0.1'' 8076 (False, [])) =
        Inr [1])"

definition connects_as :: "daemon_server \<Rightarrow> bool" where
  "connects_as s = (case connect_as s AcceptAndConnect of Inl e \<Rightarrow> False | Inr j \<Rightarrow> True)"

definition test_ca_pin_accepts_cn_only_leaf :: bool where
  "test_ca_pin_accepts_cn_only_leaf = connects_as (mock_target\<lparr>ds_tls := Ca [1]\<rparr>)"

definition test_ca_pin_rejects_mismatched_leaf :: bool where
  "test_ca_pin_rejects_mismatched_leaf = (\<not> connects_as (mock_target\<lparr>ds_tls := Ca [2]\<rparr>))"

definition test_verified_rejects_cn_only_leaf :: bool where
  "test_verified_rejects_cn_only_leaf = (\<not> connects_as (mock_target\<lparr>ds_tls := Verified\<rparr>))"

definition test_host_ip_against_dns_cert_fails_without_matching_pin_name_fallback :: bool where
  "test_host_ip_against_dns_cert_fails_without_matching_pin_name_fallback =
     (\<not> connects_as (mock_target\<lparr>ds_host := ''127.0.0.1'', ds_tls := Ca [2]\<rparr>))"

lemma pinned_leaf_connects: "connects_as (mock_target\<lparr>ds_tls := Ca [1]\<rparr>)"
proof -
  have "mock_target\<lparr>ds_tls := Ca [1]\<rparr> = mock_target" by (simp add: mock_target_def)
  with connects [of AcceptAndConnect] show ?thesis by (simp add: connects_as_def
     connect_to_mock_def)
qed

lemma refused_leaf_fails:
  "fst (tls_connect mock_tls s (False, [])) = Inl e \<Longrightarrow> \<not> connects_as s"
  by (simp add: connects_as_def connect_as_def job_connect_def handshake_def case_prod_beta Let_def)

lemma refused_leaves:
  "fst (tls_connect mock_tls (mock_target\<lparr>ds_tls := Verified\<rparr>) (False, [])) =
     Inl (error_from_transport (Io ''unknown issuer''))"
  "fst (tls_connect mock_tls (mock_target\<lparr>ds_tls := Ca [2]\<rparr>) (False, [])) =
     Inl (error_from_transport (Io ''unknown issuer''))"
  by (simp_all add: tls_connect_def tcp_target_def tls_handshake_def tls_config_verifier_def
      tls_session_def mock_tls_def sample_tls_def mock_target_def pin_or_webpki_def)

lemma same_host: "mock_target\<lparr>ds_host := ''127.0.0.1'', ds_tls := x\<rparr> = mock_target\<lparr>ds_tls := x\<rparr>"
  by (simp add: mock_target_def)

lemmas fetch_run = server_fetch_certificate_def server_fetch_certificate_from_def
  fetch_certificate_def fetch_certificate_from_def mock_tls_def sample_tls_def tls_session_def
  no_verify_def ok_or_def

lemma certificates:
  test_fetch_certificate_returns_mock_cert_bytes test_fetch_certificate_from_splits_sni_from_tcp
  test_ca_pin_accepts_cn_only_leaf test_ca_pin_rejects_mismatched_leaf
  test_verified_rejects_cn_only_leaf
  test_host_ip_against_dns_cert_fails_without_matching_pin_name_fallback
  unfolding test_fetch_certificate_returns_mock_cert_bytes_def
    test_fetch_certificate_from_splits_sni_from_tcp_def test_ca_pin_accepts_cn_only_leaf_def
    test_ca_pin_rejects_mismatched_leaf_def test_verified_rejects_cn_only_leaf_def
    test_host_ip_against_dns_cert_fails_without_matching_pin_name_fallback_def
  by (simp_all add: fetch_run pinned_leaf_connects refused_leaf_fails [OF refused_leaves(1)]
     refused_leaf_fails [OF refused_leaves(2)] same_host del: select_convs)

definition integration_tests :: "bool list" where
  "integration_tests =
     [test_select_returns_rows_with_data, test_dml_returns_update_count,
      test_constraint_violation_classified, test_authorization_classified,
      test_transient_classified, test_paging_across_two_pages,
      test_sqlmore_uses_opening_page_size, test_stream_sqlmore_without_cont_id_uses_request_id,
      test_stream_two_pages_without_cont_id_collects_200,
      test_stream_skips_sqlmore_when_is_done_after_one_row,
      test_stream_skips_sqlmore_when_is_done_after_full_small_page,
      test_stream_empty_page_without_is_done_is_internal,
      test_drop_rows_without_streaming_releases_cursor,
      test_drop_stream_mid_iteration_releases_cursor, test_drop_rows_done_does_not_send_close,
      test_prepare_then_execute, test_execute_batch, test_query_execute_opts_with_cont_id,
      test_query_execute_unexpected_is_protocol, test_execute_sets_one_prepare_sql_execute_nested,
      test_execute_sets_one_set_still_flattens, test_execute_sets_empty_outer_is_protocol_error,
      test_query_execute_sets_one_shot, test_query_execute_sets_unexpected_is_protocol,
      test_cl_untagged_success_returns_job_log_entries,
      test_cl_untagged_cpf0006_is_ok_with_job_log, test_execute_with_sends_prepare_sql_execute,
      test_prepare_then_execute_twice, test_ping_then_sql_on_same_job,
      test_getdbjob_and_getversion_after_ping, test_unknown_frame_does_not_kill_dispatcher,
      test_execute_sends_rows_100, test_execute_opts_terse_decodes_array_rows,
      test_execute_opts_terse_missing_columns_is_protocol_error,
      test_execute_opts_rows_zero_rejected, test_execute_with_opts_rows_zero_rejected,
      test_prepare_without_cont_id_then_two_execute_with,
      test_prepare_without_cont_id_execute_opts_sends_rows,
      test_execute_with_call_returns_output_parms, test_visual_explain_untagged_vedata,
      test_visual_explain_42505_is_server, test_set_trace_sends_in_mem_never_empty_dest,
      test_set_trace_all_sends_on_not_all, test_set_trace_config_file,
      test_fetch_trace_untagged_tracedata_hello, test_fetch_trace_omitted_tracedata_remaps_empty,
      test_ping_untagged_without_tracedata_stays_pong,
      test_job_executor_opts_and_execute_with_opts, test_connect_returns_version_and_job,
      test_connect_upgrade_request_target_is_db_slash, test_connect_sends_http_basic,
      test_connect_address_splits_tcp_from_sni, test_connect_with_bad_password_returns_auth_error,
      test_connect_without_reaching_json_auth_returns_http_403,
      test_connect_json_auth_without_error_text,
      test_connect_unexpected_response_is_protocol_error,
      test_fetch_certificate_returns_mock_cert_bytes,
      test_fetch_certificate_from_splits_sni_from_tcp, test_ca_pin_accepts_cn_only_leaf,
      test_ca_pin_rejects_mismatched_leaf, test_verified_rejects_cn_only_leaf,
      test_host_ip_against_dns_cert_fails_without_matching_pin_name_fallback]"

lemma integration_tests_pass: "list_all id integration_tests"
  unfolding integration_tests_def
  by (simp add: plain_statements paging dropped_cursors prepared_statements parameter_sets
      cl_commands binding_and_options procedures explain_and_trace executor_trait connecting
         certificates)

end
