(* ===== verification/First_Answer.thy ===== *)
theory First_Answer
  imports Dispatcher
begin

text \<open>
  What a caller sees as a function of what happened on the connection
  (\<^verbatim>\<open>src/src/transport/dispatcher.rs\<close>): a reference for the queue, the table and the slots of the
  event loop that has none of them. The reference looks only at the list of events: a request is
  written by the write whose number is its own, and its outcome is what the first frame after that
  write says that carries its id.

  The lemmas show that the task computes this reference, and that it answers everybody in whatever
  order the frames come.
\<close>

section \<open>The reference\<close>

text \<open>Whom a frame speaks to, and what it says to a request of each kind.\<close>

definition addressee :: "foreign \<Rightarrow> string \<Rightarrow> (string \<times> (pending_kind \<Rightarrow> reply)) option" where
  "addressee L b =
     (case fo_from_slice L b of
        Inl e \<Rightarrow> None
      | Inr v \<Rightarrow>
          (case decode_value v of
             Inr r \<Rightarrow> Some (response_id r, \<lambda>k. Inr (remap_response k r))
           | Inl e \<Rightarrow>
               map_option (\<lambda>i. (i, \<lambda>k. Inl (error_from_protocol (protocol_decode_error L e))))
                 (frame_id v)))"

fun after_writes :: "nat \<Rightarrow> event list \<Rightarrow> event list" where
  "after_writes 0 es = es"
| "after_writes (Suc n) [] = []"
| "after_writes (Suc n) (Take f # es) = after_writes n es"
| "after_writes (Suc n) (e # es) = after_writes (Suc n) es"

fun first_frame_for :: "foreign \<Rightarrow> string \<Rightarrow> pending_kind \<Rightarrow> event list \<Rightarrow> reply option" where
  "first_frame_for L i k [] = None"
| "first_frame_for L i k (Frame b # es) =
     (case addressee L b of
        None \<Rightarrow> first_frame_for L i k es
      | Some (j, f) \<Rightarrow> if j = i then Some (f k) else first_frame_for L i k es)"
| "first_frame_for L i k (e # es) = first_frame_for L i k es"

text \<open>The outcome of the request with number \<open>s\<close>, as far as the events go.\<close>

definition first_answer :: "foreign \<Rightarrow> event list \<Rightarrow> nat \<Rightarrow> request \<Rightarrow> reply option" where
  "first_answer L es s r =
     first_frame_for L (request_id r) (request_kind r) (after_writes (Suc s) es)"

section \<open>Adding an event\<close>

definition is_write :: "event \<Rightarrow> bool" where
  "is_write e = (case e of Take f \<Rightarrow> True | _ \<Rightarrow> False)"

definition writes :: "event list \<Rightarrow> nat" where
  "writes es = length (filter is_write es)"

lemma writes_simps [simp]:
  "writes [] = 0" "writes (e # es) = (if is_write e then Suc (writes es) else writes es)"
  "writes (es @ [e]) = (if is_write e then Suc (writes es) else writes es)"
  by (simp_all add: writes_def)

lemma is_write_simps [simp]:
  "is_write (Take f)" "\<not> is_write (Submit r)" "\<not> is_write NoSenders" "\<not> is_write (Frame b)"
  "\<not> is_write (ReadError x)" "\<not> is_write EndOfStream" "\<not> is_write Abort"
  by (simp_all add: is_write_def)

lemma after_writes_short: "writes es < n \<Longrightarrow> after_writes n es = []"
  by (induction n es rule: after_writes.induct) simp_all

lemma after_writes_Nil [simp]: "after_writes n [] = []"
  by (cases n) simp_all

lemma after_writes_snoc:
  "after_writes n (es @ [e]) = (if n \<le> writes es then after_writes n es @ [e] else [])"
proof (induction n es rule: after_writes.induct)
  case (2 n)
  then show ?case by (cases e) simp_all
qed simp_all

lemma first_frame_snoc:
  "first_frame_for L i k (es @ [e]) =
     (case first_frame_for L i k es of
        Some x \<Rightarrow> Some x
      | None \<Rightarrow>
          (case e of
             Frame b \<Rightarrow>
               (case addressee L b of
                  Some (j, f) \<Rightarrow> if j = i then Some (f k) else None
                | None \<Rightarrow> None)
           | _ \<Rightarrow> None))"
proof (induction L i k es rule: first_frame_for.induct)
  case (1 L i k)
  then show ?case by (cases e) (auto split: option.split)
qed (auto split: option.split)

lemma first_answer_unwritten: "writes es \<le> s \<Longrightarrow> first_answer L es s r = None"
  by (simp add: first_answer_def after_writes_short)

lemma first_answer_silent:
  "\<forall>b. e \<noteq> Frame b \<Longrightarrow> first_answer L (es @ [e]) s r = first_answer L es s r"
  by (cases "Suc s \<le> writes es")
     (simp_all add: first_answer_def after_writes_snoc after_writes_short first_frame_snoc
       split: option.split event.split)

lemma first_answer_frame:
  "first_answer L (es @ [Frame b]) s r =
     (case first_answer L es s r of
        Some x \<Rightarrow> Some x
      | None \<Rightarrow>
          if s < writes es then
            (case addressee L b of
               Some (j, f) \<Rightarrow> if j = request_id r then Some (f (request_kind r)) else None
             | None \<Rightarrow> None)
          else None)"
  by (simp add: first_answer_def after_writes_snoc after_writes_short first_frame_snoc
      split: option.split)

section \<open>The task computes it\<close>

lemma insert_pending_simps [simp]:
  "dq_queue (insert_pending i p d) = dq_queue d" "dq_requests (insert_pending i p d) = dq_requests d"
  "dq_running (insert_pending i p d) = dq_running d" "dq_unsent (insert_pending i p d) = dq_unsent d"
  by (simp_all add: insert_pending_def)

lemma answer_simps [simp]:
  "dq_queue (answer i f d) = dq_queue d" "dq_requests (answer i f d) = dq_requests d"
  by (simp_all add: answer_def deliver_def split: option.split)

lemma failed_write_ends: "\<not> dq_running (handle_outbound entries (Some e) ob d)"
  by (simp add: handle_outbound_def stop_def)

lemma handle_frame_addressee:
  "dq_running (handle_frame L entries b d) \<Longrightarrow>
   handle_frame L entries b d =
     (case addressee L b of None \<Rightarrow> d | Some (i, f) \<Rightarrow> answer i f d)"
  by (auto simp: handle_frame_def addressee_def stop_def split: sum.splits option.splits)

text \<open>What a step of a task that goes on is.\<close>

lemma dstep_going_on:
  assumes "dstep L d e d'" "dq_running d'"
  obtains (submit) r s where "e = Submit r" "submit L r d = (Enqueued s, d')" "dq_running d"
  | (written) ob obs entries where "e = Take None" "dq_queue d = ob # obs" "dq_running d"
      "d' = handle_outbound entries None ob (d\<lparr>dq_queue := obs\<rparr>)"
  | (frame) b entries where "e = Frame b" "dq_running d" "d' = handle_frame L entries b d"
  using assms(1)
proof (cases rule: dstep.cases)
  case (Submit r s)
  with that(1) show ?thesis by (auto elim: submit_Enqueued)
next
  case (Take ob obs entries failed)
  with assms(2) have "failed = None" by (cases failed) (simp_all add: failed_write_ends)
  with Take that(2) show ?thesis by simp
next
  case (Frame entries b)
  with that(3) show ?thesis by simp
qed (use assms(2) in \<open>simp_all add: stop_def handle_read_error_def handle_end_def\<close>)

text \<open>The queue holds the slots that are not yet written, in order.\<close>

lemma queue_slots:
  "druns L spawn es d \<Longrightarrow> dq_running d \<Longrightarrow>
   writes es \<le> length (dq_requests d) \<and>
   map ob_reply (dq_queue d) = [writes es..<length (dq_requests d)]"
proof (induction "spawn" es d rule: druns.induct)
  case Nil
  show ?case by (simp add: spawn_def)
next
  case (Snoc es d e d')
  from Snoc.hyps(3) Snoc.prems show ?case
  proof (cases rule: dstep_going_on)
    case (submit r s)
    with Snoc.hyps(2) show ?thesis by (auto elim!: submit_Enqueued)
  next
    case (written ob obs entries)
    with Snoc.hyps(2) have "[writes es..<length (dq_requests d)] = ob_reply ob # map ob_reply obs"
      by simp
    then show ?thesis
      using written(1,4) by (auto simp: handle_outbound_def upt_eq_Cons_conv)
  next
    case (frame b entries)
    with Snoc Snoc.hyps(2) show ?thesis
      by (simp add: handle_frame_addressee split: option.split)
  qed
qed

lemma received_outbound:
  assumes "dinv L d" "dq_queue d = ob # obs" "distinct (map request_id (dq_requests d))"
  shows "received s (handle_outbound entries None ob (d\<lparr>dq_queue := obs\<rparr>)) = received s d"
  using take_keeps_lost [OF assms]
  by (simp add: handle_outbound_def insert_pending_def received_def)

lemma received_of_answer:
  assumes "dinv L d"
  shows "received s (answer i f d) =
    (case map_of (dq_pending d) i of
       Some p \<Rightarrow> if pn_reply p = s then Some (f (pn_kind p)) else received s d
     | None \<Rightarrow> received s d)"
  using received_answer [OF assms, of i] by (auto simp: answer_None split: option.split)

text \<open>
  Where the slot of a request is: in the queue before its write, then in the table under the
  request's id until it is answered.
\<close>

lemma slot_of_request:
  assumes "druns L spawn es d" "dq_running d" "distinct (map request_id (dq_requests d))"
    and "s < length (dq_requests d)" "received s d = None"
  shows "s < writes es \<Longrightarrow> map_of (dq_pending d) (request_id (dq_requests d ! s)) =
      Some \<lparr>pn_reply = s, pn_kind = request_kind (dq_requests d ! s)\<rparr>"
    and "writes es \<le> s \<Longrightarrow> s \<notin> set (table_slots d)"
proof -
  have inv: "dinv L d" by (rule reachable_dinv [OF assms(1)])
  note queue = queue_slots [OF assms(1,2)]
  show "map_of (dq_pending d) (request_id (dq_requests d ! s)) =
      Some \<lparr>pn_reply = s, pn_kind = request_kind (dq_requests d ! s)\<rparr>" if "s < writes es"
  proof -
    have "s \<in> set (table_slots d)"
      using slots_cover [OF inv assms(4)] assms(5) that queue by (simp add: received_None_iff)
    then obtain i p where p: "(i, p) \<in> set (dq_pending d)" "pn_reply p = s"
      by (auto simp: table_slots_def)
    then have "slot_for d s i (pn_kind p)" "distinct (map fst (dq_pending d))"
      using inv by (auto simp: dinv_def inv_table_def)
    with p show ?thesis by (cases p) (auto simp: slot_for_def)
  qed
  show "s \<notin> set (table_slots d)" if "writes es \<le> s"
    using slots_distinct [OF inv] that queue assms(4) by auto
qed

lemma received_later:
  assumes "dinv L d" "length (dq_requests d) \<le> s"
  shows "received s d = None"
proof (rule ccontr)
  assume "received s d \<noteq> None"
  then have "s \<in># slots d" by (auto simp: received_None_iff slots_def)
  with assms show False by (simp add: dinv_def inv_slots_def)
qed

lemma received_table: "dinv L d \<Longrightarrow> s \<in> set (table_slots d) \<Longrightarrow> received s d = None"
  using slots_distinct [of L d] by (auto simp: received_None_iff)

lemma frame_outcome:
  assumes "druns L spawn es d" "dq_running d" "distinct (map request_id (dq_requests d))"
    and "s < length (dq_requests d)"
  shows "received s (case addressee L b of None \<Rightarrow> d | Some (i, f) \<Rightarrow> answer i f d) =
    (case received s d of
       Some x \<Rightarrow> Some x
     | None \<Rightarrow>
         if s < writes es then
           (case addressee L b of
              Some (j, f) \<Rightarrow>
                if j = request_id (dq_requests d ! s)
                then Some (f (request_kind (dq_requests d ! s))) else None
            | None \<Rightarrow> None)
         else None)"
proof (cases "addressee L b")
  case (Some a)
  obtain j f where a: "a = (j, f)" by force
  have inv: "dinv L d" by (rule reachable_dinv [OF assms(1)])
  note ans = received_of_answer [OF inv, of s j f]
  have entry: "pn_reply p \<in> set (table_slots d)" "request_id (dq_requests d ! pn_reply p) = j"
    if "map_of (dq_pending d) j = Some p" for p
    using map_of_SomeD [OF that] inv
    by (force simp: table_slots_def dinv_def inv_table_def slot_for_def)+
  show ?thesis
  proof (cases "received s d")
    case None
    note slot = slot_of_request [OF assms None]
    have other: "received s (answer j f d) = None"
      if "j \<noteq> request_id (dq_requests d ! s) \<or> writes es \<le> s"
      unfolding ans using that entry slot(2) None by (cases "map_of (dq_pending d) j") auto
    show ?thesis
    proof (cases "s < writes es \<and> j = request_id (dq_requests d ! s)")
      case True
      with slot(1) have "received s (answer j f d) = Some (f (request_kind (dq_requests d ! s)))"
        unfolding ans by simp
      with True show ?thesis by (simp add: Some a None)
    next
      case False
      then show ?thesis using other by (auto simp: Some a None)
    qed
  next
    case old: (Some x)
    then have "pn_reply p \<noteq> s" if "map_of (dq_pending d) j = Some p" for p
      using received_table [OF inv] entry(1) [OF that] by auto
    with old Some a ans show ?thesis by (auto split: option.splits)
  qed
qed (simp split: option.split)

lemma received_is_first_answer:
  assumes "druns L spawn es d" "dq_running d" "distinct (map request_id (dq_requests d))"
    and "s < length (dq_requests d)"
  shows "received s d = first_answer L es s (dq_requests d ! s)"
  using assms
proof (induction "spawn" es d rule: druns.induct)
  case Nil
  then show ?case by (simp add: spawn_def)
next
  case (Snoc es d e d')
  note inv = reachable_dinv [OF Snoc.hyps(1)]
  from Snoc.hyps(3) Snoc.prems(1) show ?case
  proof (cases rule: dstep_going_on)
    case (submit r t)
    then obtain b where d': "d' = d\<lparr>dq_queue := dq_queue d @
        [\<lparr>ob_id = request_id r, ob_bytes = b, ob_reply = t, ob_kind = request_kind r\<rparr>],
        dq_requests := dq_requests d @ [r]\<rparr>"
      by (auto elim: submit_Enqueued)
    then have same: "received s d' = received s d" by (simp add: received_def)
    show ?thesis
    proof (cases "s < length (dq_requests d)")
      case True
      with Snoc submit d' same show ?thesis by (simp add: first_answer_silent nth_append)
    next
      case False
      then have "writes es \<le> s" using queue_slots [OF Snoc.hyps(1) submit(3)] by simp
      moreover have "received s d = None" using received_later [OF inv] False by simp
      ultimately show ?thesis using same submit(1) by (simp add: first_answer_silent first_answer_unwritten)
    qed
  next
    case (written ob obs entries)
    then have "dq_requests d' = dq_requests d" by (simp add: handle_outbound_def)
    with Snoc written received_outbound [OF inv written(2)] show ?thesis
      by (simp add: first_answer_silent)
  next
    case (frame b entries)
    then have d': "d' = (case addressee L b of None \<Rightarrow> d | Some (i, f) \<Rightarrow> answer i f d)"
      using Snoc.prems(1) by (simp add: handle_frame_addressee)
    then have req: "dq_requests d' = dq_requests d" by (auto split: option.split)
    with Snoc frame have IH: "received s d = first_answer L es s (dq_requests d ! s)" by simp
    from Snoc.prems(2,3) have "distinct (map request_id (dq_requests d))" "s < length (dq_requests d)"
      by (simp_all add: req)
    from frame_outcome [OF Snoc.hyps(1) frame(2) this, of b, folded d'] show ?thesis
      by (simp only: IH req frame(1) first_answer_frame)
  qed
qed

text \<open>
  C4. What callers see is the reference: while the task runs and no two requests share an id,
  whatever was submitted, written and received in whatever order, the outcome of each request is
  what the first frame says that carries its id and came after its request was written -- its
  answer, remapped for the request's kind, or the error of a frame that cannot be decoded --
  and nothing as long as there is no such frame.
\<close>

theorem callers_see_first_answer:
  assumes "druns L spawn es d" "dq_running d" "distinct (map request_id (dq_requests d))"
    and "s < length (dq_requests d)"
  shows "received s d = first_answer L es s (dq_requests d ! s)"
  using assms by (rule received_is_first_answer)

section \<open>Answers in any order\<close>

lemma after_writes_append: "n \<le> writes xs \<Longrightarrow> after_writes n (xs @ ys) = after_writes n xs @ ys"
  by (induction n xs rule: after_writes.induct) simp_all

lemma first_frame_append:
  "first_frame_for L i k (xs @ ys) =
     (case first_frame_for L i k xs of Some x \<Rightarrow> Some x | None \<Rightarrow> first_frame_for L i k ys)"
  by (induction L i k xs rule: first_frame_for.induct) (auto split: option.split)

lemma first_answer_append:
  "s < writes xs \<Longrightarrow> first_answer L (xs @ ys) s r =
     (case first_answer L xs s r of
        Some x \<Rightarrow> Some x
      | None \<Rightarrow> first_frame_for L (request_id r) (request_kind r) ys)"
  by (simp add: first_answer_def after_writes_append first_frame_append)

lemma first_frame_None:
  "first_frame_for L i k (map Frame fs) = None \<longleftrightarrow> (\<forall>b\<in>set fs. \<forall>f. addressee L b \<noteq> Some (i, f))"
  by (induction fs) (auto split: option.split)

lemma writes_out:
  assumes "druns L spawn es d" "dq_running d" "distinct (map request_id (dq_requests d))"
  shows "\<exists>d'. druns L spawn (es @ replicate (length (dq_queue d)) (Take None)) d' \<and> dq_running d' \<and>
    dq_queue d' = [] \<and> dq_requests d' = dq_requests d \<and> (\<forall>s. received s d' = received s d)"
  using assms
proof (induction "dq_queue d" arbitrary: es d)
  case Nil
  then show ?case by (intro exI [of _ d]) simp
next
  case (Cons ob obs)
  let ?d = "handle_outbound (dq_pending d) None ob (d\<lparr>dq_queue := obs\<rparr>)"
  have d: "dq_queue ?d = obs" "dq_running ?d" "dq_requests ?d = dq_requests d"
    using Cons.prems(2) by (simp_all add: handle_outbound_def)
  have "dstep L d (Take None) ?d"
    using Cons.prems(2) Cons.hyps(2) by (intro dstep.Take) simp_all
  from druns.Snoc [OF Cons.prems(1) this] Cons.hyps(1) [of ?d "es @ [Take None]"] Cons.prems(3) d
    received_outbound [OF reachable_dinv [OF Cons.prems(1)] Cons.hyps(2) [symmetric] Cons.prems(3),
      of _ "dq_pending d"]
  show ?case by (simp flip: Cons.hyps(2))
qed

definition is_json :: "foreign \<Rightarrow> string \<Rightarrow> bool" where
  "is_json L b = (case fo_from_slice L b of Inl e \<Rightarrow> False | Inr v \<Rightarrow> True)"

lemma reads_in:
  assumes "druns L spawn es d" "dq_running d" "list_all (is_json L) fs"
  shows "\<exists>d'. druns L spawn (es @ map Frame fs) d' \<and> dq_running d' \<and> dq_queue d' = dq_queue d \<and>
    dq_requests d' = dq_requests d"
  using assms
proof (induction fs arbitrary: es d)
  case (Cons b fs)
  let ?d = "handle_frame L (dq_pending d) b d"
  have d: "dq_running ?d" "dq_queue ?d = dq_queue d" "dq_requests ?d = dq_requests d"
    using Cons.prems(2,3)
    by (auto simp: handle_frame_def is_json_def split: sum.splits option.splits)
  have "dstep L d (Frame b) ?d" using Cons.prems(2) by (intro dstep.Frame) simp_all
  from druns.Snoc [OF Cons.prems(1) this] Cons.IH [of "es @ [Frame b]" ?d] Cons.prems(3) d
  show ?case by simp
qed auto

lemma all_received_empty:
  assumes "druns L spawn es d" "\<forall>s < length (dq_requests d). received s d \<noteq> None"
  shows "dq_pending d = []"
proof (rule ccontr)
  assume "dq_pending d \<noteq> []"
  then obtain x where x: "x \<in> set (dq_pending d)" by (cases "dq_pending d") auto
  note inv = reachable_dinv [OF assms(1)]
  from x have "pn_reply (snd x) \<in> set (table_slots d)" by (auto simp: table_slots_def)
  moreover from x inv have "pn_reply (snd x) < length (dq_requests d)"
    by (auto simp: dinv_def inv_table_def slot_for_def)
  ultimately show False using received_table [OF inv] assms(2) by blast
qed

text \<open>
  C5. One connection carries any number of calls, and the daemon may answer them in any order.
  At any moment while the task runs, with different ids, let the task write what is queued and the
  daemon then send frames in whatever order, with whatever else among them, as long as they are
  JSON and there is one for every request that has no outcome. Then the task is still running,
  every request has its outcome -- who had one keeps it, who waited gets what the first of the
  frames for its id says -- and the queue, the table and the load counter are empty.
\<close>

theorem answers_in_any_order:
  assumes "druns L spawn es d" "dq_running d" "distinct (map request_id (dq_requests d))"
    and "list_all (is_json L) fs"
    and "\<forall>s < length (dq_requests d). received s d = None \<longrightarrow>
      (\<exists>b\<in>set fs. \<exists>f. addressee L b = Some (request_id (dq_requests d ! s), f))"
  shows "\<exists>d'. druns L spawn (es @ replicate (length (dq_queue d)) (Take None) @ map Frame fs) d' \<and>
    dq_running d' \<and> dq_queue d' = [] \<and> dq_pending d' = [] \<and> dq_in_flight d' = 0 \<and>
    dq_requests d' = dq_requests d \<and>
    (\<forall>s < length (dq_requests d). received s d' \<noteq> None \<and> received s d' =
       (case received s d of
          Some x \<Rightarrow> Some x
        | None \<Rightarrow> first_frame_for L (request_id (dq_requests d ! s))
            (request_kind (dq_requests d ! s)) (map Frame fs)))"
proof -
  let ?ws = "es @ replicate (length (dq_queue d)) (Take None)"
  obtain d1 where d1: "druns L spawn ?ws d1" "dq_running d1" "dq_queue d1 = []"
    "dq_requests d1 = dq_requests d" "\<And>s. received s d1 = received s d"
    using writes_out [OF assms(1-3)] by blast
  obtain d2 where d2: "druns L spawn (?ws @ map Frame fs) d2" "dq_running d2" "dq_queue d2 = []"
    "dq_requests d2 = dq_requests d"
    using reads_in [OF d1(1,2) assms(4)] d1(3,4) by auto
  have ids: "distinct (map request_id (dq_requests d1))" "distinct (map request_id (dq_requests d2))"
    using assms(3) d1(4) d2(4) by simp_all
  have outcome: "received s d2 =
      (case received s d of
         Some x \<Rightarrow> Some x
       | None \<Rightarrow> first_frame_for L (request_id (dq_requests d ! s))
           (request_kind (dq_requests d ! s)) (map Frame fs))"
    if "s < length (dq_requests d)" for s
  proof -
    from queue_slots [OF d1(1,2)] d1(3) have "[writes ?ws..<length (dq_requests d1)] = []" by simp
    then have "length (dq_requests d1) \<le> writes ?ws" by auto
    with that have "s < writes ?ws" using d1(4) by simp
    with received_is_first_answer [OF d1(1,2) ids(1), of s]
      received_is_first_answer [OF d2(1,2) ids(2), of s] that
      first_answer_append [of s ?ws L "map Frame fs" "dq_requests d ! s"]
    show ?thesis by (simp add: d1(4,5) d2(4))
  qed
  have all: "received s d2 \<noteq> None" if "s < length (dq_requests d)" for s
  proof
    assume none: "received s d2 = None"
    with outcome [OF that] have "received s d = None"
      "first_frame_for L (request_id (dq_requests d ! s)) (request_kind (dq_requests d ! s))
         (map Frame fs) = None"
      by (auto split: option.splits)
    with assms(5) that show False by (auto simp: first_frame_None)
  qed
  have "dq_pending d2 = []" using all_received_empty [OF d2(1)] all d2(4) by simp
  with in_flight_counts_pending [OF d2(1,2) ids(2)] d2 outcome all
  show ?thesis by (intro exI [of _ d2]) simp
qed

section \<open>Three pings at once\<close>

text \<open>A printer and parser whose frames are acknowledgements of the id they consist of.\<close>

definition acks :: foreign where
  "acks = sample\<lparr>fo_from_slice := (\<lambda>b. Inr (JObject [(''id'', JString b), (''success'', JBool True)]))\<rparr>"

definition three_pings :: dispatcher where
  "three_pings = fold (\<lambda>r d. snd (submit acks r d)) [Ping ''1'', Ping ''2'', Ping ''3''] spawn"

lemma acks_addressee: "addressee acks b = Some (b, \<lambda>k. Inr (remap_response k (Pong b)))"
  by (simp add: addressee_def acks_def decode_value_def contains_key_def decode_untagged_def
      obj_get_def str_field_def)

lemma submit_acks:
  "dq_running d \<Longrightarrow> length (dq_queue d) < 64 \<Longrightarrow> submit acks r d =
     (Enqueued (length (dq_requests d)), d\<lparr>dq_queue := dq_queue d @
        [\<lparr>ob_id = request_id r, ob_bytes = ''ping'', ob_reply = length (dq_requests d),
          ob_kind = request_kind r\<rparr>], dq_requests := dq_requests d @ [r]\<rparr>)"
  by (simp add: submit_def acks_def sample_def SEND_QUEUE_CAPACITY_def Let_def)

lemma submit_all:
  "druns acks spawn es d \<Longrightarrow> dq_running d \<Longrightarrow> length (dq_queue d) + length rs \<le> 64 \<Longrightarrow>
   druns acks spawn (es @ map Submit rs) (fold (\<lambda>r d. snd (submit acks r d)) rs d)"
proof (induction rs arbitrary: es d)
  case (Cons r rs)
  have room: "length (dq_queue d) < 64" using Cons.prems(3) by simp
  have "druns acks spawn (es @ [Submit r]) (snd (submit acks r d))"
    using submit_acks [OF Cons.prems(2) room]
    by (intro druns.Snoc [OF Cons.prems(1)] dstep.Submit) simp
  from Cons.IH [OF this] Cons.prems(2,3) show ?case by (simp add: submit_acks [OF _ room])
qed simp

lemma three_pings_run: "druns acks spawn (map Submit [Ping ''1'', Ping ''2'', Ping ''3'']) three_pings"
  using submit_all [OF druns.Nil, of "[Ping ''1'', Ping ''2'', Ping ''3'']"]
  by (simp add: three_pings_def) (simp add: spawn_def)

lemma callers_see_first_answer_witness:
  "received 0 (handle_frame sample (dq_pending sample_pending) ''ok'' sample_pending) =
     first_answer sample [Submit (Ping ''1''), Take None, Frame ''ok''] 0 (Ping ''1'')"
proof -
  let ?d = "handle_frame sample (dq_pending sample_pending) ''ok'' sample_pending"
  have "dq_running ?d" "dq_requests ?d = [Ping ''1'']"
    by (simp_all add: handle_frame_def sample_decodes answer_def deliver_def sample_defs)
  then show ?thesis using callers_see_first_answer [OF sample_answered_run, of 0] by simp
qed

lemma answers_in_any_order_witness:
  "\<exists>d'. druns acks spawn (map Submit [Ping ''1'', Ping ''2'', Ping ''3''] @
       replicate 3 (Take None) @ map Frame [''3'', ''1'', ''2'']) d' \<and>
     dq_in_flight d' = 0 \<and> received 0 d' = Some (Inr (Pong ''1'')) \<and>
     received 1 d' = Some (Inr (Pong ''2'')) \<and> received 2 d' = Some (Inr (Pong ''3''))"
proof -
  have d: "dq_running three_pings" "dq_requests three_pings = [Ping ''1'', Ping ''2'', Ping ''3'']"
    "length (dq_queue three_pings) = 3" "\<And>s. received s three_pings = None"
    by (simp_all add: three_pings_def submit_acks spawn_def received_def)
  have "list_all (is_json acks) [''3'', ''1'', ''2'']" by (simp add: is_json_def acks_def)
  with d have "\<exists>d'. druns acks spawn (map Submit [Ping ''1'', Ping ''2'', Ping ''3''] @
       replicate (length (dq_queue three_pings)) (Take None) @ map Frame [''3'', ''1'', ''2'']) d' \<and>
    dq_running d' \<and> dq_queue d' = [] \<and> dq_pending d' = [] \<and> dq_in_flight d' = 0 \<and>
    dq_requests d' = dq_requests three_pings \<and>
    (\<forall>s < length (dq_requests three_pings). received s d' \<noteq> None \<and> received s d' =
       (case received s three_pings of
          Some x \<Rightarrow> Some x
        | None \<Rightarrow> first_frame_for acks (request_id (dq_requests three_pings ! s))
            (request_kind (dq_requests three_pings ! s)) (map Frame [''3'', ''1'', ''2''])))"
    by (intro answers_in_any_order [OF three_pings_run])
      (auto simp: acks_addressee numeral_3_eq_3 less_Suc_eq)
  then obtain d' where d': "druns acks spawn (map Submit [Ping ''1'', Ping ''2'', Ping ''3''] @
       replicate 3 (Take None) @ map Frame [''3'', ''1'', ''2'']) d'" "dq_in_flight d' = 0"
    "\<And>s. s < 3 \<Longrightarrow> received s d' = first_frame_for acks (request_id ([Ping ''1'', Ping ''2'', Ping ''3''] ! s))
       (request_kind ([Ping ''1'', Ping ''2'', Ping ''3''] ! s)) (map Frame [''3'', ''1'', ''2''])"
    unfolding d(2-4) by auto
  from d'(1,2) d'(3) [of 0] d'(3) [of 1] d'(3) [of 2] show ?thesis
    by (intro exI [of _ d']) (simp add: acks_addressee)
qed

end
