(* ===== verification/Tracing.thy ===== *)
theory Tracing
  imports Observability
begin

text \<open>
  The tracing of the client (the \<open>tracing::instrument\<close> attributes of \<^verbatim>\<open>src/src/job.rs\<close> and
  \<^verbatim>\<open>src/src/pool/runtime.rs\<close>, the fields recorded later, and the event of a dropped handle in
  \<^verbatim>\<open>src/src/pool/reserved.rs\<close>): for every instrumented operation what a subscriber gets to see,
  in order. The macro opens a span named after the method with the fields of the attribute; those
  declared \<open>Empty\<close> appear when they are recorded. An operation that calls another one opens both
  spans.

  The lemmas show exactly what the spans disclose of a statement's parameters under each logging
  policy, and that they tell the tier and the job of a routed call.
\<close>

section \<open>What a subscriber sees\<close>

text \<open>The value of a field: \<open>%\<close> takes its \<open>Display\<close>, \<open>?\<close> its \<open>Debug\<close>, the others are primitive.\<close>

datatype field = Displayed string | Debugged dbg | Count nat | Text_Field string | Flag bool

type_synonym fields = "(string \<times> field) list"

datatype trace_item =
    Opened string fields
  | Recorded string fields
  | Emitted string fields

type_synonym trace = "trace_item list"

section \<open>The spans of a job\<close>

fun debug_level :: "trace_level \<Rightarrow> dbg" where
  "debug_level TraceOff = DTuple ''Off'' []"
| "debug_level TraceErrors = DTuple ''Errors'' []"
| "debug_level TraceDatastream = DTuple ''Datastream'' []"
| "debug_level TraceAll = DTuple ''All'' []"

fun debug_dest :: "trace_dest \<Rightarrow> dbg" where
  "debug_dest ToFile = DTuple ''File'' []"
| "debug_dest ToInMem = DTuple ''InMem'' []"

definition rows_field :: "execute_options \<Rightarrow> string \<times> field" where
  "rows_field opts = (''rows'', Debugged (dbg_option DU32 (eo_rows opts)))"

text \<open>\<open>j\<close> is the initial job name of the connection.\<close>

definition execute_opts_spans :: "string \<Rightarrow> string \<Rightarrow> execute_options \<Rightarrow> trace" where
  "execute_opts_spans j sql opts =
     [Opened ''execute_opts'' [(''job_id'', Displayed j), (''sql'', Displayed sql), rows_field opts]]"

definition execute_spans :: "string \<Rightarrow> string \<Rightarrow> trace" where
  "execute_spans j sql =
     Opened ''execute'' [(''job_id'', Displayed j), (''sql'', Displayed sql)] #
       execute_opts_spans j sql default_options"

definition execute_with_opts_spans :: "string \<Rightarrow> string \<Rightarrow> value list \<Rightarrow> execute_options \<Rightarrow> trace" where
  "execute_with_opts_spans j sql params opts =
     [Opened ''execute_with_opts''
        [(''job_id'', Displayed j), (''sql'', Displayed sql), (''param_count'', Count (length params)),
         rows_field opts]]"

definition execute_with_spans :: "string \<Rightarrow> string \<Rightarrow> value list \<Rightarrow> trace" where
  "execute_with_spans j sql params =
     Opened ''execute_with''
        [(''job_id'', Displayed j), (''sql'', Displayed sql), (''param_count'', Count (length params))] #
       execute_with_opts_spans j sql params default_options"

definition execute_sets_spans :: "string \<Rightarrow> string \<Rightarrow> value list list \<Rightarrow> execute_options \<Rightarrow> trace" where
  "execute_sets_spans j sql sets opts =
     [Opened ''execute_sets''
        [(''job_id'', Displayed j), (''sql'', Displayed sql), (''set_count'', Count (length sets)),
         rows_field opts]]"

definition prepare_spans :: "string \<Rightarrow> string \<Rightarrow> trace" where
  "prepare_spans j sql = [Opened ''prepare'' [(''job_id'', Displayed j), (''sql'', Displayed sql)]]"

definition ping_spans :: "string \<Rightarrow> trace" where
  "ping_spans j = [Opened ''ping'' [(''job_id'', Displayed j)]]"

definition server_version_spans :: "string \<Rightarrow> trace" where
  "server_version_spans j = [Opened ''server_version'' [(''job_id'', Displayed j)]]"

definition db_job_name_spans :: "string \<Rightarrow> trace" where
  "db_job_name_spans j = [Opened ''db_job_name'' [(''job_id'', Displayed j)]]"

definition set_trace_spans :: "string \<Rightarrow> trace_level \<Rightarrow> trace" where
  "set_trace_spans j level =
     [Opened ''set_trace''
        [(''job_id'', Displayed j), (''dest'', Text_Field ''IN_MEM''),
         (''level'', Debugged (debug_level level))]]"

definition set_trace_config_spans :: "string \<Rightarrow> trace_dest \<Rightarrow> trace_level \<Rightarrow> trace" where
  "set_trace_config_spans j dest level =
     [Opened ''set_trace_config''
        [(''job_id'', Displayed j), (''dest'', Debugged (debug_dest dest)),
         (''level'', Debugged (debug_level level))]]"

definition fetch_trace_spans :: "string \<Rightarrow> trace" where
  "fetch_trace_spans j = [Opened ''fetch_trace'' [(''job_id'', Displayed j)]]"

definition visual_explain_spans :: "string \<Rightarrow> string \<Rightarrow> trace" where
  "visual_explain_spans j sql =
     [Opened ''visual_explain'' [(''job_id'', Displayed j), (''sql'', Displayed sql)]]"

definition cl_spans :: "string \<Rightarrow> string \<Rightarrow> trace" where
  "cl_spans j command = [Opened ''cl'' [(''job_id'', Displayed j), (''command'', Displayed command)]]"

section \<open>The spans of a pool\<close>

text \<open>
  What is around a call: the initial job names of the jobs, and what a checkout traces in a state
  of the pool (the pings of the jobs it recycles).
\<close>

record 'd watch =
  wt_job :: "nat \<Rightarrow> string"
  wt_checkout :: "'d pool_state \<Rightarrow> trace"

definition record_tier :: "string \<Rightarrow> tier \<Rightarrow> trace_item" where
  "record_tier name t = Recorded name [(''tier'', Text_Field (tier_label t))]"

text \<open>The routing shared by the four methods, in the span \<open>name\<close>; \<open>on\<close> is what the job's method traces.\<close>

definition routed_spans ::
  "'d watch \<Rightarrow> 'd surroundings \<Rightarrow> pool \<Rightarrow> string \<Rightarrow> (string \<Rightarrow> trace) \<Rightarrow> 'd pool_state \<Rightarrow> trace" where
  "routed_spans W E p name on st =
     (let (found, st1) = peek_idle st in
      case found of
        Some i \<Rightarrow> record_tier name TryIdle # on (wt_job W i)
      | None \<Rightarrow>
          (let (pick, st2) = pick_unsaturated (su_size E) st1 in
           case pick of
             Some i \<Rightarrow> record_tier name LeastBusyScan # on (wt_job W i)
           | None \<Rightarrow>
               record_tier name FairQueue # wt_checkout W st2 @
               (case fst (get_or_timeout (su_get E) p st2) of
                  Inl e \<Rightarrow> [] | Inr i \<Rightarrow> on (wt_job W i))))"

definition record_parameters :: "string \<Rightarrow> pool \<Rightarrow> value list \<Rightarrow> trace" where
  "record_parameters name p params =
     map (\<lambda>(k, v). Recorded name [(k, Debugged v)]) (recorded_parameters (pl_parameter_logging p) params)"

definition pool_execute_spans ::
  "'d watch \<Rightarrow> 'd surroundings \<Rightarrow> pool \<Rightarrow> string \<Rightarrow> 'd pool_state \<Rightarrow> trace" where
  "pool_execute_spans W E p sql st =
     Opened ''execute'' [(''sql'', Displayed sql)] #
       routed_spans W E p ''execute''
         (\<lambda>j. execute_opts_spans j sql (pool_opts p default_options)) st"

definition pool_execute_with_spans ::
  "'d watch \<Rightarrow> 'd surroundings \<Rightarrow> pool \<Rightarrow> string \<Rightarrow> value list \<Rightarrow> 'd pool_state \<Rightarrow> trace" where
  "pool_execute_with_spans W E p sql params st =
     Opened ''execute_with'' [(''sql'', Displayed sql), (''param_count'', Count (length params))] #
       record_parameters ''execute_with'' p params @
       routed_spans W E p ''execute_with''
         (\<lambda>j. execute_with_opts_spans j sql params (pool_opts p default_options)) st"

definition pool_execute_opts_spans ::
  "'d watch \<Rightarrow> 'd surroundings \<Rightarrow> pool \<Rightarrow> string \<Rightarrow> execute_options \<Rightarrow> 'd pool_state \<Rightarrow> trace" where
  "pool_execute_opts_spans W E p sql opts st =
     Opened ''execute_opts'' [(''sql'', Displayed sql), rows_field opts] #
       routed_spans W E p ''execute_opts'' (\<lambda>j. execute_opts_spans j sql (pool_opts p opts)) st"

definition pool_execute_with_opts_spans ::
  "'d watch \<Rightarrow> 'd surroundings \<Rightarrow> pool \<Rightarrow> string \<Rightarrow> value list \<Rightarrow> execute_options \<Rightarrow> 'd pool_state \<Rightarrow>
     trace" where
  "pool_execute_with_opts_spans W E p sql params opts st =
     Opened ''execute_with_opts''
       [(''sql'', Displayed sql), (''param_count'', Count (length params)), rows_field opts] #
       record_parameters ''execute_with_opts'' p params @
       routed_spans W E p ''execute_with_opts''
         (\<lambda>j. execute_with_opts_spans j sql params (pool_opts p opts)) st"

definition acquire_spans ::
  "'d watch \<Rightarrow> 'd dead_get \<Rightarrow> pool \<Rightarrow> duration \<Rightarrow> 'd pool_state \<Rightarrow> trace" where
  "acquire_spans W get p elapsed st =
     Opened ''acquire'' [] # wt_checkout W st @
       (case fst (get_or_timeout get p st) of
          Inl e \<Rightarrow> []
        | Inr i \<Rightarrow> [Recorded ''acquire'' [(''acquired_in_micros'', Count (elapsed_micros elapsed))]])"

section \<open>A reserved handle\<close>

text \<open>The handle's methods have no spans of their own: what is traced are those of its job.\<close>

definition run_statement_spans :: "string \<Rightarrow> statement \<Rightarrow> trace" where
  "run_statement_spans j c =
     (case c of
        (sql, None, opts) \<Rightarrow> execute_opts_spans j sql opts
      | (sql, Some ps, opts) \<Rightarrow> execute_with_opts_spans j sql ps opts)"

definition drop_event :: "reserved \<Rightarrow> trace" where
  "drop_event rv =
     (let in_tx = (rv_tx rv = Started); rolled_back = (rv_rollback_on_drop rv \<and> in_tx)
      in [Emitted ''Reserved dropped'' [(''rolled_back'', Flag rolled_back), (''in_tx'', Flag in_tx)]])"

section \<open>What spans tell\<close>

text \<open>A routed call's spans, by the tier and the outcome of routing.\<close>

lemma routed_spans_eq:
  "routed_spans W E p name on st =
     record_tier name (tier_of E st) #
       (if tier_of E st = FairQueue then wt_checkout W (retain_live st) else []) @
       (case fst (route E p st) of Inl e \<Rightarrow> [] | Inr i \<Rightarrow> on (wt_job W i))"
proof -
  let ?W = "ps_weaks (retain_live st)"
  let ?idle = "\<lambda>i. in_flight st i = 0 \<and> strong_count st i = 1"
  show ?thesis
  proof (cases "find ?idle ?W")
    case None
    then have "\<not> ?idle i" if "find Q ?W = Some i" for Q i
      using that by (auto simp: find_None_iff find_Some_iff)
    with None show ?thesis
      by (auto simp: routed_spans_def peek_idle_eq pick_unsaturated_eq route_def tier_of_def
          chosen_def Let_def split: option.split)
  next
    case (Some i)
    then have "?idle i" by (auto simp: find_Some_iff)
    with Some show ?thesis
      by (auto simp: routed_spans_def peek_idle_eq route_def tier_of_def chosen_def Let_def)
  qed
qed

text \<open>What a policy lets out about parameters.\<close>

fun alike :: "parameter_logging \<Rightarrow> value list \<Rightarrow> value list \<Rightarrow> bool" where
  "alike LogNone ps qs = (length ps = length qs)"
| "alike LogTypesAndCount ps qs = (map type_name ps = map type_name qs)"
| "alike LogFull ps qs = (ps = qs)"

lemma alike_length: "alike l ps qs \<Longrightarrow> length ps = length qs"
  by (cases l) (auto dest: map_eq_imp_length_eq)

lemma record_parameters_alike:
  "length ps = length qs \<Longrightarrow>
   record_parameters name p ps = record_parameters name p qs \<longleftrightarrow> alike (pl_parameter_logging p) ps qs"
proof (cases "pl_parameter_logging p")
  case LogTypesAndCount
  have "map (DString \<circ> f) xs = map (DString \<circ> f) ys \<longleftrightarrow> map f xs = map f ys" for f and xs ys :: "value list"
    unfolding map_map [symmetric] by (rule inj_map_eq_map) (simp add: inj_on_def)
  from this [of type_name] LogTypesAndCount show ?thesis by (simp add: record_parameters_def comp_def)
qed (simp_all add: record_parameters_def)

lemma execute_with_opts_spans_alike:
  "execute_with_opts_spans j sql ps opts = execute_with_opts_spans j sql qs opts \<longleftrightarrow>
   length ps = length qs"
  by (simp add: execute_with_opts_spans_def)

lemma routed_spans_cong:
  "(\<And>j. on j = on' j) \<Longrightarrow> routed_spans W E p name on st = routed_spans W E p name on' st"
  by (simp add: routed_spans_eq split: sum.split)

text \<open>
  C33. What spans disclose of parameters, exactly. Two calls of a pool that differ in their
  parameters only, made in the same state, trace the same if and only if the pool's policy lets
  them: under the default policy if they have equally many, under \<open>TypesAndCount\<close> if
  the types of their JSON values are the same in order, under \<open>Full\<close> if they are the same. The
  spans of a job, of a reserved handle and of a batch never disclose more than the number, whatever
  the policy of the pool the job belongs to.
\<close>

theorem spans_disclose:
  "(pool_execute_with_spans W E p sql ps st = pool_execute_with_spans W E p sql qs st \<longleftrightarrow>
      alike (pl_parameter_logging p) ps qs) \<and>
   (pool_execute_with_opts_spans W E p sql ps opts st = pool_execute_with_opts_spans W E p sql qs opts st \<longleftrightarrow>
      alike (pl_parameter_logging p) ps qs) \<and>
   (execute_with_spans j sql ps = execute_with_spans j sql qs \<longleftrightarrow> length ps = length qs) \<and>
   (execute_with_opts_spans j sql ps opts = execute_with_opts_spans j sql qs opts \<longleftrightarrow>
      length ps = length qs) \<and>
   (run_statement_spans j (sql, Some ps, opts) = run_statement_spans j (sql, Some qs, opts) \<longleftrightarrow>
      length ps = length qs) \<and>
   (execute_sets_spans j sql pss opts = execute_sets_spans j sql qss opts \<longleftrightarrow> length pss = length qss)"
proof -
  have pool: "(Opened n (fs (length ps)) # record_parameters n p ps @
        routed_spans W E p n (\<lambda>j. execute_with_opts_spans j sql ps o') st =
      Opened n (fs (length qs)) # record_parameters n p qs @
        routed_spans W E p n (\<lambda>j. execute_with_opts_spans j sql qs o') st) \<longleftrightarrow>
      alike (pl_parameter_logging p) ps qs"
    if "\<And>a b. fs a = fs b \<longleftrightarrow> a = b" for n fs o'
  proof (cases "length ps = length qs")
    case True
    then have "routed_spans W E p n (\<lambda>j. execute_with_opts_spans j sql ps o') st =
        routed_spans W E p n (\<lambda>j. execute_with_opts_spans j sql qs o') st"
      by (intro routed_spans_cong) (simp add: execute_with_opts_spans_alike)
    with True show ?thesis by (simp add: record_parameters_alike)
  qed (use that alike_length in auto)
  show ?thesis
    unfolding pool_execute_with_spans_def pool_execute_with_opts_spans_def
    by (subst (1 2) pool)
       (simp_all add: execute_with_spans_def execute_with_opts_spans_alike run_statement_spans_def
         execute_sets_spans_def)
qed

end
