(* ===== verification/Pool_Mock.thy ===== *)
theory Pool_Mock
  imports Mock_Server Tracing Pool_System
begin

text \<open>
  The mock server of the pool tests (\<open>spawn_pool_mock\<close> of \<^verbatim>\<open>src/tests/common/mock_server.rs\<close>),
  which serves many connections, what its handle reports of the requests it saw, and a bench that
  runs a pool against it.

  On the bench the pool of theory Pool meets deadpool as its documentation describes it: idle
  connections are offered oldest first, a new one is opened while there is room, and otherwise the
  checkout times out. Calls come one after the other; after each, the requests that have gone out are
  entered into the mock's history. The lemma \<open>turn_over_connection\<close> says that the client's view of a
  server used here is what an exchange over the dispatcher, with texts in between, gives.
\<close>

section \<open>What the mock has seen\<close>

record mock_state =
  ms_requests :: "(nat \<times> request) list"
  ms_socket_count :: nat
  ms_pause :: "duration option"

definition mock_state_new :: mock_state where
  "mock_state_new = \<lparr>ms_requests = [], ms_socket_count = 0, ms_pause = None\<rparr>"

definition push_request :: "nat \<Rightarrow> request \<Rightarrow> mock_state \<Rightarrow> mock_state" where
  "push_request k r ms = ms\<lparr>ms_requests := ms_requests ms @ [(k, r)]\<rparr>"

definition pause_responses :: "duration \<Rightarrow> mock_state \<Rightarrow> mock_state" where
  "pause_responses d ms = ms\<lparr>ms_pause := Some d\<rparr>"

definition drop_pause :: "mock_state \<Rightarrow> mock_state" where
  "drop_pause ms = ms\<lparr>ms_pause := None\<rparr>"

fun request_type :: "request \<Rightarrow> string" where
  "request_type (Connect i t a ps) = ''connect''"
| "request_type (Sql i s n ps t) = ''sql''"
| "request_type (PrepareSql i s t) = ''prepare_sql''"
| "request_type (PrepareSqlExecute i s ps n t) = ''prepare_sql_execute''"
| "request_type (Execute i c ps n t) = ''execute''"
| "request_type (SqlMore i c n) = ''sqlmore''"
| "request_type (SqlClose i c) = ''sqlclose''"
| "request_type (Cl i c t) = ''cl''"
| "request_type (GetVersion i) = ''getversion''"
| "request_type (GetDbJob i) = ''getdbjob''"
| "request_type (SetConfig i l d) = ''setconfig''"
| "request_type (GetTraceData i) = ''gettracedata''"
| "request_type (Dove i s b n t) = ''dove''"
| "request_type (Ping i) = ''ping''"
| "request_type (Exit i) = ''exit''"

definition sql_text :: "request \<Rightarrow> string option" where
  "sql_text r =
     (case r of Sql i s n ps t \<Rightarrow> Some s | PrepareSqlExecute i s ps n t \<Rightarrow> Some s | _ \<Rightarrow> None)"

definition observed_socket_ids :: "mock_state \<Rightarrow> nat list" where
  "observed_socket_ids ms = remdups_adj (sort (map fst (ms_requests ms)))"

definition observed_sql :: "mock_state \<Rightarrow> string list" where
  "observed_sql ms = List.map_filter (\<lambda>(k, r). sql_text r) (ms_requests ms)"

definition observed_request_types :: "mock_state \<Rightarrow> string list" where
  "observed_request_types ms = map (\<lambda>(k, r). request_type r) (ms_requests ms)"

definition open_socket_count :: "mock_state \<Rightarrow> nat" where
  "open_socket_count ms = ms_socket_count ms"

definition ascii_upper :: "char \<Rightarrow> char" where
  "ascii_upper c =
     (if 97 \<le> (of_char c :: nat) \<and> (of_char c :: nat) \<le> 122 then char_of (of_char c - 32 :: nat) else c)"

definition last_socket_for_sql :: "string \<Rightarrow> mock_state \<Rightarrow> nat option" where
  "last_socket_for_sql needle ms =
     find_map (\<lambda>(k, r).
       case sql_text r of
         Some s \<Rightarrow> if contains (map ascii_upper s) (map ascii_upper needle) then Some k else None
       | None \<Rightarrow> None) (rev (ms_requests ms))"

text \<open>Polling until the time is up: on the bench all that was sent has arrived.\<close>

definition wait_for_sql :: "string \<Rightarrow> mock_state \<Rightarrow> bool" where
  "wait_for_sql needle ms = (last_socket_for_sql (map ascii_upper needle) ms \<noteq> None)"

section \<open>One of its connections\<close>

record pool_conn =
  pc_socket :: nat
  pc_phase :: mock_phase

definition canned_empty_query_result :: "string \<Rightarrow> query_result" where
  "canned_empty_query_result i =
     \<lparr>qr_id = i, qr_success = True, qr_has_results = False, qr_update_count = 0, qr_cont_id = None,
      qr_is_done = True, qr_metadata = default_metadata, qr_data = [], qr_execution_time = 0,
      qr_error = None, qr_sqlcode = None, qr_sqlstate = None, qr_parameter_count = None,
      qr_output_parms = []\<rparr>"

definition pool_loop :: "request \<Rightarrow> pool_conn \<Rightarrow> response" where
  "pool_loop r c =
     (case r of
        Exit i \<Rightarrow> Exited i
      | Ping i \<Rightarrow> Pong i
      | Sql i s n ps t \<Rightarrow> QueryResult (canned_empty_query_result i)
      | PrepareSqlExecute i s ps n t \<Rightarrow> QueryResult (canned_empty_query_result i)
      | Execute i k ps n t \<Rightarrow> QueryResult (canned_empty_query_result i)
      | SqlMore i k n \<Rightarrow> QueryResult (canned_empty_query_result i)
      | PrepareSql i s t \<Rightarrow>
          PreparedStatement i True (''pool-mock-stmt-'' @ show_nat (pc_socket c)) 0
      | SqlClose i k \<Rightarrow> SqlClosed i True
      | other \<Rightarrow> live_ack other)"

definition run_pool_connection :: "request \<Rightarrow> pool_conn \<Rightarrow> value option \<times> pool_conn" where
  "run_pool_connection r c =
     (case pc_phase c of
        Over \<Rightarrow> (None, c)
      | Awaiting \<Rightarrow>
          (case r of
             Connect i t a ps \<Rightarrow>
               (Some (encode_live_response (Connected i MOCK_VERSION MOCK_JOB)),
                c\<lparr>pc_phase := Looping\<rparr>)
           | _ \<Rightarrow> (None, c\<lparr>pc_phase := Over\<rparr>))
      | Looping \<Rightarrow>
          (Some (encode_live_response (pool_loop r c)),
           case r of Exit i \<Rightarrow> c\<lparr>pc_phase := Over\<rparr> | _ \<Rightarrow> c))"

section \<open>A client's view of a server\<close>

definition turn_sender :: "foreign \<Rightarrow> (request \<Rightarrow> 'm \<Rightarrow> value option \<times> 'm) \<Rightarrow> 'm sender" where
  "turn_sender L t r m =
     (case t r m of
        (None, m') \<Rightarrow> (Inl (error_from_transport Closed), m')
      | (Some v, m') \<Rightarrow>
          (case decode_value v of
             Inl e \<Rightarrow> (Inl (error_from_protocol (protocol_decode_error L e)), m')
           | Inr p \<Rightarrow> (Inr (remap_response (request_kind r) p), m')))"

definition turn_daemon ::
  "foreign \<Rightarrow> ('m \<Rightarrow> 'm) \<Rightarrow> (request \<Rightarrow> 'm \<Rightarrow> value option \<times> 'm) \<Rightarrow> 'm daemon" where
  "turn_daemon L gone t bytes m =
     (case bindR (fo_from_slice L bytes) de_request of
        Inl e \<Rightarrow> (Inr [], gone m)
      | Inr r \<Rightarrow>
          (case t r m of
             (None, m') \<Rightarrow> (Inr [], m')
           | (Some v, m') \<Rightarrow>
               (case fo_to_vec L v of
                  Inl e \<Rightarrow> (Inr [], gone m')
                | Inr frame \<Rightarrow> (Inr [frame], m'))))"

text \<open>In front of a dispatcher at rest.\<close>

definition beside_dispatcher :: "'m sender \<Rightarrow> (dispatcher \<times> 'm) sender" where
  "beside_dispatcher f r w = (let (x, m) = f r (snd w) in (x, (fst w, m)))"

lemma mock_sender_turn: "mock_sender L b = turn_sender L (run_mock b)"
  by (simp add: fun_eq_iff mock_sender_def turn_sender_def)

lemma run_pool_connection_id:
  assumes "run_pool_connection r c = (Some v, c')"
  shows "carries_id v (request_id r)"
proof -
  have "response_id (pool_loop r c) = request_id r"
    by (cases r) (simp_all add: pool_loop_def canned_empty_query_result_def)
  then show ?thesis
    using assms encoded_response_id [of "pool_loop r c"]
      encoded_response_id [of "Connected (request_id r) MOCK_VERSION MOCK_JOB"]
    by (cases r) (auto simp: run_pool_connection_def split: mock_phase.splits)
qed

lemma turn_over_connection:
  assumes "quiescent L (d, m)" "at_rest L (d, m)" "text_back L de_request (ser_request r)"
    and "de_request (ser_request r) = Inr r" "t r m = (Some v, m')" "carries_id v (request_id r)"
    and "text_back L (\<lambda>v. (decode_value v, frame_id v)) v"
  shows "fst (exchange L (turn_daemon L gone t) r (d, m)) =
      fst (beside_dispatcher (turn_sender L t) r (d, m))"
    and "snd (snd (exchange L (turn_daemon L gone t) r (d, m))) =
      snd (snd (beside_dispatcher (turn_sender L t) r (d, m)))"
    and "quiescent L (snd (exchange L (turn_daemon L gone t) r (d, m)))"
    and "dq_in_flight (fst (snd (exchange L (turn_daemon L gone t) r (d, m)))) = dq_in_flight d"
proof -
  obtain bytes w where b: "fo_to_vec L (ser_request r) = Inr bytes" "fo_from_slice L bytes = Inr w"
    "de_request w = Inr r"
    using assms(3,4) by (auto elim: text_backD)
  obtain f v' where f: "fo_to_vec L v = Inr f" "fo_from_slice L f = Inr v'"
    "decode_value v' = decode_value v" "frame_id v' = frame_id v"
    using assms(7) by (auto elim: text_backD)
  have daemon: "turn_daemon L gone t bytes m = (Inr [f], m')"
    by (simp add: turn_daemon_def b f(1) assms(5))
  have all: "fst (exchange L (turn_daemon L gone t) r (d, m)) = fst (turn_sender L t r m) \<and>
      quiescent L (snd (exchange L (turn_daemon L gone t) r (d, m))) \<and>
      snd (snd (exchange L (turn_daemon L gone t) r (d, m))) = snd (turn_sender L t r m)"
  proof (cases "decode_value v")
    case (Inl e)
    have "frame_id v' = Some (request_id r)"
      using assms(6) unfolding f(4) by (auto simp: carries_id_def frame_id_def)
    from exchange_undecodable [where daemon = "turn_daemon L gone t", OF assms(1) b(1) daemon f(2) _ this]
    show ?thesis by (simp add: turn_sender_def assms(5) Inl f(3))
  next
    case (Inr p)
    from exchange_answered [where daemon = "turn_daemon L gone t", OF assms(1) b(1) daemon f(2) _
        carries_id_answer [OF assms(6) Inr]]
    show ?thesis by (simp add: turn_sender_def assms(5) Inr f(3))
  qed
  then show "fst (exchange L (turn_daemon L gone t) r (d, m)) =
      fst (beside_dispatcher (turn_sender L t) r (d, m))"
    "snd (snd (exchange L (turn_daemon L gone t) r (d, m))) =
      snd (snd (beside_dispatcher (turn_sender L t) r (d, m)))"
    "quiescent L (snd (exchange L (turn_daemon L gone t) r (d, m)))"
    by (simp_all add: beside_dispatcher_def case_prod_beta Let_def)
  show "dq_in_flight (fst (snd (exchange L (turn_daemon L gone t) r (d, m)))) = dq_in_flight d"
    using at_rest_exchange(4) [OF assms(2)] by simp
qed

section \<open>The bench\<close>

text \<open>
  A laboratory is what does not change: the server's connections, how the \<open>k\<close>-th of them is opened,
  the size limit and the pool's settings. The bench holds the pool, deadpool's idle connections and
  the mock's history.
\<close>

record 'd lab =
  lb_send :: "(dispatcher \<times> 'd) sender"
  lb_open :: "nat \<Rightarrow> (dispatcher \<times> 'd) job"
  lb_max :: nat
  lb_pool :: pool

record 'd bench =
  bn_pool :: "'d pool_state"
  bn_idle :: "nat list"
  bn_mock :: mock_state

definition bench_new :: "'d bench" where
  "bench_new = \<lparr>bn_pool = empty_pool, bn_idle = [], bn_mock = mock_state_new\<rparr>"

definition live_jobs :: "'d pool_state \<Rightarrow> nat" where
  "live_jobs st = length (filter (\<lambda>n. 0 < n) (ps_strong st))"

definition bench_get :: "'d lab \<Rightarrow> nat list \<Rightarrow> 'd dead_get" where
  "bench_get E spare st =
     documented_get (lb_send E) (Inr (lb_open E (length (ps_jobs st))))
       (if spare \<noteq> [] then Offers spare
        else if live_jobs st < lb_max E then Offers [] else CheckoutFails PoolTimeout) st"

definition around :: "'d lab \<Rightarrow> 'd bench \<Rightarrow> 'd surroundings" where
  "around E b =
     \<lparr>su_send = lb_send E, su_size = live_jobs (bn_pool b), su_get = bench_get E (bn_idle b)\<rparr>"

text \<open>What went out on each socket between two states; sockets are numbered from one.\<close>

fun gone_out :: "nat \<Rightarrow> (dispatcher \<times> 'd) session list \<Rightarrow> (dispatcher \<times> 'd) session list \<Rightarrow>
    (nat \<times> request) list" where
  "gone_out k olds [] = []"
| "gone_out k [] (t # ts) = map (Pair k) (ss_sent t @ ss_spawned t) @ gone_out (Suc k) [] ts"
| "gone_out k (s # ss) (t # ts) =
     map (Pair k) (drop (length (ss_sent s)) (ss_sent t) @ drop (length (ss_spawned s)) (ss_spawned t)) @
       gone_out (Suc k) ss ts"

definition after_step :: "'d pool_state \<Rightarrow> nat list \<Rightarrow> 'd bench \<Rightarrow> 'd bench" where
  "after_step st spare b =
     b\<lparr>bn_pool := st, bn_idle := spare,
       bn_mock := (fold (\<lambda>(k, r). push_request k r) (gone_out 1 (ps_jobs (bn_pool b)) (ps_jobs st))
         (bn_mock b))\<lparr>ms_socket_count := length (ps_jobs st)\<rparr>\<rparr>"

text \<open>
  A routed call; if it checks a connection out, that connection returns to the end of the idle ones
  afterwards.
\<close>

definition on_pool ::
  "'d lab \<Rightarrow> ('d surroundings \<Rightarrow> pool \<Rightarrow> 'd pool_state \<Rightarrow> 'r \<times> 'd pool_state) \<Rightarrow> 'd bench \<Rightarrow> 'r \<times> 'd bench"
  where
  "on_pool E m b =
     (let (r, st) = m (around E b) (lb_pool E) (bn_pool b);
          used = (if chosen (live_jobs (bn_pool b)) (bn_pool b) = None
                  then fst (route (around E b) (lb_pool E) (bn_pool b)) else Inl Cancelled);
          spare = (case used of Inl e \<Rightarrow> bn_idle b | Inr i \<Rightarrow> remove1 i (bn_idle b) @ [i])
      in (r, after_step st spare b))"

definition bench_acquire :: "'d lab \<Rightarrow> 'd bench \<Rightarrow> (error + reserved) \<times> 'd bench" where
  "bench_acquire E b =
     (let (r, st) = acquire (bench_get E (bn_idle b)) (lb_pool E) (bn_pool b);
          spare = (case r of Inl e \<Rightarrow> bn_idle b | Inr rv \<Rightarrow> remove1 (rv_job rv) (bn_idle b))
      in (r, after_step st spare b))"

definition on_handle :: "('d, 'a) reserved_op \<Rightarrow> reserved \<times> 'd bench \<Rightarrow> (error + 'a) \<times> reserved \<times> 'd bench" where
  "on_handle m h =
     (let (r, rv, st) = m (fst h, bn_pool (snd h)) in (r, rv, after_step st (bn_idle (snd h)) (snd h)))"

definition bench_drop :: "reserved \<Rightarrow> 'd bench \<Rightarrow> 'd bench" where
  "bench_drop rv b = after_step (reserved_drop rv (bn_pool b)) (bn_idle b @ [rv_job rv]) b"

definition bench_status :: "'d bench \<Rightarrow> pool_status" where
  "bench_status b = status (live_jobs (bn_pool b)) (length (bn_idle b)) 0"

text \<open>A sweep of the reaper; \<open>used\<close> is how long each idle connection has not been used.\<close>

definition bench_sweep :: "duration \<Rightarrow> (nat \<Rightarrow> duration) \<Rightarrow> 'd bench \<Rightarrow> 'd bench" where
  "bench_sweep timeout used b =
     (let kept = map fst (sweep timeout (map (\<lambda>i. (i, used i)) (bn_idle b)));
          gone = filter (\<lambda>i. i \<notin> set kept) (bn_idle b)
      in after_step (fold release gone (bn_pool b)) kept b)"

end
