(* ===== verification/Pool_Tests.thy ===== *)
theory Pool_Tests
  imports Pool_Mock Integration_Tests First_Answer
begin

text \<open>
  The integration tests of \<^verbatim>\<open>src/tests\<close> that run a pool, on the bench of theory Pool_Mock.
  A test is a definition: the pool's settings, the calls of the test in their order, and its
  assertions. The result sets of these tests are complete, so dropping them sends nothing.

  Left out are what only clocks and threads show: that a paused mock delays replies
  (\<^verbatim>\<open>pause_responses_delays_mock_replies\<close>) and the sixty-five concurrent calls of
  \<^verbatim>\<open>saturation_falls_back_to_fair_queue\<close>.
\<close>

section \<open>Pools against the mock\<close>

abbreviation pool_server :: "(dispatcher \<times> pool_conn) sender" where
  "pool_server \<equiv> beside_dispatcher (turn_sender sample run_pool_connection)"

text \<open>The \<open>k\<close>-th connection to the mock, as \<open>Job::connect\<close> leaves it.\<close>

definition socket_of :: "'d \<Rightarrow> (dispatcher \<times> 'd) job" where
  "socket_of x =
     \<lparr>jb_session = \<lparr>ss_world = (spawn, x), ss_ids = snd (next_id first_ids), ss_runtime = True,
        ss_sent = [], ss_received = [], ss_spawned = []\<rparr>,
      jb_version = MOCK_VERSION, jb_initial_job = MOCK_JOB\<rparr>"

definition pool_settings :: "pool_builder \<Rightarrow> pool" where
  "pool_settings b =
     \<lparr>pl_acquire_timeout = bp_acquire_timeout b, pl_default_page_size = bp_default_page_size b,
      pl_parameter_logging = bp_parameter_logging b\<rparr>"

definition lab_of :: "pool_builder \<Rightarrow> pool_conn lab" where
  "lab_of b =
     \<lparr>lb_send = pool_server,
      lb_open = (\<lambda>k. socket_of \<lparr>pc_socket = Suc k, pc_phase = Looping\<rparr>),
      lb_max = bp_max_size b, lb_pool = pool_settings b\<rparr>"

definition spawn_mock_pool :: "nat \<Rightarrow> pool_conn lab" where
  "spawn_mock_pool n = lab_of (acquire_timeout (Some (seconds 2)) (max_size n pool_builder_new))"

text \<open>The mock that serves one connection.\<close>

definition lab_with :: "behavior \<Rightarrow> pool_builder \<Rightarrow> mock lab" where
  "lab_with m b =
     \<lparr>lb_send = beside_dispatcher (mock_sender sample m),
      lb_open = (\<lambda>k. socket_of ((mock_start m)\<lparr>mk_phase := Looping\<rparr>)),
      lb_max = bp_max_size b, lb_pool = pool_settings b\<rparr>"

definition run_execute :: "'d lab \<Rightarrow> string \<Rightarrow> 'd bench \<Rightarrow> (error + rows) \<times> 'd bench" where
  "run_execute E sql = on_pool E (\<lambda>S p. pool_execute S p sql)"

definition held_execute :: "'d lab \<Rightarrow> string \<Rightarrow> reserved \<times> 'd bench \<Rightarrow> (error + rows) \<times> reserved \<times> 'd
   bench" where
  "held_execute E sql = on_handle (reserved_execute (lb_send E) sql)"

definition held_execute_with ::
  "'d lab \<Rightarrow> string \<Rightarrow> value list \<Rightarrow> reserved \<times> 'd bench \<Rightarrow> (error + rows) \<times> reserved \<times> 'd bench" where
  "held_execute_with E sql ps = on_handle (reserved_execute_with (lb_send E) sql ps)"

section \<open>Creating, draining, recycling\<close>

definition select_1 :: string where
  "select_1 = ''SELECT 1 FROM SYSIBM.SYSDUMMY1''"

definition select_2 :: string where
  "select_2 = ''SELECT 2 FROM SYSIBM.SYSDUMMY1''"

definition pool_create_then_drain :: bool where
  "pool_create_then_drain =
     (let E = spawn_mock_pool 4 in
      expect_ok (run_execute E select_1 bench_new) (\<lambda>r1 b.
      expect_ok (run_execute E select_1 b) (\<lambda>r2 b.
        po_size (bench_status b) \<le> 4)))"

definition pool_recycle_pings_on_checkout :: bool where
  "pool_recycle_pings_on_checkout =
     (let E = spawn_mock_pool 1 in
      expect_ok (bench_acquire E bench_new) (\<lambda>r1 b.
      expect_ok (bench_acquire E (bench_drop r1 b)) (\<lambda>r2 b.
        ''ping'' \<in> set (observed_request_types (bn_mock (bench_drop r2 b))))))"

definition pool_acquire_timeout_returns_pool_exhausted :: bool where
  "pool_acquire_timeout_returns_pool_exhausted =
     (let E = lab_of (acquire_timeout (Some 50000000) (max_size 1 pool_builder_new)) in
      expect_ok (bench_acquire E bench_new) (\<lambda>r1 b.
      expect_err (run_execute E select_1 b) (\<lambda>e b. e = PoolExhausted 50000000)))"

text \<open>One exchange with a connection of the mock.\<close>

lemma canned_decodes:
  "decode_value (encode_live_response (QueryResult (canned_empty_query_result i))) =
     Inr (QueryResult (canned_empty_query_result i))"
proof -
  let ?q = "canned_empty_query_result i"
  have "wf_result ?q" "as_read ?q = ?q"
    by (simp_all add: canned_empty_query_result_def wf_result_def as_read_def f64_finite_def
        non_empty_def default_metadata_def live_error)
  with page_decodes [of ?q] show ?thesis by simp
qed

lemma pool_server_turn:
  "pool_server (Sql i s n ps t) (d, \<lparr>pc_socket = k, pc_phase = Looping\<rparr>) =
     (Inr (QueryResult (canned_empty_query_result i)), (d, \<lparr>pc_socket = k, pc_phase = Looping\<rparr>))"
  "pool_server (PrepareSqlExecute i s pss n t) (d, \<lparr>pc_socket = k, pc_phase = Looping\<rparr>) =
     (Inr (QueryResult (canned_empty_query_result i)), (d, \<lparr>pc_socket = k, pc_phase = Looping\<rparr>))"
  "pool_server (Ping i) (d, \<lparr>pc_socket = k, pc_phase = Looping\<rparr>) =
     (Inr (Pong i), (d, \<lparr>pc_socket = k, pc_phase = Looping\<rparr>))"
  by (simp_all add: beside_dispatcher_def turn_sender_def run_pool_connection_def pool_loop_def
      canned_decodes live_acks del: encode_live_response.simps)

lemma canned_simps [simp]:
  "qr_id (canned_empty_query_result i) = i" "qr_success (canned_empty_query_result i)"
  "qr_is_done (canned_empty_query_result i)" "qr_data (canned_empty_query_result i) = []"
  "qr_cont_id (canned_empty_query_result i) = None"
  by (simp_all add: canned_empty_query_result_def)

lemmas lab_run = run_execute_def held_execute_def held_execute_with_def
  spawn_mock_pool_def lab_of_def pool_settings_def socket_of_def bench_new_def empty_pool_def
  mock_state_new_def pool_builder_new_def acquire_timeout_def max_size_def seconds_def spawn_def

lemmas bench_run = on_pool_def bench_acquire_def on_handle_def bench_drop_def after_step_def
  around_def bench_get_def live_jobs_def bench_status_def status_def push_request_def
  observed_request_types_def

lemmas pool_run = acquire_def reserved_new_def
  store_in_flight_def get_or_timeout_def manager_create_def track_def recycle_def run_on_def
  ping_def call_once pool_execute_def routed_def route_eq chosen_def retain_live_def
  strong_count_def in_flight_def job_in_flight_def reserved_drop_def
  pool_opts_def checkout_error_def

lemma create_and_drain:
  pool_create_then_drain pool_recycle_pings_on_checkout
  pool_acquire_timeout_returns_pool_exhausted
  unfolding pool_create_then_drain_def pool_recycle_pings_on_checkout_def
    pool_acquire_timeout_returns_pool_exhausted_def
  by (simp_all add: lab_run bench_run pool_run job_run pool_server_turn Let_def)

text \<open>The second statement rides on the warmed connection, without a ping, however slow the
   replies.\<close>

definition fast_path_does_not_thrash_under_slow_response :: bool where
  "fast_path_does_not_thrash_under_slow_response =
     (let E = spawn_mock_pool 1 in
      expect_ok (run_execute E select_1 bench_new) (\<lambda>r1 b.
        open_socket_count (bn_mock b) = 1 \<and>
      expect_ok (run_execute E select_2
          (b\<lparr>bn_mock := pause_responses 100000000 (bn_mock b)\<rparr>)) (\<lambda>r2 b.
        open_socket_count (drop_pause (bn_mock b)) = 1 \<and>
        filter (\<lambda>t. t = ''ping'') (observed_request_types (bn_mock b)) = [])))"

text \<open>
  The reaper of a pool with a timeout of half a second sweeps every second: after two seconds the
  connection has not been used for longer than the timeout.
\<close>

definition idle_timeout_reaps_connections :: bool where
  "idle_timeout_reaps_connections =
     (let B = idle_timeout (Some 500000000) (max_size 2 pool_builder_new); E = lab_of B in
      expect_ok (run_execute E select_1 bench_new) (\<lambda>r1 b.
        po_size (bench_status b) = 1 \<and> open_socket_count (bn_mock b) = 1 \<and>
        reaper_period 500000000 = Some (seconds 1) \<and>
        (let b = bench_sweep 500000000 (\<lambda>i. seconds 2) b in
          po_size (bench_status b) = 0 \<and>
          expect_ok (run_execute E select_2 b) (\<lambda>r2 b. open_socket_count (bn_mock b) = 2))))"

definition spawn_mock_pool_observes_multiple_connections :: bool where
  "spawn_mock_pool_observes_multiple_connections =
     (let E = spawn_mock_pool 2 in
      expect_ok (bench_acquire E bench_new) (\<lambda>a b.
      expect_ok (bench_acquire E b) (\<lambda>c b.
      expect_ok (held_execute E select_1 (a, b)) (\<lambda>r (a, b).
      expect_ok (held_execute E select_2 (c, b)) (\<lambda>r (c, b).
        length (observed_socket_ids (bn_mock b)) = 2 \<and>
        2 \<le> open_socket_count (bn_mock b) \<and>
        list_ex (\<lambda>s. contains s ''SELECT 1'') (observed_sql (bn_mock b)) \<and>
        list_ex (\<lambda>s. contains s ''SELECT 2'') (observed_sql (bn_mock b)) \<and>
        (case last_socket_for_sql ''SELECT 1'' (bn_mock b) of
           None \<Rightarrow> False | Some k \<Rightarrow> k \<in> set (observed_socket_ids (bn_mock b))) \<and>
        ''sql'' \<in> set (observed_request_types (bn_mock b)))))))"

definition idle_job_preferred_over_busy :: bool where
  "idle_job_preferred_over_busy =
     (let E = spawn_mock_pool 2 in
      expect_ok (bench_acquire E bench_new) (\<lambda>r1 b.
      expect_ok (bench_acquire E b) (\<lambda>r2 b.
      expect_ok (held_execute E ''SELECT 0 FROM SYSIBM.SYSDUMMY1'' (r1, b)) (\<lambda>r (r1, b).
      expect_ok (held_execute E ''SELECT 0 FROM SYSIBM.SYSDUMMY1'' (r2, b)) (\<lambda>r (r2, b).
        (let b = bench_drop r1 (bench_drop r2 b) in
        2 \<le> open_socket_count (bn_mock b) \<and>
      expect_ok (bench_acquire E b) (\<lambda>busy b.
      expect_ok (held_execute E ''SELECT BUSY MARKER FROM SYSIBM.SYSDUMMY1'' (busy, b)) (\<lambda>r (busy,
         b).
      expect_ok (run_execute E ''SELECT IDLE PREFERRED FROM SYSIBM.SYSDUMMY1'' b) (\<lambda>r b.
        last_socket_for_sql ''BUSY MARKER'' (bn_mock b) \<noteq> None \<and>
        last_socket_for_sql ''IDLE PREFERRED'' (bn_mock b) \<noteq> None \<and>
        last_socket_for_sql ''IDLE PREFERRED'' (bn_mock b) \<noteq>
          last_socket_for_sql ''BUSY MARKER'' (bn_mock b) \<and>
        2 \<le> open_socket_count (bn_mock b))))))))))"

lemmas history_run = open_socket_count_def pause_responses_def drop_pause_def
   observed_socket_ids_def
  observed_sql_def last_socket_for_sql_def wait_for_sql_def find_map.simps sql_text_def
  ascii_upper_def contains_def sublist_code bench_sweep_def sweep_def release_def drop_job_def
  stop_def reaper_period_def idle_timeout_def reserved_execute_def reserved_execute_with_def
  tracked_def untracked_def map_filter_simps

lemma reuse_and_routing:
  fast_path_does_not_thrash_under_slow_response idle_timeout_reaps_connections
  spawn_mock_pool_observes_multiple_connections idle_job_preferred_over_busy
  unfolding fast_path_does_not_thrash_under_slow_response_def idle_timeout_reaps_connections_def
    spawn_mock_pool_observes_multiple_connections_def idle_job_preferred_over_busy_def
  by (simp_all add: lab_run bench_run pool_run job_run pool_server_turn history_run select_1_def
     select_2_def Let_def)

section \<open>Transactions\<close>

definition update_two :: string where
  "update_two = ''UPDATE T SET C = ? WHERE I = ?''"

definition one_two :: "value list" where
  "one_two = [JNumber (JInt 1), JNumber (JInt 2)]"

text \<open>The recorder of the mock that serves one connection.\<close>

definition recorded_requests :: "'d bench \<Rightarrow> request list" where
  "recorded_requests b = map snd (ms_requests (bn_mock b))"

definition sql_requests :: "'d bench \<Rightarrow> request list" where
  "sql_requests b = filter (\<lambda>r. sql_text r \<noteq> None) (recorded_requests b)"

definition is_rollback :: "request \<Rightarrow> bool" where
  "is_rollback r =
     (case r of Sql i s n ps t \<Rightarrow> eq_ignore_ascii_case s ''ROLLBACK'' | _ \<Rightarrow> False)"

definition canned :: query_result where
  "canned = canned_empty_query_result ''placeholder''"

definition reserved_runs_begin_dml_commit_on_one_socket :: bool where
  "reserved_runs_begin_dml_commit_on_one_socket =
     (let E = lab_with (Pages [canned, canned, canned]) (max_size 2 pool_builder_new) in
      expect_ok (bench_acquire E bench_new) (\<lambda>conn b.
      expect_ok (held_execute E ''BEGIN'' (conn, b)) (\<lambda>r (conn, b).
      expect_ok (held_execute_with E update_two one_two (conn, b)) (\<lambda>r (conn, b).
      expect_ok (held_execute E ''COMMIT'' (conn, b)) (\<lambda>r (conn, b).
        (case sql_requests b of
           [Sql i s n ps t, PrepareSqlExecute i' s' pss n' t', Sql i'' s'' n'' ps'' t''] \<Rightarrow>
             s = ''BEGIN'' \<and> ps = None \<and> contains s' ''UPDATE T'' \<and>
             map_option (map length) pss = Some [2] \<and> s'' = ''COMMIT'' \<and> ps'' = None
         | _ \<Rightarrow> False))))))"

definition reserved_pins_transaction_to_one_socket :: bool where
  "reserved_pins_transaction_to_one_socket =
     (let E = spawn_mock_pool 4 in
      expect_ok (run_execute E select_1 bench_new) (\<lambda>bg1 b.
      expect_ok (run_execute E select_1 b) (\<lambda>bg2 b.
      expect_ok (bench_acquire E b) (\<lambda>conn b.
      expect_ok (held_execute E ''BEGIN'' (conn, b)) (\<lambda>r (conn, b).
      expect_ok (held_execute_with E update_two one_two (conn, b)) (\<lambda>r (conn, b).
      expect_ok (held_execute E ''COMMIT'' (conn, b)) (\<lambda>r (conn, b).
        last_socket_for_sql ''BEGIN'' (bn_mock b) \<noteq> None \<and>
        last_socket_for_sql ''BEGIN'' (bn_mock b) = last_socket_for_sql ''UPDATE'' (bn_mock b) \<and>
        last_socket_for_sql ''UPDATE'' (bn_mock b) = last_socket_for_sql ''COMMIT'' (bn_mock
           b))))))))"

definition drop_with_rollback_on_drop_sends_rollback :: bool where
  "drop_with_rollback_on_drop_sends_rollback =
     (let E = spawn_mock_pool 1 in
      expect_ok (bench_acquire E bench_new) (\<lambda>conn b.
      expect_ok (held_execute E ''BEGIN'' (rollback_on_drop conn, b)) (\<lambda>r (conn, b).
      expect_ok (held_execute E ''UPDATE T SET C = 1'' (conn, b)) (\<lambda>r (conn, b).
        wait_for_sql ''ROLLBACK'' (bn_mock (bench_drop conn b)) \<and>
        last_socket_for_sql ''ROLLBACK'' (bn_mock (bench_drop conn b)) \<noteq> None))))"

definition drop_without_rollback_on_drop_does_not_send_rollback :: bool where
  "drop_without_rollback_on_drop_does_not_send_rollback =
     (let E = lab_with (Pages [canned]) (max_size 1 pool_builder_new) in
      expect_ok (bench_acquire E bench_new) (\<lambda>conn b.
      expect_ok (held_execute E ''UPDATE T SET C = 1'' (conn, b)) (\<lambda>r (conn, b).
        \<not> list_ex is_rollback (recorded_requests (bench_drop conn b)))))"

definition explicit_commit_suppresses_drop_rollback :: bool where
  "explicit_commit_suppresses_drop_rollback =
     (let E = lab_with (Pages [canned, canned, canned]) (max_size 1 pool_builder_new) in
      expect_ok (bench_acquire E bench_new) (\<lambda>conn b.
      expect_ok (held_execute E ''BEGIN'' (rollback_on_drop conn, b)) (\<lambda>r (conn, b).
      expect_ok (held_execute E ''COMMIT'' (conn, b)) (\<lambda>r (conn, b).
        filter is_rollback (recorded_requests (bench_drop conn b)) = []))))"

text \<open>One exchange with the mock that serves one connection.\<close>

lemma canned_page_decodes:
  "decode_value (encode_query_result_maybe_terse (canned\<lparr>qr_id := i\<rparr>) None) =
     Inr (QueryResult (canned_empty_query_result i))"
  using canned_decodes [of i] by (simp add: canned_def canned_empty_query_result_def)

lemma pages_server_turn:
  "beside_dispatcher (mock_sender sample (Pages ps)) (Sql i s n pp None)
      (d, \<lparr>mk_phase = Looping, mk_pages = canned # qs, mk_fired = f\<rparr>) =
     (Inr (QueryResult (canned_empty_query_result i)),
      (d, \<lparr>mk_phase = Looping, mk_pages = qs, mk_fired = f\<rparr>))"
  "beside_dispatcher (mock_sender sample (Pages ps)) (PrepareSqlExecute i s pss n None)
      (d, \<lparr>mk_phase = Looping, mk_pages = canned # qs, mk_fired = f\<rparr>) =
     (Inr (QueryResult (canned_empty_query_result i)),
      (d, \<lparr>mk_phase = Looping, mk_pages = qs, mk_fired = f\<rparr>))"
  by (simp_all add: beside_dispatcher_def mock_sender_def run_mock_def loop_turn_def pages_turn_def
      next_page_def canned_page_decodes)

lemma spawn_rollback_eq:
  "spawn_rollback s = spawn_best_effort (Sql (fst (next_id (ss_ids s))) ''ROLLBACK'' None None None)
     (s\<lparr>ss_ids := snd (next_id (ss_ids s))\<rparr>)"
  by (simp add: spawn_rollback_def case_prod_beta Let_def)

lemmas handle_run = lab_with_def mock_start_def update_two_def one_two_def recorded_requests_def
  sql_requests_def is_rollback_def eq_ignore_ascii_case_def ascii_lower_def rollback_on_drop_def
  spawn_rollback_eq spawn_best_effort_def observe_sql_def first_word_def skip_ws.simps ws_len_def
  ws_encodings_def

lemma transactions:
  reserved_runs_begin_dml_commit_on_one_socket reserved_pins_transaction_to_one_socket
  drop_with_rollback_on_drop_sends_rollback drop_without_rollback_on_drop_does_not_send_rollback
  explicit_commit_suppresses_drop_rollback
  unfolding reserved_runs_begin_dml_commit_on_one_socket_def
    reserved_pins_transaction_to_one_socket_def drop_with_rollback_on_drop_sends_rollback_def
    drop_without_rollback_on_drop_does_not_send_rollback_def
    explicit_commit_suppresses_drop_rollback_def
  by (simp_all add: lab_run bench_run pool_run job_run pool_server_turn history_run handle_run
     pages_server_turn select_1_def Let_def)

section \<open>Options, creating and recycling\<close>

definition bound_sql :: string where
  "bound_sql = ''VALUES (CAST(? AS INTEGER))''"

definition seven :: "value list" where
  "seven = [JNumber (JInt 7)]"

definition opts_ten :: execute_options where
  "opts_ten = \<lparr>eo_rows = Some 10, eo_terse = False\<rparr>"

definition test_pool_and_reserved_execute_opts :: bool where
  "test_pool_and_reserved_execute_opts =
     (let E = spawn_mock_pool 2; send = lb_send E in
      expect_ok (on_pool E (\<lambda>S p. pool_execute_opts S p select_1 opts_ten) bench_new) (\<lambda>r b.
      expect_ok (on_pool E (\<lambda>S p. pool_execute_with_opts S p bound_sql seven opts_ten) b) (\<lambda>r b.
      expect_ok (on_pool E (\<lambda>S p. ex_pool_execute_opts S p select_1 opts_ten) b) (\<lambda>r b.
      expect_ok (on_pool E (\<lambda>S p. ex_pool_execute_with_opts S p bound_sql seven opts_ten) b) (\<lambda>r b.
      expect_ok (bench_acquire E b) (\<lambda>conn b.
      expect_ok (on_handle (reserved_execute_opts send select_1 opts_ten) (conn, b)) (\<lambda>r h.
      expect_ok (on_handle (reserved_execute_with_opts send bound_sql seven opts_ten) h) (\<lambda>r h.
      expect_ok (on_handle (ex_reserved_execute_opts send select_1 opts_ten) h) (\<lambda>r h.
      expect_ok (on_handle (ex_reserved_execute_with_opts send bound_sql seven opts_ten) h) (\<lambda>r h.
      expect_ok (on_handle (reserved_begin send) h) (\<lambda>r h.
      expect_ok (on_handle (commit send) h) (\<lambda>r h.
      expect_ok (on_handle (rollback send) h) (\<lambda>r h. True)))))))))))))"

definition test_pool_default_page_size_on_execute :: bool where
  "test_pool_default_page_size_on_execute =
     (let E = lab_with (Pages [canned, canned]) (default_page_size 50 (max_size 1
        pool_builder_new)) in
      expect_ok (run_execute E select_1 bench_new) (\<lambda>r b.
      expect_ok (on_pool E (\<lambda>S p. pool_execute_opts S p select_1 opts_ten) b) (\<lambda>r b.
        map request_rows (recorded_requests b) = [Some 50, Some 10] \<and>
        po_waiting (bench_status b) = 0)))"

definition held_ping :: "'d lab \<Rightarrow> reserved \<times> 'd bench \<Rightarrow> (error + duration) \<times> reserved \<times> 'd bench"
   where
  "held_ping E = on_handle (untracked (ping (lb_send E) 0))"

definition manager_create_and_recycle :: bool where
  "manager_create_and_recycle =
     (let E = lab_with AcceptAndConnect (max_size 2 pool_builder_new) in
      expect_ok (bench_acquire E bench_new) (\<lambda>conn b.
        in_flight (bn_pool b) (rv_job conn) = u32_MAX \<and>
      expect_ok (bench_acquire E (bench_drop conn b)) (\<lambda>conn2 b.
      expect_ok (held_ping E (conn2, b)) (\<lambda>rtt (conn2, b). po_size (bench_status b) = 1))))"

text \<open>This mock acknowledges everything, which is no answer to a statement.\<close>

definition pool_execute_one_shot :: bool where
  "pool_execute_one_shot =
     (let E = lab_with AcceptAndConnect (max_size 2 pool_builder_new) in
      expect_err (run_execute E select_1 bench_new) (\<lambda>e b.
        case e of Protocol p \<Rightarrow> True | _ \<Rightarrow> False))"

definition reserved_derefs_to_job :: bool where
  "reserved_derefs_to_job =
     (let E = lab_with AcceptAndConnect (max_size 2 pool_builder_new) in
      expect_ok (bench_acquire E bench_new) (\<lambda>conn b.
      expect_ok (held_ping E (conn, b)) (\<lambda>rtt (conn, b).
        in_flight (bn_pool (bench_drop conn b)) (rv_job conn) = 0)))"

lemma accepting_server_turn:
  "beside_dispatcher (mock_sender sample AcceptAndConnect) (Ping i) (d, \<lparr>mk_phase = Looping,
     mk_pages = qs, mk_fired = f\<rparr>) =
     (Inr (Pong i), (d, \<lparr>mk_phase = Looping, mk_pages = qs, mk_fired = f\<rparr>))"
  "beside_dispatcher (mock_sender sample AcceptAndConnect) (Sql i s n ps t) (d, \<lparr>mk_phase =
     Looping, mk_pages = qs, mk_fired = f\<rparr>) =
     (Inr (Pong i), (d, \<lparr>mk_phase = Looping, mk_pages = qs, mk_fired = f\<rparr>))"
  by (simp_all add: beside_dispatcher_def mock_sender_def run_mock_def loop_turn_def reply_with_def
      live_ack_def live_acks del: encode_live_response.simps)

lemmas calls_run = bound_sql_def seven_def opts_ten_def held_ping_def request_rows_def
  default_page_size_def pool_execute_opts_def pool_execute_with_opts_def ex_pool_execute_opts_def
  ex_pool_execute_with_opts_def reserved_execute_opts_def reserved_execute_with_opts_def
  ex_reserved_execute_opts_def ex_reserved_execute_with_opts_def reserved_begin_def commit_def
  rollback_def accepting_server_turn unexpected_def error_from_protocol_def

lemma options_and_recycling:
  test_pool_and_reserved_execute_opts test_pool_default_page_size_on_execute
  manager_create_and_recycle pool_execute_one_shot reserved_derefs_to_job
  unfolding test_pool_and_reserved_execute_opts_def test_pool_default_page_size_on_execute_def
    manager_create_and_recycle_def pool_execute_one_shot_def reserved_derefs_to_job_def
  by (simp_all add: lab_run bench_run pool_run job_run pool_server_turn history_run handle_run
     pages_server_turn calls_run select_1_def Let_def)

section \<open>Spans and metrics\<close>

text \<open>The capture layer of the tests: a line for each item, fields after the name.\<close>

fun show_field :: "(dbg \<Rightarrow> string) \<Rightarrow> string \<times> field \<Rightarrow> string" where
  "show_field D (k, Displayed s) = '' '' @ k @ ''='' @ s"
| "show_field D (k, Debugged d) = '' '' @ k @ ''='' @ D d"
| "show_field D (k, Count n) = '' '' @ k @ ''='' @ show_nat n"
| "show_field D (k, Text_Field s) = '' '' @ k @ ''='' @ s"
| "show_field D (k, Flag b) = '' '' @ k @ ''='' @ (if b then ''true'' else ''false'')"

fun capture_line :: "(dbg \<Rightarrow> string) \<Rightarrow> trace_item \<Rightarrow> string" where
  "capture_line D (Opened n fs) = ''span: '' @ n @ concat (map (show_field D) fs)"
| "capture_line D (Recorded n fs) = ''record: '' @ n @ concat (map (show_field D) fs)"
| "capture_line D (Emitted m fs) = ''event: '' @ m @ concat (map (show_field D) fs)"

definition captured :: "trace \<Rightarrow> string \<Rightarrow> bool" where
  "captured tr s = list_ex (\<lambda>l. contains l s) (map (capture_line (\<lambda>d. ''?'')) tr)"

definition lab_watch :: "'d bench \<Rightarrow> 'd watch" where
  "lab_watch b =
     \<lparr>wt_job = (\<lambda>i. MOCK_JOB),
      wt_checkout = (\<lambda>st. if bn_idle b = [] then [] else ping_spans MOCK_JOB)\<rparr>"

definition pool_execute_emits_pool_execute_span_with_tier_field :: bool where
  "pool_execute_emits_pool_execute_span_with_tier_field =
     (let E = spawn_mock_pool 2;
          tr = pool_execute_spans (lab_watch bench_new) (around E bench_new) (lb_pool E) select_1
             empty_pool in
      expect_ok (run_execute E select_1 bench_new) (\<lambda>r b.
        captured tr ''span: execute'' \<and> captured tr ''record: execute'' \<and>
        (captured tr ''tier=try_idle'' \<or> captured tr ''tier=least_busy_scan'' \<or>
         captured tr ''tier=fair_queue'')))"

definition reserved_drop_emits_trace_event_with_rolled_back :: bool where
  "reserved_drop_emits_trace_event_with_rolled_back =
     (let E = spawn_mock_pool 1 in
      expect_ok (bench_acquire E bench_new) (\<lambda>conn b.
      expect_ok (held_execute E ''BEGIN'' (rollback_on_drop conn, b)) (\<lambda>r (conn, b).
        captured (drop_event conn) ''event:'' \<and> captured (drop_event conn) ''Reserved dropped'' \<and>
        captured (drop_event conn) ''rolled_back=true'')))"

definition metric_name :: "metric \<Rightarrow> string" where
  "metric_name m = (case m of Counter k ls n \<Rightarrow> k | Gauge k v \<Rightarrow> k | Histogram k v \<Rightarrow> k)"

definition pool_emits_documented_metric_names :: bool where
  "pool_emits_documented_metric_names =
     (let E = spawn_mock_pool 2; b0 = bench_new in
      expect_ok (run_execute E select_1 b0) (\<lambda>r b.
      expect_ok (bench_acquire E b) (\<lambda>conn b'.
        (let names = map metric_name
               (routed_metrics (around E b0) (lb_pool E) (bench_status b0) 0 (bn_pool b0) @
                create_metrics (Inr (lb_open E 0)) @ acquire_metrics (Inr (rv_job conn)) 0)
         in {POOL_CREATE_TOTAL, POOL_SIZE, POOL_AVAILABLE, POOL_WAITING,
             POOL_ROUTING_TIER_WINS_TOTAL, JOB_EXECUTE_LATENCY_MICROS, POOL_ACQUIRE_LATENCY_MICROS,
             POOL_RESERVED_ACQUIRED_TOTAL} \<subseteq> set names))))"

lemmas watch_run = pool_execute_spans_def routed_spans_eq tier_of_def record_tier_def
   execute_opts_spans_def
  rows_field_def captured_def lab_watch_def drop_event_def metric_name_def routed_metrics_def
     peek_idle_eq
  pick_unsaturated_eq emit_pool_status_gauges_def create_metrics_def acquire_metrics_def
     tier_metric_def
  record_execute_latency_def

lemma spans_and_metrics:
  pool_execute_emits_pool_execute_span_with_tier_field
  reserved_drop_emits_trace_event_with_rolled_back pool_emits_documented_metric_names
  unfolding pool_execute_emits_pool_execute_span_with_tier_field_def
    reserved_drop_emits_trace_event_with_rolled_back_def pool_emits_documented_metric_names_def
  by (simp_all add: lab_run bench_run pool_run job_run pool_server_turn history_run handle_run
     pages_server_turn watch_run select_1_def Let_def)

section \<open>Several calls on one connection\<close>

text \<open>
  The calls of these tests overlap, so the event loop is run directly: the requests are submitted
     and
  written, and the frames of the mock come in. A frame of \<open>acks\<close> is the id it acknowledges, which
  is what the mock answers to a ping.
\<close>

fun served :: "behavior \<Rightarrow> request list \<Rightarrow> mock \<Rightarrow> string list \<times> mock" where
  "served b [] m = ([], m)"
| "served b (r # rs) m =
     (case run_mock b r m of
        (None, m') \<Rightarrow> served b rs m'
      | (Some v, m') \<Rightarrow> apfst (Cons (request_id r)) (served b rs m'))"

definition write_one :: "dispatcher \<Rightarrow> dispatcher" where
  "write_one d =
     (case dq_queue d of
        [] \<Rightarrow> d
      | ob # obs \<Rightarrow> handle_outbound (dq_pending d) None ob (d\<lparr>dq_queue := obs\<rparr>))"

definition call_out :: "request list \<Rightarrow> dispatcher \<Rightarrow> dispatcher" where
  "call_out rs d =
     (write_one ^^ length rs) (fold (\<lambda>r d. snd (submit acks r d)) rs d)"

definition answers_in :: "string list \<Rightarrow> dispatcher \<Rightarrow> dispatcher" where
  "answers_in fs d = feed acks fs d"

definition got_pong :: "slot \<Rightarrow> string \<Rightarrow> dispatcher \<Rightarrow> bool" where
  "got_pong s i d = (received s d = Some (Inr (Pong i)))"

definition listening :: mock where
  "listening = (mock_start AcceptAndConnect)\<lparr>mk_phase := Looping\<rparr>"

definition test_three_concurrent_pings_share_one_socket :: bool where
  "test_three_concurrent_pings_share_one_socket =
     (let pings = [Ping ''1'', Ping ''2'', Ping ''3''];
          (fs, m) = served AcceptAndConnect pings listening
      in list_all (\<lambda>perm.
           let d = answers_in (map (\<lambda>k. fs ! k) perm) (call_out pings spawn)
           in got_pong 0 ''1'' d \<and> got_pong 1 ''2'' d \<and> got_pong 2 ''3'' d)
         [[0, 1, 2], [0, 2, 1], [1, 0, 2], [1, 2, 0], [2, 0, 1], [2, 1, 0]])"

definition ping_increments_then_resets_in_flight :: bool where
  "ping_increments_then_resets_in_flight =
     (let (f1, m1) = served AcceptAndConnect [Ping ''1''] listening;
          (f2, m2) = served AcceptAndConnect [Ping ''2''] m1;
          d1 = call_out [Ping ''1''] spawn; e1 = answers_in f1 d1;
          d2 = call_out [Ping ''2''] e1; e2 = answers_in f2 d2
      in dq_in_flight spawn = 0 \<and>
         got_pong 0 ''1'' e1 \<and> dq_in_flight e1 = 0 \<and>
         1 \<le> dq_in_flight d2 \<and> got_pong 1 ''2'' e2 \<and> dq_in_flight e2 = 0)"

text \<open>Whether the cancelled ping is still answered or not, before or after: the next one is.\<close>

definition test_dropped_ping_does_not_break_subsequent_calls :: bool where
  "test_dropped_ping_does_not_break_subsequent_calls =
     (let d = call_out [Ping ''1''] spawn; e = call_out [Ping ''1'', Ping ''2''] spawn in
      got_pong 1 ''2'' (answers_in [''2''] (call_out [Ping ''2''] (answers_in [''1''] d))) \<and>
      got_pong 1 ''2'' (answers_in [''1'', ''2''] e) \<and>
      got_pong 1 ''2'' (answers_in [''2'', ''1''] e))"

definition test_inflight_ping_cancellation_preserves_connection :: bool where
  "test_inflight_ping_cancellation_preserves_connection =
     (let (f1, m1) = served SwallowFirstPing [Ping ''1''] listening;
          (f2, m2) = served SwallowFirstPing [Ping ''2''] m1;
          d1 = answers_in f1 (call_out [Ping ''1''] spawn);
          d2 = answers_in f2 (call_out [Ping ''2''] d1)
      in received 0 d1 = None \<and> got_pong 1 ''2'' d2)"

definition test_half_open_socket_ping_times_out :: bool where
  "test_half_open_socket_ping_times_out =
     (let (f, m) = served HalfOpen [Ping ''1''] listening;
          d = answers_in f (call_out [Ping ''1''] spawn)
      in dq_running d \<and> received 0 d = None)"

lemma frame_acks:
  "handle_frame acks es b d = answer b (\<lambda>k. Inr (remap_response k (Pong b))) d"
  by (simp add: handle_frame_def acks_def decode_value_def contains_key_def decode_untagged_def
      obj_get_def str_field_def)

lemmas call_run = call_out_def write_one_def submit_acks handle_outbound_def insert_pending_def
  spawn_def

lemmas answer_run = answers_in_def frame_acks answer_def deliver_def

lemma served_pings: "mk_phase m = Looping \<Longrightarrow> served AcceptAndConnect (map Ping is) m = (is, m)"
  by (induction "is") (simp_all add: run_mock_def loop_turn_def live_ack_def reply_with_def)

lemma swallowed:
  "served SwallowFirstPing [Ping ''1''] listening = ([], listening\<lparr>mk_fired := True\<rparr>)"
  "served SwallowFirstPing [Ping ''2''] (listening\<lparr>mk_fired := True\<rparr>) =
     ([''2''], listening\<lparr>mk_fired := True\<rparr>)"
  "served HalfOpen [Ping ''1''] listening = ([], listening)"
  by (simp_all add: run_mock_def loop_turn_def swallow_turn_def reply_with_def listening_def
      mock_start_def)

lemma served_here:
  "served AcceptAndConnect [Ping ''1''] listening = ([''1''], listening)"
  "served AcceptAndConnect [Ping ''2''] listening = ([''2''], listening)"
  "served AcceptAndConnect [Ping ''1'', Ping ''2'', Ping ''3''] listening =
     ([''1'', ''2'', ''3''], listening)"
  using served_pings [of listening "[''1'']"] served_pings [of listening "[''2'']"]
    served_pings [of listening "[''1'', ''2'', ''3'']"]
  by (simp_all add: listening_def)

lemma one_call:
  "call_out [Ping ''1''] spawn = spawn\<lparr>dq_pending := [(''1'', \<lparr>pn_reply = 0, pn_kind = request_kind
     (Ping ''1'')\<rparr>)],
     dq_in_flight := 1, dq_requests := [Ping ''1''], dq_written := [''ping'']\<rparr>"
  by (simp add: call_run)

lemma two_calls:
  "call_out [Ping ''1'', Ping ''2''] spawn = spawn\<lparr>dq_pending :=
     [(''1'', \<lparr>pn_reply = 0, pn_kind = request_kind (Ping ''1'')\<rparr>),
      (''2'', \<lparr>pn_reply = 1, pn_kind = request_kind (Ping ''2'')\<rparr>)],
     dq_in_flight := 2, dq_requests := [Ping ''1'', Ping ''2''], dq_written := [''ping'',
        ''ping'']\<rparr>"
  by (simp add: call_run)

lemma three_calls:
  "call_out [Ping ''1'', Ping ''2'', Ping ''3''] spawn = spawn\<lparr>dq_pending :=
     [(''1'', \<lparr>pn_reply = 0, pn_kind = request_kind (Ping ''1'')\<rparr>),
      (''2'', \<lparr>pn_reply = 1, pn_kind = request_kind (Ping ''2'')\<rparr>),
      (''3'', \<lparr>pn_reply = 2, pn_kind = request_kind (Ping ''3'')\<rparr>)],
     dq_in_flight := 3, dq_requests := [Ping ''1'', Ping ''2'', Ping ''3''],
     dq_written := [''ping'', ''ping'', ''ping'']\<rparr>"
  by (simp add: call_run)

lemma next_call:
  "dq_running d \<Longrightarrow> dq_queue d = [] \<Longrightarrow> call_out [Ping ''2''] d =
     insert_pending ''2'' \<lparr>pn_reply = length (dq_requests d), pn_kind = request_kind (Ping ''2'')\<rparr>
       (d\<lparr>dq_in_flight := dq_in_flight d + 1, dq_requests := dq_requests d @ [Ping ''2''],
          dq_written := dq_written d @ [''ping'']\<rparr>)"
  by (cases d) (simp add: call_out_def write_one_def submit_acks handle_outbound_def)

lemma three_at_once: test_three_concurrent_pings_share_one_socket
  unfolding test_three_concurrent_pings_share_one_socket_def Let_def served_here prod.case
     three_calls
    list.pred_inject list.map
  by (simp add: answer_run spawn_def) (simp add: got_pong_def received_def)

lemma counted_and_cancelled:
  ping_increments_then_resets_in_flight test_dropped_ping_does_not_break_subsequent_calls
  test_inflight_ping_cancellation_preserves_connection test_half_open_socket_ping_times_out
  unfolding ping_increments_then_resets_in_flight_def
     test_dropped_ping_does_not_break_subsequent_calls_def
  test_inflight_ping_cancellation_preserves_connection_def test_half_open_socket_ping_times_out_def
  Let_def served_here swallowed prod.case one_call two_calls
  by (simp_all add: answer_run spawn_def next_call insert_pending_def)
    (simp_all add: got_pong_def received_def)

definition pool_tests :: "bool list" where
  "pool_tests =
     [pool_create_then_drain, pool_recycle_pings_on_checkout,
      pool_acquire_timeout_returns_pool_exhausted, fast_path_does_not_thrash_under_slow_response,
      idle_timeout_reaps_connections, spawn_mock_pool_observes_multiple_connections,
      idle_job_preferred_over_busy, reserved_runs_begin_dml_commit_on_one_socket,
      reserved_pins_transaction_to_one_socket, drop_with_rollback_on_drop_sends_rollback,
      drop_without_rollback_on_drop_does_not_send_rollback,
      explicit_commit_suppresses_drop_rollback, test_pool_and_reserved_execute_opts,
      test_pool_default_page_size_on_execute, manager_create_and_recycle, pool_execute_one_shot,
      reserved_derefs_to_job, pool_execute_emits_pool_execute_span_with_tier_field,
      reserved_drop_emits_trace_event_with_rolled_back, pool_emits_documented_metric_names,
      test_three_concurrent_pings_share_one_socket, ping_increments_then_resets_in_flight,
      test_dropped_ping_does_not_break_subsequent_calls,
      test_inflight_ping_cancellation_preserves_connection, test_half_open_socket_ping_times_out]"

lemma pool_tests_pass: "list_all id pool_tests"
  unfolding pool_tests_def
  by (simp add: create_and_drain reuse_and_routing transactions options_and_recycling
      spans_and_metrics three_at_once counted_and_cancelled)


end
