(* ===== verification/Property_Tests.thy ===== *)
theory Property_Tests
  imports Fuzz Request
begin

text \<open>
  The property-based tests of \<^verbatim>\<open>src/tests/proptest_round_trips.rs\<close>. A generator is the
  predicate of what it can generate; the tests hold for all of it, not only for the 256 cases that
  are drawn. As in theory Fuzz, serde_json's printer and parser are arguments. The generator's filter
  on doubles, which keeps those that are printed and parsed back, is the hypothesis that what was
  printed reads back.
\<close>

section \<open>Generators\<close>

definition wire_id :: "string \<Rightarrow> bool" where
  "wire_id i =
     (1 \<le> length i \<and> length i \<le> 16 \<and>
      list_all (\<lambda>c. c \<in> set ''abcdefghijklmnopqrstuvwxyz0123456789-'') i)"

fun json_scalar :: "value \<Rightarrow> bool" where
  "json_scalar JNull = True"
| "json_scalar (JBool b) = True"
| "json_scalar (JNumber (JInt n)) = (- (2 ^ 63) \<le> n \<and> n < 2 ^ 63)"
| "json_scalar (JNumber (JFloat b)) = f64_finite b"
| "json_scalar (JString s) = True"
| "json_scalar v = False"

fun arb_sql_request :: "request \<Rightarrow> bool" where
  "arb_sql_request (Sql i sql rows params t) =
     (wire_id i \<and> t = None \<and>
      (case params of None \<Rightarrow> True | Some vs \<Rightarrow> length vs < 6 \<and> list_all json_scalar vs))"
| "arb_sql_request r = False"

definition arb_query_result :: "query_result \<Rightarrow> bool" where
  "arb_query_result q =
     (wire_id (qr_id q) \<and> (case qr_cont_id q of None \<Rightarrow> True | Some c \<Rightarrow> wire_id c) \<and>
      qr_metadata q = default_metadata \<and> qr_data q = [] \<and> f64_finite (qr_execution_time q) \<and>
      qr_error q = None \<and> qr_sqlcode q = None \<and> qr_sqlstate q = None \<and>
      qr_parameter_count q = None \<and> qr_output_parms q = [])"

section \<open>The tests\<close>

definition sql_request_round_trips :: "(value \<Rightarrow> 'b option) \<Rightarrow> 'b parser \<Rightarrow> request \<Rightarrow> bool" where
  "sql_request_round_trips print parse r =
     (case print (ser_request r) of
        None \<Rightarrow> False
      | Some serialized \<Rightarrow>
          (case bindR (parse serialized) de_request of
             Inl e \<Rightarrow> False
           | Inr back \<Rightarrow> print (ser_request back) = Some serialized))"

definition query_result_round_trips ::
  "(value \<Rightarrow> 'b option) \<Rightarrow> 'b parser \<Rightarrow> query_result \<Rightarrow> bool" where
  "query_result_round_trips print parse q =
     (case print (ser_response (QueryResult q)) of
        None \<Rightarrow> False
      | Some serialized \<Rightarrow>
          (case bindR (parse serialized) de_response of
             Inl e \<Rightarrow> False
           | Inr back \<Rightarrow> print (ser_response back) = Some serialized))"

text \<open>What is printed can be read, and reads like the document that was printed.\<close>

definition reads_back ::
  "(value \<Rightarrow> 'b option) \<Rightarrow> 'b parser \<Rightarrow> (value \<Rightarrow> 'e + 'a) \<Rightarrow> value \<Rightarrow> bool" where
  "reads_back print parse de v =
     (case print v of
        None \<Rightarrow> False
      | Some b \<Rightarrow> (case parse b of Inl e \<Rightarrow> False | Inr v' \<Rightarrow> de v' = de v))"

lemma sql_requests_round_trip:
  assumes "arb_sql_request r" "reads_back print parse de_request (ser_request r)"
  shows "sql_request_round_trips print parse r"
proof -
  from assms(1) have "de_request (ser_request r) = Inr r"
    by (cases r) (simp_all only: de_ser_request ambiguous_request.simps simp_thms arb_sql_request.simps)
  with assms(2) show ?thesis
    by (auto simp: sql_request_round_trips_def reads_back_def split: option.splits sum.splits)
qed

lemma query_results_round_trip:
  assumes "arb_query_result q" "reads_back print parse de_response (ser_response (QueryResult q))"
  shows "query_result_round_trips print parse q"
proof -
  from assms(1) have "wf_result q" by (simp add: arb_query_result_def wf_result_def)
  note here = query_result_back [OF this]
  from assms(2) here show ?thesis
    by (auto simp: query_result_round_trips_def reads_back_def simp del: ser_response.simps
        split: option.splits sum.splits)
qed

text \<open>With documents for bytes, as a printer and a parser that lose nothing.\<close>

lemma every_generated_case_passes:
  "arb_sql_request r \<Longrightarrow> sql_request_round_trips Some Inr r"
  "arb_query_result q \<Longrightarrow> query_result_round_trips Some Inr q"
  by (simp_all add: sql_requests_round_trip query_results_round_trip reads_back_def
      del: ser_response.simps)

end
